(* ===== verification/Prelude.thy ===== *)
theory Prelude
  imports Main "HOL-Library.Char_ord" "HOL-Library.List_Lexorder" "HOL-Library.Multiset"
    "HOL-Library.Word"
begin

text \<open>
  Shared vocabulary of the development: how the Go values of the operator are represented in HOL
  and the generic facts the components use.

  \<^item> A Go pointer is an \<open>option\<close> (\<open>None\<close> is \<open>nil\<close>).
  \<^item> A Go slice whose \<open>nil\<close>-ness the code inspects is a \<open>slice\<close>: \<open>None\<close> is the nil slice,
    \<open>Some []\<close> the empty non-nil one. Slices that are only ranged over or measured are lists.
  \<^item> A Go map is a \<open>gomap\<close>: \<open>None\<close> is the nil map (reads find nothing, writes panic).
  \<^item> An \<open>error\<close> result is the left side of a sum, as a \<open>go_error\<close>.
  \<^item> A call that may panic returns an \<open>option\<close>, \<open>None\<close> being the panic.
\<close>

named_theorems frame \<open>equations saying what an operation leaves unchanged\<close>
named_theorems nil_simps \<open>reading and writing possibly nil slices and maps\<close>

section \<open>Slices\<close>

type_synonym 'a slice = "'a list option"

definition elems :: "'a slice \<Rightarrow> 'a list" where
  "elems s = (case s of None \<Rightarrow> [] | Some xs \<Rightarrow> xs)"

text \<open>Go's \<^verbatim>\<open>append(s, xs...)\<close>: appending nothing to a nil slice leaves it nil.\<close>

definition append_slice :: "'a slice \<Rightarrow> 'a list \<Rightarrow> 'a slice" where
  "append_slice s xs = (if xs = [] then s else Some (elems s @ xs))"

lemma elems_None [simp, nil_simps]: "elems None = []"
  by (simp add: elems_def)

lemma elems_Some [simp, nil_simps]: "elems (Some xs) = xs"
  by (simp add: elems_def)

lemma elems_append_slice [simp, nil_simps]: "elems (append_slice s xs) = elems s @ xs"
  by (simp add: append_slice_def)

lemma append_slice_nonempty [simp]: "xs \<noteq> [] \<Longrightarrow> append_slice s xs = Some (elems s @ xs)"
  by (simp add: append_slice_def)

section \<open>Maps\<close>

type_synonym ('k, 'v) gomap = "('k \<rightharpoonup> 'v) option"

definition lookup_map :: "('k, 'v) gomap \<Rightarrow> 'k \<rightharpoonup> 'v" where
  "lookup_map m k = (case m of None \<Rightarrow> None | Some f \<Rightarrow> f k)"

text \<open>The value read by \<^verbatim>\<open>m[k]\<close> without the comma-ok form: the zero value when absent.\<close>

definition get_or :: "'v \<Rightarrow> ('k, 'v) gomap \<Rightarrow> 'k \<Rightarrow> 'v" where
  "get_or zero m k = (case lookup_map m k of None \<Rightarrow> zero | Some v \<Rightarrow> v)"

definition has_key :: "('k, 'v) gomap \<Rightarrow> 'k \<Rightarrow> bool" where
  "has_key m k = (lookup_map m k \<noteq> None)"

text \<open>\<^verbatim>\<open>if m == nil { m = make(map...) }\<close>\<close>

definition make_if_nil :: "('k, 'v) gomap \<Rightarrow> ('k, 'v) gomap" where
  "make_if_nil m = (case m of None \<Rightarrow> Some Map.empty | Some f \<Rightarrow> Some f)"

text \<open>\<^verbatim>\<open>m[k] = v\<close>: assigning into a nil map panics.\<close>

definition assign_map :: "('k, 'v) gomap \<Rightarrow> 'k \<Rightarrow> 'v \<Rightarrow> ('k, 'v) gomap option" where
  "assign_map m k v = (case m of None \<Rightarrow> None | Some f \<Rightarrow> Some (Some (f(k \<mapsto> v))))"

text \<open>The guarded write \<^verbatim>\<open>if m == nil { m = make(...) }; m[k] = v\<close>, which cannot panic.\<close>

definition put_map :: "('k, 'v) gomap \<Rightarrow> 'k \<Rightarrow> 'v \<Rightarrow> ('k, 'v) gomap" where
  "put_map m k v = (case make_if_nil m of None \<Rightarrow> None | Some f \<Rightarrow> Some (f(k \<mapsto> v)))"

text \<open>\<^verbatim>\<open>delete(m, k)\<close>: a no-op on the nil map.\<close>

definition delete_key :: "('k, 'v) gomap \<Rightarrow> 'k \<Rightarrow> ('k, 'v) gomap" where
  "delete_key m k = map_option (\<lambda>f. f(k := None)) m"

lemma lookup_nil [simp, nil_simps]: "lookup_map None k = None"
  by (simp add: lookup_map_def)

lemma lookup_Some [simp, nil_simps]: "lookup_map (Some f) k = f k"
  by (simp add: lookup_map_def)

lemma lookup_put_map [simp, nil_simps]:
  "lookup_map (put_map m k v) k' = (if k' = k then Some v else lookup_map m k')"
  by (cases m) (simp_all add: put_map_def make_if_nil_def)

lemma lookup_delete_key [simp, nil_simps]:
  "lookup_map (delete_key m k) k' = (if k' = k then None else lookup_map m k')"
  by (cases m) (simp_all add: delete_key_def)

lemma lookup_make_if_nil [simp, nil_simps]: "lookup_map (make_if_nil m) k = lookup_map m k"
  by (cases m) (simp_all add: make_if_nil_def)

lemma get_or_put_map [simp, nil_simps]:
  "get_or z (put_map m k v) k' = (if k' = k then v else get_or z m k')"
  by (simp add: get_or_def)

lemma get_or_Some [simp, nil_simps]: "lookup_map m k = Some v \<Longrightarrow> get_or z m k = v"
  by (simp add: get_or_def)

lemma get_or_None [simp, nil_simps]: "lookup_map m k = None \<Longrightarrow> get_or z m k = z"
  by (simp add: get_or_def)

lemma put_map_not_nil [simp, nil_simps]: "put_map m k v \<noteq> None"
  by (cases m) (simp_all add: put_map_def make_if_nil_def)

lemma put_map_Some [simp, nil_simps]: "\<exists>f. put_map m k v = Some f"
  by (cases m) (simp_all add: put_map_def make_if_nil_def)

lemma delete_key_nil_iff [simp, nil_simps]: "delete_key m k = None \<longleftrightarrow> m = None"
  by (simp add: delete_key_def)

lemma assign_put_map [simp, nil_simps]:
  "assign_map (put_map m k v) k' v' = Some (put_map (put_map m k v) k' v')"
  by (cases m) (simp_all add: assign_map_def put_map_def make_if_nil_def)

lemma assign_map_not_nil: "m \<noteq> None \<Longrightarrow> assign_map m k v = Some (put_map m k v)"
  by (cases m) (simp_all add: assign_map_def put_map_def make_if_nil_def)

section \<open>Errors\<close>

text \<open>
  The code distinguishes API errors with \<^verbatim>\<open>apierrors.IsNotFound\<close> and
  \<^verbatim>\<open>apierrors.IsConflict\<close>; every other error is only carried along and printed.
\<close>

datatype go_error = NotFoundError string | ConflictError string | GoError string

type_synonym 'a result = "go_error + 'a"

primrec error_msg :: "go_error \<Rightarrow> string" where
  "error_msg (NotFoundError m) = m"
| "error_msg (ConflictError m) = m"
| "error_msg (GoError m) = m"

primrec IsNotFound :: "go_error \<Rightarrow> bool" where
  "IsNotFound (NotFoundError m) = True"
| "IsNotFound (ConflictError m) = False"
| "IsNotFound (GoError m) = False"

text \<open>controller-runtime's \<^verbatim>\<open>client.IgnoreNotFound\<close>: nil for nil and for NotFound errors.\<close>

definition IgnoreNotFound :: "go_error option \<Rightarrow> go_error option" where
  "IgnoreNotFound e = (case e of None \<Rightarrow> None | Some err \<Rightarrow> if IsNotFound err then None else Some err)"

lemma IgnoreNotFound_None [simp]: "IgnoreNotFound None = None"
  by (simp add: IgnoreNotFound_def)

lemma IgnoreNotFound_eq_Some [simp]:
  "IgnoreNotFound e = Some err \<longleftrightarrow> e = Some err \<and> \<not> IsNotFound err"
  by (auto simp: IgnoreNotFound_def split: option.splits)

section \<open>Sorting by descending key\<close>

text \<open>
  \<^verbatim>\<open>sort.Slice\<close> with a strict descending comparison of a key. Go's algorithm is an insertion
  sort on short slices and is not stable on long ones; \<open>sort_desc_unique\<close> shows that with
  pairwise distinct keys every correct sort returns this list.
\<close>

fun insert_desc :: "('a \<Rightarrow> 'k::linorder) \<Rightarrow> 'a \<Rightarrow> 'a list \<Rightarrow> 'a list" where
  "insert_desc k x [] = [x]"
| "insert_desc k x (y # ys) = (if k y \<le> k x then x # y # ys else y # insert_desc k x ys)"

fun sort_desc :: "('a \<Rightarrow> 'k::linorder) \<Rightarrow> 'a list \<Rightarrow> 'a list" where
  "sort_desc k [] = []"
| "sort_desc k (x # xs) = insert_desc k x (sort_desc k xs)"

abbreviation descending :: "('a \<Rightarrow> 'k::linorder) \<Rightarrow> 'a list \<Rightarrow> bool" where
  "descending k \<equiv> sorted_wrt (\<lambda>a b. k b \<le> k a)"

lemma mset_insert_desc: "mset (insert_desc k x xs) = add_mset x (mset xs)"
  by (induction xs) simp_all

lemma mset_sort_desc: "mset (sort_desc k xs) = mset xs"
  by (induction xs) (simp_all add: mset_insert_desc)

lemma set_insert_desc [simp]: "set (insert_desc k x xs) = insert x (set xs)"
  by (induction xs) auto

lemma set_sort_desc [simp]: "set (sort_desc k xs) = set xs"
  by (induction xs) simp_all

lemma descending_insert_desc: "descending k xs \<Longrightarrow> descending k (insert_desc k x xs)"
  by (induction xs) (auto intro: order_trans)

lemma descending_sort_desc: "descending k (sort_desc k xs)"
  by (induction xs) (simp_all add: descending_insert_desc)

lemma descending_map: "descending k xs \<longleftrightarrow> sorted (rev (map k xs))"
  by (induction xs) (auto simp: sorted_append)

lemma descending_unique:
  assumes "descending k xs" "descending k ys" "mset xs = mset ys" "distinct (map k xs)"
  shows "xs = ys"
proof -
  have same_set: "set xs = set ys"
    using assms(3) by (metis set_mset_mset)
  have "mset (map k xs) = mset (map k ys)"
    using assms(3) by simp
  then have dist: "distinct (map k ys)"
    using assms(4) by (metis mset_eq_imp_distinct_iff)
  have "rev (map k xs) = rev (map k ys)"
    using assms(1,2,4) dist same_set
    by (intro sorted_distinct_set_unique) (simp_all add: descending_map)
  then have "map k xs = map k ys" by simp
  moreover have "inj_on k (set xs \<union> set ys)"
    using assms(4) same_set by (simp add: distinct_map)
  ultimately show ?thesis by (rule map_inj_on)
qed

lemma sort_desc_unique:
  assumes "descending k ys" "mset ys = mset xs" "distinct (map k xs)"
  shows "ys = sort_desc k xs"
proof (rule descending_unique[OF assms(1) descending_sort_desc])
  show "mset ys = mset (sort_desc k xs)" by (simp add: mset_sort_desc assms(2))
  have "mset (map k ys) = mset (map k xs)" using assms(2) by simp
  then show "distinct (map k ys)" using assms(3) by (metis mset_eq_imp_distinct_iff)
qed

end
