(* ===== verification/Go_Strings.thy ===== *)
theory Go_Strings
  imports Prelude
begin

text \<open>
  The part of Go's standard library for strings that the operator calls: \<^verbatim>\<open>strings\<close>,
  \<^verbatim>\<open>strconv.ParseInt\<close>, decimal formatting, \<^verbatim>\<open>path.Join\<close> and the conversion between
  strings and runes. A Go string is its sequence of bytes, so a \<open>string\<close> of HOL (a list of
  8-bit characters) is the exact carrier.
\<close>

section \<open>Prefixes, suffixes, search\<close>

fun has_prefix :: "string \<Rightarrow> string \<Rightarrow> bool" where
  "has_prefix s [] = True"
| "has_prefix [] (p # ps) = False"
| "has_prefix (c # cs) (p # ps) = (c = p \<and> has_prefix cs ps)"

definition has_suffix :: "string \<Rightarrow> string \<Rightarrow> bool" where
  "has_suffix s p = has_prefix (rev s) (rev p)"

definition trim_prefix :: "string \<Rightarrow> string \<Rightarrow> string" where
  "trim_prefix s p = (if has_prefix s p then drop (length p) s else s)"

definition trim_suffix :: "string \<Rightarrow> string \<Rightarrow> string" where
  "trim_suffix s p = (if has_suffix s p then take (length s - length p) s else s)"

text \<open>\<^verbatim>\<open>strings.Index\<close>: the position of the first occurrence; \<open>None\<close> stands for -1.\<close>

fun index_of :: "string \<Rightarrow> string \<Rightarrow> nat option" where
  "index_of [] p = (if p = [] then Some 0 else None)"
| "index_of (c # cs) p = (if has_prefix (c # cs) p then Some 0 else map_option Suc (index_of cs p))"

definition contains_str :: "string \<Rightarrow> string \<Rightarrow> bool" where
  "contains_str s p = (index_of s p \<noteq> None)"

text \<open>\<^verbatim>\<open>strings.LastIndex\<close>\<close>

fun last_index_of :: "string \<Rightarrow> string \<Rightarrow> nat option" where
  "last_index_of [] p = (if p = [] then Some 0 else None)"
| "last_index_of (c # cs) p =
     (case last_index_of cs p of
        Some i \<Rightarrow> Some (Suc i)
      | None \<Rightarrow> if has_prefix (c # cs) p then Some 0 else None)"

text \<open>\<^verbatim>\<open>strings.Split\<close> with a one-byte separator.\<close>

fun split_on :: "char \<Rightarrow> string \<Rightarrow> string list" where
  "split_on d [] = [[]]"
| "split_on d (c # cs) =
     (if c = d then [] # split_on d cs
      else case split_on d cs of [] \<Rightarrow> [[c]] | w # ws \<Rightarrow> (c # w) # ws)"

text \<open>\<^verbatim>\<open>strings.Join\<close>\<close>

fun join_with :: "string \<Rightarrow> string list \<Rightarrow> string" where
  "join_with sep [] = []"
| "join_with sep [w] = w"
| "join_with sep (w # ws) = w @ sep @ join_with sep ws"

text \<open>\<^verbatim>\<open>strings.Replace(s, old, new, 1)\<close>\<close>

definition replace_first :: "string \<Rightarrow> string \<Rightarrow> string \<Rightarrow> string" where
  "replace_first s old new =
     (case index_of s old of None \<Rightarrow> s | Some i \<Rightarrow> take i s @ new @ drop (i + length old) s)"

lemma has_prefix_append: "has_prefix s p \<longleftrightarrow> (\<exists>r. s = p @ r)"
  by (induction s p rule: has_prefix.induct) auto

lemma has_prefix_app [simp]: "has_prefix (p @ r) p"
  by (auto simp: has_prefix_append)

lemma trim_prefix_app [simp]: "trim_prefix (p @ r) p = r"
  by (simp add: trim_prefix_def)

lemma has_suffix_append: "has_suffix s p \<longleftrightarrow> (\<exists>r. s = r @ p)"
  by (auto simp: has_suffix_def has_prefix_append) (metis rev_append rev_rev_ident)

lemma index_of_Some:
  "index_of s p = Some i \<Longrightarrow> s = take i s @ p @ drop (i + length p) s"
proof (induction s p arbitrary: i rule: index_of.induct)
  case (1 p)
  then show ?case by (simp split: if_splits)
next
  case (2 c cs p)
  show ?case
  proof (cases "has_prefix (c # cs) p")
    case True
    then show ?thesis using "2.prems" by (auto simp: has_prefix_append)
  next
    case False
    then obtain j where "index_of cs p = Some j" "i = Suc j" using "2.prems" by auto
    then show ?thesis using "2.IH"[OF False] by simp
  qed
qed

lemma index_of_append_None:
  "index_of s p = None \<longleftrightarrow> (\<nexists>u v. s = u @ p @ v)"
proof (induction s p rule: index_of.induct)
  case (1 p)
  then show ?case by auto
next
  case (2 c cs p)
  show ?case
  proof (cases "has_prefix (c # cs) p")
    case True
    then obtain r where "c # cs = [] @ p @ r" by (auto simp: has_prefix_append)
    then have "\<exists>u v. c # cs = u @ p @ v" by blast
    moreover have "index_of (c # cs) p \<noteq> None" using True by simp
    ultimately show ?thesis by blast
  next
    case False
    have "(\<exists>u v. c # cs = u @ p @ v) \<longleftrightarrow> (\<exists>u v. cs = u @ p @ v)"
    proof
      assume "\<exists>u v. c # cs = u @ p @ v"
      then obtain u v where uv: "c # cs = u @ p @ v" by blast
      then have "u \<noteq> []" using False by (auto simp: has_prefix_append)
      then obtain u' where "u = c # u'" using uv by (cases u) auto
      then show "\<exists>u v. cs = u @ p @ v" using uv by auto
    next
      assume "\<exists>u v. cs = u @ p @ v"
      then obtain u v where "cs = u @ p @ v" by blast
      then have "c # cs = (c # u) @ p @ v" by simp
      then show "\<exists>u v. c # cs = u @ p @ v" by blast
    qed
    then show ?thesis using 2 False by simp
  qed
qed

lemma contains_str_iff: "contains_str s p \<longleftrightarrow> (\<exists>u v. s = u @ p @ v)"
  by (simp add: contains_str_def index_of_append_None)

lemma split_on_nonempty [simp]: "split_on d s \<noteq> []"
  by (induction s) (auto split: list.splits)

lemma join_split_on: "join_with [d] (split_on d s) = s"
proof (induction s)
  case (Cons c cs)
  obtain w ws where "split_on d cs = w # ws"
    by (cases "split_on d cs") auto
  then show ?case using Cons by (cases ws) auto
qed simp

lemma split_on_no_sep: "w \<in> set (split_on d s) \<Longrightarrow> d \<notin> set w"
proof (induction s arbitrary: w)
  case (Cons c cs)
  obtain v vs where "split_on d cs = v # vs"
    by (cases "split_on d cs") auto
  then show ?case using Cons by (auto split: if_splits)
qed simp

lemma split_on_id: "d \<notin> set s \<Longrightarrow> split_on d s = [s]"
  by (induction s) auto

lemma split_on_append: "d \<notin> set w \<Longrightarrow> split_on d (w @ d # s) = w # split_on d s"
  by (induction w) auto

lemma split_on_snoc: "d \<notin> set w \<Longrightarrow> split_on d (s @ d # w) = split_on d s @ [w]"
proof (induction s)
  case (Cons c cs)
  obtain v vs where "split_on d cs = v # vs" by (cases "split_on d cs") auto
  then show ?case using Cons by auto
qed (simp add: split_on_id)

lemma split_join:
  "ws \<noteq> [] \<Longrightarrow> (\<forall>w \<in> set ws. d \<notin> set w) \<Longrightarrow> split_on d (join_with [d] ws) = ws"
proof (induction "[d]" ws rule: join_with.induct)
  case (2 w)
  then show ?case by (simp add: split_on_id)
next
  case (3 w v vs)
  then show ?case by (simp add: split_on_append)
qed simp

section \<open>Decimal integers\<close>

definition digit_char :: "nat \<Rightarrow> char" where
  "digit_char d = char_of (48 + d)"

fun show_nat :: "nat \<Rightarrow> string" where
  "show_nat n = (if n < 10 then [digit_char n] else show_nat (n div 10) @ [digit_char (n mod 10)])"

declare show_nat.simps [simp del]

text \<open>\<^verbatim>\<open>%d\<close> of a signed integer\<close>

definition show_int :: "int \<Rightarrow> string" where
  "show_int i = (if i < 0 then CHR ''-'' # show_nat (nat (- i)) else show_nat (nat i))"

definition is_digit :: "char \<Rightarrow> bool" where
  "is_digit c = (48 \<le> (of_char c :: nat) \<and> (of_char c :: nat) \<le> 57)"

definition digit_val :: "char \<Rightarrow> nat" where
  "digit_val c = of_char c - 48"

definition digits_val :: "string \<Rightarrow> nat" where
  "digits_val s = foldl (\<lambda>acc c. acc * 10 + digit_val c) 0 s"

text \<open>
  \<^verbatim>\<open>strconv.ParseInt(s, 10, bits)\<close>: an optional sign, at least one digit, digits only, and the value
  in the range of a signed integer of that size. Both syntax and range errors are \<open>None\<close>: the
  callers only test whether there is an error.
\<close>

definition ParseInt :: "nat \<Rightarrow> string \<Rightarrow> int option" where
  "ParseInt bits s =
     (let (neg, ds) = (case s of
            c # cs \<Rightarrow> if c = CHR ''-'' then (True, cs) else if c = CHR ''+'' then (False, cs) else (False, s)
          | [] \<Rightarrow> (False, []));
          v = (if neg then - int (digits_val ds) else int (digits_val ds))
      in if ds = [] \<or> \<not> list_all is_digit ds then None
         else if v < - (2 ^ (bits - 1)) \<or> 2 ^ (bits - 1) \<le> v then None
         else Some v)"

lemma of_digit_char: "d < 10 \<Longrightarrow> (of_char (digit_char d) :: nat) = 48 + d"
  by (simp add: digit_char_def)

lemma is_digit_digit_char [simp]: "d < 10 \<Longrightarrow> is_digit (digit_char d)"
  by (simp add: is_digit_def of_digit_char)

lemma digit_val_digit_char [simp]: "d < 10 \<Longrightarrow> digit_val (digit_char d) = d"
  by (simp add: digit_val_def of_digit_char)

lemma digits_val_snoc [simp]: "digits_val (s @ [c]) = digits_val s * 10 + digit_val c"
  by (simp add: digits_val_def)

lemma digits_val_Nil [simp]: "digits_val [] = 0"
  by (simp add: digits_val_def)

lemma digits_val_show_nat [simp]: "digits_val (show_nat n) = n"
proof (induction n rule: show_nat.induct)
  case (1 n)
  have "digits_val [digit_char n] = n" if "n < 10"
    using digits_val_snoc[of "[]" "digit_char n"] that by simp
  then show ?case using 1 by (subst show_nat.simps) auto
qed

lemma all_digits_show_nat [simp]: "list_all is_digit (show_nat n)"
proof (induction n rule: show_nat.induct)
  case (1 n)
  then show ?case by (subst show_nat.simps) auto
qed

lemma show_nat_nonempty [simp]: "show_nat n \<noteq> []"
  by (subst show_nat.simps) simp

lemma minus_not_digit [simp]: "\<not> is_digit (CHR ''-'')" "\<not> is_digit (CHR ''+'')"
  by (simp_all add: is_digit_def)

lemma show_nat_no_sign: "show_nat n = c # cs \<Longrightarrow> c \<noteq> CHR ''-'' \<and> c \<noteq> CHR ''+''"
  using all_digits_show_nat[of n] by auto

lemma show_nat_not_in: "\<not> is_digit c \<Longrightarrow> c \<notin> set (show_nat n)"
  using all_digits_show_nat[of n] by (auto simp: list_all_iff)

lemma ParseInt_show_int:
  "- (2 ^ (bits - 1)) \<le> i \<Longrightarrow> i < 2 ^ (bits - 1) \<Longrightarrow> ParseInt bits (show_int i) = Some i"
proof -
  assume range: "- (2 ^ (bits - 1)) \<le> i" "i < 2 ^ (bits - 1)"
  obtain c cs where sn: "show_nat (nat i) = c # cs" by (cases "show_nat (nat i)") auto
  show ?thesis
  proof (cases "i < 0")
    case True
    then show ?thesis using range by (simp add: ParseInt_def show_int_def)
  next
    case False
    then have "int (digits_val (c # cs)) = i" "list_all is_digit (c # cs)"
      using digits_val_show_nat[of "nat i"] all_digits_show_nat[of "nat i"] sn by auto
    then show ?thesis
      using False range sn show_nat_no_sign[OF sn] by (simp add: ParseInt_def show_int_def)
  qed
qed

lemma ParseInt_out_of_range:
  "i < - (2 ^ (bits - 1)) \<or> 2 ^ (bits - 1) \<le> i \<Longrightarrow> ParseInt bits (show_int i) = None"
proof -
  assume range: "i < - (2 ^ (bits - 1)) \<or> 2 ^ (bits - 1) \<le> i"
  obtain c cs where sn: "show_nat (nat i) = c # cs" by (cases "show_nat (nat i)") auto
  show ?thesis
  proof (cases "i < 0")
    case True
    then have "i < (2::int) ^ (bits - 1)"
      using zero_less_power[of "2::int" "bits - 1"] by linarith
    then show ?thesis using True range by (simp add: ParseInt_def show_int_def)
  next
    case False
    then have "int (digits_val (c # cs)) = i"
      using digits_val_show_nat[of "nat i"] sn by auto
    then show ?thesis
      using False range sn show_nat_no_sign[OF sn] by (auto simp: ParseInt_def show_int_def)
  qed
qed

lemma ParseInt_bounds:
  "ParseInt bits s = Some i \<Longrightarrow> - (2 ^ (bits - 1)) \<le> i \<and> i < 2 ^ (bits - 1)"
  by (auto simp: ParseInt_def Let_def not_less not_le split: list.splits if_splits prod.splits)

section \<open>Paths\<close>

text \<open>
  \<^verbatim>\<open>path.Clean\<close> removes empty and \<open>.\<close> elements and resolves \<open>..\<close> against the preceding
  element; \<^verbatim>\<open>path.Join\<close> joins the non-empty arguments with a slash and cleans the result.
\<close>

fun clean_elems :: "bool \<Rightarrow> string list \<Rightarrow> string list \<Rightarrow> string list" where
  "clean_elems rooted out [] = rev out"
| "clean_elems rooted out (e # es) =
     (if e = '''' \<or> e = ''.'' then clean_elems rooted out es
      else if e = ''..'' then
        (case out of
           [] \<Rightarrow> if rooted then clean_elems rooted [] es else clean_elems rooted [''..''] es
         | t # ts \<Rightarrow> if t = ''..'' then clean_elems rooted (''..'' # out) es else clean_elems rooted ts es)
      else clean_elems rooted (e # out) es)"

definition path_clean :: "string \<Rightarrow> string" where
  "path_clean p =
     (let rooted = has_prefix p ''/'';
          body = join_with ''/'' (clean_elems rooted [] (split_on (CHR ''/'') p))
      in if rooted then CHR ''/'' # body else if body = [] then ''.'' else body)"

definition path_join :: "string list \<Rightarrow> string" where
  "path_join es =
     (let ne = filter (\<lambda>e. e \<noteq> []) es in if ne = [] then [] else path_clean (join_with ''/'' ne))"

section \<open>Runes\<close>

text \<open>
  Go's \<^verbatim>\<open>[]rune(s)\<close> and \<^verbatim>\<open>string(rs)\<close>. Decoding follows \<^verbatim>\<open>utf8.DecodeRune\<close>: an
  invalid or truncated sequence yields U+FFFD and consumes one byte.
\<close>

definition in_range :: "nat \<Rightarrow> nat \<Rightarrow> nat \<Rightarrow> bool" where
  "in_range lo hi b = (lo \<le> b \<and> b \<le> hi)"

definition rune_error :: nat where "rune_error = 65533"

text \<open>The rune at the head of the non-empty byte sequence \<open>b0 # bs\<close> and how many bytes of \<open>bs\<close> it takes.\<close>

definition decode_rune :: "nat \<Rightarrow> nat list \<Rightarrow> nat \<times> nat" where
  "decode_rune b0 bs =
     (let b1 = bs ! 0; b2 = bs ! 1; b3 = bs ! 2; n = length bs;
          cont = in_range 128 191;
          lo3 = (if b0 = 224 then 160 else 128); hi3 = (if b0 = 237 then 159 else 191);
          lo4 = (if b0 = 240 then 144 else 128); hi4 = (if b0 = 244 then 143 else 191)
      in if b0 < 128 then (b0, 0)
         else if in_range 194 223 b0 \<and> 1 \<le> n \<and> cont b1 then ((b0 - 192) * 64 + (b1 - 128), 1)
         else if in_range 224 239 b0 \<and> 2 \<le> n \<and> in_range lo3 hi3 b1 \<and> cont b2
           then ((b0 - 224) * 4096 + (b1 - 128) * 64 + (b2 - 128), 2)
         else if in_range 240 244 b0 \<and> 3 \<le> n \<and> in_range lo4 hi4 b1 \<and> cont b2 \<and> cont b3
           then ((b0 - 240) * 262144 + (b1 - 128) * 4096 + (b2 - 128) * 64 + (b3 - 128), 3)
         else (rune_error, 0))"

function decode_bytes :: "nat list \<Rightarrow> nat list" where
  "decode_bytes [] = []"
| "decode_bytes (b # bs) = (let (r, k) = decode_rune b bs in r # decode_bytes (drop k bs))"
  by pat_completeness auto
termination by (relation "measure length") auto

definition runes :: "string \<Rightarrow> nat list" where
  "runes s = decode_bytes (map of_char s)"

definition encode_rune :: "nat \<Rightarrow> nat list" where
  "encode_rune r =
     (if r < 128 then [r]
      else if r < 2048 then [192 + r div 64, 128 + r mod 64]
      else if in_range 55296 57343 r \<or> 1114111 < r then [239, 191, 189]
      else if r < 65536 then [224 + r div 4096, 128 + (r div 64) mod 64, 128 + r mod 64]
      else [240 + r div 262144, 128 + (r div 4096) mod 64, 128 + (r div 64) mod 64, 128 + r mod 64])"

definition string_of_runes :: "nat list \<Rightarrow> string" where
  "string_of_runes rs = map char_of (concat (map encode_rune rs))"

definition ascii :: "string \<Rightarrow> bool" where
  "ascii s = list_all (\<lambda>c. (of_char c :: nat) < 128) s"

lemma decode_bytes_ascii: "list_all (\<lambda>b. b < 128) bs \<Longrightarrow> decode_bytes bs = bs"
  by (induction bs) (simp_all add: decode_rune_def)

lemma runes_ascii: "ascii s \<Longrightarrow> runes s = map of_char s"
  by (simp add: runes_def ascii_def decode_bytes_ascii list_all_length)

lemma string_of_runes_ascii: "list_all (\<lambda>b. b < 128) rs \<Longrightarrow> string_of_runes rs = map char_of rs"
  by (induction rs) (simp_all add: string_of_runes_def encode_rune_def)

lemma runes_take_ascii: "ascii s \<Longrightarrow> string_of_runes (take n (runes s)) = take n s"
proof -
  assume a: "ascii s"
  then have "list_all (\<lambda>b. b < (128::nat)) (take n (map of_char s))"
    by (auto simp: ascii_def list_all_iff take_map dest: in_set_takeD)
  then show ?thesis
    using a by (simp add: runes_ascii string_of_runes_ascii take_map comp_def)
qed

section \<open>Quoting\<close>

text \<open>
  \<^verbatim>\<open>%q\<close> of a string and of a small integer (\<^verbatim>\<open>strconv.Quote\<close>, \<^verbatim>\<open>strconv.QuoteRune\<close>). The printable
  characters are exact up to U+00FF; all later code points count as printable.
\<close>

definition hex_digit :: "nat \<Rightarrow> char" where
  "hex_digit d = ''0123456789abcdef'' ! (d mod 16)"

definition is_print :: "nat \<Rightarrow> bool" where
  "is_print r = (in_range 32 126 r \<or> (161 \<le> r \<and> r \<noteq> 173))"

definition escape_rune :: "nat \<Rightarrow> nat \<Rightarrow> string" where
  "escape_rune q r =
     (if r = q \<or> r = 92 then [char_of (92::nat), char_of r]
      else if is_print r then map char_of (encode_rune r)
      else if r = 7 then [char_of (92::nat), CHR ''a'']
      else if r = 8 then [char_of (92::nat), CHR ''b'']
      else if r = 12 then [char_of (92::nat), CHR ''f'']
      else if r = 10 then [char_of (92::nat), CHR ''n'']
      else if r = 13 then [char_of (92::nat), CHR ''r'']
      else if r = 9 then [char_of (92::nat), CHR ''t'']
      else if r = 11 then [char_of (92::nat), CHR ''v'']
      else if r < 32 \<or> r = 127 then [char_of (92::nat), CHR ''x'', hex_digit (r div 16), hex_digit r]
      else [char_of (92::nat), CHR ''u'', hex_digit (r div 4096), hex_digit (r div 256),
            hex_digit (r div 16), hex_digit r])"

function quote_bytes :: "nat list \<Rightarrow> string" where
  "quote_bytes [] = []"
| "quote_bytes (b # bs) =
     (let (r, k) = decode_rune b bs
      in if k = 0 \<and> r = rune_error
         then [char_of (92::nat), CHR ''x'', hex_digit (b div 16), hex_digit b] @ quote_bytes bs
         else escape_rune 34 r @ quote_bytes (drop k bs))"
  by pat_completeness auto
termination by (relation "measure length") auto

definition quote :: "string \<Rightarrow> string" where
  "quote s = [CHR 0x22] @ quote_bytes (map of_char s) @ [CHR 0x22]"

definition quote_rune :: "nat \<Rightarrow> string" where
  "quote_rune r = [CHR 0x27] @ escape_rune 39 r @ [CHR 0x27]"

end
