(* ===== verification/Consts.thy ===== *)
theory Consts
  imports Go_Strings
begin

text \<open>
  The constants of \<^verbatim>\<open>pkg/utils/const.go\<close> and the helpers of \<^verbatim>\<open>pkg/utils/utils.go\<close>: the
  label, annotation, gate and finalizer names, the supported architectures, the per-architecture
  label and the conversion of the log level. The names stay folded in the proofs; the
  inequalities between the label keys the operator writes are simplification rules.
\<close>

section \<open>Names\<close>

definition OperandLabelKey :: string where
  "OperandLabelKey = ''multiarch.openshift.io/operand''"

definition OperatorName :: string where
  "OperatorName = ''multiarch-tuning-operator''"

definition ArchitectureAmd64 :: string where
  "ArchitectureAmd64 = ''amd64''"

definition ArchitectureArm64 :: string where
  "ArchitectureArm64 = ''arm64''"

definition ArchitecturePpc64le :: string where
  "ArchitecturePpc64le = ''ppc64le''"

definition ArchitectureS390x :: string where
  "ArchitectureS390x = ''s390x''"

definition ArchLabel :: string where
  "ArchLabel = ''kubernetes.io/arch''"

definition NodeAffinityLabel :: string where
  "NodeAffinityLabel = ''multiarch.openshift.io/node-affinity''"

definition PreferredNodeAffinityLabel :: string where
  "PreferredNodeAffinityLabel = ''multiarch.openshift.io/preferred-node-affinity''"

definition PreferredNodeAffinitySourcesAnnotation :: string where
  "PreferredNodeAffinitySourcesAnnotation = ''multiarch.openshift.io/preferred-affinity-sources''"

definition NodeAffinityLabelValueSet :: string where
  "NodeAffinityLabelValueSet = ''set''"

definition NodeAffinityLabelValueOverriden :: string where
  "NodeAffinityLabelValueOverriden = ''overriden''"

definition LabelValueNotSet :: string where
  "LabelValueNotSet = ''not-set''"

definition HostnameLabel :: string where
  "HostnameLabel = ''kubernetes.io/hostname''"

definition SchedulingGateLabel :: string where
  "SchedulingGateLabel = ''multiarch.openshift.io/scheduling-gate''"

definition SchedulingGateLabelValueGated :: string where
  "SchedulingGateLabelValueGated = ''gated''"

definition SchedulingGateLabelValueRemoved :: string where
  "SchedulingGateLabelValueRemoved = ''removed''"

definition PodPlacementFinalizerName :: string where
  "PodPlacementFinalizerName = ''finalizers.multiarch.openshift.io/pod-placement''"

definition CPPCNoPPCObjectFinalizer :: string where
  "CPPCNoPPCObjectFinalizer = ''finalizers.multiarch.openshift.io/no-pod-placement-config''"

definition SingleArchLabel :: string where
  "SingleArchLabel = ''multiarch.openshift.io/single-arch''"

definition MultiArchLabel :: string where
  "MultiArchLabel = ''multiarch.openshift.io/multi-arch''"

definition NoSupportedArchLabel :: string where
  "NoSupportedArchLabel = ''multiarch.openshift.io/no-supported-arch''"

definition FallbackArchitectureLabel :: string where
  "FallbackArchitectureLabel = ''multiarch.openshift.io/fallback-arch''"

definition ImageInspectionErrorLabel :: string where
  "ImageInspectionErrorLabel = ''multiarch.openshift.io/image-inspect-error''"

definition ImageInspectionErrorCountLabel :: string where
  "ImageInspectionErrorCountLabel = ''multiarch.openshift.io/image-inspect-error-count''"

definition LabelGroup :: string where
  "LabelGroup = ''multiarch.openshift.io''"

definition SchedulingGateName :: string where
  "SchedulingGateName = ''multiarch.openshift.io/scheduling-gate''"

definition MasterNodeSelectorLabel :: string where
  "MasterNodeSelectorLabel = ''node-role.kubernetes.io/master''"

definition ControlPlaneNodeSelectorLabel :: string where
  "ControlPlaneNodeSelectorLabel = ''node-role.kubernetes.io/control-plane''"

definition PodMutatingWebhookConfigurationName :: string where
  "PodMutatingWebhookConfigurationName = ''pod-placement-mutating-webhook-configuration''"

definition PodMutatingWebhookName :: string where
  "PodMutatingWebhookName = ''pod-placement-scheduling-gate.multiarch.openshift.io''"

definition PodPlacementControllerName :: string where
  "PodPlacementControllerName = ''pod-placement-controller''"

definition PodPlacementWebhookName :: string where
  "PodPlacementWebhookName = ''pod-placement-web-hook''"

definition ExecFormatErrorFinalizerName :: string where
  "ExecFormatErrorFinalizerName = ''finalizers.multiarch.openshift.io/enoexec-events''"

definition ExecFormatErrorLabelKey :: string where
  "ExecFormatErrorLabelKey = ''multiarch.openshift.io/exec-format-error''"

definition UnknownContainer :: string where
  "UnknownContainer = ''unknown-container''"

definition ExecFormatErrorsDetected :: string where
  "ExecFormatErrorsDetected = ''ExecFormatErrorsDetected''"

definition ExecFormatErrorEventReason :: string where
  "ExecFormatErrorEventReason = ''ExecFormatError''"

definition EnoexecControllerName :: string where
  "EnoexecControllerName = ''enoexec-event-handler-controller''"

definition EnoexecDaemonSet :: string where
  "EnoexecDaemonSet = ''enoexec-event-daemon''"

lemmas label_defs =
  ArchLabel_def NodeAffinityLabel_def PreferredNodeAffinityLabel_def SchedulingGateLabel_def SingleArchLabel_def MultiArchLabel_def NoSupportedArchLabel_def FallbackArchitectureLabel_def ImageInspectionErrorLabel_def ImageInspectionErrorCountLabel_def

lemmas arch_defs =
  ArchitectureAmd64_def ArchitectureArm64_def ArchitecturePpc64le_def ArchitectureS390x_def

lemma label_neqs [simp]:
  "ArchLabel \<noteq> NodeAffinityLabel" "ArchLabel \<noteq> PreferredNodeAffinityLabel"
  "ArchLabel \<noteq> SchedulingGateLabel" "ArchLabel \<noteq> SingleArchLabel"
  "ArchLabel \<noteq> MultiArchLabel" "ArchLabel \<noteq> NoSupportedArchLabel"
  "ArchLabel \<noteq> FallbackArchitectureLabel" "ArchLabel \<noteq> ImageInspectionErrorLabel"
  "ArchLabel \<noteq> ImageInspectionErrorCountLabel" "NodeAffinityLabel \<noteq> ArchLabel"
  "NodeAffinityLabel \<noteq> PreferredNodeAffinityLabel"
  "NodeAffinityLabel \<noteq> SchedulingGateLabel" "NodeAffinityLabel \<noteq> SingleArchLabel"
  "NodeAffinityLabel \<noteq> MultiArchLabel" "NodeAffinityLabel \<noteq> NoSupportedArchLabel"
  "NodeAffinityLabel \<noteq> FallbackArchitectureLabel"
  "NodeAffinityLabel \<noteq> ImageInspectionErrorLabel"
  "NodeAffinityLabel \<noteq> ImageInspectionErrorCountLabel"
  "PreferredNodeAffinityLabel \<noteq> ArchLabel"
  "PreferredNodeAffinityLabel \<noteq> NodeAffinityLabel"
  "PreferredNodeAffinityLabel \<noteq> SchedulingGateLabel"
  "PreferredNodeAffinityLabel \<noteq> SingleArchLabel"
  "PreferredNodeAffinityLabel \<noteq> MultiArchLabel"
  "PreferredNodeAffinityLabel \<noteq> NoSupportedArchLabel"
  "PreferredNodeAffinityLabel \<noteq> FallbackArchitectureLabel"
  "PreferredNodeAffinityLabel \<noteq> ImageInspectionErrorLabel"
  "PreferredNodeAffinityLabel \<noteq> ImageInspectionErrorCountLabel"
  "SchedulingGateLabel \<noteq> ArchLabel" "SchedulingGateLabel \<noteq> NodeAffinityLabel"
  "SchedulingGateLabel \<noteq> PreferredNodeAffinityLabel"
  "SchedulingGateLabel \<noteq> SingleArchLabel" "SchedulingGateLabel \<noteq> MultiArchLabel"
  "SchedulingGateLabel \<noteq> NoSupportedArchLabel"
  "SchedulingGateLabel \<noteq> FallbackArchitectureLabel"
  "SchedulingGateLabel \<noteq> ImageInspectionErrorLabel"
  "SchedulingGateLabel \<noteq> ImageInspectionErrorCountLabel"
  "SingleArchLabel \<noteq> ArchLabel" "SingleArchLabel \<noteq> NodeAffinityLabel"
  "SingleArchLabel \<noteq> PreferredNodeAffinityLabel"
  "SingleArchLabel \<noteq> SchedulingGateLabel" "SingleArchLabel \<noteq> MultiArchLabel"
  "SingleArchLabel \<noteq> NoSupportedArchLabel"
  "SingleArchLabel \<noteq> FallbackArchitectureLabel"
  "SingleArchLabel \<noteq> ImageInspectionErrorLabel"
  "SingleArchLabel \<noteq> ImageInspectionErrorCountLabel" "MultiArchLabel \<noteq> ArchLabel"
  "MultiArchLabel \<noteq> NodeAffinityLabel" "MultiArchLabel \<noteq> PreferredNodeAffinityLabel"
  "MultiArchLabel \<noteq> SchedulingGateLabel" "MultiArchLabel \<noteq> SingleArchLabel"
  "MultiArchLabel \<noteq> NoSupportedArchLabel"
  "MultiArchLabel \<noteq> FallbackArchitectureLabel"
  "MultiArchLabel \<noteq> ImageInspectionErrorLabel"
  "MultiArchLabel \<noteq> ImageInspectionErrorCountLabel"
  "NoSupportedArchLabel \<noteq> ArchLabel" "NoSupportedArchLabel \<noteq> NodeAffinityLabel"
  "NoSupportedArchLabel \<noteq> PreferredNodeAffinityLabel"
  "NoSupportedArchLabel \<noteq> SchedulingGateLabel"
  "NoSupportedArchLabel \<noteq> SingleArchLabel" "NoSupportedArchLabel \<noteq> MultiArchLabel"
  "NoSupportedArchLabel \<noteq> FallbackArchitectureLabel"
  "NoSupportedArchLabel \<noteq> ImageInspectionErrorLabel"
  "NoSupportedArchLabel \<noteq> ImageInspectionErrorCountLabel"
  "FallbackArchitectureLabel \<noteq> ArchLabel"
  "FallbackArchitectureLabel \<noteq> NodeAffinityLabel"
  "FallbackArchitectureLabel \<noteq> PreferredNodeAffinityLabel"
  "FallbackArchitectureLabel \<noteq> SchedulingGateLabel"
  "FallbackArchitectureLabel \<noteq> SingleArchLabel"
  "FallbackArchitectureLabel \<noteq> MultiArchLabel"
  "FallbackArchitectureLabel \<noteq> NoSupportedArchLabel"
  "FallbackArchitectureLabel \<noteq> ImageInspectionErrorLabel"
  "FallbackArchitectureLabel \<noteq> ImageInspectionErrorCountLabel"
  "ImageInspectionErrorLabel \<noteq> ArchLabel"
  "ImageInspectionErrorLabel \<noteq> NodeAffinityLabel"
  "ImageInspectionErrorLabel \<noteq> PreferredNodeAffinityLabel"
  "ImageInspectionErrorLabel \<noteq> SchedulingGateLabel"
  "ImageInspectionErrorLabel \<noteq> SingleArchLabel"
  "ImageInspectionErrorLabel \<noteq> MultiArchLabel"
  "ImageInspectionErrorLabel \<noteq> NoSupportedArchLabel"
  "ImageInspectionErrorLabel \<noteq> FallbackArchitectureLabel"
  "ImageInspectionErrorLabel \<noteq> ImageInspectionErrorCountLabel"
  "ImageInspectionErrorCountLabel \<noteq> ArchLabel"
  "ImageInspectionErrorCountLabel \<noteq> NodeAffinityLabel"
  "ImageInspectionErrorCountLabel \<noteq> PreferredNodeAffinityLabel"
  "ImageInspectionErrorCountLabel \<noteq> SchedulingGateLabel"
  "ImageInspectionErrorCountLabel \<noteq> SingleArchLabel"
  "ImageInspectionErrorCountLabel \<noteq> MultiArchLabel"
  "ImageInspectionErrorCountLabel \<noteq> NoSupportedArchLabel"
  "ImageInspectionErrorCountLabel \<noteq> FallbackArchitectureLabel"
  "ImageInspectionErrorCountLabel \<noteq> ImageInspectionErrorLabel"
  by (simp_all add: label_defs)

lemma label_value_neqs [simp]:
  "NodeAffinityLabelValueSet \<noteq> LabelValueNotSet" "LabelValueNotSet \<noteq> NodeAffinityLabelValueSet"
  "NodeAffinityLabelValueSet \<noteq> NodeAffinityLabelValueOverriden"
  "NodeAffinityLabelValueOverriden \<noteq> NodeAffinityLabelValueSet"
  "NodeAffinityLabelValueOverriden \<noteq> LabelValueNotSet"
  "LabelValueNotSet \<noteq> NodeAffinityLabelValueOverriden"
  "SchedulingGateLabelValueGated \<noteq> SchedulingGateLabelValueRemoved"
  "SchedulingGateLabelValueRemoved \<noteq> SchedulingGateLabelValueGated"
  by (simp_all add: NodeAffinityLabelValueSet_def LabelValueNotSet_def
      NodeAffinityLabelValueOverriden_def SchedulingGateLabelValueGated_def
      SchedulingGateLabelValueRemoved_def)

section \<open>Architectures\<close>

definition all_architectures :: "string list" where
  "all_architectures = [ArchitectureAmd64, ArchitectureArm64, ArchitecturePpc64le, ArchitectureS390x]"

definition AllSupportedArchitecturesSet :: "string set" where
  "AllSupportedArchitecturesSet = set all_architectures"

definition ArchLabelValue :: "string \<Rightarrow> string" where
  "ArchLabelValue arch = path_join [LabelGroup, arch]"

lemma arch_neqs [simp]:
  "ArchitectureAmd64 \<noteq> ArchitectureArm64" "ArchitectureArm64 \<noteq> ArchitectureAmd64"
  "ArchitectureAmd64 \<noteq> ArchitecturePpc64le" "ArchitecturePpc64le \<noteq> ArchitectureAmd64"
  "ArchitectureAmd64 \<noteq> ArchitectureS390x" "ArchitectureS390x \<noteq> ArchitectureAmd64"
  "ArchitectureArm64 \<noteq> ArchitecturePpc64le" "ArchitecturePpc64le \<noteq> ArchitectureArm64"
  "ArchitectureArm64 \<noteq> ArchitectureS390x" "ArchitectureS390x \<noteq> ArchitectureArm64"
  "ArchitecturePpc64le \<noteq> ArchitectureS390x" "ArchitectureS390x \<noteq> ArchitecturePpc64le"
  by (simp_all add: arch_defs)

lemma finite_AllSupported [simp]: "finite AllSupportedArchitecturesSet"
  by (simp add: AllSupportedArchitecturesSet_def)

lemma mem_AllSupported:
  "a \<in> AllSupportedArchitecturesSet \<longleftrightarrow>
     a = ArchitectureAmd64 \<or> a = ArchitectureArm64 \<or> a = ArchitecturePpc64le \<or> a = ArchitectureS390x"
  by (auto simp: AllSupportedArchitecturesSet_def all_architectures_def)

lemma ArchLabelValue_supported:
  "a \<in> AllSupportedArchitecturesSet \<Longrightarrow> ArchLabelValue a = LabelGroup @ ''/'' @ a"
  by (auto simp: mem_AllSupported ArchLabelValue_def path_join_def path_clean_def Let_def
      LabelGroup_def arch_defs)

lemma ArchLabelValue_neqs [simp]:
  assumes "a \<in> AllSupportedArchitecturesSet"
  shows "ArchLabelValue a \<noteq> NodeAffinityLabel" "ArchLabelValue a \<noteq> SingleArchLabel"
    "ArchLabelValue a \<noteq> MultiArchLabel" "ArchLabelValue a \<noteq> NoSupportedArchLabel"
    "ArchLabelValue a \<noteq> SchedulingGateLabel" "ArchLabelValue a \<noteq> FallbackArchitectureLabel"
    "ArchLabelValue a \<noteq> ImageInspectionErrorLabel" "ArchLabelValue a \<noteq> ImageInspectionErrorCountLabel"
    "ArchLabelValue a \<noteq> PreferredNodeAffinityLabel"
  using assms
  by (auto simp: ArchLabelValue_supported mem_AllSupported LabelGroup_def arch_defs label_defs)

section \<open>Log levels\<close>

text \<open>
  \<^verbatim>\<open>ToZapLevel\<close> on Go's 64-bit \<open>int\<close>: the negation wraps, so the smallest integer stays negative
  and is refused by the lower bound.
\<close>

definition ToZapLevel :: "64 word \<Rightarrow> int result" where
  "ToZapLevel level =
     (let negated = sint (- level)
      in if negated < -128 \<or> 127 < negated
         then Inl (GoError (''log level '' @ show_int (sint level) @ '' out of int8 range when negated''))
         else Inr negated)"

section \<open>Exec format error events\<close>

text \<open>\<^verbatim>\<open>internal/controller/enoexecevent/handler/events.go\<close>: the label that marks a failed event and its values.\<close>

definition ENoExecEventErrorLabel :: string where
  "ENoExecEventErrorLabel = ''multiarch.openshift.io/enoexec-event-error''"

definition ErrorReasonPodNotFound :: string where
  "ErrorReasonPodNotFound = ''pod-not-found''"

definition ErrorReasonNodeNotFound :: string where
  "ErrorReasonNodeNotFound = ''node-not-found''"

definition ErrorReasonContainerNotFound :: string where
  "ErrorReasonContainerNotFound = ''container-not-found''"

definition ErrorReasonWrongNamespace :: string where
  "ErrorReasonWrongNamespace = ''wrong-namespace''"

definition ErrorReasonReconciliation :: string where
  "ErrorReasonReconciliation = ''reconciliation-error''"

end
