(* ===== verification/Core_Types.thy ===== *)
theory Core_Types
  imports Consts
begin

text \<open>
  The part of \<^verbatim>\<open>k8s.io/api/core/v1\<close> the operator reads and writes, and the meaning of node
  selection as the Kubernetes API documents it: node selector terms are ORed, the requirements
  inside a term are ANDed, a term without requirements matches no node, and the flat
  \<^verbatim>\<open>nodeSelector\<close> is ANDed with the required node affinity. The node-selection semantics is the
  specification against which the affinity-editing code is proved.
\<close>

section \<open>Node selectors and affinity\<close>

datatype node_selector_op = OpIn | OpNotIn | OpExists | OpDoesNotExist | OpGt | OpLt

record requirement =
  Key :: string
  Operator :: node_selector_op
  Values :: "string slice"

record node_selector_term =
  MatchExpressions :: "requirement slice"
  MatchFields :: "requirement slice"

record preferred_term =
  Weight :: "32 word"
  Preference :: node_selector_term

text \<open>
  \<^verbatim>\<open>Required\<close> and \<^verbatim>\<open>Preferred\<close> abbreviate the Go field names
  \<^verbatim>\<open>RequiredDuringSchedulingIgnoredDuringExecution\<close> (a pointer to a selector, here to its term
  slice) and \<^verbatim>\<open>PreferredDuringSchedulingIgnoredDuringExecution\<close>. Pod affinity and anti-affinity are
  only compared with nil, so their contents are opaque strings.
\<close>

record node_affinity =
  Required :: "node_selector_term slice option"
  Preferred :: "preferred_term slice"

record affinity =
  NodeAffinity :: "node_affinity option"
  PodAffinity :: "string option"
  PodAntiAffinity :: "string option"

definition empty_term :: node_selector_term where
  "empty_term = \<lparr>MatchExpressions = None, MatchFields = None\<rparr>"

definition empty_node_affinity :: node_affinity where
  "empty_node_affinity = \<lparr>Required = None, Preferred = None\<rparr>"

definition empty_affinity :: affinity where
  "empty_affinity = \<lparr>NodeAffinity = None, PodAffinity = None, PodAntiAffinity = None\<rparr>"

section \<open>Pods\<close>

record container =
  Image :: string
  ImagePullPolicy :: string

record owner_reference =
  Kind :: string
  Controller :: "bool option"

record container_status =
  ContainerID :: string
  StatusName :: string

record CorePod =
  Name :: string
  GenerateName :: string
  Namespace :: string
  Labels :: "(string, string) gomap"
  Annotations :: "(string, string) gomap"
  OwnerReferences :: "owner_reference list"
  NodeSelector :: "(string, string) gomap"
  NodeName :: string
  Affinity :: "affinity option"
  SchedulingGates :: "string slice"
  ImagePullSecrets :: "string slice"
  Containers :: "container list"
  InitContainers :: "container list"
  ContainerStatuses :: "container_status list"

text \<open>The zero value of the Go struct, \<^verbatim>\<open>corev1.Pod{}\<close>.\<close>

definition zero_pod :: CorePod where
  "zero_pod = \<lparr>Name = [], GenerateName = [], Namespace = [], Labels = None, Annotations = None,
     OwnerReferences = [], NodeSelector = None, NodeName = [], Affinity = None,
     SchedulingGates = None, ImagePullSecrets = None, Containers = [], InitContainers = [],
     ContainerStatuses = []\<rparr>"

section \<open>Node selection\<close>

record node =
  node_labels :: "string \<rightharpoonup> string"
  node_name :: string

text \<open>
  One requirement against the value found under its key. \<open>Gt\<close> and \<open>Lt\<close> compare 64-bit
  integers and need exactly one value.
\<close>

definition compare_ints :: "(int \<Rightarrow> int \<Rightarrow> bool) \<Rightarrow> string option \<Rightarrow> string list \<Rightarrow> bool" where
  "compare_ints R found vs =
     (case (found, vs) of
        (Some v, [w]) \<Rightarrow> (case (ParseInt 64 v, ParseInt 64 w) of (Some i, Some j) \<Rightarrow> R i j | _ \<Rightarrow> False)
      | _ \<Rightarrow> False)"

definition requirement_holds :: "(string \<rightharpoonup> string) \<Rightarrow> requirement \<Rightarrow> bool" where
  "requirement_holds attrs r =
     (let found = attrs (Key r); vs = elems (Values r)
      in case Operator r of
           OpIn \<Rightarrow> (case found of None \<Rightarrow> False | Some v \<Rightarrow> v \<in> set vs)
         | OpNotIn \<Rightarrow> (case found of None \<Rightarrow> True | Some v \<Rightarrow> v \<notin> set vs)
         | OpExists \<Rightarrow> found \<noteq> None
         | OpDoesNotExist \<Rightarrow> found = None
         | OpGt \<Rightarrow> compare_ints (>) found vs
         | OpLt \<Rightarrow> compare_ints (<) found vs)"

definition node_fields :: "node \<Rightarrow> string \<rightharpoonup> string" where
  "node_fields n = [''metadata.name'' \<mapsto> node_name n]"

definition term_matches :: "node \<Rightarrow> node_selector_term \<Rightarrow> bool" where
  "term_matches n t =
     ((elems (MatchExpressions t) \<noteq> [] \<or> elems (MatchFields t) \<noteq> []) \<and>
      list_all (requirement_holds (node_labels n)) (elems (MatchExpressions t)) \<and>
      list_all (requirement_holds (node_fields n)) (elems (MatchFields t)))"

definition terms_match :: "node \<Rightarrow> node_selector_term list \<Rightarrow> bool" where
  "terms_match n ts = list_ex (term_matches n) ts"

definition required_terms :: "('p) CorePod_scheme \<Rightarrow> node_selector_term slice option" where
  "required_terms p =
     (case Affinity p of None \<Rightarrow> None
      | Some a \<Rightarrow> (case NodeAffinity a of None \<Rightarrow> None | Some na \<Rightarrow> Required na))"

definition preferred_terms :: "('p) CorePod_scheme \<Rightarrow> preferred_term slice" where
  "preferred_terms p =
     (case Affinity p of None \<Rightarrow> None
      | Some a \<Rightarrow> (case NodeAffinity a of None \<Rightarrow> None | Some na \<Rightarrow> Preferred na))"

definition affinity_allows :: "('p) CorePod_scheme \<Rightarrow> node \<Rightarrow> bool" where
  "affinity_allows p n =
     (case required_terms p of None \<Rightarrow> True | Some ts \<Rightarrow> terms_match n (elems ts))"

definition selector_allows :: "('p) CorePod_scheme \<Rightarrow> node \<Rightarrow> bool" where
  "selector_allows p n = (\<forall>k v. lookup_map (NodeSelector p) k = Some v \<longrightarrow> node_labels n k = Some v)"

text \<open>The node constraint of a pod: what the scheduler checks of the fields this operator edits.\<close>

definition schedulable_on :: "('p) CorePod_scheme \<Rightarrow> node \<Rightarrow> bool" where
  "schedulable_on p n = (selector_allows p n \<and> affinity_allows p n)"

definition arch_of :: "node \<Rightarrow> string option" where
  "arch_of n = node_labels n ArchLabel"

text \<open>The requirement the operator writes: the architecture label in a list of values.\<close>

definition arch_requirement :: "string list \<Rightarrow> requirement" where
  "arch_requirement archs = \<lparr>Key = ArchLabel, Operator = OpIn, Values = Some archs\<rparr>"

definition mentions_key :: "string \<Rightarrow> node_selector_term \<Rightarrow> bool" where
  "mentions_key k t = list_ex (\<lambda>r. Key r = k) (elems (MatchExpressions t))"

definition nonempty_term :: "node_selector_term \<Rightarrow> bool" where
  "nonempty_term t = (elems (MatchExpressions t) \<noteq> [] \<or> elems (MatchFields t) \<noteq> [])"

lemma arch_requirement_sel [simp]:
  "Key (arch_requirement archs) = ArchLabel"
  "Operator (arch_requirement archs) = OpIn"
  "Values (arch_requirement archs) = Some archs"
  by (simp_all add: arch_requirement_def)

lemma arch_requirement_holds:
  "requirement_holds (node_labels n) (arch_requirement archs) \<longleftrightarrow>
     (\<exists>a \<in> set archs. arch_of n = Some a)"
  by (auto simp: requirement_holds_def arch_of_def Let_def split: option.splits)

lemma terms_match_map:
  assumes "\<And>t. t \<in> set ts \<Longrightarrow> term_matches n (f t) = (term_matches n t \<and> P)"
  shows "terms_match n (map f ts) = (terms_match n ts \<and> P)"
  using assms by (induction ts) (auto simp: terms_match_def)

lemma required_terms_simps [simp]:
  "required_terms (p\<lparr>Affinity := None\<rparr>) = None"
  "required_terms (p\<lparr>Affinity := Some a\<rparr>) =
     (case NodeAffinity a of None \<Rightarrow> None | Some na \<Rightarrow> Required na)"
  by (simp_all add: required_terms_def)

lemma preferred_terms_simps [simp]:
  "preferred_terms (p\<lparr>Affinity := None\<rparr>) = None"
  "preferred_terms (p\<lparr>Affinity := Some a\<rparr>) =
     (case NodeAffinity a of None \<Rightarrow> None | Some na \<Rightarrow> Preferred na)"
  by (simp_all add: preferred_terms_def)

text \<open>Node selection reads two fields of the pod only.\<close>

lemma schedulable_cong:
  "NodeSelector p = NodeSelector q \<Longrightarrow> Affinity p = Affinity q \<Longrightarrow> schedulable_on p n = schedulable_on q n"
  by (simp add: schedulable_on_def selector_allows_def affinity_allows_def required_terms_def)

end
