(* ===== verification/Pod_Base.thy ===== *)
theory Pod_Base
  imports Core_Types
begin

text \<open>
  \<^verbatim>\<open>pkg/models/pod.go\<close>: the wrapper around a pod with its event recorder and the operations both
  controllers share: gates, labels, annotations, the retry counter label, and the lookup of a
  container by its runtime identifier. The Go struct embeds \<^verbatim>\<open>corev1.Pod\<close>; the record extends
  \<open>CorePod\<close> in the same way. The prometheus counters the operand maintains are package-level
  variables in Go and travel with the pod here.
\<close>

section \<open>State\<close>

datatype event = Event (ev_type: string) (ev_reason: string) (ev_message: string)

record metrics =
  ProcessedPodsWH :: int
  GatedPods :: int
  GatedPodsGauge :: int
  ProcessedPodsCtrl :: int
  FailedInspectionCounter :: int

record Pod = CorePod +
  recorder :: "event list option"
  pod_metrics :: metrics

definition EventTypeNormal :: string where "EventTypeNormal = ''Normal''"
definition EventTypeWarning :: string where "EventTypeWarning = ''Warning''"

named_theorems pod_ops \<open>the setters of a pod, unfolded to record updates\<close>

section \<open>Operations\<close>

definition NewPod :: "CorePod \<Rightarrow> event list option \<Rightarrow> metrics \<Rightarrow> Pod" where
  "NewPod p rec m = CorePod.extend p (Pod.fields rec m)"

definition PodObject :: "Pod \<Rightarrow> CorePod" where
  "PodObject p = CorePod.truncate p"

definition PublishEvent :: "string \<Rightarrow> string \<Rightarrow> string \<Rightarrow> Pod \<Rightarrow> Pod" where
  [pod_ops]: "PublishEvent eventType reason message p =
     p\<lparr>recorder := map_option (\<lambda>es. es @ [Event eventType reason message]) (recorder p)\<rparr>"

definition HasGate :: "string \<Rightarrow> ('p) CorePod_scheme \<Rightarrow> bool" where
  "HasGate gateName p =
     (case SchedulingGates p of
        None \<Rightarrow> False
      | Some gates \<Rightarrow> list_ex (\<lambda>gate. gate = gateName) gates)"

definition AddGate :: "string \<Rightarrow> ('p) CorePod_scheme \<Rightarrow> ('p) CorePod_scheme" where
  "AddGate gateName p =
     (if HasGate gateName p then p
      else let gates = (case SchedulingGates p of None \<Rightarrow> [] | Some gs \<Rightarrow> gs)
           in p\<lparr>SchedulingGates := Some (gates @ [gateName])\<rparr>)"

definition RemoveGate :: "string \<Rightarrow> ('p) CorePod_scheme \<Rightarrow> ('p) CorePod_scheme" where
  "RemoveGate gateName p =
     (if \<not> HasGate gateName p then p
      else p\<lparr>SchedulingGates := Some (filter (\<lambda>gate. gate \<noteq> gateName) (elems (SchedulingGates p)))\<rparr>)"

definition EnsureLabel :: "string \<Rightarrow> string \<Rightarrow> ('p) CorePod_scheme \<Rightarrow> ('p) CorePod_scheme" where
  [pod_ops]: "EnsureLabel label v p = p\<lparr>Labels := put_map (Labels p) label v\<rparr>"

definition EnsureNoLabel :: "string \<Rightarrow> ('p) CorePod_scheme \<Rightarrow> ('p) CorePod_scheme" where
  [pod_ops]: "EnsureNoLabel label p = p\<lparr>Labels := delete_key (Labels p) label\<rparr>"

definition EnsureAnnotation :: "string \<Rightarrow> string \<Rightarrow> ('p) CorePod_scheme \<Rightarrow> ('p) CorePod_scheme" where
  [pod_ops]: "EnsureAnnotation annotation v p = p\<lparr>Annotations := put_map (Annotations p) annotation v\<rparr>"

definition EnsureAndIncrementLabel :: "string \<Rightarrow> ('p) CorePod_scheme \<Rightarrow> ('p) CorePod_scheme" where
  "EnsureAndIncrementLabel label p =
     (let p = p\<lparr>Labels := make_if_nil (Labels p)\<rparr>
      in case lookup_map (Labels p) label of
           None \<Rightarrow> EnsureLabel label ''1'' p
         | Some v \<Rightarrow>
             (case ParseInt 32 v of
                None \<Rightarrow> EnsureLabel label ''1'' p
              | Some cur \<Rightarrow> EnsureLabel label (show_int (cur + 1)) p))"

definition HasControlPlaneNodeSelector :: "('p) CorePod_scheme \<Rightarrow> bool" where
  "HasControlPlaneNodeSelector p =
     (case NodeSelector p of
        None \<Rightarrow> False
      | Some m \<Rightarrow> list_ex (\<lambda>k. m k \<noteq> None) [MasterNodeSelectorLabel, ControlPlaneNodeSelectorLabel])"

definition IsFromDaemonSet :: "('p) CorePod_scheme \<Rightarrow> bool" where
  "IsFromDaemonSet p =
     list_ex (\<lambda>ref. Kind ref = ''DaemonSet'' \<and> Controller ref = Some True) (OwnerReferences p)"

text \<open>
  The regular expression \<^verbatim>\<open>^.+://[a-f0-9]{64}$\<close>: since the last 64 characters are hexadecimal
  digits, the split point of the string is determined.
\<close>

definition is_hex :: "char \<Rightarrow> bool" where
  "is_hex c = (is_digit c \<or> c \<in> set ''abcdef'')"

definition container_id_format :: "string \<Rightarrow> bool" where
  "container_id_format s =
     (let n = length s; rt = take (n - 67) s
      in 68 \<le> n \<and> list_all is_hex (drop (n - 64) s) \<and> take 3 (drop (n - 67) s) = ''://'' \<and>
         list_all (\<lambda>c. c \<noteq> CHR 0x0A) rt)"

definition ContainerNameFor :: "string \<Rightarrow> ('p) CorePod_scheme \<Rightarrow> string result" where
  "ContainerNameFor containerID p =
     (if \<not> container_id_format containerID
      then Inl (GoError (''invalid container ID format: '' @ containerID))
      else case List.find (\<lambda>c. ContainerID c = containerID) (ContainerStatuses p) of
             Some c \<Rightarrow> Inr (StatusName c)
           | None \<Rightarrow> Inl (GoError (''container with ID '' @ containerID @ '' not found in pod '' @ Name p)))"

section \<open>Gates\<close>

lemma HasGate_iff: "HasGate g p \<longleftrightarrow> g \<in> set (elems (SchedulingGates p))"
  by (cases "SchedulingGates p") (auto simp: HasGate_def list_ex_iff)

lemma AddGate_gates:
  "elems (SchedulingGates (AddGate g p)) =
     (if HasGate g p then elems (SchedulingGates p) else elems (SchedulingGates p) @ [g])"
  by (simp add: AddGate_def Let_def elems_def)

lemma RemoveGate_gates:
  "elems (SchedulingGates (RemoveGate g p)) = filter (\<lambda>h. h \<noteq> g) (elems (SchedulingGates p))"
  by (auto simp: RemoveGate_def HasGate_iff intro!: filter_True[symmetric])

lemma HasGate_AddGate [simp]: "HasGate g (AddGate h p) \<longleftrightarrow> g = h \<or> HasGate g p"
  by (auto simp: HasGate_iff AddGate_gates)

lemma HasGate_RemoveGate [simp]: "HasGate g (RemoveGate h p) \<longleftrightarrow> g \<noteq> h \<and> HasGate g p"
  by (auto simp: HasGate_iff RemoveGate_gates)

lemma gate_frame [frame, simp]:
  "Labels (AddGate g p) = Labels p" "Labels (RemoveGate g p) = Labels p"
  "Affinity (AddGate g p) = Affinity p" "Affinity (RemoveGate g p) = Affinity p"
  "NodeSelector (AddGate g p) = NodeSelector p" "NodeSelector (RemoveGate g p) = NodeSelector p"
  "Annotations (AddGate g p) = Annotations p" "Annotations (RemoveGate g p) = Annotations p"
  by (simp_all add: AddGate_def RemoveGate_def Let_def)

lemma HasGate_frame [frame, simp]:
  "HasGate g (EnsureLabel l v p) = HasGate g p"
  "HasGate g (EnsureNoLabel l p) = HasGate g p"
  "HasGate g (EnsureAnnotation l v p) = HasGate g p"
  "HasGate g (PublishEvent t r m q) = HasGate g q"
  by (simp_all add: HasGate_def pod_ops)

section \<open>The retry counter\<close>

lemma EnsureAndIncrementLabel_lookup:
  "lookup_map (Labels (EnsureAndIncrementLabel l p)) k =
     (if k = l then
        Some (case lookup_map (Labels p) l of
                None \<Rightarrow> ''1''
              | Some v \<Rightarrow> (case ParseInt 32 v of None \<Rightarrow> ''1'' | Some i \<Rightarrow> show_int (i + 1)))
      else lookup_map (Labels p) k)"
  by (simp add: EnsureAndIncrementLabel_def Let_def pod_ops split: option.splits)

lemma EnsureAndIncrementLabel_frame [frame, simp]:
  "Affinity (EnsureAndIncrementLabel l p) = Affinity p"
  "NodeSelector (EnsureAndIncrementLabel l p) = NodeSelector p"
  "SchedulingGates (EnsureAndIncrementLabel l p) = SchedulingGates p"
  "Annotations (EnsureAndIncrementLabel l p) = Annotations p"
  "Labels (EnsureAndIncrementLabel l p) \<noteq> None"
  by (simp_all add: EnsureAndIncrementLabel_def Let_def pod_ops split: option.splits)

lemma show_int_1: "show_int 1 = ''1''"
  by code_simp

lemma ParseInt_1 [simp]: "ParseInt 32 ''1'' = Some 1"
  using ParseInt_show_int[of 32 1] by (simp add: show_int_1)

text \<open>Counting up from an absent label: after \<open>n\<close> increments it reads \<open>n\<close>.\<close>

lemma increment_counts:
  assumes "lookup_map (Labels p) l = None" and "0 < n" and "int n < 2 ^ 31"
  shows "lookup_map (Labels ((EnsureAndIncrementLabel l ^^ n) p)) l = Some (show_int (int n))"
  using assms(2,3)
proof (induction n)
  case (Suc n)
  show ?case
  proof (cases n)
    case 0
    then show ?thesis using assms(1) by (simp add: EnsureAndIncrementLabel_lookup show_int_1)
  next
    case (Suc m)
    then have IH: "lookup_map (Labels ((EnsureAndIncrementLabel l ^^ n) p)) l = Some (show_int (int n))"
      using Suc.IH Suc.prems by simp
    have "ParseInt 32 (show_int (int n)) = Some (int n)"
      using Suc.prems by (intro ParseInt_show_int) simp_all
    then show ?thesis
      using IH by (simp add: EnsureAndIncrementLabel_lookup add.commute)
  qed
qed simp

end
