(* ===== verification/Arch_Constraints.thy ===== *)
theory Arch_Constraints
  imports Pod_Base
begin

text \<open>
  \<^verbatim>\<open>architecture_removal.go\<close> and \<^verbatim>\<open>architecture_application.go\<close>: removing the architecture label
  from the node selector and from the required node affinity, and writing a new architecture
  requirement into every node selector term in place. The lemmas relate the edited pod to the
  nodes it can be scheduled on.
\<close>

section \<open>Access to the required terms\<close>

text \<open>The three nil checks that precede every write to the required node affinity.\<close>

definition init_affinity :: "('p) CorePod_scheme \<Rightarrow> ('p) CorePod_scheme" where
  "init_affinity p = (case Affinity p of None \<Rightarrow> p\<lparr>Affinity := Some empty_affinity\<rparr> | Some _ \<Rightarrow> p)"

definition init_node_affinity :: "('p) CorePod_scheme \<Rightarrow> ('p) CorePod_scheme" where
  "init_node_affinity p =
     p\<lparr>Affinity := map_option (\<lambda>a. case NodeAffinity a of
         None \<Rightarrow> a\<lparr>NodeAffinity := Some empty_node_affinity\<rparr> | Some _ \<Rightarrow> a) (Affinity p)\<rparr>"

definition update_node_affinity ::
  "(node_affinity \<Rightarrow> node_affinity) \<Rightarrow> ('p) CorePod_scheme \<Rightarrow> ('p) CorePod_scheme" where
  "update_node_affinity f p =
     p\<lparr>Affinity := map_option (\<lambda>a. a\<lparr>NodeAffinity := map_option f (NodeAffinity a)\<rparr>) (Affinity p)\<rparr>"

definition init_required :: "('p) CorePod_scheme \<Rightarrow> ('p) CorePod_scheme" where
  "init_required p =
     update_node_affinity
       (\<lambda>na. case Required na of None \<Rightarrow> na\<lparr>Required := Some None\<rparr> | Some _ \<Rightarrow> na)
       (init_node_affinity (init_affinity p))"

definition set_required_terms ::
  "node_selector_term slice \<Rightarrow> ('p) CorePod_scheme \<Rightarrow> ('p) CorePod_scheme" where
  "set_required_terms ts p = update_node_affinity (\<lambda>na. na\<lparr>Required := Some ts\<rparr>) p"

definition node_selector_terms :: "('p) CorePod_scheme \<Rightarrow> node_selector_term list" where
  "node_selector_terms p = (case required_terms p of None \<Rightarrow> [] | Some ts \<Rightarrow> elems ts)"

section \<open>architecture\_removal.go\<close>

definition removeArchitectureFromNodeSelector ::
  "('p) CorePod_scheme \<Rightarrow> bool \<times> ('p) CorePod_scheme" where
  "removeArchitectureFromNodeSelector p =
     (case NodeSelector p of
        None \<Rightarrow> (False, p)
      | Some m \<Rightarrow>
          if m ArchLabel \<noteq> None then (True, p\<lparr>NodeSelector := delete_key (Some m) ArchLabel\<rparr>)
          else (False, p))"

text \<open>One iteration of the loop over the terms: the cleaned term, if it is kept.\<close>

definition clean_expressions :: "requirement list \<Rightarrow> requirement list" where
  "clean_expressions es = filter (\<lambda>e. Key e \<noteq> ArchLabel) es"

definition clean_term :: "node_selector_term \<Rightarrow> node_selector_term option" where
  "clean_term t =
     (let cleaned = append_slice None (clean_expressions (elems (MatchExpressions t)))
      in if elems cleaned \<noteq> [] \<or> elems (MatchFields t) \<noteq> []
         then Some (t\<lparr>MatchExpressions := cleaned\<rparr>) else None)"

definition term_changed :: "node_selector_term \<Rightarrow> bool" where
  "term_changed t = (mentions_key ArchLabel t \<or> clean_term t = None)"

definition removeArchitectureFromNodeAffinity ::
  "('p) CorePod_scheme \<Rightarrow> bool \<times> ('p) CorePod_scheme" where
  "removeArchitectureFromNodeAffinity p =
     (case Affinity p of
        None \<Rightarrow> (False, p)
      | Some a \<Rightarrow>
          (case NodeAffinity a of
             None \<Rightarrow> (False, p)
           | Some na \<Rightarrow>
               (case Required na of
                  None \<Rightarrow> (False, p)
                | Some ts \<Rightarrow>
                    (let removed = list_ex term_changed (elems ts);
                         cleaned = List.map_filter clean_term (elems ts);
                         na1 = na\<lparr>Required := (if cleaned = [] then None else Some (Some cleaned))\<rparr>;
                         a1 = a\<lparr>NodeAffinity :=
                                (if Required na1 = None \<and> Preferred na1 = None then None else Some na1)\<rparr>;
                         a2 = (if NodeAffinity a1 = None \<and> PodAffinity a1 = None \<and> PodAntiAffinity a1 = None
                               then None else Some a1)
                     in (removed, p\<lparr>Affinity := a2\<rparr>)))))"

definition removeAllArchitectureConstraints ::
  "('p) CorePod_scheme \<Rightarrow> bool \<times> ('p) CorePod_scheme" where
  "removeAllArchitectureConstraints p =
     (let (r1, p1) = removeArchitectureFromNodeSelector p;
          (r2, p2) = removeArchitectureFromNodeAffinity p1
      in (r1 \<or> r2, p2))"

section \<open>architecture\_application.go\<close>

definition retarget_term :: "string list \<Rightarrow> node_selector_term \<Rightarrow> node_selector_term" where
  "retarget_term archs t =
     t\<lparr>MatchExpressions :=
        append_slice None (clean_expressions (elems (MatchExpressions t)) @ [arch_requirement archs])\<rparr>"

definition applyArchitectureNodeAffinity ::
  "string list \<Rightarrow> ('p) CorePod_scheme \<Rightarrow> ('p) CorePod_scheme" where
  "applyArchitectureNodeAffinity archs p =
     (if archs = [] then p
      else let p1 = init_required p;
               existingTerms = node_selector_terms p1
           in if existingTerms = []
              then set_required_terms
                     (Some [\<lparr>MatchExpressions = Some [arch_requirement archs], MatchFields = None\<rparr>]) p1
              else set_required_terms (Some (map (retarget_term archs) existingTerms)) p1)"

definition applyArchitectureConstraints ::
  "string list \<Rightarrow> ('p) CorePod_scheme \<Rightarrow> bool \<times> ('p) CorePod_scheme" where
  "applyArchitectureConstraints archs p =
     (if archs = [] then (False, p)
      else (True, applyArchitectureNodeAffinity archs (snd (removeAllArchitectureConstraints p))))"

section \<open>Structure of the edited pod\<close>

lemma required_terms_init [simp]:
  "required_terms (init_required p) = Some (case required_terms p of None \<Rightarrow> None | Some ts \<Rightarrow> ts)"
  by (auto simp: init_required_def update_node_affinity_def init_node_affinity_def init_affinity_def
      required_terms_def empty_affinity_def empty_node_affinity_def split: option.splits)

lemma preferred_terms_init [simp]: "preferred_terms (init_required p) = preferred_terms p"
  by (auto simp: init_required_def update_node_affinity_def init_node_affinity_def init_affinity_def
      preferred_terms_def empty_affinity_def empty_node_affinity_def split: option.splits)

lemma node_selector_terms_init [simp]: "node_selector_terms (init_required p) = node_selector_terms p"
  by (auto simp: node_selector_terms_def split: option.splits)

lemma required_terms_set_init [simp]:
  "required_terms (set_required_terms ts (init_required p)) = Some ts"
  by (auto simp: set_required_terms_def update_node_affinity_def required_terms_def
      init_required_def init_node_affinity_def init_affinity_def
      empty_affinity_def empty_node_affinity_def split: option.splits)

lemma preferred_terms_set [simp]: "preferred_terms (set_required_terms ts p) = preferred_terms p"
  by (auto simp: set_required_terms_def update_node_affinity_def preferred_terms_def split: option.splits)

lemma affinity_edit_frame [frame, simp]:
  "NodeSelector (init_required p) = NodeSelector p" "NodeSelector (set_required_terms ts p) = NodeSelector p"
  "Labels (init_required p) = Labels p" "Labels (set_required_terms ts p) = Labels p"
  "Annotations (init_required p) = Annotations p" "Annotations (set_required_terms ts p) = Annotations p"
  "SchedulingGates (init_required p) = SchedulingGates p"
  "SchedulingGates (set_required_terms ts p) = SchedulingGates p"
  by (simp_all add: init_required_def set_required_terms_def update_node_affinity_def
      init_node_affinity_def init_affinity_def split: option.splits)

lemma elems_retarget [simp]:
  "elems (MatchExpressions (retarget_term archs t)) =
     clean_expressions (elems (MatchExpressions t)) @ [arch_requirement archs]"
  "MatchFields (retarget_term archs t) = MatchFields t"
  by (simp_all add: retarget_term_def)

lemma retarget_empty:
  "retarget_term archs empty_term = \<lparr>MatchExpressions = Some [arch_requirement archs], MatchFields = None\<rparr>"
  by (simp add: retarget_term_def empty_term_def clean_expressions_def)

text \<open>The terms after application: every term retargeted, one architecture-only term when there was none.\<close>

lemma terms_apply:
  assumes "archs \<noteq> []"
  shows "required_terms (applyArchitectureNodeAffinity archs p) =
    Some (Some (map (retarget_term archs)
      (if node_selector_terms p = [] then [empty_term] else node_selector_terms p)))"
  using assms by (simp add: applyArchitectureNodeAffinity_def Let_def retarget_empty)

lemma apply_frame [frame, simp]:
  "NodeSelector (applyArchitectureNodeAffinity archs p) = NodeSelector p"
  "Labels (applyArchitectureNodeAffinity archs p) = Labels p"
  "Annotations (applyArchitectureNodeAffinity archs p) = Annotations p"
  "SchedulingGates (applyArchitectureNodeAffinity archs p) = SchedulingGates p"
  "preferred_terms (applyArchitectureNodeAffinity archs p) = preferred_terms p"
  by (simp_all add: applyArchitectureNodeAffinity_def Let_def)

lemma remove_selector_frame [frame, simp]:
  "Affinity (snd (removeArchitectureFromNodeSelector p)) = Affinity p"
  "Labels (snd (removeArchitectureFromNodeSelector p)) = Labels p"
  "Annotations (snd (removeArchitectureFromNodeSelector p)) = Annotations p"
  "SchedulingGates (snd (removeArchitectureFromNodeSelector p)) = SchedulingGates p"
  by (simp_all add: removeArchitectureFromNodeSelector_def split: option.splits)

lemma remove_selector_lookup [simp]:
  "lookup_map (NodeSelector (snd (removeArchitectureFromNodeSelector p))) k =
     (if k = ArchLabel then None else lookup_map (NodeSelector p) k)"
  by (auto simp: removeArchitectureFromNodeSelector_def split: option.splits)

lemma clean_expressions_idem [simp]:
  "clean_expressions (clean_expressions es) = clean_expressions es"
  "clean_expressions [arch_requirement archs] = []"
  "clean_expressions (es @ fs) = clean_expressions es @ clean_expressions fs"
  by (simp_all add: clean_expressions_def)

lemma retarget_retarget [simp]: "retarget_term archs (retarget_term archs' t) = retarget_term archs t"
  by (simp add: retarget_term_def)

lemma not_mentions_clean: "mentions_key ArchLabel (t\<lparr>MatchExpressions := Some (clean_expressions es)\<rparr>) = False"
  by (auto simp: mentions_key_def clean_expressions_def list_ex_iff)

section \<open>Which nodes remain\<close>

text \<open>The constraint of a pod with every architecture requirement dropped.\<close>

definition term_matches_but_arch :: "node \<Rightarrow> node_selector_term \<Rightarrow> bool" where
  "term_matches_but_arch n t =
     (list_all (requirement_holds (node_labels n)) (clean_expressions (elems (MatchExpressions t))) \<and>
      list_all (requirement_holds (node_fields n)) (elems (MatchFields t)))"

definition schedulable_but_arch :: "('p) CorePod_scheme \<Rightarrow> node \<Rightarrow> bool" where
  "schedulable_but_arch p n =
     ((\<forall>k v. k \<noteq> ArchLabel \<longrightarrow> lookup_map (NodeSelector p) k = Some v \<longrightarrow> node_labels n k = Some v) \<and>
      (node_selector_terms p = [] \<or> list_ex (term_matches_but_arch n) (node_selector_terms p)))"

lemma retarget_matches:
  "term_matches n (retarget_term archs t) \<longleftrightarrow>
     term_matches_but_arch n t \<and> (\<exists>a \<in> set archs. arch_of n = Some a)"
  by (auto simp: term_matches_def term_matches_but_arch_def arch_requirement_holds)

lemma but_arch_empty [simp]: "term_matches_but_arch n empty_term"
  by (simp add: term_matches_but_arch_def empty_term_def clean_expressions_def)

lemma apply_schedulable:
  assumes "archs \<noteq> []"
  shows "schedulable_on (applyArchitectureNodeAffinity archs (snd (removeArchitectureFromNodeSelector p))) n
    \<longleftrightarrow> schedulable_but_arch p n \<and> (\<exists>a \<in> set archs. arch_of n = Some a)"
proof -
  let ?q = "snd (removeArchitectureFromNodeSelector p)"
  let ?ok = "\<exists>a \<in> set archs. arch_of n = Some a"
  have terms: "node_selector_terms ?q = node_selector_terms p"
    by (simp add: node_selector_terms_def required_terms_def)
  have sel: "selector_allows (applyArchitectureNodeAffinity archs ?q) n \<longleftrightarrow>
      (\<forall>k v. k \<noteq> ArchLabel \<longrightarrow> lookup_map (NodeSelector p) k = Some v \<longrightarrow> node_labels n k = Some v)"
    by (auto simp: selector_allows_def)
  have "affinity_allows (applyArchitectureNodeAffinity archs ?q) n \<longleftrightarrow>
      list_ex (\<lambda>t. term_matches_but_arch n t \<and> ?ok)
        (if node_selector_terms p = [] then [empty_term] else node_selector_terms p)"
    by (simp add: affinity_allows_def terms_apply[OF assms] terms terms_match_def list_ex_iff
        retarget_matches)
  also have "\<dots> \<longleftrightarrow>
      (node_selector_terms p = [] \<or> list_ex (term_matches_but_arch n) (node_selector_terms p)) \<and> ?ok"
    by (auto simp: list_ex_iff)
  finally show ?thesis using sel by (auto simp: schedulable_on_def schedulable_but_arch_def)
qed

section \<open>Removal\<close>

lemma clean_term_no_arch: "clean_term t = Some t' \<Longrightarrow> \<not> mentions_key ArchLabel t'"
  by (auto simp: clean_term_def Let_def mentions_key_def list_ex_iff clean_expressions_def split: if_splits)

lemma clean_term_keeps:
  "clean_term t = Some t' \<Longrightarrow>
     elems (MatchExpressions t') = clean_expressions (elems (MatchExpressions t)) \<and> MatchFields t' = MatchFields t"
  by (auto simp: clean_term_def Let_def split: if_splits)

lemma remove_affinity_terms:
  "node_selector_terms (snd (removeArchitectureFromNodeAffinity p)) =
     List.map_filter clean_term (node_selector_terms p)"
  by (auto simp: removeArchitectureFromNodeAffinity_def node_selector_terms_def required_terms_def
      Let_def map_filter_simps split: option.splits)

lemma remove_affinity_preferred:
  "preferred_terms (snd (removeArchitectureFromNodeAffinity p)) = preferred_terms p"
  by (auto simp: removeArchitectureFromNodeAffinity_def preferred_terms_def Let_def split: option.splits)

lemma remove_affinity_frame [frame, simp]:
  "NodeSelector (snd (removeArchitectureFromNodeAffinity p)) = NodeSelector p"
  "SchedulingGates (snd (removeArchitectureFromNodeAffinity p)) = SchedulingGates p"
  "Labels (snd (removeArchitectureFromNodeAffinity p)) = Labels p"
  by (simp_all add: removeArchitectureFromNodeAffinity_def Let_def split: option.splits)

end
