(* ===== verification/Config_Types.thy ===== *)
theory Config_Types
  imports Core_Types
begin

text \<open>
  The custom resources and their plugins: \<^verbatim>\<open>api/common/plugins\<close>, the v1beta1
  \<^verbatim>\<open>ClusterPodPlacementConfig\<close> and \<^verbatim>\<open>PodPlacementConfig\<close> types with their methods, the validation
  of platforms, architectures, CEL expressions and priorities, and label selectors as
  \<^verbatim>\<open>metav1.LabelSelectorAsSelector\<close> builds them.
\<close>

section \<open>Plugins\<close>

datatype Plugin = NodeAffinityScoringPluginName | ExecFormatErrorMonitorPluginName
  | CelArchitecturePlacementPluginName

record PlatformTerm =
  Architecture :: string
  platform_Weight :: "32 word"

record NodeAffinityScoring =
  nas_Enabled :: bool
  Platforms :: "PlatformTerm list"

record ExecFormatErrorMonitor =
  efm_Enabled :: bool

record ArchitectureRule =
  rule_Name :: string
  Expression :: string
  Architectures :: "string slice"

record CelArchitecturePlacement =
  cel_Enabled :: bool
  FallbackArchitectures :: "string slice"
  Rules :: "ArchitectureRule slice"

record LocalPlugins =
  local_NodeAffinityScoring :: "NodeAffinityScoring option"
  local_CelArchitecturePlacement :: "CelArchitecturePlacement option"

record Plugins =
  plugins_NodeAffinityScoring :: "NodeAffinityScoring option"
  plugins_ExecFormatErrorMonitor :: "ExecFormatErrorMonitor option"

definition LocalPluginEnabled :: "LocalPlugins \<Rightarrow> Plugin \<Rightarrow> bool" where
  "LocalPluginEnabled lp plugin =
     (case plugin of
        NodeAffinityScoringPluginName \<Rightarrow>
          (case local_NodeAffinityScoring lp of None \<Rightarrow> False | Some n \<Rightarrow> nas_Enabled n)
      | CelArchitecturePlacementPluginName \<Rightarrow>
          (case local_CelArchitecturePlacement lp of None \<Rightarrow> False | Some c \<Rightarrow> cel_Enabled c)
      | ExecFormatErrorMonitorPluginName \<Rightarrow> False)"

definition PluginEnabled :: "Plugins \<Rightarrow> Plugin \<Rightarrow> bool" where
  "PluginEnabled p plugin =
     (case plugin of
        NodeAffinityScoringPluginName \<Rightarrow>
          (case plugins_NodeAffinityScoring p of None \<Rightarrow> False | Some n \<Rightarrow> nas_Enabled n)
      | ExecFormatErrorMonitorPluginName \<Rightarrow>
          (case plugins_ExecFormatErrorMonitor p of None \<Rightarrow> False | Some e \<Rightarrow> efm_Enabled e)
      | CelArchitecturePlacementPluginName \<Rightarrow> False)"

section \<open>Label selectors\<close>

text \<open>
  \<^verbatim>\<open>matchLabels\<close> is a Go map with distinct keys; an association list keeps it executable. The
  operator of a match expression is a string in the API and unknown operators are errors.
\<close>

record label_expression =
  le_Key :: string
  le_Operator :: string
  le_Values :: "string list"

record label_selector =
  MatchLabels :: "(string \<times> string) list"
  LabelExpressions :: "label_expression list"

datatype label_op = SelIn | SelNotIn | SelExists | SelDoesNotExist | SelEquals

record label_requirement =
  lr_key :: string
  lr_op :: label_op
  lr_values :: "string list"

text \<open>\<open>Nothing\<close> is the selector of a nil \<^verbatim>\<open>LabelSelector\<close>; no requirement matches everything.\<close>

datatype selector = Nothing | Selector "label_requirement list"

definition is_lower_alnum :: "char \<Rightarrow> bool" where
  "is_lower_alnum c = (is_digit c \<or> in_range 97 122 (of_char c))"

definition is_alnum :: "char \<Rightarrow> bool" where
  "is_alnum c = (is_lower_alnum c \<or> in_range 65 90 (of_char c))"

text \<open>The shared shape of name parts and label values: 63 bytes at most, alphanumeric at both ends.\<close>

definition valid_name_part :: "string \<Rightarrow> bool" where
  "valid_name_part s =
     (s \<noteq> [] \<and> length s \<le> 63 \<and> is_alnum (hd s) \<and> is_alnum (last s) \<and>
      list_all (\<lambda>c. is_alnum c \<or> c \<in> set ''-_.'') s)"

definition valid_label_value :: "string \<Rightarrow> bool" where
  "valid_label_value s = (s = [] \<or> valid_name_part s)"

definition valid_dns_label :: "string \<Rightarrow> bool" where
  "valid_dns_label s =
     (s \<noteq> [] \<and> is_lower_alnum (hd s) \<and> is_lower_alnum (last s) \<and>
      list_all (\<lambda>c. is_lower_alnum c \<or> c = CHR ''-'') s)"

definition valid_subdomain :: "string \<Rightarrow> bool" where
  "valid_subdomain s = (length s \<le> 253 \<and> list_all valid_dns_label (split_on (CHR ''.'') s))"

definition valid_label_key :: "string \<Rightarrow> bool" where
  "valid_label_key k =
     (case split_on (CHR ''/'') k of
        [n] \<Rightarrow> valid_name_part n
      | [p, n] \<Rightarrow> valid_subdomain p \<and> valid_name_part n
      | _ \<Rightarrow> False)"

definition NewRequirement :: "string \<Rightarrow> label_op \<Rightarrow> string list \<Rightarrow> label_requirement option" where
  "NewRequirement key op vals =
     (let arity = (case op of
            SelIn \<Rightarrow> vals \<noteq> [] | SelNotIn \<Rightarrow> vals \<noteq> []
          | SelExists \<Rightarrow> vals = [] | SelDoesNotExist \<Rightarrow> vals = []
          | SelEquals \<Rightarrow> length vals = 1)
      in if valid_label_key key \<and> arity \<and> list_all valid_label_value vals
         then Some \<lparr>lr_key = key, lr_op = op, lr_values = vals\<rparr> else None)"

definition expression_op :: "string \<Rightarrow> label_op option" where
  "expression_op s =
     (if s = ''In'' then Some SelIn else if s = ''NotIn'' then Some SelNotIn
      else if s = ''Exists'' then Some SelExists
      else if s = ''DoesNotExist'' then Some SelDoesNotExist else None)"

fun all_some :: "'a option list \<Rightarrow> 'a list option" where
  "all_some [] = Some []"
| "all_some (None # xs) = None"
| "all_some (Some x # xs) = map_option ((#) x) (all_some xs)"

definition LabelSelectorAsSelector :: "label_selector option \<Rightarrow> selector option" where
  "LabelSelectorAsSelector ps =
     (case ps of
        None \<Rightarrow> Some Nothing
      | Some s \<Rightarrow>
          map_option Selector
            (all_some
               (map (\<lambda>(k, v). NewRequirement k SelEquals [v]) (MatchLabels s) @
                map (\<lambda>e. case expression_op (le_Operator e) of
                            None \<Rightarrow> None
                          | Some op \<Rightarrow> NewRequirement (le_Key e) op (le_Values e)) (LabelExpressions s))))"

definition requirement_matches :: "(string, string) gomap \<Rightarrow> label_requirement \<Rightarrow> bool" where
  "requirement_matches ls r =
     (case lr_op r of
        SelExists \<Rightarrow> has_key ls (lr_key r)
      | SelDoesNotExist \<Rightarrow> \<not> has_key ls (lr_key r)
      | SelNotIn \<Rightarrow> (case lookup_map ls (lr_key r) of None \<Rightarrow> True | Some v \<Rightarrow> v \<notin> set (lr_values r))
      | _ \<Rightarrow> (case lookup_map ls (lr_key r) of None \<Rightarrow> False | Some v \<Rightarrow> v \<in> set (lr_values r)))"

definition selector_matches :: "selector \<Rightarrow> (string, string) gomap \<Rightarrow> bool" where
  "selector_matches sel ls =
     (case sel of Nothing \<Rightarrow> False | Selector rs \<Rightarrow> list_all (requirement_matches ls) rs)"

section \<open>PodPlacementConfig\<close>

record PodPlacementConfig =
  ppc_Name :: string
  ppc_Namespace :: string
  LabelSelector :: "label_selector option"
  ppc_Plugins :: "LocalPlugins option"
  Priority :: "8 word"

definition PodPlacementConfigKind :: string where
  "PodPlacementConfigKind = ''PodPlacementConfig''"

definition ppc_PluginsEnabled :: "PodPlacementConfig \<Rightarrow> Plugin \<Rightarrow> bool" where
  "ppc_PluginsEnabled p plugin =
     (case ppc_Plugins p of None \<Rightarrow> False | Some lp \<Rightarrow> LocalPluginEnabled lp plugin)"

definition HasEnabledPluginsRequiringSchedulingGate :: "PodPlacementConfig \<Rightarrow> bool" where
  "HasEnabledPluginsRequiringSchedulingGate p =
     (ppc_PluginsEnabled p NodeAffinityScoringPluginName \<or>
      ppc_PluginsEnabled p CelArchitecturePlacementPluginName)"

text \<open>
  The validators return nil or an error. The text formats the priority with \<^verbatim>\<open>%q\<close>, which
  quotes a character for an integer argument.
\<close>

definition priority_error :: "PodPlacementConfig \<Rightarrow> PodPlacementConfig \<Rightarrow> go_error" where
  "priority_error p item =
     GoError (''priority '' @ quote_rune (unat (Priority p)) @ '' already used by '' @ quote (ppc_Name item))"

fun ValidatePriorityUpdate_loop :: "PodPlacementConfig \<Rightarrow> PodPlacementConfig list \<Rightarrow> go_error option" where
  "ValidatePriorityUpdate_loop p [] = None"
| "ValidatePriorityUpdate_loop p (item # items) =
     (if ppc_Name item \<noteq> ppc_Name p \<and> Priority item = Priority p
      then Some (priority_error p item)
      else ValidatePriorityUpdate_loop p items)"

definition ValidatePriorityUpdate ::
  "PodPlacementConfig \<Rightarrow> PodPlacementConfig \<Rightarrow> PodPlacementConfig list \<Rightarrow> go_error option" where
  "ValidatePriorityUpdate p old list =
     (if Priority p = Priority old then None else ValidatePriorityUpdate_loop p list)"

fun ValidatePriorityNew :: "PodPlacementConfig \<Rightarrow> PodPlacementConfig list \<Rightarrow> go_error option" where
  "ValidatePriorityNew p [] = None"
| "ValidatePriorityNew p (item # items) =
     (if Priority item = Priority p then Some (priority_error p item)
      else ValidatePriorityNew p items)"

section \<open>ClusterPodPlacementConfig\<close>

record condition =
  cond_Type :: string
  cond_Status :: string
  cond_Reason :: string
  cond_Message :: string
  cond_LastTransitionTime :: nat

record ClusterPodPlacementConfigStatus =
  Conditions :: "condition slice"
  available :: bool
  progressing :: bool
  degraded :: bool
  deprovisioning :: bool
  podPlacementControllerNotReady :: bool
  podPlacementWebhookNotReady :: bool
  mutatingWebhookConfigurationNotAvailable :: bool
  canDeployMutatingWebhook :: bool

record ClusterPodPlacementConfig =
  cppc_Name :: string
  cppc_Annotations :: "(string, string) gomap"
  cppc_Finalizers :: "string list"
  cppc_Deleting :: bool
  LogVerbosity :: string
  NamespaceSelector :: "label_selector option"
  cppc_Plugins :: "Plugins option"
  FallbackArchitecture :: string
  cppc_Status :: ClusterPodPlacementConfigStatus

definition ClusterPodPlacementConfigKind :: string where
  "ClusterPodPlacementConfigKind = ''ClusterPodPlacementConfig''"

definition cppc_PluginsEnabled :: "ClusterPodPlacementConfig \<Rightarrow> Plugin \<Rightarrow> bool" where
  "cppc_PluginsEnabled c plugin =
     (case cppc_Plugins c of None \<Rightarrow> False | Some p \<Rightarrow> PluginEnabled p plugin)"

section \<open>Validation of plugins\<close>

fun ValidateArchitecturesSet_loop :: "string set \<Rightarrow> PlatformTerm list \<Rightarrow> go_error option" where
  "ValidateArchitecturesSet_loop seen [] = None"
| "ValidateArchitecturesSet_loop seen (t # ts) =
     (if Architecture t \<in> seen
      then Some (GoError (''duplicate architecture '' @ quote (Architecture t) @
                          '' found in nodeAffinityScoring.platforms''))
      else ValidateArchitecturesSet_loop (insert (Architecture t) seen) ts)"

definition ValidateArchitecturesSet :: "NodeAffinityScoring \<Rightarrow> go_error option" where
  "ValidateArchitecturesSet n = ValidateArchitecturesSet_loop {} (Platforms n)"

definition valid_arch :: "string \<Rightarrow> bool" where
  "valid_arch a = (a \<in> set all_architectures)"

definition invalid_rule_archs :: "ArchitectureRule \<Rightarrow> (string \<times> string) list" where
  "invalid_rule_archs r =
     map (\<lambda>a. (rule_Name r, a)) (filter (\<lambda>a. \<not> valid_arch a) (elems (Architectures r)))"

definition ValidateArchitectures :: "CelArchitecturePlacement \<Rightarrow> go_error option" where
  "ValidateArchitectures c =
     (case List.find (\<lambda>a. \<not> valid_arch a) (elems (FallbackArchitectures c)) of
        Some a \<Rightarrow> Some (GoError (''invalid fallback architecture: '' @ a))
      | None \<Rightarrow>
          (case concat (map invalid_rule_archs (elems (Rules c))) of
             (n, a) # _ \<Rightarrow> Some (GoError (''invalid architecture in rule '' @ n @ '': '' @ a))
           | [] \<Rightarrow> None))"

text \<open>
  The syntax tree of a compiled CEL expression as the code walks it: identifiers, field
  selections, and every other kind of node with its children.
\<close>

datatype cel_expr = Ident string | Select cel_expr string | Node "cel_expr list"

datatype cel_type = BoolType | OtherType string

record cel_ast =
  OutputType :: cel_type
  NativeRep :: cel_expr

definition cel_type_name :: "cel_type \<Rightarrow> string" where
  "cel_type_name t = (case t of BoolType \<Rightarrow> ''bool'' | OtherType n \<Rightarrow> n)"

fun selectPath_from :: "cel_expr \<Rightarrow> string list \<Rightarrow> string list option" where
  "selectPath_from (Select operand name) segments = selectPath_from operand (name # segments)"
| "selectPath_from (Ident x) segments = Some (x # segments)"
| "selectPath_from (Node es) segments = None"

definition selectPath :: "cel_expr \<Rightarrow> string list" where
  "selectPath e = elems (selectPath_from e [])"

text \<open>\<^verbatim>\<open>MatchDescendants\<close> with the select matcher: all select nodes in post-order.\<close>

fun select_nodes :: "cel_expr \<Rightarrow> cel_expr list" where
  "select_nodes (Ident x) = []"
| "select_nodes (Select operand name) = select_nodes operand @ [Select operand name]"
| "select_nodes (Node es) = concat (map select_nodes es)"

definition disallowed_path :: "string list \<Rightarrow> bool" where
  "disallowed_path path =
     (case path of
        root # fld # _ \<Rightarrow> root = ''self'' \<and> (fld = ''spec'' \<or> fld = ''status'')
      | _ \<Rightarrow> False)"

definition assertMetadataOnly :: "cel_ast \<Rightarrow> string \<Rightarrow> go_error option" where
  "assertMetadataOnly ast ruleName =
     (case List.find (\<lambda>n. disallowed_path (selectPath n)) (select_nodes (NativeRep ast)) of
        None \<Rightarrow> None
      | Some n \<Rightarrow>
          Some (GoError (''invalid CEL expression in rule '' @ quote ruleName @
             '': references a disallowed field '' @ [CHR 0x27] @ ''self.'' @
             join_with ''.'' (tl (selectPath n)) @ [CHR 0x27] @ '': only self.metadata.* is permitted'')))"

text \<open>
  \<^verbatim>\<open>ValidateCELExpressions\<close> with the typed validation environment of \<^verbatim>\<open>cel-go\<close> as a parameter:
  its creation may fail, and it compiles an expression to a tree or an error.
\<close>

definition validate_rule :: "(string \<Rightarrow> cel_ast result) \<Rightarrow> ArchitectureRule \<Rightarrow> go_error option" where
  "validate_rule compile rule =
     (case compile (Expression rule) of
        Inl e \<Rightarrow> Some (GoError (''invalid CEL expression in rule '' @ quote (rule_Name rule) @
                               '': CEL compilation error: '' @ error_msg e))
      | Inr ast \<Rightarrow>
          if OutputType ast \<noteq> BoolType
          then Some (GoError (''invalid CEL expression in rule '' @ quote (rule_Name rule) @
                 '': CEL expression must return a boolean, got '' @ cel_type_name (OutputType ast)))
          else assertMetadataOnly ast (rule_Name rule))"

fun validate_rules :: "(string \<Rightarrow> cel_ast result) \<Rightarrow> ArchitectureRule list \<Rightarrow> go_error option" where
  "validate_rules compile [] = None"
| "validate_rules compile (r # rs) =
     (case validate_rule compile r of Some e \<Rightarrow> Some e | None \<Rightarrow> validate_rules compile rs)"

definition ValidateCELExpressions ::
  "(string \<Rightarrow> cel_ast result) result \<Rightarrow> CelArchitecturePlacement \<Rightarrow> go_error option" where
  "ValidateCELExpressions validationEnv c =
     (case validationEnv of Inl e \<Rightarrow> Some e | Inr compile \<Rightarrow> validate_rules compile (elems (Rules c)))"

section \<open>Facts\<close>

lemma ValidatePriorityNew_None:
  "ValidatePriorityNew p list = None \<longleftrightarrow> (\<forall>q \<in> set list. Priority q \<noteq> Priority p)"
  by (induction list) auto

lemma ValidatePriorityUpdate_loop_None:
  "ValidatePriorityUpdate_loop p list = None \<longleftrightarrow>
     (\<forall>q \<in> set list. ppc_Name q \<noteq> ppc_Name p \<longrightarrow> Priority q \<noteq> Priority p)"
  by (induction list) auto

lemma ValidateArchitecturesSet_loop_None:
  "ValidateArchitecturesSet_loop seen ts = None \<longleftrightarrow>
     distinct (map Architecture ts) \<and> (\<forall>t \<in> set ts. Architecture t \<notin> seen)"
proof (induction seen ts rule: ValidateArchitecturesSet_loop.induct)
  case (2 seen t ts)
  then show ?case by (cases "Architecture t \<in> seen") (auto simp: image_iff)
qed simp

lemma ValidateArchitecturesSet_None:
  "ValidateArchitecturesSet n = None \<longleftrightarrow> distinct (map Architecture (Platforms n))"
  by (simp add: ValidateArchitecturesSet_def ValidateArchitecturesSet_loop_None)

lemma valid_arch_iff: "valid_arch a \<longleftrightarrow> a \<in> AllSupportedArchitecturesSet"
  by (simp add: valid_arch_def AllSupportedArchitecturesSet_def)

lemma invalid_rule_archs_Nil:
  "invalid_rule_archs r = [] \<longleftrightarrow> set (elems (Architectures r)) \<subseteq> AllSupportedArchitecturesSet"
  by (auto simp: invalid_rule_archs_def filter_empty_conv valid_arch_iff)

lemma ValidateArchitectures_None:
  "ValidateArchitectures c = None \<longleftrightarrow>
     set (elems (FallbackArchitectures c)) \<subseteq> AllSupportedArchitecturesSet \<and>
     (\<forall>r \<in> set (elems (Rules c)). set (elems (Architectures r)) \<subseteq> AllSupportedArchitecturesSet)"
proof -
  have split: "ValidateArchitectures c = None \<longleftrightarrow>
      List.find (\<lambda>a. \<not> valid_arch a) (elems (FallbackArchitectures c)) = None \<and>
      concat (map invalid_rule_archs (elems (Rules c))) = []"
    by (simp add: ValidateArchitectures_def del: concat_eq_Nil_conv split: option.splits list.splits)
  have fallback: "List.find (\<lambda>a. \<not> valid_arch a) xs = None \<longleftrightarrow> set xs \<subseteq> AllSupportedArchitecturesSet" for xs
    by (auto simp: find_None_iff valid_arch_iff)
  show ?thesis unfolding split fallback by (simp add: concat_eq_Nil_conv invalid_rule_archs_Nil)
qed

lemma validate_rules_None:
  "validate_rules compile rs = None \<longleftrightarrow> (\<forall>r \<in> set rs. validate_rule compile r = None)"
  by (induction rs) (auto split: option.splits)

end
