(* ===== verification/Pod_Model.thy ===== *)
theory Pod_Model
  imports Arch_Constraints Config_Types
begin

text \<open>
  \<^verbatim>\<open>internal/controller/podplacement/pod_model.go\<close>: what the pod placement controller does to one
  pod. The image inspection cache (\<^verbatim>\<open>image.ICache\<close>) is the parameter \<open>inspect\<close>, a function of the
  image name, the skip-cache flag and the pull secrets. Functions that change the pod return it;
  predicates with side effects return their verdict and the pod.
\<close>

section \<open>Events\<close>

definition ArchitecturePredicatesConflict :: string where
  "ArchitecturePredicatesConflict = ''ArchAwarePredicatesConflict''"
definition ImageArchitectureInspectionError :: string where
  "ImageArchitectureInspectionError = ''ArchAwareInspectionError''"
definition ArchitectureAwareNodeAffinitySet :: string where
  "ArchitectureAwareNodeAffinitySet = ''ArchAwarePredicateSet''"
definition ArchitectureAwareGatedPodIgnored :: string where
  "ArchitectureAwareGatedPodIgnored = ''ArchAwareGatedPodIgnored''"
definition ArchitectureAwareSchedulingGateAdded :: string where
  "ArchitectureAwareSchedulingGateAdded = ''ArchAwareSchedGateAdded''"
definition ArchitectureAwareSchedulingGateRemovalFailure :: string where
  "ArchitectureAwareSchedulingGateRemovalFailure = ''ArchAwareSchedGateRemovalFailed''"
definition ArchitectureAwareSchedulingGateRemovalSuccess :: string where
  "ArchitectureAwareSchedulingGateRemovalSuccess = ''ArchAwareSchedGateRemovalSuccess''"
definition NoSupportedArchitecturesFound :: string where
  "NoSupportedArchitecturesFound = ''NoSupportedArchitecturesFound''"
definition ArchitecturePreferredAffinityDuplicates :: string where
  "ArchitecturePreferredAffinityDuplicates = ''ArchAwarePreferredAffinityDuplicates''"
definition ArchitectureAwareFallbackNodeAffinitySet :: string where
  "ArchitectureAwareFallbackNodeAffinitySet = ''ArchAwareFallbackPredicateSet''"

definition SchedulingGateAddedMsg :: string where
  "SchedulingGateAddedMsg = ''Successfully gated with the '' @ SchedulingGateName @ '' scheduling gate''"
definition SchedulingGateRemovalSuccessMsg :: string where
  "SchedulingGateRemovalSuccessMsg = ''Successfully removed the '' @ SchedulingGateName @ '' scheduling gate''"
definition SchedulingGateRemovalFailureMsg :: string where
  "SchedulingGateRemovalFailureMsg =
     ''Failed to remove the scheduling gate '' @ [CHR 0x22] @ SchedulingGateName @ [CHR 0x22]"
definition ArchitecturePredicatesConflictMsg :: string where
  "ArchitecturePredicatesConflictMsg =
     ''All the scheduling predicates already include architecture-specific constraints''"
definition ArchitecturePredicateSetupMsg :: string where
  "ArchitecturePredicateSetupMsg = ''Set the supported architectures to ''"
definition ArchitecturePreferredPredicateSetupMsg :: string where
  "ArchitecturePreferredPredicateSetupMsg = ''Applied all architecture preferences from configuration''"
definition ArchitecturePreferredAffinityWithDuplicatesMsg :: string where
  "ArchitecturePreferredAffinityWithDuplicatesMsg =
     ''Applied some architecture preferences from configuration; others were already set''"
definition ArchitecturePreferredAffinityAllDuplicatesMsg :: string where
  "ArchitecturePreferredAffinityAllDuplicatesMsg =
     ''Skipped all architecture preferences from configuration; all were already set''"
definition ArchitecturePreferredPredicateSkippedMsg :: string where
  "ArchitecturePreferredPredicateSkippedMsg =
     ''Skipped configuration; no architecture preferences were provided''"
definition ImageArchitectureInspectionErrorMsg :: string where
  "ImageArchitectureInspectionErrorMsg =
     ''The operator encountered an error while inspecting the container image to determine its supported architectures. '' @
     ''This is typically caused by the image registry being unreachable, returning an error, or a misconfiguration. '' @
     ''Registry error: ''"
definition NoSupportedArchitecturesFoundMsg :: string where
  "NoSupportedArchitecturesFoundMsg =
     ''Pod cannot be scheduled due to incompatible image architectures; container images have no supported architectures in common''"
definition ArchitectureAwareGatedPodIgnoredMsg :: string where
  "ArchitectureAwareGatedPodIgnoredMsg =
     ''The gated pod has been modified and is no longer eligible for architecture-aware scheduling''"
definition ImageInspectionErrorMaxRetriesMsg :: string where
  "ImageInspectionErrorMaxRetriesMsg =
     ''The operator was unable to determine the supported architectures after multiple retries. '' @
     ''This is typically caused by the image registry being unreachable, returning an error, or a misconfiguration in the cluster'' @
     [CHR 0x27] @ ''s pull secrets or network. '' @ ''Registry error''"
definition ArchitectureFallbackSetupMsg :: string where
  "ArchitectureFallbackSetupMsg =
     ''Image inspection failed; setting the nodeAffinity to the fallback architecture: ''"

section \<open>Gate and secrets\<close>

type_synonym inspector = "string \<Rightarrow> bool \<Rightarrow> string list \<Rightarrow> string set result"

definition MaxRetryCount :: int where "MaxRetryCount = 5"

record containerImage =
  imageName :: string
  skipCache :: bool

definition HasSchedulingGate :: "('p) CorePod_scheme \<Rightarrow> bool" where
  "HasSchedulingGate p = HasGate SchedulingGateName p"

definition RemoveSchedulingGate :: "('p) CorePod_scheme \<Rightarrow> ('p) CorePod_scheme" where
  "RemoveSchedulingGate p =
     EnsureLabel SchedulingGateLabel SchedulingGateLabelValueRemoved (RemoveGate SchedulingGateName p)"

definition ensureSchedulingGate :: "('p) CorePod_scheme \<Rightarrow> ('p) CorePod_scheme" where
  "ensureSchedulingGate p = AddGate SchedulingGateName p"

definition getPodImagePullSecrets :: "('p) CorePod_scheme \<Rightarrow> string list" where
  "getPodImagePullSecrets p = (case ImagePullSecrets p of None \<Rightarrow> [] | Some refs \<Rightarrow> refs)"

section \<open>Required node affinity\<close>

text \<open>One iteration over the node selector terms.\<close>

definition patch_term :: "requirement \<Rightarrow> node_selector_term \<Rightarrow> node_selector_term" where
  "patch_term req t =
     (let exprs = (case MatchExpressions t of None \<Rightarrow> [] | Some es \<Rightarrow> es);
          skipMatchExpressionPatch = list_ex (\<lambda>e. Key e = Key req) exprs
      in t\<lparr>MatchExpressions := Some (if skipMatchExpressionPatch then exprs else exprs @ [req])\<rparr>)"

text \<open>Both callers have initialised the affinity, so the terms exist.\<close>

definition setRequiredArchNodeAffinity :: "requirement \<Rightarrow> ('p) CorePod_scheme \<Rightarrow> ('p) CorePod_scheme" where
  "setRequiredArchNodeAffinity req p =
     (let terms = (if node_selector_terms p = [] then [empty_term] else node_selector_terms p)
      in EnsureLabel NodeAffinityLabel NodeAffinityLabelValueSet
           (set_required_terms (Some (map (patch_term req) terms)) p))"

definition publishIgnorePod :: "Pod \<Rightarrow> Pod" where
  "publishIgnorePod p =
     PublishEvent EventTypeNormal ArchitecturePredicatesConflict ArchitecturePredicatesConflictMsg
       (EnsureLabel NodeAffinityLabel LabelValueNotSet p)"

definition term_has_arch :: "node_selector_term \<Rightarrow> bool" where
  "term_has_arch t = list_ex (\<lambda>e. Key e = ArchLabel) (elems (MatchExpressions t))"

definition isNodeSelectorConfiguredForArchitecture :: "Pod \<Rightarrow> bool \<times> Pod" where
  "isNodeSelectorConfiguredForArchitecture p =
     (if has_key (NodeSelector p) ArchLabel then (True, publishIgnorePod p)
      else case required_terms p of
             None \<Rightarrow> (False, p)
           | Some ts \<Rightarrow> (list_all term_has_arch (elems ts), p))"

definition imagesNamesSet :: "('p) CorePod_scheme \<Rightarrow> containerImage list" where
  "imagesNamesSet p =
     remdups (map (\<lambda>c. \<lparr>imageName = ''//'' @ Image c, skipCache = (ImagePullPolicy c = ''Always'')\<rparr>)
                (Containers p @ InitContainers p))"

text \<open>
  The loop over the images: the first error ends it; the accumulator is nil until the first
  image. Go ranges over a set in an unspecified order; \<open>intersect_any_order\<close> below shows that the
  order does not matter.
\<close>

fun intersect_loop ::
  "inspector \<Rightarrow> string list \<Rightarrow> containerImage list \<Rightarrow> string set option \<Rightarrow> string set option result" where
  "intersect_loop inspect secrets [] acc = Inr acc"
| "intersect_loop inspect secrets (img # imgs) acc =
     (case inspect (imageName img) (skipCache img) secrets of
        Inl e \<Rightarrow> Inl e
      | Inr archs \<Rightarrow>
          intersect_loop inspect secrets imgs
            (Some (case acc of None \<Rightarrow> archs | Some s \<Rightarrow> s \<inter> archs)))"

definition list_of_set :: "string set option \<Rightarrow> string list" where
  "list_of_set s = (case s of None \<Rightarrow> [] | Some A \<Rightarrow> sorted_list_of_set A)"

definition intersectImagesArchitecture ::
  "inspector \<Rightarrow> string list \<Rightarrow> ('p) CorePod_scheme \<Rightarrow> string list result" where
  "intersectImagesArchitecture inspect secrets p =
     (case intersect_loop inspect secrets (imagesNamesSet p) None of
        Inl e \<Rightarrow> Inl e
      | Inr s \<Rightarrow> Inr (list_of_set s))"

definition getArchitecturePredicate ::
  "inspector \<Rightarrow> string list \<Rightarrow> ('p) CorePod_scheme \<Rightarrow> requirement result" where
  "getArchitecturePredicate inspect secrets p =
     (case intersectImagesArchitecture inspect secrets p of
        Inl e \<Rightarrow> Inl e
      | Inr archs \<Rightarrow>
          if archs = []
          then Inr \<lparr>Key = NoSupportedArchLabel, Operator = OpExists, Values = None\<rparr>
          else Inr (arch_requirement archs))"

definition ensureArchitectureLabels :: "requirement \<Rightarrow> ('p) CorePod_scheme \<Rightarrow> ('p) CorePod_scheme" where
  "ensureArchitectureLabels req p =
     (case Values req of
        None \<Rightarrow> p
      | Some vs \<Rightarrow>
          (let p1 = (if length vs = 0 then EnsureLabel NoSupportedArchLabel [] p
                     else if length vs = 1 then EnsureLabel SingleArchLabel [] p
                     else EnsureLabel MultiArchLabel [] p)
           in foldl (\<lambda>q v. if v \<in> AllSupportedArchitecturesSet then EnsureLabel (ArchLabelValue v) [] q else q)
                p1 vs))"

definition SetNodeAffinityArchRequirement ::
  "inspector \<Rightarrow> string list \<Rightarrow> Pod \<Rightarrow> bool result \<times> Pod" where
  "SetNodeAffinityArchRequirement inspect secrets p =
     (let (configured, p0) = isNodeSelectorConfiguredForArchitecture p
      in if configured then (Inr False, publishIgnorePod p0)
         else case getArchitecturePredicate inspect secrets p0 of
                Inl e \<Rightarrow> (Inl e, p0)
              | Inr req \<Rightarrow>
                  (let p1 = EnsureNoLabel ImageInspectionErrorLabel p0;
                       p2 = (if elems (Values req) = []
                             then PublishEvent EventTypeNormal NoSupportedArchitecturesFound
                                    NoSupportedArchitecturesFoundMsg p1
                             else p1);
                       p3 = ensureArchitectureLabels req p2;
                       p4 = setRequiredArchNodeAffinity req (init_required p3)
                   in (Inr True,
                       PublishEvent EventTypeNormal ArchitectureAwareNodeAffinitySet
                         (ArchitecturePredicateSetupMsg @ ''{'' @ join_with '', '' (elems (Values req)) @ ''}'') p4)))"

definition setRequiredNodeAffinityToFallbackArchitecture :: "string \<Rightarrow> Pod \<Rightarrow> Pod" where
  "setRequiredNodeAffinityToFallbackArchitecture architecture p =
     (let p1 = setRequiredArchNodeAffinity (arch_requirement [architecture]) (init_required p);
          p2 = EnsureLabel FallbackArchitectureLabel architecture p1
      in PublishEvent EventTypeWarning ArchitectureAwareFallbackNodeAffinitySet
           (ArchitectureFallbackSetupMsg @ ''{'' @ architecture @ ''}'') p2)"

section \<open>Preferred node affinity\<close>

definition term_archs :: "preferred_term \<Rightarrow> string list" where
  "term_archs t =
     concat (map (\<lambda>e. if Key e = ArchLabel then elems (Values e) else [])
       (elems (MatchExpressions (Preference t))))"

definition getExistingPreferredArchitectures :: "('p) CorePod_scheme \<Rightarrow> string set" where
  "getExistingPreferredArchitectures p = set (concat (map term_archs (elems (preferred_terms p))))"

definition affinity_entry :: "string \<Rightarrow> 32 word \<Rightarrow> string \<Rightarrow> bool \<Rightarrow> string" where
  "affinity_entry arch weight source applied =
     arch @ '':'' @ show_int (sint weight) @ '':'' @ source @ (if applied then [] else '':skipped'')"

definition trackAffinitySource ::
  "string \<Rightarrow> 32 word \<Rightarrow> string \<Rightarrow> bool \<Rightarrow> ('p) CorePod_scheme \<Rightarrow> ('p) CorePod_scheme" where
  "trackAffinitySource arch weight source applied p =
     (let existing = get_or [] (Annotations p) PreferredNodeAffinitySourcesAnnotation;
          newEntry = affinity_entry arch weight source applied
      in if existing \<noteq> [] \<and> newEntry \<in> set (split_on (CHR '','') existing) then p
         else if existing = [] then EnsureAnnotation PreferredNodeAffinitySourcesAnnotation newEntry p
         else EnsureAnnotation PreferredNodeAffinitySourcesAnnotation (existing @ '','' @ newEntry) p)"

definition preferred_term_for :: "PlatformTerm \<Rightarrow> preferred_term" where
  "preferred_term_for t =
     \<lparr>Weight = platform_Weight t,
      Preference = \<lparr>MatchExpressions = Some [arch_requirement [Architecture t]], MatchFields = None\<rparr>\<rparr>"

text \<open>The loop over the platforms: seen architectures, terms to add, skipped architectures.\<close>

fun preferred_loop ::
  "string \<Rightarrow> PlatformTerm list \<Rightarrow> string set \<Rightarrow> preferred_term list \<Rightarrow> string list \<Rightarrow> ('p) CorePod_scheme \<Rightarrow>
     preferred_term list \<times> string list \<times> ('p) CorePod_scheme" where
  "preferred_loop source [] seen added skipped p = (added, skipped, p)"
| "preferred_loop source (t # ts) seen added skipped p =
     (if Architecture t \<notin> seen
      then preferred_loop source ts (insert (Architecture t) seen) (added @ [preferred_term_for t]) skipped
             (trackAffinitySource (Architecture t) (platform_Weight t) source True p)
      else preferred_loop source ts seen added (skipped @ [Architecture t])
             (trackAffinitySource (Architecture t) (platform_Weight t) source False p))"

definition init_preferred :: "('p) CorePod_scheme \<Rightarrow> ('p) CorePod_scheme" where
  "init_preferred p =
     update_node_affinity
       (\<lambda>na. case Preferred na of None \<Rightarrow> na\<lparr>Preferred := Some []\<rparr> | Some _ \<Rightarrow> na)
       (init_node_affinity (init_affinity p))"

definition SetPreferredArchNodeAffinity :: "NodeAffinityScoring \<Rightarrow> string \<Rightarrow> Pod \<Rightarrow> Pod" where
  "SetPreferredArchNodeAffinity nodeAffinity configSource p =
     (let p0 = init_preferred p;
          (added, skipped, p1) =
             preferred_loop configSource (Platforms nodeAffinity) (getExistingPreferredArchitectures p0) [] [] p0;
          p2 = (if added \<noteq> []
                then EnsureLabel PreferredNodeAffinityLabel NodeAffinityLabelValueSet
                       (update_node_affinity (\<lambda>na. na\<lparr>Preferred := append_slice (Preferred na) added\<rparr>) p1)
                else p1)
      in if added \<noteq> [] \<and> skipped = []
         then PublishEvent EventTypeNormal ArchitectureAwareNodeAffinitySet
                (ArchitecturePreferredPredicateSetupMsg @ '' source: '' @ configSource) p2
         else if added \<noteq> [] \<and> skipped \<noteq> []
         then PublishEvent EventTypeNormal ArchitectureAwareNodeAffinitySet
                (ArchitecturePreferredAffinityWithDuplicatesMsg @ '' source: '' @ configSource @
                 '', skipped: '' @ join_with '', '' skipped) p2
         else if added = [] \<and> skipped \<noteq> []
         then PublishEvent EventTypeNormal ArchitecturePreferredAffinityDuplicates
                (ArchitecturePreferredAffinityAllDuplicatesMsg @ '' source: '' @ configSource @
                 '', architectures: '' @ join_with '', '' skipped) p2
         else p2)"

definition isPreferredAffinityConfiguredForArchitecture :: "('p) CorePod_scheme \<Rightarrow> bool" where
  "isPreferredAffinityConfiguredForArchitecture p =
     (case preferred_terms p of
        None \<Rightarrow> False
      | Some ts \<Rightarrow> list_ex (\<lambda>t. list_ex (\<lambda>e. Key e = ArchLabel) (elems (MatchExpressions (Preference t)))) ts)"

section \<open>Retries and errors\<close>

definition maxRetries :: "('p) CorePod_scheme \<Rightarrow> bool" where
  "maxRetries p =
     (case Labels p of
        None \<Rightarrow> False
      | Some _ \<Rightarrow>
          (case ParseInt 32 (get_or [] (Labels p) ImageInspectionErrorCountLabel) of
             None \<Rightarrow> True
           | Some v \<Rightarrow> MaxRetryCount \<le> v))"

definition truncate_runes :: "string \<Rightarrow> string" where
  "truncate_runes s = (let rs = runes s in if 256 < length rs then string_of_runes (take 256 rs) else s)"

definition handleError :: "go_error option \<Rightarrow> Pod \<Rightarrow> Pod" where
  "handleError err p =
     (case err of
        None \<Rightarrow> p
      | Some e \<Rightarrow>
          (let p1 = p\<lparr>pod_metrics := (pod_metrics p)\<lparr>FailedInspectionCounter :=
                        FailedInspectionCounter (pod_metrics p) + 1\<rparr>\<rparr>;
               errMsg = truncate_runes (error_msg e);
               p2 = EnsureLabel ImageInspectionErrorLabel [] p1;
               p3 = EnsureAnnotation ImageInspectionErrorLabel errMsg p2;
               p4 = EnsureAndIncrementLabel ImageInspectionErrorCountLabel p3
           in PublishEvent EventTypeWarning ImageArchitectureInspectionError
                (ImageArchitectureInspectionErrorMsg @ errMsg) p4))"

section \<open>Matching configurations\<close>

definition ppc_matches :: "PodPlacementConfig \<Rightarrow> ('p) CorePod_scheme \<Rightarrow> bool" where
  "ppc_matches ppc p =
     (case LabelSelectorAsSelector (LabelSelector ppc) of
        None \<Rightarrow> False
      | Some sel \<Rightarrow> sel = Nothing \<or> selector_matches sel (Labels p))"

definition filterMatchingPPCs :: "PodPlacementConfig list \<Rightarrow> ('p) CorePod_scheme \<Rightarrow> PodPlacementConfig list" where
  "filterMatchingPPCs ppcs p = filter (\<lambda>ppc. ppc_matches ppc p) ppcs"

definition hasMatchingPPCWithPlugin :: "PodPlacementConfig list \<Rightarrow> bool" where
  "hasMatchingPPCWithPlugin ppcs = list_ex HasEnabledPluginsRequiringSchedulingGate ppcs"

definition shouldIgnorePod ::
  "string \<Rightarrow> ClusterPodPlacementConfig option \<Rightarrow> PodPlacementConfig list \<Rightarrow> Pod \<Rightarrow> bool \<times> Pod" where
  "shouldIgnorePod operatorNamespace cppc ppcs p =
     (if operatorNamespace = Namespace p then (True, p)
      else if has_prefix (Namespace p) ''kube-'' then (True, p)
      else if NodeName p \<noteq> [] then (True, p)
      else if HasControlPlaneNodeSelector p then (True, p)
      else if IsFromDaemonSet p then (True, p)
      else let (configured, p1) = isNodeSelectorConfiguredForArchitecture p
           in if \<not> configured then (False, p1)
              else if isPreferredAffinityConfiguredForArchitecture p1 then (True, p1)
              else let cppcPluginEnabled = (case cppc of None \<Rightarrow> False
                         | Some c \<Rightarrow> cppc_PluginsEnabled c NodeAffinityScoringPluginName)
                   in if \<not> cppcPluginEnabled \<and> \<not> hasMatchingPPCWithPlugin ppcs then (True, p1)
                      else (False, p1))"

section \<open>Frame facts\<close>

lemma setRequired_frame [frame, simp]:
  "NodeSelector (setRequiredArchNodeAffinity req p) = NodeSelector p"
  "Annotations (setRequiredArchNodeAffinity req p) = Annotations p"
  "SchedulingGates (setRequiredArchNodeAffinity req p) = SchedulingGates p"
  "preferred_terms (setRequiredArchNodeAffinity req p) = preferred_terms p"
  "Labels (setRequiredArchNodeAffinity req p) = put_map (Labels p) NodeAffinityLabel NodeAffinityLabelValueSet"
  using preferred_terms_set[of "Some (map (patch_term req)
    (if node_selector_terms p = [] then [empty_term] else node_selector_terms p))" p]
  by (simp_all add: setRequiredArchNodeAffinity_def Let_def pod_ops preferred_terms_def)

lemma publishIgnorePod_frame [frame, simp]:
  "NodeSelector (publishIgnorePod p) = NodeSelector p" "Affinity (publishIgnorePod p) = Affinity p"
  "SchedulingGates (publishIgnorePod p) = SchedulingGates p"
  "Annotations (publishIgnorePod p) = Annotations p"
  "Labels (publishIgnorePod p) = put_map (Labels p) NodeAffinityLabel LabelValueNotSet"
  "pod_metrics (publishIgnorePod p) = pod_metrics p"
  by (simp_all add: publishIgnorePod_def pod_ops)

lemma ensureArchitectureLabels_frame [frame, simp]:
  "NodeSelector (ensureArchitectureLabels req p) = NodeSelector p"
  "Affinity (ensureArchitectureLabels req p) = Affinity p"
  "SchedulingGates (ensureArchitectureLabels req p) = SchedulingGates p"
  "Annotations (ensureArchitectureLabels req p) = Annotations p"
proof -
  let ?f = "\<lambda>q v. if v \<in> AllSupportedArchitecturesSet then EnsureLabel (ArchLabelValue v) [] q else q"
  have fold: "NodeSelector (foldl ?f q vs) = NodeSelector q \<and> Affinity (foldl ?f q vs) = Affinity q \<and>
      SchedulingGates (foldl ?f q vs) = SchedulingGates q \<and> Annotations (foldl ?f q vs) = Annotations q"
    for q :: "('p) CorePod_scheme" and vs
    by (induction vs arbitrary: q) (simp_all add: pod_ops)
  show "NodeSelector (ensureArchitectureLabels req p) = NodeSelector p"
    "Affinity (ensureArchitectureLabels req p) = Affinity p"
    "SchedulingGates (ensureArchitectureLabels req p) = SchedulingGates p"
    "Annotations (ensureArchitectureLabels req p) = Annotations p"
    by (simp_all add: ensureArchitectureLabels_def Let_def fold pod_ops split: option.splits)
qed

lemma isNodeSelectorConfigured_frame [frame, simp]:
  "NodeSelector (snd (isNodeSelectorConfiguredForArchitecture p)) = NodeSelector p"
  "Affinity (snd (isNodeSelectorConfiguredForArchitecture p)) = Affinity p"
  "SchedulingGates (snd (isNodeSelectorConfiguredForArchitecture p)) = SchedulingGates p"
  "Annotations (snd (isNodeSelectorConfiguredForArchitecture p)) = Annotations p"
  "pod_metrics (snd (isNodeSelectorConfiguredForArchitecture p)) = pod_metrics p"
  by (simp_all add: isNodeSelectorConfiguredForArchitecture_def split: option.splits)

lemma HasSchedulingGate_cong: "SchedulingGates p = SchedulingGates q \<Longrightarrow> HasSchedulingGate p = HasSchedulingGate q"
  by (simp add: HasSchedulingGate_def HasGate_def)

section \<open>Required affinity and the nodes it allows\<close>

lemma term_has_arch_mentions: "term_has_arch t = mentions_key ArchLabel t"
  by (simp add: term_has_arch_def mentions_key_def)

lemma elems_patch_term:
  "elems (MatchExpressions (patch_term req t)) =
     (if mentions_key (Key req) t then elems (MatchExpressions t) else elems (MatchExpressions t) @ [req])"
  "MatchFields (patch_term req t) = MatchFields t"
  by (cases "MatchExpressions t"; simp add: patch_term_def Let_def mentions_key_def)+

lemma patched_term_matches:
  assumes "\<not> mentions_key (Key req) t" "nonempty_term t"
  shows "term_matches n (patch_term req t) = (term_matches n t \<and> requirement_holds (node_labels n) req)"
  using assms by (auto simp: term_matches_def nonempty_term_def elems_patch_term)

lemma patched_empty_term_matches:
  "term_matches n (patch_term req empty_term) = requirement_holds (node_labels n) req"
  by (simp add: term_matches_def elems_patch_term mentions_key_def empty_term_def)

lemma user_term_untouched: "mentions_key (Key req) t \<Longrightarrow> term_matches n (patch_term req t) = term_matches n t"
  by (simp add: term_matches_def elems_patch_term)

lemma patch_term_idem: "patch_term req (patch_term req t) = patch_term req t"
  by (auto simp: patch_term_def Let_def)

lemma required_after_set:
  "required_terms (setRequiredArchNodeAffinity req (init_required p)) =
     Some (Some (map (patch_term req)
       (if node_selector_terms p = [] then [empty_term] else node_selector_terms p)))"
proof -
  let ?ts = "if node_selector_terms p = [] then [empty_term] else node_selector_terms p"
  have "required_terms (EnsureLabel l v (set_required_terms ts (init_required p))) = Some ts" for l v ts
    using required_terms_set_init[of ts p] by (simp add: required_terms_def pod_ops)
  then show ?thesis by (simp add: setRequiredArchNodeAffinity_def Let_def)
qed

lemma set_required_schedulable:
  assumes terms: "\<forall>t \<in> set (node_selector_terms p). nonempty_term t \<and> \<not> mentions_key (Key req) t"
    and some: "required_terms p = None \<or> node_selector_terms p \<noteq> []"
  shows "schedulable_on (setRequiredArchNodeAffinity req (init_required p)) n \<longleftrightarrow>
    schedulable_on p n \<and> requirement_holds (node_labels n) req"
proof -
  let ?q = "setRequiredArchNodeAffinity req (init_required p)"
  have sel: "selector_allows ?q n = selector_allows p n"
    by (simp add: selector_allows_def)
  have "affinity_allows ?q n = (affinity_allows p n \<and> requirement_holds (node_labels n) req)"
  proof (cases "required_terms p")
    case None
    then show ?thesis
      by (simp add: affinity_allows_def required_after_set node_selector_terms_def terms_match_def
          patched_empty_term_matches)
  next
    case (Some ts)
    then have ne: "elems ts \<noteq> []" using some by (simp add: node_selector_terms_def)
    have "terms_match n (map (patch_term req) (elems ts)) =
        (terms_match n (elems ts) \<and> requirement_holds (node_labels n) req)"
      using terms Some by (intro terms_match_map patched_term_matches) (auto simp: node_selector_terms_def)
    then show ?thesis using Some ne
      by (simp add: affinity_allows_def required_after_set node_selector_terms_def)
  qed
  then show ?thesis using sel by (auto simp: schedulable_on_def)
qed

section \<open>Intersection of the images' architectures\<close>

definition image_archs :: "inspector \<Rightarrow> string list \<Rightarrow> containerImage \<Rightarrow> string set result" where
  "image_archs inspect secrets img = inspect (imageName img) (skipCache img) secrets"

lemma intersect_loop_ok:
  assumes "\<forall>img \<in> set imgs. image_archs inspect secrets img = Inr (A img)"
  shows "intersect_loop inspect secrets imgs acc =
    Inr (if imgs = [] then acc
         else Some ((case acc of None \<Rightarrow> UNIV | Some s \<Rightarrow> s) \<inter> (\<Inter>img \<in> set imgs. A img)))"
  using assms
proof (induction imgs arbitrary: acc)
  case (Cons img imgs)
  then have "inspect (imageName img) (skipCache img) secrets = Inr (A img)"
    by (simp add: image_archs_def)
  then show ?case using Cons by (auto split: option.splits)
qed simp

lemma intersect_loop_error:
  "intersect_loop inspect secrets imgs acc = Inl e \<Longrightarrow>
     \<exists>img \<in> set imgs. image_archs inspect secrets img = Inl e"
  by (induction imgs arbitrary: acc) (auto simp: image_archs_def split: sum.splits)

lemma intersect_loop_success:
  "intersect_loop inspect secrets imgs acc = Inr s \<Longrightarrow>
     \<forall>img \<in> set imgs. \<exists>A. image_archs inspect secrets img = Inr A"
  by (induction imgs arbitrary: acc) (auto simp: image_archs_def split: sum.splits)

lemma imagesNamesSet_nonempty: "Containers p \<noteq> [] \<Longrightarrow> imagesNamesSet p \<noteq> []"
  by (simp add: imagesNamesSet_def)

lemma intersect_ok:
  assumes "\<forall>img \<in> set (imagesNamesSet p). image_archs inspect secrets img = Inr (A img) \<and> finite (A img)"
    and "Containers p \<noteq> []"
  shows "\<exists>archs. intersectImagesArchitecture inspect secrets p = Inr archs \<and>
    set archs = (\<Inter>img \<in> set (imagesNamesSet p). A img) \<and> sorted archs \<and> distinct archs"
proof -
  let ?I = "\<Inter>img \<in> set (imagesNamesSet p). A img"
  have ne: "imagesNamesSet p \<noteq> []" by (rule imagesNamesSet_nonempty[OF assms(2)])
  then obtain img where "img \<in> set (imagesNamesSet p)" by (cases "imagesNamesSet p") auto
  then have fin: "finite ?I" using assms(1) by (meson INF_lower finite_subset)
  have loop: "intersect_loop inspect secrets (imagesNamesSet p) None = Inr (Some ?I)"
    using intersect_loop_ok[of "imagesNamesSet p" inspect secrets A None] assms(1) ne by simp
  have "intersectImagesArchitecture inspect secrets p = Inr (sorted_list_of_set ?I)"
    unfolding intersectImagesArchitecture_def loop by (simp add: list_of_set_def)
  then show ?thesis using fin by simp
qed

text \<open>The verdict of \<open>isNodeSelectorConfiguredForArchitecture\<close> without its side effect.\<close>

definition arch_configured :: "('p) CorePod_scheme \<Rightarrow> bool" where
  "arch_configured p =
     (has_key (NodeSelector p) ArchLabel \<or>
      (case required_terms p of None \<Rightarrow> False | Some ts \<Rightarrow> list_all (mentions_key ArchLabel) (elems ts)))"

lemma isNodeSelectorConfigured_fst:
  "fst (isNodeSelectorConfiguredForArchitecture p) = arch_configured p"
  by (auto simp: isNodeSelectorConfiguredForArchitecture_def arch_configured_def term_has_arch_mentions
      list_all_iff split: option.splits)

lemma isNodeSelectorConfigured_False:
  "\<not> arch_configured p \<Longrightarrow> isNodeSelectorConfiguredForArchitecture p = (False, p)"
  by (auto simp: isNodeSelectorConfiguredForArchitecture_def arch_configured_def term_has_arch_mentions
      list_all_iff split: option.splits)

lemma required_terms_cong: "Affinity p = Affinity q \<Longrightarrow> required_terms p = required_terms q"
  by (simp add: required_terms_def)

lemma preferred_terms_cong: "Affinity p = Affinity q \<Longrightarrow> preferred_terms p = preferred_terms q"
  by (simp add: preferred_terms_def)

lemma node_selector_terms_cong: "Affinity p = Affinity q \<Longrightarrow> node_selector_terms p = node_selector_terms q"
  by (simp add: node_selector_terms_def required_terms_def)

text \<open>The shape of a successful run: the requirement is written into every term of the pod.\<close>

lemma SetNodeAffinity_success:
  assumes "\<not> arch_configured p" "getArchitecturePredicate inspect secrets p = Inr req"
  obtains p' msg where
    "SetNodeAffinityArchRequirement inspect secrets p =
       (Inr True, PublishEvent EventTypeNormal ArchitectureAwareNodeAffinitySet msg
          (setRequiredArchNodeAffinity req (init_required p')))"
    "NodeSelector p' = NodeSelector p" "Affinity p' = Affinity p" "SchedulingGates p' = SchedulingGates p"
    "Annotations p' = Annotations p"
proof -
  let ?p1 = "EnsureNoLabel ImageInspectionErrorLabel p"
  let ?p2 = "if elems (Values req) = []
             then PublishEvent EventTypeNormal NoSupportedArchitecturesFound
                    NoSupportedArchitecturesFoundMsg ?p1 else ?p1"
  let ?p3 = "ensureArchitectureLabels req ?p2"
  have "SetNodeAffinityArchRequirement inspect secrets p =
      (Inr True, PublishEvent EventTypeNormal ArchitectureAwareNodeAffinitySet
         (ArchitecturePredicateSetupMsg @ ''{'' @ join_with '', '' (elems (Values req)) @ ''}'')
         (setRequiredArchNodeAffinity req (init_required ?p3)))"
    using assms by (simp add: SetNodeAffinityArchRequirement_def isNodeSelectorConfigured_False Let_def)
  then show thesis
    by (rule that) (simp_all add: pod_ops)
qed

lemma SetNodeAffinity_schedulable:
  assumes "\<not> arch_configured p" "getArchitecturePredicate inspect secrets p = Inr req"
    and "\<forall>t \<in> set (node_selector_terms p). nonempty_term t \<and> \<not> mentions_key (Key req) t"
    and "required_terms p = None \<or> node_selector_terms p \<noteq> []"
  shows "fst (SetNodeAffinityArchRequirement inspect secrets p) = Inr True"
    and "schedulable_on (snd (SetNodeAffinityArchRequirement inspect secrets p)) n \<longleftrightarrow>
      schedulable_on p n \<and> requirement_holds (node_labels n) req"
proof -
  obtain p' msg where
    res: "SetNodeAffinityArchRequirement inspect secrets p =
       (Inr True, PublishEvent EventTypeNormal ArchitectureAwareNodeAffinitySet msg
          (setRequiredArchNodeAffinity req (init_required p')))"
    and sel: "NodeSelector p' = NodeSelector p" and aff: "Affinity p' = Affinity p"
    by (rule SetNodeAffinity_success[OF assms(1,2)])
  show "fst (SetNodeAffinityArchRequirement inspect secrets p) = Inr True" by (simp add: res)
  have "schedulable_on (snd (SetNodeAffinityArchRequirement inspect secrets p)) n =
      schedulable_on (setRequiredArchNodeAffinity req (init_required p')) n"
    by (rule schedulable_cong) (simp_all add: res pod_ops)
  also have "\<dots> = (schedulable_on p' n \<and> requirement_holds (node_labels n) req)"
    using assms(3,4) required_terms_cong[OF aff] node_selector_terms_cong[OF aff]
    by (intro set_required_schedulable) simp_all
  also have "schedulable_on p' n = schedulable_on p n"
    by (rule schedulable_cong[OF sel aff])
  finally show "schedulable_on (snd (SetNodeAffinityArchRequirement inspect secrets p)) n \<longleftrightarrow>
      schedulable_on p n \<and> requirement_holds (node_labels n) req" .
qed

section \<open>Preferred affinity\<close>

text \<open>The platforms of a configuration whose architecture is not yet preferred, first entries only.\<close>

fun new_platforms :: "string set \<Rightarrow> PlatformTerm list \<Rightarrow> PlatformTerm list" where
  "new_platforms seen [] = []"
| "new_platforms seen (t # ts) =
     (if Architecture t \<notin> seen then t # new_platforms (insert (Architecture t) seen) ts
      else new_platforms seen ts)"

lemma new_platforms_archs:
  "Architecture ` set (new_platforms seen ts) = Architecture ` set ts - seen"
  by (induction seen ts rule: new_platforms.induct) auto

lemma new_platforms_subset: "set (new_platforms seen ts) \<subseteq> set ts"
  by (induction seen ts rule: new_platforms.induct) auto

lemma new_platforms_distinct:
  "distinct (map Architecture (new_platforms seen ts))"
  by (induction seen ts rule: new_platforms.induct) (auto simp: new_platforms_archs)

lemma new_platforms_none: "Architecture ` set ts \<subseteq> seen \<Longrightarrow> new_platforms seen ts = []"
  by (induction seen ts rule: new_platforms.induct) auto

lemma trackAffinitySource_frame [frame, simp]:
  "Affinity (trackAffinitySource a w s ap p) = Affinity p"
  "NodeSelector (trackAffinitySource a w s ap p) = NodeSelector p"
  "SchedulingGates (trackAffinitySource a w s ap p) = SchedulingGates p"
  "Labels (trackAffinitySource a w s ap p) = Labels p"
  by (simp_all add: trackAffinitySource_def Let_def pod_ops)

lemma preferred_loop_result:
  assumes "preferred_loop src ts seen added skipped p = (added', skipped', p')"
  shows "added' = added @ map preferred_term_for (new_platforms seen ts)"
    and "Affinity p' = Affinity p" and "NodeSelector p' = NodeSelector p"
    and "SchedulingGates p' = SchedulingGates p" and "Labels p' = Labels p"
  using assms
  by (induction src ts seen added skipped p rule: preferred_loop.induct) (auto split: if_splits)

lemma term_archs_for [simp]: "term_archs (preferred_term_for t) = [Architecture t]"
  by (simp add: term_archs_def preferred_term_for_def)

lemma init_preferred_terms [simp]:
  "preferred_terms (init_preferred p) = Some (elems (preferred_terms p))"
  "required_terms (init_preferred p) = required_terms p"
  by (auto simp: init_preferred_def update_node_affinity_def init_node_affinity_def init_affinity_def
      preferred_terms_def required_terms_def empty_affinity_def empty_node_affinity_def
      split: option.splits)

lemma init_preferred_affinity:
  "\<exists>a na. Affinity (init_preferred p) = Some a \<and> NodeAffinity a = Some na"
  by (auto simp: init_preferred_def update_node_affinity_def init_node_affinity_def init_affinity_def
      empty_affinity_def empty_node_affinity_def split: option.splits)

lemma init_preferred_frame [frame, simp]:
  "NodeSelector (init_preferred p) = NodeSelector p" "Labels (init_preferred p) = Labels p"
  "SchedulingGates (init_preferred p) = SchedulingGates p"
  "Annotations (init_preferred p) = Annotations p"
  by (simp_all add: init_preferred_def update_node_affinity_def init_node_affinity_def init_affinity_def
      split: option.splits)

lemma existing_init [simp]:
  "getExistingPreferredArchitectures (init_preferred p) = getExistingPreferredArchitectures p"
  by (simp add: getExistingPreferredArchitectures_def)

lemma SetPreferred_affinity:
  defines "new \<equiv> \<lambda>nas p. new_platforms (getExistingPreferredArchitectures p) (Platforms nas)"
  shows "Affinity (SetPreferredArchNodeAffinity nas src p) =
    (if new nas p = [] then Affinity (init_preferred p)
     else Affinity (update_node_affinity
       (\<lambda>na. na\<lparr>Preferred := append_slice (Preferred na) (map preferred_term_for (new nas p))\<rparr>) (init_preferred p)))"
proof -
  obtain added skipped p1 where loop:
    "preferred_loop src (Platforms nas) (getExistingPreferredArchitectures (init_preferred p)) [] []
       (init_preferred p) = (added, skipped, p1)"
    by (metis prod_cases3)
  have "added = map preferred_term_for (new nas p)" and "Affinity p1 = Affinity (init_preferred p)"
    using preferred_loop_result[OF loop] by (simp_all add: new_def)
  then show ?thesis
    by (simp add: SetPreferredArchNodeAffinity_def loop[unfolded existing_init] Let_def pod_ops
        update_node_affinity_def)
qed

lemma SetPreferred_terms:
  "elems (preferred_terms (SetPreferredArchNodeAffinity nas src p)) =
     elems (preferred_terms p) @
     map preferred_term_for (new_platforms (getExistingPreferredArchitectures p) (Platforms nas))"
  "required_terms (SetPreferredArchNodeAffinity nas src p) = required_terms p"
proof -
  obtain a na where a: "Affinity (init_preferred p) = Some a" "NodeAffinity a = Some na"
    using init_preferred_affinity by blast
  have pt: "Preferred na = Some (elems (preferred_terms p))" and rt: "Required na = required_terms p"
    using init_preferred_terms[of p] a by (simp_all add: preferred_terms_def required_terms_def)
  show "elems (preferred_terms (SetPreferredArchNodeAffinity nas src p)) =
     elems (preferred_terms p) @
     map preferred_term_for (new_platforms (getExistingPreferredArchitectures p) (Platforms nas))"
    using SetPreferred_affinity[of nas src p] a pt
    by (simp add: preferred_terms_def[of "SetPreferredArchNodeAffinity nas src p"]
        update_node_affinity_def append_slice_def split: if_splits)
  show "required_terms (SetPreferredArchNodeAffinity nas src p) = required_terms p"
    using SetPreferred_affinity[of nas src p] a rt
    by (simp add: required_terms_def[of "SetPreferredArchNodeAffinity nas src p"]
        update_node_affinity_def split: if_splits)
qed

lemma SetPreferred_frame [frame, simp]:
  "NodeSelector (SetPreferredArchNodeAffinity nas src p) = NodeSelector p"
  "SchedulingGates (SetPreferredArchNodeAffinity nas src p) = SchedulingGates p"
proof -
  obtain added skipped p1 where loop:
    "preferred_loop src (Platforms nas) (getExistingPreferredArchitectures (init_preferred p)) [] []
       (init_preferred p) = (added, skipped, p1)"
    by (metis prod_cases3)
  show "NodeSelector (SetPreferredArchNodeAffinity nas src p) = NodeSelector p"
    "SchedulingGates (SetPreferredArchNodeAffinity nas src p) = SchedulingGates p"
    using preferred_loop_result[OF loop]
    by (simp_all add: SetPreferredArchNodeAffinity_def loop[unfolded existing_init] Let_def pod_ops
        update_node_affinity_def)
qed

lemma SetPreferred_archs:
  "getExistingPreferredArchitectures (SetPreferredArchNodeAffinity nas src p) =
     getExistingPreferredArchitectures p \<union> Architecture ` set (Platforms nas)"
  using new_platforms_archs[of "getExistingPreferredArchitectures p" "Platforms nas"]
  by (auto simp: getExistingPreferredArchitectures_def[of "SetPreferredArchNodeAffinity nas src p"]
      SetPreferred_terms getExistingPreferredArchitectures_def[of p])

section \<open>Ignored pods\<close>

lemma shouldIgnorePod_fst:
  "fst (shouldIgnorePod ns cppc ppcs p) \<longleftrightarrow>
     ns = Namespace p \<or> has_prefix (Namespace p) ''kube-'' \<or> NodeName p \<noteq> [] \<or>
     HasControlPlaneNodeSelector p \<or> IsFromDaemonSet p \<or>
     (arch_configured p \<and>
      (isPreferredAffinityConfiguredForArchitecture p \<or>
       \<not> ((\<exists>c. cppc = Some c \<and> cppc_PluginsEnabled c NodeAffinityScoringPluginName) \<or>
          hasMatchingPPCWithPlugin ppcs)))"
proof -
  obtain b p1 where conf: "isNodeSelectorConfiguredForArchitecture p = (b, p1)"
    by (cases "isNodeSelectorConfiguredForArchitecture p")
  then have "b = arch_configured p" using isNodeSelectorConfigured_fst[of p] by simp
  moreover have "isPreferredAffinityConfiguredForArchitecture p1 = isPreferredAffinityConfiguredForArchitecture p"
    using isNodeSelectorConfigured_frame(2)[of p] conf
    by (simp add: isPreferredAffinityConfiguredForArchitecture_def preferred_terms_def)
  ultimately show ?thesis
    by (auto simp: shouldIgnorePod_def conf Let_def split: option.splits)
qed

lemma shouldIgnorePod_frame [frame, simp]:
  "NodeSelector (snd (shouldIgnorePod ns cppc ppcs p)) = NodeSelector p"
  "Affinity (snd (shouldIgnorePod ns cppc ppcs p)) = Affinity p"
  "SchedulingGates (snd (shouldIgnorePod ns cppc ppcs p)) = SchedulingGates p"
  "Annotations (snd (shouldIgnorePod ns cppc ppcs p)) = Annotations p"
  "pod_metrics (snd (shouldIgnorePod ns cppc ppcs p)) = pod_metrics p"
proof -
  have "snd (shouldIgnorePod ns cppc ppcs p) = p \<or>
      snd (shouldIgnorePod ns cppc ppcs p) = snd (isNodeSelectorConfiguredForArchitecture p)"
    by (simp add: shouldIgnorePod_def Let_def split: prod.splits)
  then show "NodeSelector (snd (shouldIgnorePod ns cppc ppcs p)) = NodeSelector p"
    "Affinity (snd (shouldIgnorePod ns cppc ppcs p)) = Affinity p"
    "SchedulingGates (snd (shouldIgnorePod ns cppc ppcs p)) = SchedulingGates p"
    "Annotations (snd (shouldIgnorePod ns cppc ppcs p)) = Annotations p"
    "pod_metrics (snd (shouldIgnorePod ns cppc ppcs p)) = pod_metrics p"
    by (metis isNodeSelectorConfigured_frame)+
qed

end
