(* ===== verification/Lru.thy ===== *)
theory Lru
  imports Prelude
begin

text \<open>
  The two caches the operator embeds, both from \<^verbatim>\<open>hashicorp/golang-lru\<close>: \<^verbatim>\<open>simplelru.LRU\<close> for
  compiled CEL programs and \<^verbatim>\<open>expirable.LRU\<close> for inspection results. A cache is its capacity and
  its entries from the most to the least recently used. The locale \<open>kv_cache\<close> is the contract the
  clients rely on (a cache may forget but never invents); \<open>memo_correct\<close> shows once that caching a
  computation under this contract does not change its result, and both caches are interpreted.
\<close>

section \<open>The least-recently-used cache\<close>

record ('k, 'v) lru =
  lru_size :: nat
  lru_items :: "('k \<times> 'v) list"

definition lru_lookup :: "('k, 'v) lru \<Rightarrow> 'k \<rightharpoonup> 'v" where
  "lru_lookup c = map_of (lru_items c)"

definition move_to_front :: "'k \<Rightarrow> 'v \<Rightarrow> ('k, 'v) lru \<Rightarrow> ('k, 'v) lru" where
  "move_to_front k v c = c\<lparr>lru_items := (k, v) # filter (\<lambda>e. fst e \<noteq> k) (lru_items c)\<rparr>"

definition lru_Get :: "'k \<Rightarrow> ('k, 'v) lru \<Rightarrow> 'v option \<times> ('k, 'v) lru" where
  "lru_Get k c =
     (case map_of (lru_items c) k of
        None \<Rightarrow> (None, c)
      | Some v \<Rightarrow> (Some v, move_to_front k v c))"

definition lru_Add :: "'k \<Rightarrow> 'v \<Rightarrow> ('k, 'v) lru \<Rightarrow> ('k, 'v) lru" where
  "lru_Add k v c =
     (if map_of (lru_items c) k \<noteq> None then move_to_front k v c
      else let items = (k, v) # lru_items c
           in c\<lparr>lru_items := (if lru_size c < length items then butlast items else items)\<rparr>)"

definition lru_Purge :: "('k, 'v) lru \<Rightarrow> ('k, 'v) lru" where
  "lru_Purge c = c\<lparr>lru_items := []\<rparr>"

definition lru_inv :: "('k, 'v) lru \<Rightarrow> bool" where
  "lru_inv c = (0 < lru_size c \<and> distinct (map fst (lru_items c)) \<and> length (lru_items c) \<le> lru_size c)"

section \<open>Entries that expire\<close>

text \<open>
  An entry carries its expiry time; a read at a later time does not see it. The library's
  background sweep only removes expired entries.
\<close>

definition exp_lookup :: "nat \<Rightarrow> ('k, 'v \<times> nat) lru \<Rightarrow> 'k \<rightharpoonup> 'v" where
  "exp_lookup now c k =
     (case map_of (lru_items c) k of
        None \<Rightarrow> None
      | Some (v, expiresAt) \<Rightarrow> if expiresAt < now then None else Some v)"

definition exp_Get :: "nat \<Rightarrow> 'k \<Rightarrow> ('k, 'v \<times> nat) lru \<Rightarrow> 'v option \<times> ('k, 'v \<times> nat) lru" where
  "exp_Get now k c =
     (case map_of (lru_items c) k of
        None \<Rightarrow> (None, c)
      | Some (v, expiresAt) \<Rightarrow>
          if expiresAt < now then (None, c) else (Some v, move_to_front k (v, expiresAt) c))"

definition exp_Add :: "nat \<Rightarrow> nat \<Rightarrow> 'k \<Rightarrow> 'v \<Rightarrow> ('k, 'v \<times> nat) lru \<Rightarrow> ('k, 'v \<times> nat) lru" where
  "exp_Add ttl now k v c = lru_Add k (v, now + ttl) c"

definition exp_sweep :: "nat \<Rightarrow> ('k, 'v \<times> nat) lru \<Rightarrow> ('k, 'v \<times> nat) lru" where
  "exp_sweep now c = c\<lparr>lru_items := filter (\<lambda>e. now \<le> snd (snd e)) (lru_items c)\<rparr>"

section \<open>The contract\<close>

text \<open>A cached computation agrees with the function it caches.\<close>

definition agrees :: "('k \<rightharpoonup> 'v) \<Rightarrow> ('k \<Rightarrow> 'e + 'v) \<Rightarrow> bool" where
  "agrees look f = (\<forall>k v. look k = Some v \<longrightarrow> f k = Inr v)"

text \<open>Look up, else compute and store a success.\<close>

definition memo :: "('k \<Rightarrow> 'c \<Rightarrow> 'v option \<times> 'c) \<Rightarrow> ('k \<Rightarrow> 'v \<Rightarrow> 'c \<Rightarrow> 'c) \<Rightarrow> ('k \<Rightarrow> 'e + 'v) \<Rightarrow>
    'k \<Rightarrow> 'c \<Rightarrow> ('e + 'v) \<times> 'c" where
  "memo get add f k c =
     (case get k c of
        (Some v, c') \<Rightarrow> (Inr v, c')
      | (None, c') \<Rightarrow> (case f k of Inl e \<Rightarrow> (Inl e, c') | Inr v \<Rightarrow> (Inr v, add k v c')))"

locale kv_cache =
  fixes look :: "'c \<Rightarrow> 'k \<rightharpoonup> 'v"
    and get :: "'k \<Rightarrow> 'c \<Rightarrow> 'v option \<times> 'c"
    and add :: "'k \<Rightarrow> 'v \<Rightarrow> 'c \<Rightarrow> 'c"
    and inv :: "'c \<Rightarrow> bool"
  assumes get_value: "inv c \<Longrightarrow> fst (get k c) = look c k"
    and get_look: "inv c \<Longrightarrow> look (snd (get k c)) = look c"
    and get_inv: "inv c \<Longrightarrow> inv (snd (get k c))"
    and add_same: "inv c \<Longrightarrow> look (add k v c) k = Some v"
    and add_other: "inv c \<Longrightarrow> k' \<noteq> k \<Longrightarrow> look (add k v c) k' = Some w \<Longrightarrow> look c k' = Some w"
    and add_inv: "inv c \<Longrightarrow> inv (add k v c)"
begin

lemma add_agrees:
  assumes "inv c" "agrees (look c) f" "f k = Inr v"
  shows "agrees (look (add k v c)) f"
  unfolding agrees_def
proof (intro allI impI)
  fix k' w assume w: "look (add k v c) k' = Some w"
  show "f k' = Inr w"
  proof (cases "k' = k")
    case True
    then show ?thesis using w add_same[OF assms(1)] assms(3) by simp
  next
    case False
    then show ?thesis using add_other[OF assms(1) False w] assms(2) by (simp add: agrees_def)
  qed
qed

lemma memo_correct:
  assumes "inv c" "agrees (look c) f"
  shows "fst (memo get add f k c) = f k"
    and "inv (snd (memo get add f k c))"
    and "agrees (look (snd (memo get add f k c))) f"
proof -
  obtain r c' where g: "get k c = (r, c')" by (cases "get k c")
  have r: "r = look c k" and l: "look c' = look c" and i: "inv c'"
    using get_value[OF assms(1), of k] get_look[OF assms(1), of k] get_inv[OF assms(1), of k] g by auto
  have agrees': "agrees (look c') f" using assms(2) l by simp
  show "fst (memo get add f k c) = f k"
    using g r assms(2) by (auto simp: memo_def agrees_def split: option.splits sum.splits)
  show "inv (snd (memo get add f k c))"
    using g i add_inv[OF i] by (auto simp: memo_def split: option.splits sum.splits)
  show "agrees (look (snd (memo get add f k c))) f"
    using g agrees' add_agrees[OF i agrees'] by (auto simp: memo_def split: option.splits sum.splits)
qed

lemma memo_stores:
  assumes "inv c" "agrees (look c) f" "f k = Inr v"
  shows "look (snd (memo get add f k c)) k = Some v"
proof -
  obtain r c' where g: "get k c = (r, c')" by (cases "get k c")
  have r: "r = look c k" and l: "look c' = look c" and i: "inv c'"
    using get_value[OF assms(1), of k] get_look[OF assms(1), of k] get_inv[OF assms(1), of k] g by auto
  show ?thesis
    using g r l assms(2,3) add_same[OF i]
    by (auto simp: memo_def agrees_def split: option.splits)
qed

end

section \<open>Both caches meet the contract\<close>

lemma map_of_butlast:
  "map_of (butlast xs) k = Some v \<Longrightarrow> distinct (map fst xs) \<Longrightarrow> map_of xs k = Some v"
proof -
  assume b: "map_of (butlast xs) k = Some v" and d: "distinct (map fst xs)"
  then have "(k, v) \<in> set xs" by (meson in_set_butlastD map_of_SomeD)
  then show ?thesis using d by simp
qed

lemma map_of_filter_key: "map_of (filter (\<lambda>e. fst e \<noteq> k) xs) k' = (if k' = k then None else map_of xs k')"
  by (induction xs) auto

lemma lookup_move_to_front:
  "map_of (lru_items (move_to_front k v c)) = (map_of (lru_items c))(k \<mapsto> v)"
  by (rule ext) (simp add: move_to_front_def map_of_filter_key)

lemma length_filter_key:
  "map_of xs k = Some v \<Longrightarrow> Suc (length (filter (\<lambda>e. fst e \<noteq> k) xs)) \<le> length xs"
  by (auto dest!: map_of_SomeD intro!: Suc_leI length_filter_less)

lemma move_to_front_inv:
  assumes "lru_inv c" "map_of (lru_items c) k \<noteq> None"
  shows "lru_inv (move_to_front k v c)"
proof -
  have "Suc (length (filter (\<lambda>e. fst e \<noteq> k) (lru_items c))) \<le> lru_size c"
    using assms length_filter_key[of "lru_items c" k] by (fastforce simp: lru_inv_def)
  then show ?thesis
    using assms(1) by (auto simp: lru_inv_def move_to_front_def distinct_map_filter)
qed

lemma lru_Get_inv: "lru_inv c \<Longrightarrow> lru_inv (snd (lru_Get k c))"
  using move_to_front_inv[of c k] by (auto simp: lru_Get_def split: option.splits)

lemma lru_Add_inv: "lru_inv c \<Longrightarrow> lru_inv (lru_Add k v c)"
proof -
  assume inv: "lru_inv c"
  show ?thesis
  proof (cases "map_of (lru_items c) k")
    case (Some w)
    then show ?thesis using move_to_front_inv[OF inv] by (simp add: lru_Add_def)
  next
    case None
    then have "distinct (map fst ((k, v) # lru_items c))"
      using inv by (simp add: lru_inv_def map_of_eq_None_iff)
    then have "distinct (map fst (butlast ((k, v) # lru_items c)))"
      by (metis distinct_butlast map_butlast)
    then show ?thesis using inv None
      by (auto simp: lru_Add_def Let_def lru_inv_def map_of_eq_None_iff)
  qed
qed

lemma lru_Add_same: "lru_inv c \<Longrightarrow> map_of (lru_items (lru_Add k v c)) k = Some v"
proof -
  assume inv: "lru_inv c"
  show ?thesis
  proof (cases "map_of (lru_items c) k")
    case (Some w)
    then show ?thesis by (simp add: lru_Add_def lookup_move_to_front)
  next
    case None
    then show ?thesis using inv
      by (cases "lru_items c") (auto simp: lru_Add_def Let_def lru_inv_def)
  qed
qed

lemma lru_Add_other:
  assumes "lru_inv c" "k' \<noteq> k" "map_of (lru_items (lru_Add k v c)) k' = Some w"
  shows "map_of (lru_items c) k' = Some w"
proof (cases "map_of (lru_items c) k")
  case (Some u)
  then show ?thesis using assms by (simp add: lru_Add_def lookup_move_to_front)
next
  case None
  let ?items = "(k, v) # lru_items c"
  have d: "distinct (map fst ?items)"
    using assms(1) None by (simp add: lru_inv_def map_of_eq_None_iff)
  have "map_of (butlast ?items) k' = Some w \<or> map_of ?items k' = Some w"
    using assms(3) None by (auto simp: lru_Add_def Let_def split: if_splits)
  then have "map_of ?items k' = Some w" using map_of_butlast[OF _ d] by blast
  then show ?thesis using assms(2) by simp
qed

lemma map_of_present:
  "map_of xs k = Some v \<Longrightarrow> (map_of xs)(k \<mapsto> v) = map_of xs"
  by (rule ext) simp

interpretation lru: kv_cache lru_lookup lru_Get lru_Add lru_inv
proof
  fix c :: "('k, 'v) lru" and k v k' w
  assume inv: "lru_inv c"
  show "fst (lru_Get k c) = lru_lookup c k"
    by (simp add: lru_Get_def lru_lookup_def split: option.splits)
  show "lru_lookup (snd (lru_Get k c)) = lru_lookup c"
    by (auto simp: lru_Get_def lru_lookup_def lookup_move_to_front map_of_present split: option.splits)
  show "lru_inv (snd (lru_Get k c))" by (rule lru_Get_inv[OF inv])
  show "lru_lookup (lru_Add k v c) k = Some v"
    by (simp add: lru_lookup_def lru_Add_same[OF inv])
  show "lru_inv (lru_Add k v c)" by (rule lru_Add_inv[OF inv])
  assume "k' \<noteq> k" "lru_lookup (lru_Add k v c) k' = Some w"
  then show "lru_lookup c k' = Some w"
    using lru_Add_other[OF inv] by (simp add: lru_lookup_def)
qed

interpretation expirable: kv_cache "exp_lookup now" "exp_Get now" "exp_Add ttl now" lru_inv for ttl now
proof
  fix c :: "('k, 'v \<times> nat) lru" and k v k' w
  assume inv: "lru_inv c"
  show "fst (exp_Get now k c) = exp_lookup now c k"
    by (simp add: exp_Get_def exp_lookup_def split: option.splits)
  show "exp_lookup now (snd (exp_Get now k c)) = exp_lookup now c"
    by (auto simp: exp_Get_def exp_lookup_def lookup_move_to_front fun_eq_iff split: option.splits)
  show "lru_inv (snd (exp_Get now k c))"
    using move_to_front_inv[OF inv, of k] inv by (auto simp: exp_Get_def split: option.splits)
  show "exp_lookup now (exp_Add ttl now k v c) k = Some v"
    by (simp add: exp_lookup_def exp_Add_def lru_Add_same[OF inv])
  show "lru_inv (exp_Add ttl now k v c)" by (simp add: exp_Add_def lru_Add_inv[OF inv])
  assume "k' \<noteq> k" "exp_lookup now (exp_Add ttl now k v c) k' = Some w"
  then show "exp_lookup now c k' = Some w"
    using lru_Add_other[OF inv, of k' k "(v, now + ttl)"]
    by (fastforce simp: exp_lookup_def exp_Add_def split: option.splits if_splits)
qed

lemma exp_sweep_entry:
  assumes "lru_inv c"
  shows "map_of (lru_items (exp_sweep now c)) k = Some e \<longleftrightarrow> map_of (lru_items c) k = Some e \<and> now \<le> snd e"
proof -
  have d: "distinct (map fst (lru_items c))" using assms by (simp add: lru_inv_def)
  then have "distinct (map fst (lru_items (exp_sweep now c)))"
    by (simp add: exp_sweep_def distinct_map_filter)
  then show ?thesis using d by (auto simp: map_of_eq_Some_iff exp_sweep_def)
qed

lemma exp_sweep_lookup:
  assumes "lru_inv c"
  shows "exp_lookup now (exp_sweep now c) = exp_lookup now c"
proof (rule ext)
  fix k
  note entry = exp_sweep_entry[OF assms, of now k]
  show "exp_lookup now (exp_sweep now c) k = exp_lookup now c k"
  proof (cases "map_of (lru_items (exp_sweep now c)) k")
    case None
    have "snd e < now" if "map_of (lru_items c) k = Some e" for e
      using entry[of e] None that by simp
    then show ?thesis using None by (fastforce simp: exp_lookup_def split: option.splits)
  next
    case (Some e)
    then have "map_of (lru_items c) k = Some e" using entry[of e] by simp
    then show ?thesis using Some by (simp add: exp_lookup_def)
  qed
qed

lemma lru_Purge_empty [simp]: "lru_lookup (lru_Purge c) k = None" "exp_lookup now (lru_Purge c') k = None"
  by (simp_all add: lru_Purge_def lru_lookup_def exp_lookup_def)

lemma lru_Purge_inv: "lru_inv c \<Longrightarrow> lru_inv (lru_Purge c)"
  by (simp add: lru_Purge_def lru_inv_def)

end
