(* ===== verification/Cel.thy ===== *)
theory Cel
  imports Config_Types Lru
begin

text \<open>
  \<^verbatim>\<open>internal/controller/podplacement/cel_evaluator.go\<close>: compilation of CEL expressions through the
  LRU cache, evaluation against the metadata of a pod, first-match rule evaluation and the
  decision of the \<^verbatim>\<open>celArchitecturePlacement\<close> plugin. The library \<^verbatim>\<open>cel-go\<close> is a parameter
  (\<open>cel_lib\<close>); programs are opaque identifiers. The package-level evaluator and its
  \<^verbatim>\<open>sync.Once\<close> are the state \<open>cel_state\<close>, threaded through every call.
\<close>

section \<open>Parameters and state\<close>

type_synonym cel_program = string

datatype cel_value = BoolVal bool | OtherVal string

record pod_map =
  pm_name :: string
  pm_generateName :: string
  pm_namespace :: string
  pm_labels :: "string \<rightharpoonup> string"
  pm_annotations :: "string \<rightharpoonup> string"

record cel_lib =
  NewEnv_error :: "go_error option"
  env_Compile :: "string \<Rightarrow> cel_ast result"
  env_Program :: "cel_ast \<Rightarrow> cel_program result"
  prog_Eval :: "cel_program \<Rightarrow> pod_map \<Rightarrow> cel_value result"

type_synonym cel_cache = "(string, cel_program) lru"

datatype cel_state = Uninitialised | InitFailed go_error | Ready cel_cache

record rulesEvalResult =
  rr_architectures :: "string slice"
  rr_ruleName :: string
  rr_matched :: bool
  rr_allErrored :: bool

record evaluateResult =
  er_architectures :: "string slice"
  er_ruleName :: string
  er_matched :: bool
  er_allRulesErrored :: bool

definition celExpressionCacheSize :: nat where
  "celExpressionCacheSize = 1024"

section \<open>Operations\<close>

definition newCELEvaluator :: "cel_lib \<Rightarrow> cel_cache result" where
  "newCELEvaluator lib =
     (case NewEnv_error lib of
        Some e \<Rightarrow> Inl (GoError (''failed to create CEL environment: '' @ error_msg e))
      | None \<Rightarrow>
          if celExpressionCacheSize = 0
          then Inl (GoError (''failed to create CEL expression LRU cache: must provide a positive size''))
          else Inr \<lparr>lru_size = celExpressionCacheSize, lru_items = []\<rparr>)"

definition getOrCreateEvaluator :: "cel_lib \<Rightarrow> cel_state \<Rightarrow> cel_state" where
  "getOrCreateEvaluator lib st =
     (case st of
        Uninitialised \<Rightarrow>
          (case newCELEvaluator lib of Inl e \<Rightarrow> InitFailed e | Inr c \<Rightarrow> Ready c)
      | _ \<Rightarrow> st)"

text \<open>What a cache miss does: compile, check the output type, build the program.\<close>

definition compile_miss :: "cel_lib \<Rightarrow> string \<Rightarrow> cel_program result" where
  "compile_miss lib expression =
     (case env_Compile lib expression of
        Inl e \<Rightarrow> Inl (GoError (''CEL compilation error: '' @ error_msg e))
      | Inr ast \<Rightarrow>
          if OutputType ast \<noteq> BoolType
          then Inl (GoError (''CEL expression must return a boolean, got '' @ cel_type_name (OutputType ast)))
          else (case env_Program lib ast of
                  Inl e \<Rightarrow> Inl (GoError (''failed to create CEL program: '' @ error_msg e))
                | Inr prog \<Rightarrow> Inr prog))"

definition compile :: "cel_lib \<Rightarrow> string \<Rightarrow> cel_cache \<Rightarrow> cel_program result \<times> cel_cache" where
  "compile lib expression cache =
     (case lru_Get expression cache of
        (Some prog, cache1) \<Rightarrow> (Inr prog, cache1)
      | (None, cache1) \<Rightarrow>
          (case compile_miss lib expression of
             Inl e \<Rightarrow> (Inl e, cache1)
           | Inr prog \<Rightarrow> (Inr prog, lru_Add expression prog cache1)))"

definition map_entries :: "(string, string) gomap \<Rightarrow> string \<rightharpoonup> string" where
  "map_entries m = lookup_map m"

definition podToMap :: "('p) CorePod_scheme option \<Rightarrow> pod_map" where
  "podToMap pod =
     (case pod of
        None \<Rightarrow> \<lparr>pm_name = [], pm_generateName = [], pm_namespace = [],
                 pm_labels = Map.empty, pm_annotations = Map.empty\<rparr>
      | Some p \<Rightarrow> \<lparr>pm_name = Name p, pm_generateName = GenerateName p, pm_namespace = Namespace p,
                 pm_labels = map_entries (Labels p), pm_annotations = map_entries (Annotations p)\<rparr>)"

definition eval_program :: "cel_lib \<Rightarrow> cel_program \<Rightarrow> pod_map \<Rightarrow> bool result" where
  "eval_program lib prog podMap =
     (case prog_Eval lib prog podMap of
        Inl e \<Rightarrow>
          if contains_str (error_msg e) ''no such key'' then Inr False
          else Inl (GoError (''CEL evaluation error: '' @ error_msg e))
      | Inr (BoolVal b) \<Rightarrow> Inr b
      | Inr (OtherVal t) \<Rightarrow> Inl (GoError (''CEL expression did not return a boolean: got '' @ t)))"

definition evaluateWithMap ::
  "cel_lib \<Rightarrow> string \<Rightarrow> pod_map \<Rightarrow> cel_cache \<Rightarrow> bool result \<times> cel_cache" where
  "evaluateWithMap lib expression podMap cache =
     (case compile lib expression cache of
        (Inl e, cache1) \<Rightarrow> (Inl e, cache1)
      | (Inr prog, cache1) \<Rightarrow> (eval_program lib prog podMap, cache1))"

definition evaluate ::
  "cel_lib \<Rightarrow> string \<Rightarrow> ('p) CorePod_scheme option \<Rightarrow> cel_cache \<Rightarrow> bool result \<times> cel_cache" where
  "evaluate lib expression pod cache = evaluateWithMap lib expression (podToMap pod) cache"

text \<open>The loop of \<^verbatim>\<open>evaluateRules\<close> with its flag \<^verbatim>\<open>atLeastOneEvaluated\<close>; \<open>Inl\<close> is falling out of it.\<close>

fun evaluateRules_loop ::
  "cel_lib \<Rightarrow> pod_map \<Rightarrow> bool \<Rightarrow> ArchitectureRule list \<Rightarrow> cel_cache \<Rightarrow>
     (bool + ArchitectureRule) \<times> cel_cache" where
  "evaluateRules_loop lib podMap evaluated [] cache = (Inl evaluated, cache)"
| "evaluateRules_loop lib podMap evaluated (rule # rules) cache =
     (case evaluateWithMap lib (Expression rule) podMap cache of
        (Inl e, cache1) \<Rightarrow> evaluateRules_loop lib podMap evaluated rules cache1
      | (Inr b, cache1) \<Rightarrow>
          if b then (Inr rule, cache1) else evaluateRules_loop lib podMap True rules cache1)"

definition evaluateRules ::
  "cel_lib \<Rightarrow> ArchitectureRule list \<Rightarrow> ('p) CorePod_scheme option \<Rightarrow> cel_cache \<Rightarrow>
     rulesEvalResult \<times> cel_cache" where
  "evaluateRules lib rules pod cache =
     (case evaluateRules_loop lib (podToMap pod) False rules cache of
        (Inr rule, cache1) \<Rightarrow>
          (\<lparr>rr_architectures = Architectures rule, rr_ruleName = rule_Name rule,
            rr_matched = True, rr_allErrored = False\<rparr>, cache1)
      | (Inl evaluated, cache1) \<Rightarrow>
          (\<lparr>rr_architectures = None, rr_ruleName = [], rr_matched = False,
            rr_allErrored = (0 < length rules \<and> \<not> evaluated)\<rparr>, cache1))"

definition evaluateCELArchitecturePlacement ::
  "cel_lib \<Rightarrow> ArchitectureRule slice \<Rightarrow> string slice \<Rightarrow> ('p) CorePod_scheme \<Rightarrow> cel_state \<Rightarrow>
     evaluateResult result \<times> cel_state" where
  "evaluateCELArchitecturePlacement lib rules fallbackArchitectures pod st =
     (if rules = None \<and> fallbackArchitectures = None
      then (Inl (GoError ''both rules and fallbackArchitectures are nil''), st)
      else let st1 = getOrCreateEvaluator lib st
           in case st1 of
                Uninitialised \<Rightarrow> (Inl (GoError ''failed to get CEL evaluator: ''), st1)
              | InitFailed e \<Rightarrow> (Inl (GoError (''failed to get CEL evaluator: '' @ error_msg e)), st1)
              | Ready cache \<Rightarrow>
                  (let (rr, cache1) = evaluateRules lib (elems rules) (Some pod) cache
                   in (Inr (if rr_allErrored rr
                            then \<lparr>er_architectures = fallbackArchitectures, er_ruleName = [],
                                  er_matched = False, er_allRulesErrored = True\<rparr>
                            else if rr_matched rr
                            then \<lparr>er_architectures = rr_architectures rr, er_ruleName = rr_ruleName rr,
                                  er_matched = True, er_allRulesErrored = False\<rparr>
                            else \<lparr>er_architectures = fallbackArchitectures, er_ruleName = [],
                                  er_matched = False, er_allRulesErrored = False\<rparr>),
                       Ready cache1)))"

definition validateCELExpression :: "cel_lib \<Rightarrow> string \<Rightarrow> go_error option" where
  "validateCELExpression lib expression =
     (case newCELEvaluator lib of
        Inl e \<Rightarrow> Some e
      | Inr cache \<Rightarrow> (case fst (compile lib expression cache) of Inl e \<Rightarrow> Some e | Inr _ \<Rightarrow> None))"

section \<open>Specification without a cache\<close>

definition rule_outcome :: "cel_lib \<Rightarrow> pod_map \<Rightarrow> ArchitectureRule \<Rightarrow> bool result" where
  "rule_outcome lib podMap rule =
     (case compile_miss lib (Expression rule) of
        Inl e \<Rightarrow> Inl e
      | Inr prog \<Rightarrow> eval_program lib prog podMap)"

definition rule_errors :: "cel_lib \<Rightarrow> pod_map \<Rightarrow> ArchitectureRule \<Rightarrow> bool" where
  "rule_errors lib podMap rule = (case rule_outcome lib podMap rule of Inl _ \<Rightarrow> True | Inr _ \<Rightarrow> False)"

text \<open>
  The decision the plugin promises: the first rule that evaluates to true; without one, the
  fallback, flagged when there are rules and all of them failed.
\<close>

definition placement_spec ::
  "cel_lib \<Rightarrow> ArchitectureRule list \<Rightarrow> string slice \<Rightarrow> pod_map \<Rightarrow> evaluateResult" where
  "placement_spec lib rules fallback podMap =
     (case List.find (\<lambda>r. rule_outcome lib podMap r = Inr True) rules of
        Some r \<Rightarrow> \<lparr>er_architectures = Architectures r, er_ruleName = rule_Name r,
                   er_matched = True, er_allRulesErrored = False\<rparr>
      | None \<Rightarrow> \<lparr>er_architectures = fallback, er_ruleName = [], er_matched = False,
                 er_allRulesErrored = (rules \<noteq> [] \<and> list_all (rule_errors lib podMap) rules)\<rparr>)"

definition cache_ok :: "cel_lib \<Rightarrow> cel_cache \<Rightarrow> bool" where
  "cache_ok lib c =
     (lru_inv c \<and> lru_size c = celExpressionCacheSize \<and> agrees (lru_lookup c) (compile_miss lib))"

definition cel_state_ok :: "cel_lib \<Rightarrow> cel_state \<Rightarrow> bool" where
  "cel_state_ok lib st =
     (case st of
        Uninitialised \<Rightarrow> True
      | InitFailed e \<Rightarrow> newCELEvaluator lib = Inl e
      | Ready c \<Rightarrow> NewEnv_error lib = None \<and> cache_ok lib c)"

section \<open>The cache is transparent\<close>

lemma compile_memo: "compile lib = memo lru_Get lru_Add (compile_miss lib)"
  by (intro ext) (simp add: compile_def memo_def)

lemma lru_size_ops [simp]:
  "lru_size (snd (lru_Get k c)) = lru_size c" "lru_size (lru_Add k v c) = lru_size c"
  by (simp_all add: lru_Get_def lru_Add_def move_to_front_def Let_def split: option.splits)

lemma compile_size: "lru_size (snd (compile lib e c)) = lru_size c"
  using lru_size_ops(1)[of e c]
  by (auto simp: compile_def simp del: lru_size_ops(1) split: prod.splits option.splits sum.splits)

lemma compile_ok:
  assumes "cache_ok lib c"
  shows "fst (compile lib e c) = compile_miss lib e" and "cache_ok lib (snd (compile lib e c))"
  using assms lru.memo_correct[of c "compile_miss lib" e]
  by (simp_all add: cache_ok_def compile_size) (simp_all add: compile_memo)

lemma evaluateWithMap_ok:
  assumes "cache_ok lib c"
  shows "fst (evaluateWithMap lib (Expression r) m c) = rule_outcome lib m r"
    and "cache_ok lib (snd (evaluateWithMap lib (Expression r) m c))"
  using compile_ok[OF assms, of "Expression r"]
  by (auto simp: evaluateWithMap_def rule_outcome_def split: prod.splits sum.splits)

lemma evaluateRules_loop_ok:
  assumes "cache_ok lib c"
  shows "fst (evaluateRules_loop lib m ev rules c) =
      (case List.find (\<lambda>r. rule_outcome lib m r = Inr True) rules of
         Some r \<Rightarrow> Inr r
       | None \<Rightarrow> Inl (ev \<or> \<not> list_all (rule_errors lib m) rules))
    \<and> cache_ok lib (snd (evaluateRules_loop lib m ev rules c))"
  using assms
proof (induction rules arbitrary: ev c)
  case (Cons r rs)
  obtain o1 c1 where e: "evaluateWithMap lib (Expression r) m c = (o1, c1)"
    by (cases "evaluateWithMap lib (Expression r) m c")
  have "rule_outcome lib m r = o1" "cache_ok lib c1"
    using evaluateWithMap_ok[OF Cons.prems, of r m] e by simp_all
  then show ?case
    using Cons.IH[of c1] e by (cases o1) (auto simp: rule_errors_def split: option.splits)
qed simp

lemma evaluateRules_ok:
  assumes "cache_ok lib c"
  shows "fst (evaluateRules lib rules pod c) =
      (case List.find (\<lambda>r. rule_outcome lib (podToMap pod) r = Inr True) rules of
         Some r \<Rightarrow> \<lparr>rr_architectures = Architectures r, rr_ruleName = rule_Name r,
                     rr_matched = True, rr_allErrored = False\<rparr>
       | None \<Rightarrow> \<lparr>rr_architectures = None, rr_ruleName = [], rr_matched = False,
                   rr_allErrored = (rules \<noteq> [] \<and> list_all (rule_errors lib (podToMap pod)) rules)\<rparr>)"
    and "cache_ok lib (snd (evaluateRules lib rules pod c))"
  using evaluateRules_loop_ok[OF assms, of "podToMap pod" False rules]
  by (auto simp: evaluateRules_def split: prod.splits sum.splits option.splits)

lemma getOrCreateEvaluator_ok:
  "cel_state_ok lib st \<Longrightarrow> cel_state_ok lib (getOrCreateEvaluator lib st)"
  by (auto simp: getOrCreateEvaluator_def cel_state_ok_def newCELEvaluator_def celExpressionCacheSize_def
      cache_ok_def lru_inv_def agrees_def lru_lookup_def split: cel_state.splits option.splits sum.splits)

lemma getOrCreateEvaluator_Ready:
  assumes "cel_state_ok lib st" "NewEnv_error lib = None"
  obtains c where "getOrCreateEvaluator lib st = Ready c" "cache_ok lib c"
proof -
  have ok: "cel_state_ok lib (getOrCreateEvaluator lib st)"
    by (rule getOrCreateEvaluator_ok[OF assms(1)])
  show thesis
  proof (cases "getOrCreateEvaluator lib st")
    case (Ready c)
    then show thesis using ok that by (simp add: cel_state_ok_def)
  next
    case (InitFailed e)
    then show thesis using ok assms(2)
      by (simp add: cel_state_ok_def newCELEvaluator_def celExpressionCacheSize_def)
  next
    case Uninitialised
    then show thesis
      by (auto simp: getOrCreateEvaluator_def split: cel_state.splits sum.splits)
  qed
qed

lemma evaluateCEL_refines_spec:
  assumes "cel_state_ok lib st" "NewEnv_error lib = None" "rules \<noteq> None \<or> fallback \<noteq> None"
  shows "fst (evaluateCELArchitecturePlacement lib rules fallback pod st) =
           Inr (placement_spec lib (elems rules) fallback (podToMap (Some pod)))"
    and "cel_state_ok lib (snd (evaluateCELArchitecturePlacement lib rules fallback pod st))"
proof -
  obtain c where c: "getOrCreateEvaluator lib st = Ready c" "cache_ok lib c"
    by (rule getOrCreateEvaluator_Ready[OF assms(1,2)])
  note ev = evaluateRules_ok[OF c(2), of "elems rules" "Some pod"]
  show "fst (evaluateCELArchitecturePlacement lib rules fallback pod st) =
      Inr (placement_spec lib (elems rules) fallback (podToMap (Some pod)))"
    using assms(3) c ev(1)
    by (auto simp: evaluateCELArchitecturePlacement_def placement_spec_def Let_def
        split: prod.splits option.splits)
  show "cel_state_ok lib (snd (evaluateCELArchitecturePlacement lib rules fallback pod st))"
    using assms(2,3) c ev(2)
    by (auto simp: evaluateCELArchitecturePlacement_def Let_def cel_state_ok_def split: prod.splits)
qed

lemma evaluateCEL_state_ok:
  assumes "cel_state_ok lib st"
  shows "cel_state_ok lib (snd (evaluateCELArchitecturePlacement lib rules fallback pod st))"
proof (cases "rules \<noteq> None \<or> fallback \<noteq> None")
  case True
  show ?thesis
  proof (cases "NewEnv_error lib")
    case None
    then show ?thesis using evaluateCEL_refines_spec(2)[OF assms _ True] by simp
  next
    case (Some e)
    have ok: "cel_state_ok lib (getOrCreateEvaluator lib st)"
      by (rule getOrCreateEvaluator_ok[OF assms])
    then have "snd (evaluateCELArchitecturePlacement lib rules fallback pod st) = getOrCreateEvaluator lib st"
      using Some True
      by (cases "getOrCreateEvaluator lib st")
        (auto simp: evaluateCELArchitecturePlacement_def cel_state_ok_def)
    then show ?thesis using ok by simp
  qed
next
  case False
  then show ?thesis using assms by (simp add: evaluateCELArchitecturePlacement_def)
qed

end
