(* ===== verification/Reconciler.thy ===== *)
theory Reconciler
  imports Pod_Model Cel
begin

text \<open>
  \<^verbatim>\<open>pod_reconciler.go\<close>, \<^verbatim>\<open>cel_integration.go\<close> and \<^verbatim>\<open>pkg/utils/secrets.go\<close>: the controller that
  takes the scheduling gate off a pod once its node affinity is decided. The API server, the
  informer caches, the configuration store, the image inspection and the CEL library are the
  record \<open>cluster_env\<close>; the state of the controller between two calls is the stored pod, the
  published events, the counters and the CEL evaluator.
\<close>

section \<open>Environment and state\<close>

record secret =
  secret_Name :: string
  secret_Type :: string
  secret_Data :: "(string, string) gomap"
  secret_ResourceVersion :: string

text \<open>
  \<open>unmarshal\<close> is \<^verbatim>\<open>json.Unmarshal\<close> into a map of raw messages: the members of a JSON object, or
  an error.
\<close>

record cluster_env =
  operatorNamespace :: string
  cppcStore :: "ClusterPodPlacementConfig option"
  listPPC :: "string \<Rightarrow> PodPlacementConfig list result"
  apiListPPC :: "string \<Rightarrow> PodPlacementConfig list result"
  getSecret :: "string \<Rightarrow> string \<Rightarrow> secret result"
  unmarshal :: "string \<Rightarrow> (string, string) gomap result"
  inspectImage :: inspector
  celLib :: cel_lib

record controller_state =
  stored :: "CorePod option"
  events :: "event list option"
  counters :: metrics
  cel :: cel_state

section \<open>Pull secrets\<close>

definition ExtractAuthFromSecret ::
  "(string \<Rightarrow> (string, string) gomap result) \<Rightarrow> secret \<Rightarrow> string result" where
  "ExtractAuthFromSecret parse s =
     (if secret_Type s = ''kubernetes.io/dockercfg''
      then Inr (get_or [] (secret_Data s) ''.dockercfg'')
      else if secret_Type s = ''kubernetes.io/dockerconfigjson''
      then (case parse (get_or [] (secret_Data s) ''.dockerconfigjson'') of
              Inl e \<Rightarrow> Inl e
            | Inr objmap \<Rightarrow> Inr (get_or [] objmap ''auths''))
      else Inl (GoError ''unknown secret type''))"

definition secret_auth :: "cluster_env \<Rightarrow> string \<Rightarrow> string \<Rightarrow> string option" where
  "secret_auth env ns name =
     (case getSecret env ns name of
        Inl e \<Rightarrow> None
      | Inr s \<Rightarrow> (case ExtractAuthFromSecret (unmarshal env) s of Inl e \<Rightarrow> None | Inr d \<Rightarrow> Some d))"

text \<open>Secrets that cannot be read are logged and skipped; the error result is always nil.\<close>

definition pullSecretDataList :: "cluster_env \<Rightarrow> ('p) CorePod_scheme \<Rightarrow> string list result" where
  "pullSecretDataList env p =
     Inr (List.map_filter (secret_auth env (Namespace p)) (getPodImagePullSecrets p))"

section \<open>CEL placement\<close>

definition show_list :: "string list \<Rightarrow> string" where
  "show_list xs = ''['' @ join_with '' '' xs @ '']''"

definition applyCELArchitecturePlacement ::
  "cel_lib \<Rightarrow> PodPlacementConfig \<Rightarrow> Pod \<Rightarrow> cel_state \<Rightarrow> bool \<times> Pod \<times> cel_state" where
  "applyCELArchitecturePlacement lib ppc p st =
     (if \<not> ppc_PluginsEnabled ppc CelArchitecturePlacementPluginName then (False, p, st)
      else case Option.bind (ppc_Plugins ppc) local_CelArchitecturePlacement of
             None \<Rightarrow> (False, p, st)
           | Some celPlugin \<Rightarrow>
               (case evaluateCELArchitecturePlacement lib (Rules celPlugin) (FallbackArchitectures celPlugin) p st of
                  (Inl err, st1) \<Rightarrow>
                    (False, PublishEvent EventTypeWarning ''CELEvaluationError''
                              (''Failed to evaluate CEL rules: '' @ error_msg err) p, st1)
                | (Inr res, st1) \<Rightarrow>
                    if er_allRulesErrored res then (False, p, st1)
                    else if elems (er_architectures res) = [] then (False, p, st1)
                    else let archs = elems (er_architectures res);
                             p1 = applyArchitectureNodeAffinity archs (snd (removeArchitectureFromNodeSelector p));
                             p2 = EnsureLabel NodeAffinityLabel NodeAffinityLabelValueOverriden p1;
                             configSource = PodPlacementConfigKind @ ''-'' @ ppc_Name ppc;
                             p3 = (if er_matched res
                                   then PublishEvent EventTypeNormal ''CELArchitecturePlacementApplied''
                                          (''Applied CEL rule '' @ [CHR 0x27] @ er_ruleName res @ [CHR 0x27] @
                                           '' from '' @ configSource @ '', architectures: '' @ show_list archs) p2
                                   else PublishEvent EventTypeNormal ''CELArchitecturePlacementFallback''
                                          (''No CEL rules matched, using fallback architectures from '' @
                                           configSource @ '': '' @ show_list archs) p2)
                         in (True, p3, st1)))"

fun apply_first_cel ::
  "cel_lib \<Rightarrow> PodPlacementConfig list \<Rightarrow> Pod \<Rightarrow> cel_state \<Rightarrow> bool \<times> Pod \<times> cel_state" where
  "apply_first_cel lib [] p st = (False, p, st)"
| "apply_first_cel lib (ppc # ppcs) p st =
     (case applyCELArchitecturePlacement lib ppc p st of
        (True, p1, st1) \<Rightarrow> (True, p1, st1)
      | (False, p1, st1) \<Rightarrow> apply_first_cel lib ppcs p1 st1)"

text \<open>
  The pointer dereference \<^verbatim>\<open>ppc.Spec.Plugins.NodeAffinityScoring\<close> happens only under
  \<^verbatim>\<open>PluginsEnabled\<close>, which implies it is not nil (\<open>scoring_enabled_not_nil\<close>).
\<close>

definition ppc_scoring :: "PodPlacementConfig \<Rightarrow> NodeAffinityScoring option" where
  "ppc_scoring ppc = Option.bind (ppc_Plugins ppc) local_NodeAffinityScoring"

definition cppc_scoring :: "ClusterPodPlacementConfig \<Rightarrow> NodeAffinityScoring option" where
  "cppc_scoring c = Option.bind (cppc_Plugins c) plugins_NodeAffinityScoring"

definition apply_scoring :: "PodPlacementConfig \<Rightarrow> Pod \<Rightarrow> Pod" where
  "apply_scoring ppc p =
     (if \<not> ppc_PluginsEnabled ppc NodeAffinityScoringPluginName then p
      else case ppc_scoring ppc of
             None \<Rightarrow> p
           | Some nas \<Rightarrow> SetPreferredArchNodeAffinity nas (PodPlacementConfigKind @ ''-'' @ ppc_Name ppc) p)"

definition applyMatchingPPCs ::
  "cel_lib \<Rightarrow> PodPlacementConfig list \<Rightarrow> bool \<Rightarrow> Pod \<Rightarrow> cel_state \<Rightarrow> bool \<times> Pod \<times> cel_state" where
  "applyMatchingPPCs lib ppcs hasPreferredAffinityAtStart p st =
     (let sorted = sort_desc Priority ppcs;
          (celApplied, p1, st1) = apply_first_cel lib sorted p st
      in if hasPreferredAffinityAtStart then (celApplied, p1, st1)
         else (celApplied, foldl (\<lambda>q ppc. apply_scoring ppc q) p1 sorted, st1))"

definition track_platforms :: "PlatformTerm list \<Rightarrow> string \<Rightarrow> Pod \<Rightarrow> Pod" where
  "track_platforms ts source p =
     foldl (\<lambda>q t. trackAffinitySource (Architecture t) (platform_Weight t) source False q) p ts"

definition track_ppc :: "PodPlacementConfig \<Rightarrow> Pod \<Rightarrow> Pod" where
  "track_ppc ppc p =
     (if \<not> ppc_PluginsEnabled ppc NodeAffinityScoringPluginName then p
      else case ppc_scoring ppc of
             None \<Rightarrow> p
           | Some nas \<Rightarrow> track_platforms (Platforms nas) (PodPlacementConfigKind @ ''-'' @ ppc_Name ppc) p)"

definition trackSkippedMatchingConfigs ::
  "ClusterPodPlacementConfig option \<Rightarrow> PodPlacementConfig list \<Rightarrow> Pod \<Rightarrow> Pod" where
  "trackSkippedMatchingConfigs cppc ppcs p =
     (let p1 = foldl (\<lambda>q ppc. track_ppc ppc q) p (sort_desc Priority ppcs)
      in case cppc of
           None \<Rightarrow> p1
         | Some c \<Rightarrow>
             if cppc_PluginsEnabled c NodeAffinityScoringPluginName
             then (case cppc_scoring c of
                     None \<Rightarrow> p1
                   | Some nas \<Rightarrow> track_platforms (Platforms nas) ClusterPodPlacementConfigKind p1)
             else p1)"

section \<open>Processing one pod\<close>

definition list_ppcs :: "cluster_env \<Rightarrow> string \<Rightarrow> PodPlacementConfig list result" where
  "list_ppcs env ns =
     (case listPPC env ns of
        Inl e \<Rightarrow> Inl e
      | Inr items \<Rightarrow> if length items = 0 then apiListPPC env ns else Inr items)"

definition publish_skipped :: "Pod \<Rightarrow> Pod" where
  "publish_skipped p =
     (if get_or [] (Labels p) PreferredNodeAffinityLabel = LabelValueNotSet
      then PublishEvent EventTypeNormal ArchitectureAwareNodeAffinitySet ArchitecturePreferredPredicateSkippedMsg p
      else p)"

definition apply_cppc_scoring :: "ClusterPodPlacementConfig option \<Rightarrow> Pod \<Rightarrow> Pod" where
  "apply_cppc_scoring cppc p =
     (case cppc of
        None \<Rightarrow> p
      | Some c \<Rightarrow>
          if cppc_PluginsEnabled c NodeAffinityScoringPluginName
          then (case cppc_scoring c of
                  None \<Rightarrow> p
                | Some nas \<Rightarrow> SetPreferredArchNodeAffinity nas ClusterPodPlacementConfigKind p)
          else p)"

text \<open>Image-based detection with the retry budget: the part after the CEL branch.\<close>

definition detect_from_images :: "cluster_env \<Rightarrow> Pod \<Rightarrow> Pod" where
  "detect_from_images env p =
     (let (err, p2) =
        (case pullSecretDataList env p of
           Inl e \<Rightarrow> (Some e, handleError (Some e) p)
         | Inr psdl \<Rightarrow>
             (let p0 = handleError None p;
                  (r, p1) = SetNodeAffinityArchRequirement (inspectImage env) psdl p0;
                  err = (case r of Inl e \<Rightarrow> Some e | Inr _ \<Rightarrow> None)
              in (err, handleError err p1)));
          p3 = (if maxRetries p2 \<and> err \<noteq> None
                then let q = PublishEvent EventTypeWarning ImageArchitectureInspectionError
                               (ImageInspectionErrorMaxRetriesMsg @ '': '' @
                                (case err of None \<Rightarrow> [] | Some e \<Rightarrow> error_msg e)) p2
                     in case cppcStore env of
                          None \<Rightarrow> q
                        | Some c \<Rightarrow>
                            if FallbackArchitecture c \<noteq> []
                            then setRequiredNodeAffinityToFallbackArchitecture (FallbackArchitecture c) q
                            else q
                else p2)
      in if err = None \<or> maxRetries p3 then RemoveSchedulingGate (publish_skipped p3) else p3)"

definition processPod :: "cluster_env \<Rightarrow> Pod \<Rightarrow> cel_state \<Rightarrow> Pod \<times> cel_state" where
  "processPod env p st =
     (case list_ppcs env (Namespace p) of
        Inl e \<Rightarrow> (handleError (Some e) p, st)
      | Inr items \<Rightarrow>
          (let matchingPPCs = filterMatchingPPCs items p;
               (ignore, p1) = shouldIgnorePod (operatorNamespace env) (cppcStore env) matchingPPCs p
           in if ignore
              then (PublishEvent EventTypeWarning ArchitectureAwareGatedPodIgnored ArchitectureAwareGatedPodIgnoredMsg
                      (RemoveSchedulingGate p1), st)
              else let hasPreferred = isPreferredAffinityConfiguredForArchitecture p1;
                       (celApplied, p2, st1) = applyMatchingPPCs (celLib env) matchingPPCs hasPreferred p1 st;
                       p3 = (if \<not> hasPreferred then apply_cppc_scoring (cppcStore env) p2
                             else trackSkippedMatchingConfigs (cppcStore env) matchingPPCs p2)
                   in if celApplied then (RemoveSchedulingGate (publish_skipped p3), st1)
                      else (detect_from_images env p3, st1)))"

section \<open>The reconcile loop\<close>

text \<open>
  \<open>getErr\<close> is the outcome of reading the pod (\<open>None\<close>: found or not found as stored) and
  \<open>updateErr\<close> that of the final update.
\<close>

definition Reconcile ::
  "cluster_env \<Rightarrow> go_error option \<Rightarrow> go_error option \<Rightarrow> controller_state \<Rightarrow> go_error option \<times> controller_state" where
  "Reconcile env getErr updateErr s =
     (case (getErr, stored s) of
        (Some e, _) \<Rightarrow> (IgnoreNotFound (Some e), s)
      | (None, None) \<Rightarrow> (IgnoreNotFound (Some (NotFoundError ''pod not found'')), s)
      | (None, Some core) \<Rightarrow>
          (let p = NewPod core (events s) (counters s)
           in if \<not> HasSchedulingGate p then (None, s)
              else let p1 = p\<lparr>pod_metrics := (pod_metrics p)\<lparr>ProcessedPodsCtrl :=
                                 ProcessedPodsCtrl (pod_metrics p) + 1\<rparr>\<rparr>;
                       (p2, st) = processPod env p1 (cel s)
                   in case updateErr of
                        Some e \<Rightarrow>
                          (let p3 = PublishEvent EventTypeWarning ArchitectureAwareSchedulingGateRemovalFailure
                                      SchedulingGateRemovalFailureMsg p2
                           in (Some e, s\<lparr>events := recorder p3, counters := pod_metrics p3, cel := st\<rparr>))
                      | None \<Rightarrow>
                          (let p3 = (if \<not> HasSchedulingGate p2
                                     then let q = PublishEvent EventTypeNormal ArchitectureAwareSchedulingGateRemovalSuccess
                                                    SchedulingGateRemovalSuccessMsg p2
                                          in q\<lparr>pod_metrics := (pod_metrics q)\<lparr>GatedPodsGauge :=
                                                  GatedPodsGauge (pod_metrics q) - 1\<rparr>\<rparr>
                                     else p2)
                           in (None, s\<lparr>stored := Some (PodObject p3), events := recorder p3,
                                      counters := pod_metrics p3, cel := st\<rparr>))))"

text \<open>Pods to queue again when a PodPlacementConfig of their namespace changes.\<close>

definition mapPPCToPods :: "CorePod list result \<Rightarrow> string \<Rightarrow> (string \<times> string) list" where
  "mapPPCToPods pods ns =
     (case pods of
        Inl e \<Rightarrow> []
      | Inr items \<Rightarrow>
          map (\<lambda>p. (Namespace p, Name p))
            (filter (\<lambda>p. Namespace p = ns \<and>
                         lookup_map (Labels p) SchedulingGateLabel = Some SchedulingGateLabelValueGated) items))"

section \<open>What the preparatory steps leave alone\<close>

lemma scoring_enabled_not_nil:
  "ppc_PluginsEnabled ppc NodeAffinityScoringPluginName \<Longrightarrow> \<exists>nas. ppc_scoring ppc = Some nas \<and> nas_Enabled nas"
  "cppc_PluginsEnabled c NodeAffinityScoringPluginName \<Longrightarrow> \<exists>nas. cppc_scoring c = Some nas \<and> nas_Enabled nas"
  by (auto simp: ppc_PluginsEnabled_def LocalPluginEnabled_def ppc_scoring_def
      cppc_PluginsEnabled_def PluginEnabled_def cppc_scoring_def split: option.splits)

lemma cel_enabled_not_nil:
  "ppc_PluginsEnabled ppc CelArchitecturePlacementPluginName \<Longrightarrow>
     \<exists>c. Option.bind (ppc_Plugins ppc) local_CelArchitecturePlacement = Some c \<and> cel_Enabled c"
  by (auto simp: ppc_PluginsEnabled_def LocalPluginEnabled_def split: option.splits)

text \<open>
  The parts of a pod that no step of the controller writes, and the parts the retry logic
  depends on.
\<close>

definition identity_of :: "('p) CorePod_scheme \<Rightarrow>
    string \<times> string \<times> string \<times> owner_reference list \<times> string \<times> string slice \<times> container list \<times> container list" where
  "identity_of p = (Name p, GenerateName p, Namespace p, OwnerReferences p, NodeName p,
     ImagePullSecrets p, Containers p, InitContainers p)"

definition retry_view :: "('p) CorePod_scheme \<Rightarrow>
    (string \<times> string \<times> string \<times> owner_reference list \<times> string \<times> string slice \<times> container list \<times> container list) \<times>
    (string, string) gomap \<times> node_selector_term slice option \<times> string slice \<times>
    string option \<times> string option \<times> string option" where
  "retry_view p = (identity_of p, NodeSelector p, required_terms p, SchedulingGates p,
     lookup_map (Labels p) ImageInspectionErrorCountLabel, lookup_map (Labels p) FallbackArchitectureLabel,
     lookup_map (Labels p) NodeAffinityLabel)"

lemma identity_of_update [simp]:
  "identity_of (p\<lparr>Affinity := a\<rparr>) = identity_of p" "identity_of (p\<lparr>Labels := l\<rparr>) = identity_of p"
  "identity_of (p\<lparr>Annotations := an\<rparr>) = identity_of p"
  "identity_of (p\<lparr>SchedulingGates := g\<rparr>) = identity_of p"
  "identity_of (p\<lparr>NodeSelector := ns\<rparr>) = identity_of p"
  "identity_of (q\<lparr>recorder := r\<rparr>) = identity_of q" "identity_of (q\<lparr>pod_metrics := m\<rparr>) = identity_of q"
  by (simp_all add: identity_of_def)

lemma retry_view_event [simp]: "retry_view (PublishEvent t r m p) = retry_view p"
  by (simp add: retry_view_def PublishEvent_def required_terms_def)

lemma retry_view_metrics [simp]: "retry_view (p\<lparr>pod_metrics := m\<rparr>) = retry_view p"
  by (simp add: retry_view_def required_terms_def)

lemma retry_view_annotation [simp]: "retry_view (EnsureAnnotation a v p) = retry_view p"
  by (simp add: retry_view_def EnsureAnnotation_def required_terms_def)

lemma retry_view_label:
  "l \<noteq> ImageInspectionErrorCountLabel \<Longrightarrow> l \<noteq> FallbackArchitectureLabel \<Longrightarrow> l \<noteq> NodeAffinityLabel \<Longrightarrow>
     retry_view (EnsureLabel l v p) = retry_view p"
  by (simp add: retry_view_def EnsureLabel_def required_terms_def)

lemma retry_view_track [simp]: "retry_view (trackAffinitySource a w s ap p) = retry_view p"
  by (simp add: trackAffinitySource_def Let_def)

lemma identity_of_inits [simp]:
  "identity_of (init_affinity p) = identity_of p" "identity_of (init_node_affinity p) = identity_of p"
  "identity_of (update_node_affinity f p) = identity_of p"
  "identity_of (init_preferred p) = identity_of p" "identity_of (init_required p) = identity_of p"
  by (simp_all add: init_affinity_def init_node_affinity_def update_node_affinity_def
      init_preferred_def init_required_def split: option.splits)

lemma retry_view_init_preferred [simp]: "retry_view (init_preferred p) = retry_view p"
  by (simp add: retry_view_def)

lemma retry_view_preferred_loop:
  "preferred_loop src ts seen added skipped p = (added', skipped', p') \<Longrightarrow> retry_view p' = retry_view p"
  by (induction src ts seen added skipped p rule: preferred_loop.induct) (auto split: if_splits)

lemma required_terms_preferred_update [simp]:
  "required_terms (update_node_affinity (\<lambda>na. na\<lparr>Preferred := f na\<rparr>) p) = required_terms p"
  by (simp add: update_node_affinity_def required_terms_def split: option.splits)

lemma retry_view_preferred_update [simp]:
  "retry_view (update_node_affinity (\<lambda>na. na\<lparr>Preferred := f na\<rparr>) p) = retry_view p"
proof -
  have "Labels (update_node_affinity g p) = Labels p" "NodeSelector (update_node_affinity g p) = NodeSelector p"
    "SchedulingGates (update_node_affinity g p) = SchedulingGates p" for g
    by (simp_all add: update_node_affinity_def)
  then show ?thesis by (simp add: retry_view_def)
qed

lemma retry_view_SetPreferred [simp]: "retry_view (SetPreferredArchNodeAffinity nas src p) = retry_view p"
proof -
  obtain added skipped p1 where loop:
    "preferred_loop src (Platforms nas) (getExistingPreferredArchitectures p) [] []
       (init_preferred p) = (added, skipped, p1)"
    by (metis prod_cases3)
  have "retry_view p1 = retry_view p" using retry_view_preferred_loop[OF loop] by simp
  then show ?thesis
    by (simp add: SetPreferredArchNodeAffinity_def loop Let_def retry_view_label)
qed

lemma retry_view_foldl:
  assumes "\<And>q x. retry_view (f q x) = retry_view q"
  shows "retry_view (foldl f p xs) = retry_view p"
  by (induction xs arbitrary: p) (simp_all add: assms)

lemma retry_view_scoring [simp]:
  "retry_view (apply_scoring ppc p) = retry_view p" "retry_view (apply_cppc_scoring cppc p) = retry_view p"
  "retry_view (trackSkippedMatchingConfigs cppc ppcs p) = retry_view p"
proof -
  have tp: "retry_view (track_platforms ts src q) = retry_view q" for ts src q
    by (simp add: track_platforms_def retry_view_foldl)
  then have "retry_view (track_ppc ppc' q) = retry_view q" for ppc' q
    by (simp add: track_ppc_def split: option.splits)
  then show "retry_view (trackSkippedMatchingConfigs cppc ppcs p) = retry_view p"
    by (simp add: trackSkippedMatchingConfigs_def tp retry_view_foldl Let_def split: option.splits)
  show "retry_view (apply_scoring ppc p) = retry_view p" "retry_view (apply_cppc_scoring cppc p) = retry_view p"
    by (simp_all add: apply_scoring_def apply_cppc_scoring_def split: option.splits)
qed

lemma retry_viewD:
  assumes "retry_view p = retry_view q"
  shows "identity_of p = identity_of q" "NodeSelector p = NodeSelector q"
    "required_terms p = required_terms q" "SchedulingGates p = SchedulingGates q"
    "lookup_map (Labels p) ImageInspectionErrorCountLabel = lookup_map (Labels q) ImageInspectionErrorCountLabel"
    "lookup_map (Labels p) FallbackArchitectureLabel = lookup_map (Labels q) FallbackArchitectureLabel"
    "lookup_map (Labels p) NodeAffinityLabel = lookup_map (Labels q) NodeAffinityLabel"
  using assms by (simp_all add: retry_view_def)

lemma identity_ofD:
  assumes "identity_of p = identity_of q"
  shows "Namespace p = Namespace q" "NodeName p = NodeName q" "OwnerReferences p = OwnerReferences q"
    "ImagePullSecrets p = ImagePullSecrets q" "Containers p = Containers q" "InitContainers p = InitContainers q"
    "Name p = Name q" "GenerateName p = GenerateName q"
  using assms by (simp_all add: identity_of_def)

text \<open>Without a PodPlacementConfig that enables CEL the CEL step does nothing.\<close>

lemma apply_first_cel_disabled:
  "\<forall>ppc \<in> set ppcs. \<not> ppc_PluginsEnabled ppc CelArchitecturePlacementPluginName \<Longrightarrow>
     apply_first_cel lib ppcs p st = (False, p, st)"
  by (induction ppcs) (simp_all add: applyCELArchitecturePlacement_def)

lemma applyMatchingPPCs_disabled:
  assumes "\<forall>ppc \<in> set ppcs. \<not> ppc_PluginsEnabled ppc CelArchitecturePlacementPluginName"
  obtains p' where "applyMatchingPPCs lib ppcs hp p st = (False, p', st)" "retry_view p' = retry_view p"
proof -
  have "apply_first_cel lib (sort_desc Priority ppcs) p st = (False, p, st)"
    using assms by (intro apply_first_cel_disabled) simp
  then show thesis
    by (intro that[of "if hp then p else foldl (\<lambda>q ppc. apply_scoring ppc q) p (sort_desc Priority ppcs)"])
      (simp_all add: applyMatchingPPCs_def retry_view_foldl)
qed

section \<open>The CEL decision\<close>

text \<open>The architectures a PodPlacementConfig claims for a pod; none when it does not claim it.\<close>

definition cel_decision :: "cel_lib \<Rightarrow> pod_map \<Rightarrow> PodPlacementConfig \<Rightarrow> string list" where
  "cel_decision lib podMap ppc =
     (if \<not> ppc_PluginsEnabled ppc CelArchitecturePlacementPluginName then []
      else case Option.bind (ppc_Plugins ppc) local_CelArchitecturePlacement of
             None \<Rightarrow> []
           | Some c \<Rightarrow>
               if Rules c = None \<and> FallbackArchitectures c = None then []
               else let r = placement_spec lib (elems (Rules c)) (FallbackArchitectures c) podMap
                    in if er_allRulesErrored r then [] else elems (er_architectures r))"

definition cel_place :: "string list \<Rightarrow> ('p) CorePod_scheme \<Rightarrow> ('p) CorePod_scheme" where
  "cel_place archs p =
     EnsureLabel NodeAffinityLabel NodeAffinityLabelValueOverriden
       (applyArchitectureNodeAffinity archs (snd (removeArchitectureFromNodeSelector p)))"

lemma PodObject_event [simp]: "PodObject (PublishEvent t r m p) = PodObject p"
  by (simp add: PodObject_def PublishEvent_def CorePod.truncate_def)

lemma PodObjectD:
  assumes "PodObject p = PodObject q"
  shows "Labels p = Labels q" "Annotations p = Annotations q" "Affinity p = Affinity q"
    "NodeSelector p = NodeSelector q" "SchedulingGates p = SchedulingGates q"
    "Name p = Name q" "GenerateName p = GenerateName q" "Namespace p = Namespace q"
    "Containers p = Containers q" "InitContainers p = InitContainers q"
  using assms by (simp_all add: PodObject_def CorePod.truncate_def)

lemma podToMap_cong: "PodObject p = PodObject q \<Longrightarrow> podToMap (Some p) = podToMap (Some q)"
  using PodObjectD[of p q] by (simp add: podToMap_def)

lemma applyCEL_spec:
  assumes ok: "cel_state_ok lib st" "NewEnv_error lib = None"
    and run: "applyCELArchitecturePlacement lib ppc p st = (applied, p1, st1)"
  shows "applied \<longleftrightarrow> cel_decision lib (podToMap (Some p)) ppc \<noteq> []"
    and "cel_state_ok lib st1"
    and "PodObject p1 = PodObject (if applied then cel_place (cel_decision lib (podToMap (Some p)) ppc) p else p)"
proof -
  have "(applied \<longleftrightarrow> cel_decision lib (podToMap (Some p)) ppc \<noteq> []) \<and> cel_state_ok lib st1 \<and>
    PodObject p1 = PodObject (if applied then cel_place (cel_decision lib (podToMap (Some p)) ppc) p else p)"
  proof (cases "ppc_PluginsEnabled ppc CelArchitecturePlacementPluginName")
    case False
    then show ?thesis using run ok by (auto simp: applyCELArchitecturePlacement_def cel_decision_def)
  next
    case enabled: True
    then obtain c where c: "Option.bind (ppc_Plugins ppc) local_CelArchitecturePlacement = Some c"
      using cel_enabled_not_nil by blast
    show ?thesis
    proof (cases "Rules c = None \<and> FallbackArchitectures c = None")
      case True
      then show ?thesis using run ok enabled c
        by (auto simp: applyCELArchitecturePlacement_def cel_decision_def evaluateCELArchitecturePlacement_def)
    next
      case False
      then have nonnil: "Rules c \<noteq> None \<or> FallbackArchitectures c \<noteq> None" by auto
      obtain r st' where ev: "evaluateCELArchitecturePlacement lib (Rules c) (FallbackArchitectures c) p st = (r, st')"
        by (cases "evaluateCELArchitecturePlacement lib (Rules c) (FallbackArchitectures c) p st")
      have r: "r = Inr (placement_spec lib (elems (Rules c)) (FallbackArchitectures c) (podToMap (Some p)))"
        and st': "cel_state_ok lib st'"
        using evaluateCEL_refines_spec[OF ok nonnil, of p] ev by simp_all
      let ?r = "placement_spec lib (elems (Rules c)) (FallbackArchitectures c) (podToMap (Some p))"
      have dec: "cel_decision lib (podToMap (Some p)) ppc =
          (if er_allRulesErrored ?r then [] else elems (er_architectures ?r))"
        using enabled c False by (auto simp: cel_decision_def Let_def)
      show ?thesis
      proof (cases "er_allRulesErrored ?r \<or> elems (er_architectures ?r) = []")
        case True
        then have "(applied, p1, st1) = (False, p, st')"
          unfolding run[symmetric] by (auto simp: applyCELArchitecturePlacement_def enabled c ev r)
        then show ?thesis using True st' by (auto simp: dec)
      next
        case claim: False
        then have "applied \<and> st1 = st' \<and> PodObject p1 = PodObject (cel_place (elems (er_architectures ?r)) p)"
          using run by (cases "er_matched ?r")
            (auto simp: applyCELArchitecturePlacement_def enabled c ev r Let_def cel_place_def)
        then show ?thesis using claim st' by (simp add: dec)
      qed
    qed
  qed
  then show "applied \<longleftrightarrow> cel_decision lib (podToMap (Some p)) ppc \<noteq> []" "cel_state_ok lib st1"
    "PodObject p1 = PodObject (if applied then cel_place (cel_decision lib (podToMap (Some p)) ppc) p else p)"
    by blast+
qed

lemma cel_place_cong: "PodObject p = PodObject q \<Longrightarrow> PodObject (cel_place archs p) = PodObject (cel_place archs q)"
proof -
  assume "PodObject p = PodObject q"
  moreover have "PodObject (cel_place archs r) = cel_place archs (PodObject r)" for r
  proof -
    have sel: "CorePod.truncate (snd (removeArchitectureFromNodeSelector r)) =
        snd (removeArchitectureFromNodeSelector (CorePod.truncate r))" for r :: Pod
      by (simp add: removeArchitectureFromNodeSelector_def CorePod.truncate_def split: option.splits)
    have upd: "CorePod.truncate (update_node_affinity f r) = update_node_affinity f (CorePod.truncate r)"
      "CorePod.truncate (init_node_affinity r) = init_node_affinity (CorePod.truncate r)"
      "CorePod.truncate (init_affinity r) = init_affinity (CorePod.truncate r)" for f and r :: Pod
      by (simp_all add: update_node_affinity_def init_node_affinity_def init_affinity_def CorePod.truncate_def
          split: option.splits)
    have edit: "CorePod.truncate (init_required r) = init_required (CorePod.truncate r)"
      "CorePod.truncate (set_required_terms ts r) = set_required_terms ts (CorePod.truncate r)" for ts and r :: Pod
      by (simp_all add: init_required_def set_required_terms_def upd)
    have terms: "node_selector_terms (CorePod.truncate r) = node_selector_terms r" for r :: Pod
      by (simp add: node_selector_terms_def required_terms_def CorePod.truncate_def)
    have app: "CorePod.truncate (applyArchitectureNodeAffinity archs r) =
        applyArchitectureNodeAffinity archs (CorePod.truncate r)" for r :: Pod
      by (simp add: applyArchitectureNodeAffinity_def Let_def edit terms)
    have lab: "CorePod.truncate (EnsureLabel l v r) = EnsureLabel l v (CorePod.truncate r)" for l v and r :: Pod
      by (simp add: EnsureLabel_def CorePod.truncate_def)
    show ?thesis by (simp add: cel_place_def PodObject_def lab app sel)
  qed
  ultimately show ?thesis by simp
qed

text \<open>The first configuration of the list that claims the pod decides.\<close>

lemma apply_first_cel_spec:
  assumes "cel_state_ok lib st" "NewEnv_error lib = None"
    and "apply_first_cel lib ppcs p st = (applied, p1, st1)"
  shows "cel_state_ok lib st1 \<and>
    (case List.find (\<lambda>ppc. cel_decision lib (podToMap (Some p)) ppc \<noteq> []) ppcs of
       None \<Rightarrow> \<not> applied \<and> PodObject p1 = PodObject p
     | Some ppc \<Rightarrow> applied \<and>
         PodObject p1 = PodObject (cel_place (cel_decision lib (podToMap (Some p)) ppc) p))"
  using assms
proof (induction ppcs arbitrary: p st)
  case Nil
  then have "\<not> applied" "p1 = p" "st1 = st" by simp_all
  then show ?case using Nil.prems(1) by simp
next
  case (Cons ppc ppcs)
  obtain a q st' where one: "applyCELArchitecturePlacement lib ppc p st = (a, q, st')"
    by (metis prod_cases3)
  note spec = applyCEL_spec[OF Cons.prems(1,2) one]
  show ?case
  proof (cases a)
    case True
    then have "applied" "p1 = q" "st1 = st'" using Cons.prems(3) one by simp_all
    then show ?thesis using True spec by simp
  next
    case False
    then have same: "PodObject q = PodObject p" using spec(3) by simp
    have rest: "apply_first_cel lib ppcs q st' = (applied, p1, st1)"
      using Cons.prems(3) one False by simp
    note IH = Cons.IH[OF spec(2) Cons.prems(2) rest, unfolded podToMap_cong[OF same]]
    have none: "cel_decision lib (podToMap (Some p)) ppc = []" using spec(1) False by simp
    show ?thesis
    proof (cases "List.find (\<lambda>ppc. cel_decision lib (podToMap (Some p)) ppc \<noteq> []) ppcs")
      case None
      then show ?thesis using IH none same by simp
    next
      case (Some w)
      then show ?thesis using IH none cel_place_cong[OF same, of "cel_decision lib (podToMap (Some p)) w"]
        by simp
    qed
  qed
qed

lemma PodObject_retry_view: "PodObject p = PodObject q \<Longrightarrow> retry_view p = retry_view q"
  by (simp add: retry_view_def identity_of_def required_terms_def PodObject_def CorePod.truncate_def)

lemma applyMatchingPPCs_spec:
  assumes "cel_state_ok lib st" "NewEnv_error lib = None"
    and run: "applyMatchingPPCs lib ppcs hp p st = (applied, p', st')"
  shows "cel_state_ok lib st' \<and>
    (case List.find (\<lambda>ppc. cel_decision lib (podToMap (Some p)) ppc \<noteq> []) (sort_desc Priority ppcs) of
       None \<Rightarrow> \<not> applied \<and> retry_view p' = retry_view p
     | Some ppc \<Rightarrow> applied \<and> retry_view p' = retry_view (cel_place (cel_decision lib (podToMap (Some p)) ppc) p))"
proof -
  obtain a q st1 where first: "apply_first_cel lib (sort_desc Priority ppcs) p st = (a, q, st1)"
    by (metis prod_cases3)
  have "retry_view p' = retry_view q" "applied = a" "st' = st1"
    using run by (auto simp: applyMatchingPPCs_def first Let_def retry_view_foldl split: if_splits)
  note same = this
  note spec = apply_first_cel_spec[OF assms(1,2) first]
  show ?thesis
  proof (cases "List.find (\<lambda>ppc. cel_decision lib (podToMap (Some p)) ppc \<noteq> []) (sort_desc Priority ppcs)")
    case None
    then have "PodObject q = PodObject p" using spec by simp
    from PodObject_retry_view[OF this] show ?thesis using None spec same by simp
  next
    case (Some w)
    then have "PodObject q = PodObject (cel_place (cel_decision lib (podToMap (Some p)) w) p)" using spec by simp
    from PodObject_retry_view[OF this] show ?thesis using Some spec same by simp
  qed
qed

section \<open>Retries\<close>

text \<open>The number of failed inspections the pod records; unreadable counts restart from nothing.\<close>

definition retry_count :: "('p) CorePod_scheme \<Rightarrow> int" where
  "retry_count p =
     (case lookup_map (Labels p) ImageInspectionErrorCountLabel of
        None \<Rightarrow> 0
      | Some v \<Rightarrow> (case ParseInt 32 v of None \<Rightarrow> 0 | Some i \<Rightarrow> i))"

lemma handleError_None [simp]: "handleError None p = p"
  by (simp add: handleError_def)

lemma handleError_frame [frame, simp]:
  "identity_of (handleError e p) = identity_of p" "NodeSelector (handleError e p) = NodeSelector p"
  "Affinity (handleError e p) = Affinity p" "SchedulingGates (handleError e p) = SchedulingGates p"
  "required_terms (handleError e p) = required_terms p"
  by (simp_all add: handleError_def EnsureAndIncrementLabel_def Let_def pod_ops required_terms_def
      split: option.splits)

lemma handleError_lookup:
  "lookup_map (Labels (handleError (Some e) p)) k =
     (if k = ImageInspectionErrorCountLabel then
        Some (case lookup_map (Labels p) k of
                None \<Rightarrow> ''1''
              | Some v \<Rightarrow> (case ParseInt 32 v of None \<Rightarrow> ''1'' | Some i \<Rightarrow> show_int (i + 1)))
      else if k = ImageInspectionErrorLabel then Some [] else lookup_map (Labels p) k)"
  by (simp add: handleError_def Let_def pod_ops EnsureAndIncrementLabel_lookup)

lemma handleError_labels_not_nil: "Labels (handleError (Some e) p) \<noteq> None"
  using handleError_lookup[of e p ImageInspectionErrorLabel] by (cases "Labels (handleError (Some e) p)") auto

lemma retry_count_bounds: "- (2 ^ 31) \<le> retry_count p \<and> retry_count p < 2 ^ 31"
proof -
  have "- (2 ^ 31) \<le> i \<and> i < 2 ^ 31" if "ParseInt 32 v = Some i" for v i
    using ParseInt_bounds[OF that] by simp
  then show ?thesis by (auto simp: retry_count_def split: option.splits)
qed

lemma handleError_count:
  "lookup_map (Labels (handleError (Some e) p)) ImageInspectionErrorCountLabel = Some (show_int (retry_count p + 1))"
  by (simp add: handleError_lookup retry_count_def show_int_1 split: option.splits)

lemma retry_count_handleError:
  "retry_count p < 2 ^ 31 - 1 \<Longrightarrow> retry_count (handleError (Some e) p) = retry_count p + 1"
  using retry_count_bounds[of p] ParseInt_show_int[of 32 "retry_count p + 1"]
  by (simp add: retry_count_def[of "handleError (Some e) p"] handleError_count)

lemma maxRetries_handleError: "maxRetries (handleError (Some e) p) \<longleftrightarrow> 4 \<le> retry_count p"
proof -
  have ml: "maxRetries (handleError (Some e) p) \<longleftrightarrow>
      (case ParseInt 32 (show_int (retry_count p + 1)) of None \<Rightarrow> True | Some v \<Rightarrow> 5 \<le> v)"
    using handleError_labels_not_nil[of e p] handleError_count[of e p]
    by (auto simp: maxRetries_def MaxRetryCount_def split: option.splits)
  show ?thesis
  proof (cases "retry_count p + 1 < 2 ^ 31")
    case True
    then have "ParseInt 32 (show_int (retry_count p + 1)) = Some (retry_count p + 1)"
      using retry_count_bounds[of p] by (intro ParseInt_show_int) simp_all
    then show ?thesis using ml by simp
  next
    case False
    then have "ParseInt 32 (show_int (retry_count p + 1)) = None"
      by (intro ParseInt_out_of_range) simp
    then show ?thesis using ml False by simp
  qed
qed

lemma maxRetries_cong:
  "(Labels p = None) = (Labels q = None) \<Longrightarrow>
   lookup_map (Labels p) ImageInspectionErrorCountLabel = lookup_map (Labels q) ImageInspectionErrorCountLabel \<Longrightarrow>
   maxRetries p = maxRetries q"
  by (auto simp: maxRetries_def get_or_def split: option.splits)

lemma HasGate_RemoveSchedulingGate [simp]: "\<not> HasSchedulingGate (RemoveSchedulingGate p)"
  by (simp add: HasSchedulingGate_def RemoveSchedulingGate_def)

lemma publish_skipped_frame [frame, simp]:
  "retry_view (publish_skipped p) = retry_view p" "Labels (publish_skipped p) = Labels p"
  "Affinity (publish_skipped p) = Affinity p"
  by (simp_all add: publish_skipped_def PublishEvent_def retry_view_def required_terms_def)

section \<open>Image-based detection\<close>

definition images_fail :: "cluster_env \<Rightarrow> ('p) CorePod_scheme \<Rightarrow> bool" where
  "images_fail env p =
     (case pullSecretDataList env p of
        Inl e \<Rightarrow> True
      | Inr psdl \<Rightarrow> (case intersectImagesArchitecture (inspectImage env) psdl p of Inl e \<Rightarrow> True | Inr _ \<Rightarrow> False))"

lemma pullSecretDataList_cong: "identity_of p = identity_of q \<Longrightarrow> pullSecretDataList env p = pullSecretDataList env q"
  by (simp add: pullSecretDataList_def getPodImagePullSecrets_def identity_of_def)

lemma intersect_cong:
  "identity_of p = identity_of q \<Longrightarrow> intersectImagesArchitecture i s p = intersectImagesArchitecture i s q"
  by (simp add: intersectImagesArchitecture_def imagesNamesSet_def identity_of_def)

lemma images_fail_cong: "identity_of p = identity_of q \<Longrightarrow> images_fail env p = images_fail env q"
  using pullSecretDataList_cong[of p q env] intersect_cong[of p q]
  by (simp add: images_fail_def split: sum.splits)

lemma arch_configured_cong:
  "NodeSelector p = NodeSelector q \<Longrightarrow> required_terms p = required_terms q \<Longrightarrow> arch_configured p = arch_configured q"
  by (simp add: arch_configured_def)

definition fallback_step :: "cluster_env \<Rightarrow> go_error \<Rightarrow> Pod \<Rightarrow> Pod" where
  "fallback_step env e p =
     (let q = PublishEvent EventTypeWarning ImageArchitectureInspectionError
                (ImageInspectionErrorMaxRetriesMsg @ '': '' @ error_msg e) p
      in case cppcStore env of
           None \<Rightarrow> q
         | Some c \<Rightarrow> if FallbackArchitecture c \<noteq> []
                      then setRequiredNodeAffinityToFallbackArchitecture (FallbackArchitecture c) q else q)"

lemma fallback_step_labels:
  "(Labels (fallback_step env e p) = None) = (Labels p = None \<and>
     (case cppcStore env of None \<Rightarrow> True | Some c \<Rightarrow> FallbackArchitecture c = []))"
  "k \<noteq> NodeAffinityLabel \<Longrightarrow> k \<noteq> FallbackArchitectureLabel \<Longrightarrow>
     lookup_map (Labels (fallback_step env e p)) k = lookup_map (Labels p) k"
  by (auto simp: fallback_step_def Let_def setRequiredNodeAffinityToFallbackArchitecture_def pod_ops
      split: option.splits)

lemma detect_fail:
  assumes conf: "\<not> arch_configured p" and psdl: "pullSecretDataList env p = Inr psdl"
    and fail: "intersectImagesArchitecture (inspectImage env) psdl p = Inl e"
  shows "detect_from_images env p =
    (if 4 \<le> retry_count p
     then RemoveSchedulingGate (publish_skipped (fallback_step env e (handleError (Some e) p)))
     else handleError (Some e) p)"
proof -
  let ?h = "handleError (Some e) p"
  have run: "SetNodeAffinityArchRequirement (inspectImage env) psdl p = (Inl e, p)"
    using conf fail by (simp add: SetNodeAffinityArchRequirement_def isNodeSelectorConfigured_False
        getArchitecturePredicate_def)
  have mr: "maxRetries ?h = (4 \<le> retry_count p)" by (rule maxRetries_handleError)
  have "maxRetries (fallback_step env e ?h) = maxRetries ?h"
    using handleError_labels_not_nil[of e p]
    by (intro maxRetries_cong) (auto simp: fallback_step_labels)
  then show ?thesis
    using run mr psdl by (simp add: detect_from_images_def Let_def fallback_step_def)
qed

lemma detect_ok:
  assumes "pullSecretDataList env p = Inr psdl"
    and "arch_configured p \<or> (\<exists>archs. intersectImagesArchitecture (inspectImage env) psdl p = Inr archs)"
  shows "\<not> HasSchedulingGate (detect_from_images env p)"
proof -
  obtain b p1 where conf: "isNodeSelectorConfiguredForArchitecture p = (b, p1)"
    by (cases "isNodeSelectorConfiguredForArchitecture p")
  have "\<exists>b q. SetNodeAffinityArchRequirement (inspectImage env) psdl p = (Inr b, q)"
  proof (cases "arch_configured p")
    case True
    then have b using isNodeSelectorConfigured_fst[of p] conf by simp
    then show ?thesis by (auto simp: SetNodeAffinityArchRequirement_def conf intro: exI[of _ False])
  next
    case False
    then obtain archs where "intersectImagesArchitecture (inspectImage env) psdl p = Inr archs"
      using assms(2) by blast
    then have "\<exists>req. getArchitecturePredicate (inspectImage env) psdl p = Inr req"
      by (simp add: getArchitecturePredicate_def)
    then show ?thesis using False SetNodeAffinity_success by metis
  qed
  then show ?thesis using assms(1) by (auto simp: detect_from_images_def Let_def)
qed

lemma detect_gate:
  "HasSchedulingGate (detect_from_images env p) \<longleftrightarrow>
     HasSchedulingGate p \<and> \<not> arch_configured p \<and> images_fail env p \<and> retry_count p < 4"
proof -
  obtain psdl where psdl: "pullSecretDataList env p = Inr psdl" by (simp add: pullSecretDataList_def)
  show ?thesis
  proof (cases "arch_configured p \<or> (\<exists>archs. intersectImagesArchitecture (inspectImage env) psdl p = Inr archs)")
    case True
    then show ?thesis using detect_ok[OF psdl True] by (auto simp: images_fail_def psdl)
  next
    case False
    then obtain e where e: "intersectImagesArchitecture (inspectImage env) psdl p = Inl e"
      by (cases "intersectImagesArchitecture (inspectImage env) psdl p") auto
    have "HasSchedulingGate (handleError (Some e) p) = HasSchedulingGate p"
      by (rule HasSchedulingGate_cong) simp
    then show ?thesis using False e psdl detect_fail[of p env psdl e] by (auto simp: images_fail_def)
  qed
qed

section \<open>One pass over a pod\<close>

text \<open>The steps of \<open>processPod\<close> after a successful listing, by name.\<close>

definition ignore_check :: "cluster_env \<Rightarrow> PodPlacementConfig list \<Rightarrow> Pod \<Rightarrow> bool \<times> Pod" where
  "ignore_check env items p =
     shouldIgnorePod (operatorNamespace env) (cppcStore env) (filterMatchingPPCs items p) p"

definition cel_archs :: "cluster_env \<Rightarrow> PodPlacementConfig list \<Rightarrow> Pod \<Rightarrow> PodPlacementConfig \<Rightarrow> string list" where
  "cel_archs env items p ppc = cel_decision (celLib env) (podToMap (Some (snd (ignore_check env items p)))) ppc"

definition cel_winner :: "cluster_env \<Rightarrow> PodPlacementConfig list \<Rightarrow> Pod \<Rightarrow> PodPlacementConfig option" where
  "cel_winner env items p =
     List.find (\<lambda>ppc. cel_archs env items p ppc \<noteq> []) (sort_desc Priority (filterMatchingPPCs items p))"

lemma ignore_check_retry_view:
  "identity_of (snd (ignore_check env items p)) = identity_of p"
  "NodeSelector (snd (ignore_check env items p)) = NodeSelector p"
  "Affinity (snd (ignore_check env items p)) = Affinity p"
  "SchedulingGates (snd (ignore_check env items p)) = SchedulingGates p"
  "lookup_map (Labels (snd (ignore_check env items p))) ImageInspectionErrorCountLabel =
     lookup_map (Labels p) ImageInspectionErrorCountLabel"
proof -
  have c: "snd (ignore_check env items p) = p \<or>
      snd (ignore_check env items p) = snd (isNodeSelectorConfiguredForArchitecture p)"
    by (simp add: ignore_check_def shouldIgnorePod_def Let_def split: prod.splits)
  have conf: "snd (isNodeSelectorConfiguredForArchitecture p) = p \<or>
      snd (isNodeSelectorConfiguredForArchitecture p) = publishIgnorePod p"
    by (simp add: isNodeSelectorConfiguredForArchitecture_def split: option.splits)
  have "identity_of (publishIgnorePod p) = identity_of p" by (simp add: publishIgnorePod_def pod_ops)
  then show "identity_of (snd (ignore_check env items p)) = identity_of p"
    "lookup_map (Labels (snd (ignore_check env items p))) ImageInspectionErrorCountLabel =
       lookup_map (Labels p) ImageInspectionErrorCountLabel"
    using c conf by auto
  show "NodeSelector (snd (ignore_check env items p)) = NodeSelector p"
    "Affinity (snd (ignore_check env items p)) = Affinity p"
    "SchedulingGates (snd (ignore_check env items p)) = SchedulingGates p"
    by (simp_all add: ignore_check_def)
qed

lemma processPod_ignored:
  assumes "list_ppcs env (Namespace p) = Inr items" "fst (ignore_check env items p)"
  shows "fst (processPod env p st) =
    PublishEvent EventTypeWarning ArchitectureAwareGatedPodIgnored ArchitectureAwareGatedPodIgnoredMsg
      (RemoveSchedulingGate (snd (ignore_check env items p)))"
proof -
  obtain b q where ic: "shouldIgnorePod (operatorNamespace env) (cppcStore env) (filterMatchingPPCs items p) p = (b, q)"
    by (cases "shouldIgnorePod (operatorNamespace env) (cppcStore env) (filterMatchingPPCs items p) p")
  then have b using assms(2) by (simp add: ignore_check_def)
  then show ?thesis unfolding processPod_def assms(1) by (simp add: ic ignore_check_def Let_def)
qed

lemma processPod_considered:
  assumes "list_ppcs env (Namespace p) = Inr items" "\<not> fst (ignore_check env items p)"
  obtains applied p2 p3 st1 where
    "applyMatchingPPCs (celLib env) (filterMatchingPPCs items p)
       (isPreferredAffinityConfiguredForArchitecture (snd (ignore_check env items p)))
       (snd (ignore_check env items p)) st = (applied, p2, st1)"
    "retry_view p3 = retry_view p2"
    "processPod env p st =
       (if applied then (RemoveSchedulingGate (publish_skipped p3), st1) else (detect_from_images env p3, st1))"
proof -
  let ?p1 = "snd (ignore_check env items p)"
  let ?hp = "isPreferredAffinityConfiguredForArchitecture ?p1"
  obtain applied p2 st1 where run: "applyMatchingPPCs (celLib env) (filterMatchingPPCs items p) ?hp ?p1 st = (applied, p2, st1)"
    by (metis prod_cases3)
  let ?p3 = "if \<not> ?hp then apply_cppc_scoring (cppcStore env) p2
             else trackSkippedMatchingConfigs (cppcStore env) (filterMatchingPPCs items p) p2"
  obtain b q where ic: "shouldIgnorePod (operatorNamespace env) (cppcStore env) (filterMatchingPPCs items p) p = (b, q)"
    by (cases "shouldIgnorePod (operatorNamespace env) (cppcStore env) (filterMatchingPPCs items p) p")
  then have b: "\<not> b" and q: "?p1 = q" using assms(2) by (simp_all add: ignore_check_def)
  have "processPod env p st =
      (if applied then (RemoveSchedulingGate (publish_skipped ?p3), st1) else (detect_from_images env ?p3, st1))"
    unfolding processPod_def assms(1) using run b by (simp add: ic q Let_def)
  moreover have "retry_view ?p3 = retry_view p2" by simp
  ultimately show thesis using that run by blast
qed

lemma considered_spec:
  assumes "cel_state_ok (celLib env) st" "NewEnv_error (celLib env) = None"
    and run: "applyMatchingPPCs (celLib env) (filterMatchingPPCs items p) hp (snd (ignore_check env items p)) st = (applied, p2, st1)"
  shows "cel_state_ok (celLib env) st1"
    and "applied \<longleftrightarrow> cel_winner env items p \<noteq> None"
    and "cel_winner env items p = None \<Longrightarrow> retry_view p2 = retry_view (snd (ignore_check env items p))"
    and "cel_winner env items p = Some ppc \<Longrightarrow>
      retry_view p2 = retry_view (cel_place (cel_archs env items p ppc) (snd (ignore_check env items p)))"
  using applyMatchingPPCs_spec[OF assms(1,2) run]
  by (auto simp: cel_winner_def cel_archs_def split: option.splits)

lemma RemoveSchedulingGate_frame [frame, simp]:
  "NodeSelector (RemoveSchedulingGate p) = NodeSelector p" "Affinity (RemoveSchedulingGate p) = Affinity p"
  "lookup_map (Labels (RemoveSchedulingGate p)) k =
     (if k = SchedulingGateLabel then Some SchedulingGateLabelValueRemoved else lookup_map (Labels p) k)"
  "identity_of (RemoveSchedulingGate p) = identity_of p"
  by (simp_all add: RemoveSchedulingGate_def EnsureLabel_def RemoveGate_def)

lemma schedulable_retry_view: "retry_view p = retry_view q \<Longrightarrow> schedulable_on p n = schedulable_on q n"
  by (simp add: retry_view_def schedulable_on_def selector_allows_def affinity_allows_def)

lemma retry_count_cong: "lookup_map (Labels p) ImageInspectionErrorCountLabel =
    lookup_map (Labels q) ImageInspectionErrorCountLabel \<Longrightarrow> retry_count p = retry_count q"
  by (simp add: retry_count_def)

end
