(* ===== verification/Webhook.thy ===== *)
theory Webhook
  imports Reconciler
begin

text \<open>
  \<^verbatim>\<open>scheduling_gate_mutating_webhook.go\<close>: the admission webhook that gates new pods and applies CEL
  placement before the pod is persisted, and the background job that publishes the gated event
  with exponential backoff. Decoding of the request is a parameter. The response carries the
  patched pod; a JSON patch is determined by it.
\<close>

section \<open>Environment and responses\<close>

text \<open>
  \<open>ppcCacheSynced\<close> is the optional callback; \<open>hasApiReader\<close> tells whether the direct reader is
  set. \<open>marshalErr\<close> is the outcome of serialising the patched pod.
\<close>

record webhook_env = cluster_env +
  ppcCacheSynced :: "bool option"
  hasApiReader :: bool
  marshalErr :: "CorePod \<Rightarrow> go_error option"

datatype admission_response = Errored nat go_error | Patched CorePod

datatype webhook_result = Panic | Response admission_response metrics cel_state

definition patchedPodResponse :: "webhook_env \<Rightarrow> CorePod \<Rightarrow> admission_response" where
  "patchedPodResponse env pod =
     (case marshalErr env pod of Some e \<Rightarrow> Errored 500 e | None \<Rightarrow> Patched pod)"

section \<open>Listing configurations, failing open\<close>

definition webhook_list_ppcs :: "webhook_env \<Rightarrow> string \<Rightarrow> PodPlacementConfig list" where
  "webhook_list_ppcs env ns =
     (let items = (case listPPC env ns of Inl e \<Rightarrow> [] | Inr xs \<Rightarrow> xs);
          cacheNotYetSynced = (case ppcCacheSynced env of None \<Rightarrow> True | Some b \<Rightarrow> \<not> b)
      in if length items = 0 \<and> hasApiReader env \<and> cacheNotYetSynced
         then (case apiListPPC env ns of Inl e \<Rightarrow> [] | Inr xs \<Rightarrow> xs)
         else items)"

section \<open>CEL placement at admission\<close>

fun applyCELInWebhook_loop ::
  "cel_lib \<Rightarrow> PodPlacementConfig list \<Rightarrow> Pod \<Rightarrow> cel_state \<Rightarrow> Pod \<times> cel_state" where
  "applyCELInWebhook_loop lib [] p st = (p, st)"
| "applyCELInWebhook_loop lib (ppc # ppcs) p st =
     (if \<not> ppc_PluginsEnabled ppc CelArchitecturePlacementPluginName
      then applyCELInWebhook_loop lib ppcs p st
      else case Option.bind (ppc_Plugins ppc) local_CelArchitecturePlacement of
             None \<Rightarrow> applyCELInWebhook_loop lib ppcs p st
           | Some celPlugin \<Rightarrow>
               (case evaluateCELArchitecturePlacement lib (Rules celPlugin) (FallbackArchitectures celPlugin) p st of
                  (Inl err, st1) \<Rightarrow> applyCELInWebhook_loop lib ppcs p st1
                | (Inr res, st1) \<Rightarrow>
                    if er_allRulesErrored res then applyCELInWebhook_loop lib ppcs p st1
                    else if elems (er_architectures res) = [] then applyCELInWebhook_loop lib ppcs p st1
                    else (EnsureLabel NodeAffinityLabel NodeAffinityLabelValueOverriden
                            (applyArchitectureNodeAffinity (elems (er_architectures res))
                               (snd (removeArchitectureFromNodeSelector p))), st1)))"

definition applyCELInWebhook ::
  "cel_lib \<Rightarrow> PodPlacementConfig list \<Rightarrow> Pod \<Rightarrow> cel_state \<Rightarrow> Pod \<times> cel_state" where
  "applyCELInWebhook lib ppcs p st = applyCELInWebhook_loop lib (sort_desc Priority ppcs) p st"

section \<open>The handler\<close>

definition mark_not_set :: "ClusterPodPlacementConfig option \<Rightarrow> PodPlacementConfig list \<Rightarrow> Pod \<Rightarrow> Pod" where
  "mark_not_set cppc ppcs p =
     (let p1 = (if (case cppc of None \<Rightarrow> False | Some c \<Rightarrow> cppc_PluginsEnabled c NodeAffinityScoringPluginName)
                    \<or> hasMatchingPPCWithPlugin ppcs
                then EnsureLabel PreferredNodeAffinityLabel LabelValueNotSet p else p)
      in EnsureLabel SchedulingGateLabel LabelValueNotSet (EnsureLabel NodeAffinityLabel LabelValueNotSet p1))"

text \<open>
  \<open>decoded\<close> is the decoder's result on the request. The write
  \<^verbatim>\<open>pod.Labels[utils.SchedulingGateLabel] = ...\<close> is unguarded in the source and would panic on a
  nil map.
\<close>

definition Handle ::
  "webhook_env \<Rightarrow> CorePod result \<Rightarrow> event list option \<Rightarrow> metrics \<Rightarrow> cel_state \<Rightarrow> webhook_result" where
  "Handle env decoded rec m st =
     (let m1 = m\<lparr>ProcessedPodsWH := ProcessedPodsWH m + 1\<rparr>
      in case decoded of
           Inl e \<Rightarrow> Response (Errored 400 e) m1 st
         | Inr core \<Rightarrow>
             (let p = NewPod core rec m1;
                  matchingPPCs = filterMatchingPPCs (webhook_list_ppcs env (Namespace p)) p;
                  p1 = mark_not_set (cppcStore env) matchingPPCs p;
                  (ignore, p2) = shouldIgnorePod (operatorNamespace env) (cppcStore env) matchingPPCs p1
              in if ignore then Response (patchedPodResponse env (PodObject p2)) (pod_metrics p2) st
                 else let (p3, st1) = applyCELInWebhook (celLib env) matchingPPCs p2 st;
                          p4 = ensureSchedulingGate p3
                      in case assign_map (Labels p4) SchedulingGateLabel SchedulingGateLabelValueGated of
                           None \<Rightarrow> Panic
                         | Some labels \<Rightarrow>
                             (let p5 = p4\<lparr>Labels := labels\<rparr>;
                                  m2 = (pod_metrics p5)\<lparr>GatedPods := GatedPods (pod_metrics p5) + 1,
                                                        GatedPodsGauge := GatedPodsGauge (pod_metrics p5) + 1\<rparr>
                              in Response (patchedPodResponse env (PodObject p5)) m2 st1)))"

section \<open>The delayed event\<close>

text \<open>
  \<^verbatim>\<open>wait.ExponentialBackoff\<close> around the read of the created pod: \<open>getAt i\<close> is the answer to the
  \<open>i\<close>-th read. The result tells whether the event was published, how many reads were made and how
  long the job slept, in milliseconds. There is no job without a client set, or when the worker pool
  refuses it, which is only logged.
\<close>

datatype backoff_outcome = Published | GaveUp | Failed go_error

fun backoff_loop :: "(nat \<Rightarrow> CorePod result) \<Rightarrow> nat \<Rightarrow> nat \<Rightarrow> nat \<Rightarrow> nat \<Rightarrow> backoff_outcome \<times> nat \<times> nat" where
  "backoff_loop getAt 0 duration i slept = (GaveUp, i, slept)"
| "backoff_loop getAt (Suc steps) duration i slept =
     (case getAt i of
        Inr pod \<Rightarrow> (Published, Suc i, slept)
      | Inl e \<Rightarrow>
          if IsNotFound e
          then (if steps = 0 then (GaveUp, Suc i, slept)
                else backoff_loop getAt steps (2 * duration) (Suc i) (slept + duration))
          else (Failed e, Suc i, slept))"

definition delayedSchedulingGatedEvent ::
  "bool \<Rightarrow> go_error option \<Rightarrow> (nat \<Rightarrow> CorePod result) \<Rightarrow> (backoff_outcome \<times> nat \<times> nat) option" where
  "delayedSchedulingGatedEvent hasClientSet submitError getAt =
     (if \<not> hasClientSet then None
      else case submitError of
             Some _ \<Rightarrow> None
           | None \<Rightarrow> Some (backoff_loop getAt 15 2 0 0))"

section \<open>Facts\<close>

lemma applyCELInWebhook_loop_spec:
  assumes "cel_state_ok lib st" "NewEnv_error lib = None"
    and "applyCELInWebhook_loop lib ppcs p st = (p1, st1)"
  shows "cel_state_ok lib st1 \<and>
    p1 = (case List.find (\<lambda>ppc. cel_decision lib (podToMap (Some p)) ppc \<noteq> []) ppcs of
            None \<Rightarrow> p
          | Some ppc \<Rightarrow> cel_place (cel_decision lib (podToMap (Some p)) ppc) p)"
  using assms
proof (induction ppcs arbitrary: st)
  case Nil
  then have "p1 = p" "st1 = st" by simp_all
  then show ?case using Nil.prems(1) by simp
next
  case (Cons ppc ppcs)
  let ?pm = "podToMap (Some p)"
  show ?case
  proof (cases "ppc_PluginsEnabled ppc CelArchitecturePlacementPluginName")
    case False
    then show ?thesis using Cons by (simp add: cel_decision_def)
  next
    case enabled: True
    then obtain c where c: "Option.bind (ppc_Plugins ppc) local_CelArchitecturePlacement = Some c"
      using cel_enabled_not_nil by blast
    obtain r st' where ev: "evaluateCELArchitecturePlacement lib (Rules c) (FallbackArchitectures c) p st = (r, st')"
      by (cases "evaluateCELArchitecturePlacement lib (Rules c) (FallbackArchitectures c) p st")
    have st': "cel_state_ok lib st'"
      using evaluateCEL_state_ok[OF Cons.prems(1), of "Rules c" "FallbackArchitectures c" p] ev by simp
    show ?thesis
    proof (cases "Rules c = None \<and> FallbackArchitectures c = None")
      case True
      then obtain e where "r = Inl e" using ev by (auto simp: evaluateCELArchitecturePlacement_def)
      moreover have "cel_decision lib ?pm ppc = []" using True c enabled by (simp add: cel_decision_def)
      ultimately show ?thesis using Cons.IH[OF st' Cons.prems(2)] Cons.prems(3) enabled c ev by simp
    next
      case False
      then have nonnil: "Rules c \<noteq> None \<or> FallbackArchitectures c \<noteq> None" by auto
      let ?r = "placement_spec lib (elems (Rules c)) (FallbackArchitectures c) ?pm"
      have r: "r = Inr ?r" using evaluateCEL_refines_spec(1)[OF Cons.prems(1,2) nonnil, of p] ev by simp
      have dec: "cel_decision lib ?pm ppc = (if er_allRulesErrored ?r then [] else elems (er_architectures ?r))"
        using enabled c False by (auto simp: cel_decision_def Let_def)
      show ?thesis
      proof (cases "er_allRulesErrored ?r \<or> elems (er_architectures ?r) = []")
        case True
        then have "applyCELInWebhook_loop lib ppcs p st' = (p1, st1)"
          using Cons.prems(3) enabled c ev r by (auto split: if_splits)
        from Cons.IH[OF st' Cons.prems(2) this] show ?thesis using True by (auto simp: dec)
      next
        case claim: False
        then have "p1 = cel_place (elems (er_architectures ?r)) p" "st1 = st'"
          using Cons.prems(3) enabled c ev r by (simp_all add: cel_place_def)
        then show ?thesis using claim st' by (simp add: dec)
      qed
    qed
  qed
qed

lemma cel_place_labels: "Labels (cel_place archs p) = put_map (Labels p) NodeAffinityLabel NodeAffinityLabelValueOverriden"
  by (simp add: cel_place_def EnsureLabel_def)

lemma backoff_reads: "backoff_loop getAt steps d i slept = (r, n, t) \<Longrightarrow> i \<le> n \<and> n \<le> i + steps"
  by (induction getAt steps d i slept rule: backoff_loop.induct) (auto split: sum.splits if_splits)

lemma backoff_slept:
  "backoff_loop getAt steps d i slept = (r, n, t) \<Longrightarrow> 0 < steps \<Longrightarrow> t + d \<le> slept + d * 2 ^ (steps - 1)"
proof (induction getAt steps d i slept rule: backoff_loop.induct)
  case (2 getAt steps d i slept)
  show ?case
  proof (cases "\<exists>e. getAt i = Inl e \<and> IsNotFound e \<and> steps \<noteq> 0")
    case True
    then have "t + 2 * d \<le> slept + d + 2 * d * 2 ^ (steps - 1)" using 2 by auto
    moreover obtain k where "steps = Suc k" using True by (cases steps) auto
    ultimately show ?thesis by (simp add: algebra_simps)
  next
    case False
    then have "t = slept" using "2.prems" by (auto split: sum.splits if_splits)
    then show ?thesis by simp
  qed
qed simp

lemma backoff_published:
  "fst (backoff_loop getAt steps d i slept) = Published \<longleftrightarrow>
     (\<exists>k < steps. (\<exists>pod. getAt (i + k) = Inr pod) \<and> (\<forall>j<k. \<exists>e. getAt (i + j) = Inl e \<and> IsNotFound e))"
proof (induction getAt steps d i slept rule: backoff_loop.induct)
  case (2 getAt steps d i slept)
  let ?first = "\<exists>pod. getAt i = Inr pod" and ?missing = "\<exists>e. getAt i = Inl e \<and> IsNotFound e"
  let ?found = "\<lambda>k. (\<exists>pod. getAt (i + k) = Inr pod) \<and> (\<forall>j<k. \<exists>e. getAt (i + j) = Inl e \<and> IsNotFound e)"
  have split: "(\<exists>k<Suc steps. ?found k) \<longleftrightarrow> ?first \<or> (?missing \<and> (\<exists>k < steps.
      (\<exists>pod. getAt (Suc i + k) = Inr pod) \<and> (\<forall>j<k. \<exists>e. getAt (Suc i + j) = Inl e \<and> IsNotFound e)))"
    by (auto simp: Ex_less_Suc2 All_less_Suc2)
  show ?case unfolding split using 2 by (cases "getAt i") auto
qed simp

end
