(* ===== verification/Placement_Props.thy ===== *)
theory Placement_Props
  imports Webhook
begin

text \<open>
  The properties of the pod placement operand: which nodes a processed pod can run on, when the
  scheduling gate is removed, how the CEL plugin, image inspection and fallback interact, and what
  the admission webhook does. The example values at the start are the inputs of the witnesses.
\<close>

section \<open>Example values\<close>

definition ex_core :: CorePod where
  "ex_core = zero_pod\<lparr>Name := ''p'', Namespace := ''ns'',
     Containers := [\<lparr>Image = ''a'', ImagePullPolicy = ''Always''\<rparr>],
     InitContainers := [\<lparr>Image = ''b'', ImagePullPolicy = ''IfNotPresent''\<rparr>],
     SchedulingGates := Some [SchedulingGateName]\<rparr>"

definition ex_metrics :: metrics where
  "ex_metrics = \<lparr>ProcessedPodsWH = 0, GatedPods = 1, GatedPodsGauge = 1, ProcessedPodsCtrl = 0,
     FailedInspectionCounter = 0\<rparr>"

definition ex_pod :: Pod where
  "ex_pod = NewPod ex_core (Some []) ex_metrics"

definition ex_archs :: "containerImage \<Rightarrow> string set" where
  "ex_archs img = (if imageName img = ''//a'' then {''amd64'', ''arm64''} else {''arm64'', ''s390x''})"

definition ex_inspect :: inspector where
  "ex_inspect name skip secrets = Inr (ex_archs \<lparr>imageName = name, skipCache = skip\<rparr>)"

definition ex_node :: node where
  "ex_node = \<lparr>node_labels = [ArchLabel \<mapsto> ''arm64''], node_name = ''n''\<rparr>"

definition ex_lib :: cel_lib where
  "ex_lib = \<lparr>NewEnv_error = None,
     env_Compile = (\<lambda>e. if e = ''bad'' then Inl (GoError ''syntax'') else Inr \<lparr>OutputType = BoolType, NativeRep = Ident e\<rparr>),
     env_Program = (\<lambda>ast. case NativeRep ast of Ident x \<Rightarrow> Inr x | _ \<Rightarrow> Inl (GoError ''program'')),
     prog_Eval = (\<lambda>prog pm. Inr (BoolVal (prog = ''yes'')))\<rparr>"

definition ex_env :: cluster_env where
  "ex_env = \<lparr>operatorNamespace = ''op'', cppcStore = None, listPPC = (\<lambda>_. Inr []), apiListPPC = (\<lambda>_. Inr []),
     getSecret = (\<lambda>_ _. Inl (NotFoundError ''secret'')), unmarshal = (\<lambda>_. Inr None),
     inspectImage = (\<lambda>_ _ _. Inl (GoError ''unreachable'')), celLib = ex_lib\<rparr>"

definition ex_ppc :: "string \<Rightarrow> 8 word \<Rightarrow> string \<Rightarrow> string \<Rightarrow> PodPlacementConfig" where
  "ex_ppc name prio expr arch = \<lparr>ppc_Name = name, ppc_Namespace = ''ns'', LabelSelector = None,
     ppc_Plugins = Some \<lparr>local_NodeAffinityScoring = None,
       local_CelArchitecturePlacement = Some \<lparr>cel_Enabled = True, FallbackArchitectures = Some [''amd64''],
         Rules = Some [\<lparr>rule_Name = ''r'', Expression = expr, Architectures = Some [arch]\<rparr>]\<rparr>\<rparr>,
     Priority = prio\<rparr>"

definition ex_items :: "PodPlacementConfig list" where
  "ex_items = [ex_ppc ''low'' 1 ''yes'' ''s390x'', ex_ppc ''high'' 9 ''yes'' ''arm64'', ex_ppc ''broken'' 20 ''bad'' ''amd64'']"

definition ex_cel_env :: cluster_env where
  "ex_cel_env = ex_env\<lparr>listPPC := (\<lambda>_. Inr ex_items)\<rparr>"

lemmas ex_defs = ex_pod_def ex_core_def ex_metrics_def NewPod_def CorePod.extend_def Pod.fields_def
  zero_pod_def ex_env_def

lemma ex_pod_sel [simp]:
  "Affinity ex_pod = None" "NodeSelector ex_pod = None" "Labels ex_pod = None"
  "Namespace ex_pod = ''ns''" "NodeName ex_pod = []" "OwnerReferences ex_pod = []"
  "Containers ex_pod = [\<lparr>Image = ''a'', ImagePullPolicy = ''Always''\<rparr>]"
  "InitContainers ex_pod = [\<lparr>Image = ''b'', ImagePullPolicy = ''IfNotPresent''\<rparr>]"
  "SchedulingGates ex_pod = Some [SchedulingGateName]" "ImagePullSecrets ex_pod = None"
  by (simp_all add: ex_defs)

lemma ex_pod_terms [simp]: "required_terms ex_pod = None" "node_selector_terms ex_pod = []"
  "preferred_terms ex_pod = None"
  by (simp_all add: required_terms_def node_selector_terms_def preferred_terms_def)

lemma ex_pod_free [simp]: "\<not> arch_configured ex_pod" "HasSchedulingGate ex_pod"
  by (simp_all add: arch_configured_def has_key_def HasSchedulingGate_def HasGate_def)

section \<open>Required node affinity\<close>

text \<open>C1: When every image of the pod can be inspected, \<^verbatim>\<open>SetNodeAffinityArchRequirement\<close> succeeds and the
  resulting pod can be scheduled on exactly those nodes the original pod could be scheduled on whose
  architecture is supported by all of its images. The pod must not carry constraints of its own on
  the architecture label or the no-supported-architecture label, and its terms must be non-empty;
  the node must not carry the dummy no-supported-architecture label.\<close>

theorem node_affinity_exact:
  assumes inspected: "\<forall>img \<in> set (imagesNamesSet p). image_archs inspect secrets img = Inr (A img) \<and> finite (A img)"
    and containers: "Containers p \<noteq> []"
    and selector: "lookup_map (NodeSelector p) ArchLabel = None"
    and terms: "\<forall>t \<in> set (node_selector_terms p).
      nonempty_term t \<and> \<not> mentions_key ArchLabel t \<and> \<not> mentions_key NoSupportedArchLabel t"
    and some: "required_terms p = None \<or> node_selector_terms p \<noteq> []"
    and plain: "node_labels n NoSupportedArchLabel = None"
  shows "fst (SetNodeAffinityArchRequirement inspect secrets p) = Inr True \<and>
    (schedulable_on (snd (SetNodeAffinityArchRequirement inspect secrets p)) n \<longleftrightarrow>
     schedulable_on p n \<and>
     (\<exists>a. arch_of n = Some a \<and> (\<forall>img \<in> set (imagesNamesSet p). a \<in> A img)))"
proof -
  obtain archs where archs: "intersectImagesArchitecture inspect secrets p = Inr archs"
    and set_archs: "set archs = (\<Inter>img \<in> set (imagesNamesSet p). A img)"
    using intersect_ok[OF inspected containers] by blast
  have free: "\<not> arch_configured p"
    using selector terms some
    by (cases "required_terms p"; cases "node_selector_terms p")
      (auto simp: arch_configured_def has_key_def node_selector_terms_def)
  define req where "req = (if archs = [] then \<lparr>Key = NoSupportedArchLabel, Operator = OpExists, Values = None\<rparr>
      else arch_requirement archs)"
  have pred: "getArchitecturePredicate inspect secrets p = Inr req"
    by (simp add: getArchitecturePredicate_def archs req_def)
  have "\<forall>t \<in> set (node_selector_terms p). nonempty_term t \<and> \<not> mentions_key (Key req) t"
    using terms by (simp add: req_def)
  note run = SetNodeAffinity_schedulable[OF free pred this some]
  have "requirement_holds (node_labels n) req \<longleftrightarrow> (\<exists>a. arch_of n = Some a \<and> (\<forall>img \<in> set (imagesNamesSet p). a \<in> A img))"
  proof (cases "archs = []")
    case True
    then show ?thesis using plain set_archs by (auto simp: req_def requirement_holds_def)
  next
    case False
    then have "requirement_holds (node_labels n) req \<longleftrightarrow> (\<exists>a \<in> set archs. arch_of n = Some a)"
      by (simp add: req_def arch_requirement_holds)
    then show ?thesis unfolding set_archs by auto
  qed
  then show ?thesis using run by simp
qed

lemma ex_inspected:
  "\<forall>img \<in> set (imagesNamesSet ex_pod). image_archs ex_inspect [] img = Inr (ex_archs img) \<and> finite (ex_archs img)"
  by (simp add: image_archs_def ex_inspect_def ex_archs_def imagesNamesSet_def)

theorem node_affinity_exact_witness:
  "fst (SetNodeAffinityArchRequirement ex_inspect [] ex_pod) = Inr True \<and>
   (schedulable_on (snd (SetNodeAffinityArchRequirement ex_inspect [] ex_pod)) ex_node \<longleftrightarrow>
    schedulable_on ex_pod ex_node \<and>
    (\<exists>a. arch_of ex_node = Some a \<and> (\<forall>img \<in> set (imagesNamesSet ex_pod). a \<in> ex_archs img)))"
  by (rule node_affinity_exact[OF ex_inspected]) (simp_all add: ex_node_def)

text \<open>C27: The supported architectures of a pod do not depend on the order in which Go ranges over the set of
  images: for every enumeration of the images the loop either fails with the error of one of them, or
  all inspections succeed and the resulting sorted list is the one \<^verbatim>\<open>intersectImagesArchitecture\<close> returns.\<close>

theorem intersect_any_order:
  assumes "set imgs = set (imagesNamesSet p)"
  shows "case intersect_loop inspect secrets imgs None of
      Inl e \<Rightarrow> \<exists>img \<in> set imgs. image_archs inspect secrets img = Inl e
    | Inr s \<Rightarrow> (\<forall>img \<in> set imgs. \<exists>A. image_archs inspect secrets img = Inr A) \<and>
               intersectImagesArchitecture inspect secrets p = Inr (list_of_set s)"
proof (cases "intersect_loop inspect secrets imgs None")
  case (Inl e)
  then show ?thesis using intersect_loop_error[of inspect secrets imgs None e] by simp
next
  case (Inr s)
  then have ok: "\<forall>img \<in> set imgs. \<exists>A. image_archs inspect secrets img = Inr A"
    by (rule intersect_loop_success)
  then obtain A where A: "\<forall>img \<in> set imgs. image_archs inspect secrets img = Inr (A img)"
    by metis
  have "imgs = [] \<longleftrightarrow> imagesNamesSet p = []" using assms by (metis set_empty)
  then have "intersect_loop inspect secrets (imagesNamesSet p) None = Inr s"
    using intersect_loop_ok[OF A, of None] intersect_loop_ok[of "imagesNamesSet p" inspect secrets A None]
      A assms Inr by auto
  then show ?thesis using Inr ok by (simp add: intersectImagesArchitecture_def)
qed

theorem intersect_any_order_witness:
  "case intersect_loop ex_inspect [] (rev (imagesNamesSet ex_pod)) None of
      Inl e \<Rightarrow> \<exists>img \<in> set (rev (imagesNamesSet ex_pod)). image_archs ex_inspect [] img = Inl e
    | Inr s \<Rightarrow> (\<forall>img \<in> set (rev (imagesNamesSet ex_pod)). \<exists>A. image_archs ex_inspect [] img = Inr A) \<and>
               intersectImagesArchitecture ex_inspect [] ex_pod = Inr (list_of_set s)"
  by (rule intersect_any_order) simp

section \<open>CEL placement\<close>

lemma cel_place_schedulable:
  assumes "archs \<noteq> []"
  shows "schedulable_on (cel_place archs p) n \<longleftrightarrow> schedulable_but_arch p n \<and> (\<exists>a \<in> set archs. arch_of n = Some a)"
proof -
  let ?q = "applyArchitectureNodeAffinity archs (snd (removeArchitectureFromNodeSelector p))"
  have "schedulable_on (cel_place archs p) n = schedulable_on ?q n"
    by (rule schedulable_cong) (simp_all add: cel_place_def EnsureLabel_def)
  then show ?thesis by (simp add: apply_schedulable[OF assms])
qed

lemma schedulable_but_arch_cong:
  "NodeSelector p = NodeSelector q \<Longrightarrow> Affinity p = Affinity q \<Longrightarrow> schedulable_but_arch p n = schedulable_but_arch q n"
  by (simp add: schedulable_but_arch_def node_selector_terms_def required_terms_def)

lemma cel_winner_claims: "cel_winner env items p = Some ppc \<Longrightarrow> cel_archs env items p ppc \<noteq> []"
  unfolding cel_winner_def by (auto simp: find_Some_iff)

text \<open>C5: CEL placement takes precedence: when some matching PodPlacementConfig claims the pod, one pass of the
  controller removes the gate, the pod can run exactly on the nodes that satisfy its non-architecture
  constraints and have one of the architectures of the winning configuration, whatever architecture
  constraints the user wrote; the pod is labelled as overridden, and the image inspection is not
  consulted.\<close>

theorem cel_placement_wins:
  assumes cel: "cel_state_ok (celLib env) st" "NewEnv_error (celLib env) = None"
    and list: "list_ppcs env (Namespace p) = Inr items"
    and considered: "\<not> fst (ignore_check env items p)"
    and winner: "cel_winner env items p = Some ppc"
  shows "\<not> HasSchedulingGate (fst (processPod env p st)) \<and>
    (\<forall>n. schedulable_on (fst (processPod env p st)) n \<longleftrightarrow>
       schedulable_but_arch p n \<and> (\<exists>a \<in> set (cel_archs env items p ppc). arch_of n = Some a)) \<and>
    lookup_map (Labels (fst (processPod env p st))) NodeAffinityLabel = Some NodeAffinityLabelValueOverriden \<and>
    (\<forall>f. processPod (env\<lparr>inspectImage := f\<rparr>) p st = processPod env p st)"
proof -
  let ?p1 = "snd (ignore_check env items p)"
  let ?archs = "cel_archs env items p ppc"
  obtain applied p2 p3 st1 where run: "applyMatchingPPCs (celLib env) (filterMatchingPPCs items p)
       (isPreferredAffinityConfiguredForArchitecture ?p1) ?p1 st = (applied, p2, st1)"
    and view: "retry_view p3 = retry_view p2"
    and res: "processPod env p st =
       (if applied then (RemoveSchedulingGate (publish_skipped p3), st1) else (detect_from_images env p3, st1))"
    by (rule processPod_considered[OF list considered])
  have applied: applied using considered_spec(2)[OF cel run] winner by simp
  have placed: "retry_view p3 = retry_view (cel_place ?archs ?p1)"
    using considered_spec(4)[OF cel run winner] view by simp
  have sched: "schedulable_on (fst (processPod env p st)) n = schedulable_on (cel_place ?archs ?p1) n" for n
  proof -
    have "schedulable_on (RemoveSchedulingGate (publish_skipped p3)) n = schedulable_on (publish_skipped p3) n"
      by (rule schedulable_cong) simp_all
    then show ?thesis using schedulable_retry_view[of "publish_skipped p3" "cel_place ?archs ?p1"] placed res applied
      by simp
  qed
  have "schedulable_but_arch ?p1 n = schedulable_but_arch p n" for n
    by (rule schedulable_but_arch_cong) (simp_all add: ignore_check_retry_view)
  then have nodes: "\<forall>n. schedulable_on (fst (processPod env p st)) n \<longleftrightarrow>
      schedulable_but_arch p n \<and> (\<exists>a \<in> set ?archs. arch_of n = Some a)"
    by (simp add: sched cel_place_schedulable[OF cel_winner_claims[OF winner]])
  have label: "lookup_map (Labels (fst (processPod env p st))) NodeAffinityLabel = Some NodeAffinityLabelValueOverriden"
    using retry_viewD(7)[OF placed] res applied by (simp add: cel_place_labels)
  have "processPod (env\<lparr>inspectImage := f\<rparr>) p st = processPod env p st" for f
  proof -
    obtain b q where ic: "shouldIgnorePod (operatorNamespace env) (cppcStore env) (filterMatchingPPCs items p) p = (b, q)"
      by (cases "shouldIgnorePod (operatorNamespace env) (cppcStore env) (filterMatchingPPCs items p) p")
    then have "?p1 = q" by (simp add: ignore_check_def)
    then have run': "applyMatchingPPCs (celLib env) (filterMatchingPPCs items p)
        (isPreferredAffinityConfiguredForArchitecture q) q st = (True, p2, st1)"
      using run applied by simp
    have list': "list_ppcs (env\<lparr>inspectImage := f\<rparr>) (Namespace p) = list_ppcs env (Namespace p)"
      by (simp add: list_ppcs_def split: sum.splits)
    show ?thesis unfolding processPod_def list' list by (simp add: ic run' Let_def)
  qed
  then show ?thesis using nodes label res applied by simp
qed

lemma ex_cel_facts:
  "cel_state_ok (celLib ex_cel_env) Uninitialised" "NewEnv_error (celLib ex_cel_env) = None"
  "list_ppcs ex_cel_env (Namespace ex_pod) = Inr ex_items"
  "\<not> fst (ignore_check ex_cel_env ex_items ex_pod)"
  by (simp_all add: cel_state_ok_def ex_cel_env_def ex_env_def ex_lib_def list_ppcs_def ex_items_def
      ignore_check_def shouldIgnorePod_fst HasControlPlaneNodeSelector_def IsFromDaemonSet_def)

lemma ex_cel_winner: "cel_winner ex_cel_env ex_items ex_pod = Some (ex_ppc ''high'' 9 ''yes'' ''arm64'')"
  by code_simp

theorem cel_placement_wins_witness:
  "\<not> HasSchedulingGate (fst (processPod ex_cel_env ex_pod Uninitialised)) \<and>
    (\<forall>n. schedulable_on (fst (processPod ex_cel_env ex_pod Uninitialised)) n \<longleftrightarrow>
       schedulable_but_arch ex_pod n \<and>
       (\<exists>a \<in> set (cel_archs ex_cel_env ex_items ex_pod (ex_ppc ''high'' 9 ''yes'' ''arm64'')). arch_of n = Some a)) \<and>
    lookup_map (Labels (fst (processPod ex_cel_env ex_pod Uninitialised))) NodeAffinityLabel =
      Some NodeAffinityLabelValueOverriden \<and>
    (\<forall>f. processPod (ex_cel_env\<lparr>inspectImage := f\<rparr>) ex_pod Uninitialised = processPod ex_cel_env ex_pod Uninitialised)"
  by (rule cel_placement_wins[OF ex_cel_facts ex_cel_winner])

text \<open>Among the matching PodPlacementConfigs that claim a pod the one with the highest priority wins, provided
  the priorities are pairwise distinct, which the validating webhook maintains.\<close>

theorem cel_winner_highest_priority:
  assumes "distinct (map Priority items)" and "cel_winner env items p = Some ppc"
    and "other \<in> set (filterMatchingPPCs items p)" and "other \<noteq> ppc" and "cel_archs env items p other \<noteq> []"
  shows "Priority other < Priority ppc"
proof -
  let ?sorted = "sort_desc Priority (filterMatchingPPCs items p)"
  obtain i where i: "i < length ?sorted" "?sorted ! i = ppc"
    "\<forall>j<i. \<not> (cel_archs env items p (?sorted ! j) \<noteq> [])"
    using assms(2) unfolding cel_winner_def by (auto simp: find_Some_iff)
  obtain j where j: "j < length ?sorted" "?sorted ! j = other"
    using assms(3) by (metis in_set_conv_nth set_sort_desc)
  have "i < j" using i j assms(4,5) by (metis linorder_neqE_nat)
  then have le: "Priority other \<le> Priority ppc"
    using descending_sort_desc[of Priority "filterMatchingPPCs items p"] i(2) j
    by (metis sorted_wrt_iff_nth_less)
  have "ppc \<in> set items" "other \<in> set items"
    using i assms(3) nth_mem[OF i(1)] by (auto simp: filterMatchingPPCs_def)
  then have "Priority other \<noteq> Priority ppc" using assms(1,4) by (auto simp: distinct_map inj_on_def)
  then show ?thesis using le by simp
qed

theorem cel_winner_highest_priority_witness:
  "Priority (ex_ppc ''low'' 1 ''yes'' ''s390x'') < Priority (ex_ppc ''high'' 9 ''yes'' ''arm64'')"
proof (rule cel_winner_highest_priority[OF _ ex_cel_winner])
  show "distinct (map Priority ex_items)" by code_simp
  show "ex_ppc ''low'' 1 ''yes'' ''s390x'' \<in> set (filterMatchingPPCs ex_items ex_pod)" by code_simp
  show "ex_ppc ''low'' 1 ''yes'' ''s390x'' \<noteq> ex_ppc ''high'' 9 ''yes'' ''arm64''" by code_simp
  show "cel_archs ex_cel_env ex_items ex_pod (ex_ppc ''low'' 1 ''yes'' ''s390x'') \<noteq> []" by code_simp
qed

section \<open>When the gate is removed\<close>

text \<open>C3: After a successful listing of the PodPlacementConfigs, a gated pod stays gated exactly when it is not
  ignored, no configuration claims it through CEL, the user has not constrained the architecture
  everywhere, the image inspection fails, and fewer than four failures are recorded on it.\<close>

theorem gate_kept_iff:
  assumes cel: "cel_state_ok (celLib env) st" "NewEnv_error (celLib env) = None"
    and list: "list_ppcs env (Namespace p) = Inr items" and gated: "HasSchedulingGate p"
  shows "HasSchedulingGate (fst (processPod env p st)) \<longleftrightarrow>
    \<not> fst (ignore_check env items p) \<and> cel_winner env items p = None \<and>
    \<not> arch_configured p \<and> images_fail env p \<and> retry_count p < 4"
proof (cases "fst (ignore_check env items p)")
  case True
  have "HasSchedulingGate (PublishEvent t r m (RemoveSchedulingGate q)) = HasSchedulingGate (RemoveSchedulingGate q)"
    for t r m q by (rule HasSchedulingGate_cong) (simp add: PublishEvent_def)
  then show ?thesis using True processPod_ignored[OF list True] by simp
next
  case False
  let ?p1 = "snd (ignore_check env items p)"
  obtain applied p2 p3 st1 where run: "applyMatchingPPCs (celLib env) (filterMatchingPPCs items p)
       (isPreferredAffinityConfiguredForArchitecture ?p1) ?p1 st = (applied, p2, st1)"
    and view: "retry_view p3 = retry_view p2"
    and res: "processPod env p st =
       (if applied then (RemoveSchedulingGate (publish_skipped p3), st1) else (detect_from_images env p3, st1))"
    by (rule processPod_considered[OF list False])
  show ?thesis
  proof (cases "cel_winner env items p")
    case None
    then have v: "retry_view p3 = retry_view ?p1" using considered_spec(3)[OF cel run] view by simp
    note v' = retry_viewD[OF v] ignore_check_retry_view[of env items p]
    have "HasSchedulingGate p3 = HasSchedulingGate p"
      using v' by (intro HasSchedulingGate_cong) simp
    moreover have "arch_configured p3 = arch_configured p"
      using v' required_terms_cong[of ?p1 p] by (intro arch_configured_cong) simp_all
    moreover have "images_fail env p3 = images_fail env p" using v' by (intro images_fail_cong) simp
    moreover have "retry_count p3 = retry_count p" using v' by (intro retry_count_cong) simp
    ultimately show ?thesis
      using None False gated res considered_spec(2)[OF cel run] by (simp add: detect_gate)
  next
    case (Some ppc)
    then show ?thesis using res considered_spec(2)[OF cel run] by simp
  qed
qed

lemma ex_env_facts:
  "cel_state_ok (celLib ex_env) Uninitialised" "NewEnv_error (celLib ex_env) = None"
  "list_ppcs ex_env (Namespace ex_pod) = Inr []" "HasSchedulingGate ex_pod"
  by (simp_all add: cel_state_ok_def ex_env_def ex_lib_def list_ppcs_def)

theorem gate_kept_iff_witness:
  "HasSchedulingGate (fst (processPod ex_env ex_pod Uninitialised)) \<longleftrightarrow>
    \<not> fst (ignore_check ex_env [] ex_pod) \<and> cel_winner ex_env [] ex_pod = None \<and>
    \<not> arch_configured ex_pod \<and> images_fail ex_env ex_pod \<and> retry_count ex_pod < 4"
  by (rule gate_kept_iff[OF ex_env_facts])

text \<open>A failure to list the PodPlacementConfigs, from the cache or from the API server, never removes the
  scheduling gate nor changes where the pod may run; it is recorded on the pod as an inspection error.\<close>

theorem list_error_keeps_gate:
  assumes "list_ppcs env (Namespace p) = Inl e"
  shows "HasSchedulingGate (fst (processPod env p st)) = HasSchedulingGate p \<and>
    schedulable_on (fst (processPod env p st)) n = schedulable_on p n \<and>
    lookup_map (Labels (fst (processPod env p st))) ImageInspectionErrorLabel = Some [] \<and>
    lookup_map (Annotations (fst (processPod env p st))) ImageInspectionErrorLabel = Some (truncate_runes (error_msg e))"
proof -
  have res: "fst (processPod env p st) = handleError (Some e) p"
    by (simp add: processPod_def assms)
  have "HasSchedulingGate (handleError (Some e) p) = HasSchedulingGate p"
    by (rule HasSchedulingGate_cong) simp
  moreover have "schedulable_on (handleError (Some e) p) n = schedulable_on p n"
    by (rule schedulable_cong) simp_all
  ultimately show ?thesis
    by (simp add: res handleError_lookup) (simp add: handleError_def Let_def pod_ops)
qed

theorem list_error_keeps_gate_witness:
  "HasSchedulingGate (fst (processPod (ex_env\<lparr>listPPC := (\<lambda>_. Inl (GoError ''down''))\<rparr>) ex_pod Uninitialised)) =
     HasSchedulingGate ex_pod \<and>
   schedulable_on (fst (processPod (ex_env\<lparr>listPPC := (\<lambda>_. Inl (GoError ''down''))\<rparr>) ex_pod Uninitialised)) ex_node =
     schedulable_on ex_pod ex_node \<and>
   lookup_map (Labels (fst (processPod (ex_env\<lparr>listPPC := (\<lambda>_. Inl (GoError ''down''))\<rparr>) ex_pod Uninitialised)))
     ImageInspectionErrorLabel = Some [] \<and>
   lookup_map (Annotations (fst (processPod (ex_env\<lparr>listPPC := (\<lambda>_. Inl (GoError ''down''))\<rparr>) ex_pod Uninitialised)))
     ImageInspectionErrorLabel = Some (truncate_runes (error_msg (GoError ''down'')))"
  by (rule list_error_keeps_gate) (simp add: list_ppcs_def)

section \<open>The retry budget\<close>

text \<open>
  A pod whose images cannot be inspected, in a namespace without CEL placement: every pass of the
  controller over it fails.
\<close>

definition persistently_failing :: "cluster_env \<Rightarrow> PodPlacementConfig list \<Rightarrow> ('p) CorePod_scheme \<Rightarrow> bool" where
  "persistently_failing env items p =
     (list_ppcs env (Namespace p) = Inr items \<and>
      list_all (\<lambda>ppc. \<not> ppc_PluginsEnabled ppc CelArchitecturePlacementPluginName) items \<and>
      operatorNamespace env \<noteq> Namespace p \<and> \<not> has_prefix (Namespace p) ''kube-'' \<and> NodeName p = [] \<and>
      \<not> HasControlPlaneNodeSelector p \<and> \<not> IsFromDaemonSet p \<and> \<not> arch_configured p \<and>
      images_fail env p \<and> HasSchedulingGate p)"

lemma persistently_failing_cong:
  assumes "identity_of p = identity_of q" "NodeSelector p = NodeSelector q" "required_terms p = required_terms q"
    "SchedulingGates p = SchedulingGates q"
  shows "persistently_failing env items p = persistently_failing env items q"
  using assms identity_ofD[OF assms(1)] images_fail_cong[OF assms(1), of env] arch_configured_cong[OF assms(2,3)]
    HasSchedulingGate_cong[OF assms(4)]
  by (simp add: persistently_failing_def HasControlPlaneNodeSelector_def IsFromDaemonSet_def)

lemma process_failing:
  assumes "persistently_failing env items p"
  obtains e p3 where "retry_view p3 = retry_view p"
    "fst (processPod env p st) =
       (if 4 \<le> retry_count p
        then RemoveSchedulingGate (publish_skipped (fallback_step env e (handleError (Some e) p3)))
        else handleError (Some e) p3)"
proof -
  have list: "list_ppcs env (Namespace p) = Inr items" and free: "\<not> arch_configured p"
    and nocel: "\<forall>ppc \<in> set (filterMatchingPPCs items p). \<not> ppc_PluginsEnabled ppc CelArchitecturePlacementPluginName"
    and fails: "images_fail env p"
    using assms by (auto simp: persistently_failing_def filterMatchingPPCs_def list_all_iff)
  have considered: "\<not> fst (ignore_check env items p)"
    using assms by (simp add: ignore_check_def shouldIgnorePod_fst persistently_failing_def)
  let ?p1 = "snd (ignore_check env items p)"
  have p1: "?p1 = p"
    using assms isNodeSelectorConfigured_False[OF free]
    by (simp add: ignore_check_def shouldIgnorePod_def persistently_failing_def)
  obtain applied p2 p3 st1 where run: "applyMatchingPPCs (celLib env) (filterMatchingPPCs items p)
       (isPreferredAffinityConfiguredForArchitecture ?p1) ?p1 st = (applied, p2, st1)"
    and view: "retry_view p3 = retry_view p2"
    and res: "processPod env p st =
       (if applied then (RemoveSchedulingGate (publish_skipped p3), st1) else (detect_from_images env p3, st1))"
    by (rule processPod_considered[OF list considered])
  obtain p' where "applyMatchingPPCs (celLib env) (filterMatchingPPCs items p)
       (isPreferredAffinityConfiguredForArchitecture ?p1) ?p1 st = (False, p', st)" "retry_view p' = retry_view ?p1"
    by (rule applyMatchingPPCs_disabled[OF nocel])
  then have na: "\<not> applied" and v: "retry_view p3 = retry_view p" using run view p1 by auto
  note v' = retry_viewD[OF v]
  obtain psdl where psdl: "pullSecretDataList env p3 = Inr psdl" by (simp add: pullSecretDataList_def)
  have "images_fail env p3" using fails images_fail_cong[OF v'(1)] by simp
  then obtain e where e: "intersectImagesArchitecture (inspectImage env) psdl p3 = Inl e"
    by (auto simp: images_fail_def psdl split: sum.splits)
  have "\<not> arch_configured p3" using free arch_configured_cong[OF v'(2,3)] by simp
  from detect_fail[OF this psdl e] have "fst (processPod env p st) =
       (if 4 \<le> retry_count p
        then RemoveSchedulingGate (publish_skipped (fallback_step env e (handleError (Some e) p3)))
        else handleError (Some e) p3)"
    using res na retry_count_cong[OF v'(5)] by simp
  then show thesis using that v by blast
qed

lemma failing_pass_retries:
  assumes "persistently_failing env items p" "0 \<le> retry_count p" "retry_count p < 4"
  shows "persistently_failing env items (fst (processPod env p st))"
    and "retry_count (fst (processPod env p st)) = retry_count p + 1"
proof -
  obtain e p3 where v: "retry_view p3 = retry_view p" and res: "fst (processPod env p st) =
       (if 4 \<le> retry_count p
        then RemoveSchedulingGate (publish_skipped (fallback_step env e (handleError (Some e) p3)))
        else handleError (Some e) p3)"
    by (rule process_failing[OF assms(1)])
  note v' = retry_viewD[OF v]
  have r: "fst (processPod env p st) = handleError (Some e) p3" using res assms(3) by simp
  show "persistently_failing env items (fst (processPod env p st))"
    using assms(1) v' unfolding r by (subst persistently_failing_cong[where q = p]) simp_all
  show "retry_count (fst (processPod env p st)) = retry_count p + 1"
    using retry_count_handleError[of p3 e] retry_count_cong[OF v'(5)] assms(3) by (simp add: r)
qed

lemma failing_pass_ungates:
  assumes "persistently_failing env items p" "4 \<le> retry_count p"
  shows "\<not> HasSchedulingGate (fst (processPod env p st))"
  using process_failing[OF assms(1), of st] assms(2) by (metis HasGate_RemoveSchedulingGate)

text \<open>The stored pod after \<open>n\<close> passes in which reading and updating the pod succeed.\<close>

definition reconcile_run :: "cluster_env \<Rightarrow> nat \<Rightarrow> controller_state \<Rightarrow> controller_state" where
  "reconcile_run env n s = ((\<lambda>t. snd (Reconcile env None None t)) ^^ n) s"

lemma PodObject_NewPod [simp]: "PodObject (NewPod core ev m) = core"
  by (simp add: PodObject_def NewPod_def CorePod.truncate_def CorePod.extend_def Pod.fields_def)

lemma PodObject_metrics [simp]: "PodObject (p\<lparr>pod_metrics := m\<rparr>) = PodObject p"
  by (simp add: PodObject_def CorePod.truncate_def)

lemma core_views [simp]:
  "HasSchedulingGate (PodObject p) = HasSchedulingGate p" "retry_count (PodObject p) = retry_count p"
  "persistently_failing env items (PodObject p) = persistently_failing env items p"
proof -
  have f: "SchedulingGates (PodObject p) = SchedulingGates p" "Labels (PodObject p) = Labels p"
    "identity_of (PodObject p) = identity_of p" "NodeSelector (PodObject p) = NodeSelector p"
    "required_terms (PodObject p) = required_terms p"
    by (simp_all add: PodObject_def CorePod.truncate_def identity_of_def required_terms_def)
  show "HasSchedulingGate (PodObject p) = HasSchedulingGate p" by (rule HasSchedulingGate_cong) (simp add: f)
  show "retry_count (PodObject p) = retry_count p" by (rule retry_count_cong) (simp add: f)
  show "persistently_failing env items (PodObject p) = persistently_failing env items p"
    by (rule persistently_failing_cong) (simp_all add: f)
qed

lemma Reconcile_stored:
  assumes "stored s = Some core" "HasSchedulingGate core"
  obtains p where "PodObject p = core"
    "stored (snd (Reconcile env None None s)) = Some (PodObject (fst (processPod env p (cel s))))"
proof -
  let ?p = "NewPod core (events s) (counters s)"
  let ?p1 = "?p\<lparr>pod_metrics := (pod_metrics ?p)\<lparr>ProcessedPodsCtrl := ProcessedPodsCtrl (pod_metrics ?p) + 1\<rparr>\<rparr>"
  have gate: "HasSchedulingGate ?p" using assms(2) core_views(1)[of ?p] by simp
  obtain p2 st where run: "processPod env ?p1 (cel s) = (p2, st)" by (cases "processPod env ?p1 (cel s)")
  have "stored (snd (Reconcile env None None s)) = Some (PodObject p2)"
    using gate run by (simp add: Reconcile_def assms(1) Let_def)
  then show thesis using that[of ?p1] run by simp
qed

lemma failing_run:
  assumes "stored s = Some core" "persistently_failing env items core" "retry_count core = 0" "k \<le> 4"
  shows "\<exists>c. stored (reconcile_run env k s) = Some c \<and> persistently_failing env items c \<and> retry_count c = int k"
  using assms(4)
proof (induction k)
  case 0
  then show ?case using assms by (simp add: reconcile_run_def)
next
  case (Suc k)
  then obtain c where c: "stored (reconcile_run env k s) = Some c" "persistently_failing env items c"
    "retry_count c = int k" by auto
  have "HasSchedulingGate c" using c(2) by (simp add: persistently_failing_def)
  from Reconcile_stored[OF c(1) this] obtain p where p: "PodObject p = c"
    "stored (reconcile_run env (Suc k) s) = Some (PodObject (fst (processPod env p (cel (reconcile_run env k s)))))"
    by (auto simp: reconcile_run_def)
  have "persistently_failing env items p" "retry_count p = int k" using c p(1) core_views by metis+
  then show ?case using failing_pass_retries[of env items p "cel (reconcile_run env k s)"] Suc.prems p(2) by simp
qed

text \<open>C12: No pod waits for ever on an image that cannot be inspected: with persistent inspection failures the pod
  stays gated through four passes of the controller, the failures being counted on it, and the fifth pass
  removes the scheduling gate.\<close>

theorem retry_budget:
  assumes "stored s = Some core" "persistently_failing env items core" "retry_count core = 0"
  shows "(\<forall>k < 5. \<exists>c. stored (reconcile_run env k s) = Some c \<and> HasSchedulingGate c \<and> retry_count c = int k) \<and>
    (\<exists>c. stored (reconcile_run env 5 s) = Some c \<and> \<not> HasSchedulingGate c)"
proof -
  have upto: "\<exists>c. stored (reconcile_run env k s) = Some c \<and> persistently_failing env items c \<and> retry_count c = int k"
    if "k < 5" for k
    using failing_run[OF assms, of k] that by simp
  then have first: "\<forall>k < 5. \<exists>c. stored (reconcile_run env k s) = Some c \<and> HasSchedulingGate c \<and> retry_count c = int k"
    by (meson persistently_failing_def)
  obtain c where c: "stored (reconcile_run env 4 s) = Some c" "persistently_failing env items c" "retry_count c = 4"
    using upto[of 4] by auto
  have "HasSchedulingGate c" using c(2) by (simp add: persistently_failing_def)
  from Reconcile_stored[OF c(1) this] obtain p where p: "PodObject p = c"
    "stored (reconcile_run env 5 s) = Some (PodObject (fst (processPod env p (cel (reconcile_run env 4 s)))))"
    by (auto simp: reconcile_run_def eval_nat_numeral)
  have "persistently_failing env items p" "retry_count p = 4" using c p(1) core_views by metis+
  then show ?thesis using first p(2) failing_pass_ungates[of env items p] by simp
qed

lemma ex_failing: "persistently_failing ex_env [] ex_core" "retry_count ex_core = 0"
proof -
  have "persistently_failing ex_env [] ex_pod"
    by (simp add: persistently_failing_def ex_env_def list_ppcs_def HasControlPlaneNodeSelector_def
        IsFromDaemonSet_def images_fail_def pullSecretDataList_def getPodImagePullSecrets_def
        intersectImagesArchitecture_def imagesNamesSet_def map_filter_simps)
  then show "persistently_failing ex_env [] ex_core"
    using core_views(3)[of ex_env "[]" ex_pod] by (simp add: ex_pod_def)
  show "retry_count ex_core = 0" by (simp add: retry_count_def ex_core_def zero_pod_def)
qed

definition ex_state :: controller_state where
  "ex_state = \<lparr>stored = Some ex_core, events = Some [], counters = ex_metrics, cel = Uninitialised\<rparr>"

theorem retry_budget_witness:
  "(\<exists>c. stored (reconcile_run ex_env 4 ex_state) = Some c \<and> HasSchedulingGate c \<and> retry_count c = int 4) \<and>
   (\<exists>c. stored (reconcile_run ex_env 5 ex_state) = Some c \<and> \<not> HasSchedulingGate c)"
proof -
  have "stored ex_state = Some ex_core" by (simp add: ex_state_def)
  note run = retry_budget[OF this ex_failing]
  have "(4::nat) < 5" by simp
  with run show ?thesis by blast
qed

text \<open>C28: Take a gated pod that is not ignored, in a namespace without CEL placement, whose images cannot be inspected,
  and whose own required node affinity, if any, has only nonempty terms that do not mention the architecture. When
  four attempts have failed before and the cluster configuration names a fallback architecture, the next pass ungates
  the pod and labels it with the fallback, and the pod can then run exactly on the nodes of that architecture among
  those it could run on before.\<close>

theorem fallback_after_retries:
  assumes failing: "persistently_failing env items p" "4 \<le> retry_count p"
    and cppc: "cppcStore env = Some c" "FallbackArchitecture c \<noteq> []"
    and terms: "\<forall>t \<in> set (node_selector_terms p). nonempty_term t \<and> \<not> mentions_key ArchLabel t"
    and some: "required_terms p = None \<or> node_selector_terms p \<noteq> []"
  shows "\<not> HasSchedulingGate (fst (processPod env p st)) \<and>
    lookup_map (Labels (fst (processPod env p st))) FallbackArchitectureLabel = Some (FallbackArchitecture c) \<and>
    (schedulable_on (fst (processPod env p st)) n \<longleftrightarrow>
     schedulable_on p n \<and> arch_of n = Some (FallbackArchitecture c))"
proof -
  obtain e p3 where v: "retry_view p3 = retry_view p" and res: "fst (processPod env p st) =
       (if 4 \<le> retry_count p
        then RemoveSchedulingGate (publish_skipped (fallback_step env e (handleError (Some e) p3)))
        else handleError (Some e) p3)"
    by (rule process_failing[OF failing(1)])
  note v' = retry_viewD[OF v]
  let ?f = "FallbackArchitecture c"
  let ?h = "PublishEvent EventTypeWarning ImageArchitectureInspectionError
              (ImageInspectionErrorMaxRetriesMsg @ '': '' @ error_msg e) (handleError (Some e) p3)"
  let ?s = "setRequiredArchNodeAffinity (arch_requirement [?f]) (init_required ?h)"
  have step: "fallback_step env e (handleError (Some e) p3) = setRequiredNodeAffinityToFallbackArchitecture ?f ?h"
    by (simp add: fallback_step_def cppc Let_def)
  have r: "fst (processPod env p st) =
      RemoveSchedulingGate (publish_skipped (setRequiredNodeAffinityToFallbackArchitecture ?f ?h))"
    using res failing(2) step by simp
  have label: "lookup_map (Labels (fst (processPod env p st))) FallbackArchitectureLabel = Some ?f"
    by (simp add: r setRequiredNodeAffinityToFallbackArchitecture_def Let_def pod_ops)
  have "schedulable_on (fst (processPod env p st)) n = schedulable_on ?s n"
    unfolding r by (rule schedulable_cong)
      (simp_all add: setRequiredNodeAffinityToFallbackArchitecture_def Let_def pod_ops publish_skipped_def)
  also have "\<dots> = (schedulable_on ?h n \<and> requirement_holds (node_labels n) (arch_requirement [?f]))"
  proof (rule set_required_schedulable)
    have h: "required_terms ?h = required_terms p" using v'(3)
      by (simp add: PublishEvent_def required_terms_def)
    then have "node_selector_terms ?h = node_selector_terms p" by (simp add: node_selector_terms_def)
    then show "\<forall>t \<in> set (node_selector_terms ?h). nonempty_term t \<and> \<not> mentions_key (Key (arch_requirement [?f])) t"
      "required_terms ?h = None \<or> node_selector_terms ?h \<noteq> []"
      using terms some h by simp_all
  qed
  also have "schedulable_on ?h n = schedulable_on p3 n"
    by (rule schedulable_cong) (simp_all add: PublishEvent_def)
  also have "\<dots> = schedulable_on p n" by (rule schedulable_retry_view[OF v])
  finally show ?thesis using label by (simp add: r arch_requirement_holds)
qed

definition ex_cppc :: ClusterPodPlacementConfig where
  "ex_cppc = \<lparr>cppc_Name = ''cluster'', cppc_Annotations = None, cppc_Finalizers = [], cppc_Deleting = False,
     LogVerbosity = ''Normal'', NamespaceSelector = None, cppc_Plugins = None, FallbackArchitecture = ''arm64'',
     cppc_Status = \<lparr>Conditions = None, available = False, progressing = False, degraded = False,
       deprovisioning = False, podPlacementControllerNotReady = False, podPlacementWebhookNotReady = False,
       mutatingWebhookConfigurationNotAvailable = False, canDeployMutatingWebhook = False\<rparr>\<rparr>"

definition ex_fallback_env :: cluster_env where
  "ex_fallback_env = ex_env\<lparr>cppcStore := Some ex_cppc\<rparr>"

definition ex_tired_pod :: Pod where
  "ex_tired_pod = EnsureLabel ImageInspectionErrorCountLabel ''4'' ex_pod"

lemma ex_tired:
  "persistently_failing ex_fallback_env [] ex_tired_pod" "4 \<le> retry_count ex_tired_pod"
  "cppcStore ex_fallback_env = Some ex_cppc" "FallbackArchitecture ex_cppc \<noteq> []"
  "required_terms ex_tired_pod = None" "node_selector_terms ex_tired_pod = []"
proof -
  have t: "required_terms ex_tired_pod = None" "identity_of ex_tired_pod = identity_of ex_pod"
    "NodeSelector ex_tired_pod = NodeSelector ex_pod" "SchedulingGates ex_tired_pod = SchedulingGates ex_pod"
    by (simp_all add: ex_tired_pod_def EnsureLabel_def required_terms_def)
  have "persistently_failing ex_fallback_env [] ex_pod"
    by (simp add: persistently_failing_def ex_fallback_env_def ex_env_def list_ppcs_def HasControlPlaneNodeSelector_def
        IsFromDaemonSet_def images_fail_def pullSecretDataList_def getPodImagePullSecrets_def
        intersectImagesArchitecture_def imagesNamesSet_def map_filter_simps)
  then show "persistently_failing ex_fallback_env [] ex_tired_pod"
    using persistently_failing_cong[OF t(2,3) _ t(4)] t(1) by simp
  show "required_terms ex_tired_pod = None" "node_selector_terms ex_tired_pod = []"
    using t(1) by (simp_all add: node_selector_terms_def)
  have "ParseInt 32 ''4'' = Some 4" by code_simp
  then show "4 \<le> retry_count ex_tired_pod"
    by (simp add: retry_count_def ex_tired_pod_def EnsureLabel_def)
qed (simp_all add: ex_fallback_env_def ex_cppc_def)

theorem fallback_after_retries_witness:
  "\<not> HasSchedulingGate (fst (processPod ex_fallback_env ex_tired_pod Uninitialised)) \<and>
    lookup_map (Labels (fst (processPod ex_fallback_env ex_tired_pod Uninitialised))) FallbackArchitectureLabel =
      Some (FallbackArchitecture ex_cppc) \<and>
    (schedulable_on (fst (processPod ex_fallback_env ex_tired_pod Uninitialised)) ex_node \<longleftrightarrow>
     schedulable_on ex_tired_pod ex_node \<and> arch_of ex_node = Some (FallbackArchitecture ex_cppc))"
  by (rule fallback_after_retries[OF ex_tired(1-4)]) (simp_all add: ex_tired)

section \<open>The gauge of gated pods\<close>

abbreviation gauge :: "Pod \<Rightarrow> int" where
  "gauge p \<equiv> GatedPodsGauge (pod_metrics p)"

lemma gauge_ops [simp]:
  "pod_metrics (EnsureLabel l v p) = pod_metrics p" "pod_metrics (EnsureNoLabel l p) = pod_metrics p"
  "pod_metrics (EnsureAnnotation l v p) = pod_metrics p" "pod_metrics (PublishEvent t r m p) = pod_metrics p"
  "pod_metrics (EnsureAndIncrementLabel l p) = pod_metrics p"
  "pod_metrics (AddGate g p) = pod_metrics p" "pod_metrics (RemoveGate g p) = pod_metrics p"
  "pod_metrics (trackAffinitySource a w s ap p) = pod_metrics p"
  "pod_metrics (update_node_affinity f p) = pod_metrics p" "pod_metrics (init_affinity p) = pod_metrics p"
  "pod_metrics (init_node_affinity p) = pod_metrics p" "pod_metrics (publishIgnorePod p) = pod_metrics p"
  "pod_metrics (snd (removeArchitectureFromNodeSelector p)) = pod_metrics p"
  by (simp_all add: pod_ops EnsureAndIncrementLabel_def AddGate_def RemoveGate_def Let_def trackAffinitySource_def
      update_node_affinity_def init_affinity_def init_node_affinity_def publishIgnorePod_def
      removeArchitectureFromNodeSelector_def split: option.splits)

lemma gauge_edits [simp]:
  "pod_metrics (init_required p) = pod_metrics p" "pod_metrics (init_preferred p) = pod_metrics p"
  "pod_metrics (set_required_terms ts p) = pod_metrics p"
  "pod_metrics (setRequiredArchNodeAffinity req p) = pod_metrics p"
  "pod_metrics (applyArchitectureNodeAffinity archs p) = pod_metrics p"
  "pod_metrics (RemoveSchedulingGate p) = pod_metrics p" "pod_metrics (publish_skipped p) = pod_metrics p"
  "pod_metrics (setRequiredNodeAffinityToFallbackArchitecture a p) = pod_metrics p"
  by (simp_all add: init_required_def init_preferred_def set_required_terms_def setRequiredArchNodeAffinity_def Let_def
      applyArchitectureNodeAffinity_def RemoveSchedulingGate_def publish_skipped_def
      setRequiredNodeAffinityToFallbackArchitecture_def)

lemma gauge_foldl:
  "(\<And>q x. pod_metrics (f q x) = pod_metrics q) \<Longrightarrow> pod_metrics (foldl f p xs) = pod_metrics p"
  by (induction xs arbitrary: p) simp_all

lemma gauge_preferred_loop:
  "preferred_loop src ts seen added skipped p = (added', skipped', p') \<Longrightarrow> pod_metrics p' = pod_metrics p" for p :: Pod
  by (induction src ts seen added skipped p rule: preferred_loop.induct) (auto split: if_splits)

lemma gauge_SetPreferred [simp]: "pod_metrics (SetPreferredArchNodeAffinity nas src p) = pod_metrics p"
proof -
  obtain added skipped p1 where loop:
    "preferred_loop src (Platforms nas) (getExistingPreferredArchitectures p) [] []
       (init_preferred p) = (added, skipped, p1)"
    by (metis prod_cases3)
  then show ?thesis using gauge_preferred_loop[OF loop]
    by (simp add: SetPreferredArchNodeAffinity_def Let_def)
qed

lemma gauge_scoring [simp]:
  "pod_metrics (apply_scoring ppc p) = pod_metrics p" "pod_metrics (apply_cppc_scoring cppc p) = pod_metrics p"
  "pod_metrics (trackSkippedMatchingConfigs cppc ppcs p) = pod_metrics p"
proof -
  have tp: "pod_metrics (track_platforms ts src q) = pod_metrics q" for ts src q
    by (simp add: track_platforms_def gauge_foldl)
  then have "pod_metrics (track_ppc ppc' q) = pod_metrics q" for ppc' q
    by (simp add: track_ppc_def split: option.splits)
  then show "pod_metrics (trackSkippedMatchingConfigs cppc ppcs p) = pod_metrics p"
    by (simp add: trackSkippedMatchingConfigs_def tp gauge_foldl Let_def split: option.splits)
  show "pod_metrics (apply_scoring ppc p) = pod_metrics p" "pod_metrics (apply_cppc_scoring cppc p) = pod_metrics p"
    by (simp_all add: apply_scoring_def apply_cppc_scoring_def split: option.splits)
qed

lemma gauge_applyCEL: "applyCELArchitecturePlacement lib ppc p st = (b, q, st') \<Longrightarrow> pod_metrics q = pod_metrics p"
  by (auto simp: applyCELArchitecturePlacement_def Let_def split: if_splits option.splits prod.splits sum.splits)

lemma gauge_first_cel: "apply_first_cel lib ppcs p st = (b, q, st') \<Longrightarrow> pod_metrics q = pod_metrics p"
proof (induction ppcs arbitrary: p st)
  case (Cons ppc ppcs)
  obtain a r st1 where one: "applyCELArchitecturePlacement lib ppc p st = (a, r, st1)" by (metis prod_cases3)
  show ?case using Cons gauge_applyCEL[OF one] by (cases a) (auto simp: one)
qed simp

lemma gauge_ensureArchitectureLabels [simp]: "pod_metrics (ensureArchitectureLabels req p) = pod_metrics p" for p :: Pod
proof -
  have "pod_metrics (foldl (\<lambda>q v. if v \<in> AllSupportedArchitecturesSet then EnsureLabel (ArchLabelValue v) [] q else q) r vs) =
      pod_metrics r" for r :: Pod and vs
    by (rule gauge_foldl) simp
  then show ?thesis by (simp add: ensureArchitectureLabels_def Let_def split: option.splits)
qed

lemma gauge_handleError [simp]: "gauge (handleError e p) = gauge p"
  by (simp add: handleError_def Let_def split: option.splits)

lemma gauge_SetNodeAffinity: "pod_metrics (snd (SetNodeAffinityArchRequirement i s p)) = pod_metrics p"
proof -
  obtain b p0 where c: "isNodeSelectorConfiguredForArchitecture p = (b, p0)"
    by (cases "isNodeSelectorConfiguredForArchitecture p")
  then have "pod_metrics p0 = pod_metrics p" using isNodeSelectorConfigured_frame(5)[of p] by simp
  then show ?thesis by (simp add: SetNodeAffinityArchRequirement_def c Let_def split: sum.splits)
qed

lemma gauge_detect: "gauge (detect_from_images env p) = gauge p"
proof -
  obtain psdl where psdl: "pullSecretDataList env p = Inr psdl" by (simp add: pullSecretDataList_def)
  obtain r p1 where run: "SetNodeAffinityArchRequirement (inspectImage env) psdl p = (r, p1)"
    by (cases "SetNodeAffinityArchRequirement (inspectImage env) psdl p")
  then have "gauge p1 = gauge p" using gauge_SetNodeAffinity[of "inspectImage env" psdl p] by simp
  then show ?thesis by (simp add: detect_from_images_def psdl run Let_def split: sum.splits option.splits)
qed

lemma gauge_processPod: "gauge (fst (processPod env p st)) = gauge p"
proof (cases "list_ppcs env (Namespace p)")
  case (Inl e)
  then show ?thesis by (simp add: processPod_def)
next
  case (Inr items)
  obtain b q where ic: "shouldIgnorePod (operatorNamespace env) (cppcStore env) (filterMatchingPPCs items p) p = (b, q)"
    by (cases "shouldIgnorePod (operatorNamespace env) (cppcStore env) (filterMatchingPPCs items p) p")
  have q: "pod_metrics q = pod_metrics p"
    using shouldIgnorePod_frame(5)[of "operatorNamespace env" "cppcStore env" "filterMatchingPPCs items p" p] ic by simp
  let ?sorted = "sort_desc Priority (filterMatchingPPCs items p)"
  obtain a r st1 where first: "apply_first_cel (celLib env) ?sorted q st = (a, r, st1)" by (metis prod_cases3)
  have "pod_metrics r = pod_metrics p" using gauge_first_cel[OF first] q by simp
  moreover have "pod_metrics (foldl (\<lambda>q ppc. apply_scoring ppc q) r ?sorted) = pod_metrics r"
    by (rule gauge_foldl) simp
  ultimately show ?thesis
    using q by (simp add: processPod_def Inr ic Let_def applyMatchingPPCs_def first gauge_detect)
qed

lemma HasSchedulingGate_updates [simp]:
  "HasSchedulingGate (p\<lparr>pod_metrics := m\<rparr>) = HasSchedulingGate p"
  "HasSchedulingGate (PublishEvent t r msg p) = HasSchedulingGate p"
  by (rule HasSchedulingGate_cong; simp add: PublishEvent_def)+

definition gated_count :: "controller_state \<Rightarrow> int" where
  "gated_count s = (case stored s of None \<Rightarrow> 0 | Some c \<Rightarrow> if HasSchedulingGate c then 1 else 0)"

text \<open>The gauge of gated pods is accurate: every call of \<^verbatim>\<open>Reconcile\<close>, whatever reads and updates fail, changes
  the gauge by exactly the change in whether the stored pod carries the scheduling gate.\<close>

theorem gauge_tracks_gate:
  "GatedPodsGauge (counters (snd (Reconcile env getErr updateErr s))) - GatedPodsGauge (counters s) =
     gated_count (snd (Reconcile env getErr updateErr s)) - gated_count s"
proof (cases "getErr = None \<and> (\<exists>core. stored s = Some core \<and> HasSchedulingGate core)")
  case False
  have "snd (Reconcile env getErr updateErr s) = s"
  proof (cases getErr)
    case None
    show ?thesis
    proof (cases "stored s")
      case (Some core)
      then have "\<not> HasSchedulingGate (NewPod core (events s) (counters s))"
        using False None core_views(1)[of "NewPod core (events s) (counters s)"] by simp
      then show ?thesis by (simp add: Reconcile_def None Some Let_def)
    qed (simp add: Reconcile_def None)
  qed (simp add: Reconcile_def)
  then show ?thesis by simp
next
  case True
  then obtain core where g: "getErr = None" "stored s = Some core" "HasSchedulingGate core" by blast
  let ?p = "NewPod core (events s) (counters s)"
  let ?p1 = "?p\<lparr>pod_metrics := (pod_metrics ?p)\<lparr>ProcessedPodsCtrl := ProcessedPodsCtrl (pod_metrics ?p) + 1\<rparr>\<rparr>"
  have gate: "HasSchedulingGate ?p" using g(3) core_views(1)[of ?p] by simp
  obtain p2 st where run: "processPod env ?p1 (cel s) = (p2, st)" by (cases "processPod env ?p1 (cel s)")
  have "pod_metrics ?p = counters s" by (simp add: NewPod_def CorePod.extend_def Pod.fields_def)
  then have gauge2: "gauge p2 = GatedPodsGauge (counters s)" using gauge_processPod[of env ?p1 "cel s"] run by simp
  show ?thesis
  proof (cases updateErr)
    case None
    then show ?thesis using g gate run gauge2
      by (simp add: Reconcile_def gated_count_def Let_def)
  next
    case (Some e)
    then show ?thesis using g gate run gauge2
      by (simp add: Reconcile_def gated_count_def Let_def)
  qed
qed

section \<open>The number of required terms\<close>

lemma length_terms_cong: "required_terms p = required_terms q \<Longrightarrow> length (node_selector_terms p) = length (node_selector_terms q)"
  by (simp add: node_selector_terms_def)

lemma length_terms_set:
  "node_selector_terms p \<noteq> [] \<Longrightarrow>
     length (node_selector_terms (setRequiredArchNodeAffinity req (init_required p))) = length (node_selector_terms p)"
  by (simp add: node_selector_terms_def[of "setRequiredArchNodeAffinity req (init_required p)"] required_after_set)

lemma length_terms_place:
  "node_selector_terms p \<noteq> [] \<Longrightarrow> length (node_selector_terms (cel_place archs p)) = length (node_selector_terms p)"
proof -
  assume ne: "node_selector_terms p \<noteq> []"
  let ?q = "snd (removeArchitectureFromNodeSelector p)"
  have q: "node_selector_terms ?q = node_selector_terms p" by (rule node_selector_terms_cong) simp
  have "required_terms (cel_place archs p) = required_terms (applyArchitectureNodeAffinity archs ?q)"
    by (rule required_terms_cong) (simp add: cel_place_def EnsureLabel_def)
  then have len: "length (node_selector_terms (cel_place archs p)) =
      length (node_selector_terms (applyArchitectureNodeAffinity archs ?q))"
    by (rule length_terms_cong)
  show ?thesis
  proof (cases "archs = []")
    case True
    then show ?thesis using len q by (simp add: applyArchitectureNodeAffinity_def)
  next
    case False
    then show ?thesis using len q ne
      by (simp add: node_selector_terms_def[of "applyArchitectureNodeAffinity archs ?q"] terms_apply)
  qed
qed

lemma length_terms_SetNodeAffinity:
  assumes "node_selector_terms p \<noteq> []"
  shows "length (node_selector_terms (snd (SetNodeAffinityArchRequirement i s p))) = length (node_selector_terms p)"
proof (cases "\<exists>req. \<not> arch_configured p \<and> getArchitecturePredicate i s p = Inr req")
  case True
  then obtain req where req: "\<not> arch_configured p" "getArchitecturePredicate i s p = Inr req" by blast
  obtain p' msg where r: "SetNodeAffinityArchRequirement i s p =
       (Inr True, PublishEvent EventTypeNormal ArchitectureAwareNodeAffinitySet msg
          (setRequiredArchNodeAffinity req (init_required p')))"
    and "Affinity p' = Affinity p"
    by (rule SetNodeAffinity_success[OF req])
  then have "node_selector_terms p' = node_selector_terms p" by (intro node_selector_terms_cong)
  then show ?thesis using length_terms_set[of p' req] assms
    by (simp add: r PublishEvent_def node_selector_terms_def required_terms_def)
next
  case False
  then have "Affinity (snd (SetNodeAffinityArchRequirement i s p)) = Affinity p"
  proof (cases "arch_configured p")
    case True
    obtain b q where "isNodeSelectorConfiguredForArchitecture p = (b, q)"
      by (cases "isNodeSelectorConfiguredForArchitecture p")
    then show ?thesis using True isNodeSelectorConfigured_fst[of p] isNodeSelectorConfigured_frame(2)[of p]
      by (simp add: SetNodeAffinityArchRequirement_def)
  next
    case unset: False
    then obtain e where "getArchitecturePredicate i s p = Inl e"
      using False by (cases "getArchitecturePredicate i s p") auto
    then show ?thesis using unset by (simp add: SetNodeAffinityArchRequirement_def isNodeSelectorConfigured_False)
  qed
  from node_selector_terms_cong[OF this] show ?thesis by simp
qed

lemma length_terms_fallback:
  "node_selector_terms p \<noteq> [] \<Longrightarrow>
     length (node_selector_terms (setRequiredNodeAffinityToFallbackArchitecture a p)) = length (node_selector_terms p)"
  using length_terms_set[of p "arch_requirement [a]"]
  by (simp add: setRequiredNodeAffinityToFallbackArchitecture_def Let_def pod_ops node_selector_terms_def required_terms_def)

lemma length_terms_detect:
  assumes ne: "node_selector_terms p \<noteq> []"
  shows "length (node_selector_terms (detect_from_images env p)) = length (node_selector_terms p)"
proof -
  obtain psdl where psdl: "pullSecretDataList env p = Inr psdl" by (simp add: pullSecretDataList_def)
  obtain r p1 where run: "SetNodeAffinityArchRequirement (inspectImage env) psdl p = (r, p1)"
    by (cases "SetNodeAffinityArchRequirement (inspectImage env) psdl p")
  have p1: "length (node_selector_terms p1) = length (node_selector_terms p)"
    using length_terms_SetNodeAffinity[OF ne, of "inspectImage env" psdl] run by simp
  then have ne1: "node_selector_terms p1 \<noteq> []" using ne by auto
  have nt: "node_selector_terms (handleError e q) = node_selector_terms q"
    "node_selector_terms (PublishEvent t rr m q) = node_selector_terms q"
    "node_selector_terms (RemoveSchedulingGate q) = node_selector_terms q"
    "node_selector_terms (publish_skipped q) = node_selector_terms q" for e t rr m q
    by (rule node_selector_terms_cong; simp add: PublishEvent_def)+
  have "length (node_selector_terms (setRequiredNodeAffinityToFallbackArchitecture a
      (PublishEvent t rr m (handleError e p1)))) = length (node_selector_terms p)" for a t rr m e
    using length_terms_fallback[of "PublishEvent t rr m (handleError e p1)" a] p1 ne1 by (simp add: nt)
  then show ?thesis
    by (simp add: detect_from_images_def psdl run Let_def nt p1 split: sum.splits option.splits)
qed

text \<open>The controller respects the immutability rule of pod scheduling directives on the number of node selector
  terms: for a pod with at least one required term, a pass never adds or removes a term, on any branch.\<close>

theorem processPod_keeps_term_count:
  assumes cel: "cel_state_ok (celLib env) st" "NewEnv_error (celLib env) = None"
    and ne: "node_selector_terms p \<noteq> []"
  shows "length (node_selector_terms (fst (processPod env p st))) = length (node_selector_terms p)"
proof (cases "list_ppcs env (Namespace p)")
  case (Inl e)
  then have "node_selector_terms (fst (processPod env p st)) = node_selector_terms p"
    by (intro node_selector_terms_cong) (simp add: processPod_def)
  then show ?thesis by simp
next
  case (Inr items)
  let ?p1 = "snd (ignore_check env items p)"
  have nt: "node_selector_terms (RemoveSchedulingGate q) = node_selector_terms q"
    "node_selector_terms (publish_skipped q) = node_selector_terms q" for q :: Pod
    by (rule node_selector_terms_cong; simp)+
  have p1: "node_selector_terms ?p1 = node_selector_terms p"
    by (rule node_selector_terms_cong) (simp add: ignore_check_retry_view)
  show ?thesis
  proof (cases "fst (ignore_check env items p)")
    case True
    have "node_selector_terms (fst (processPod env p st)) = node_selector_terms (RemoveSchedulingGate ?p1)"
      unfolding processPod_ignored[OF Inr True] by (rule node_selector_terms_cong) (simp add: PublishEvent_def)
    then show ?thesis by (simp add: nt p1)
  next
    case False
    obtain applied p2 p3 st1 where run: "applyMatchingPPCs (celLib env) (filterMatchingPPCs items p)
         (isPreferredAffinityConfiguredForArchitecture ?p1) ?p1 st = (applied, p2, st1)"
      and view: "retry_view p3 = retry_view p2"
      and res: "processPod env p st =
         (if applied then (RemoveSchedulingGate (publish_skipped p3), st1) else (detect_from_images env p3, st1))"
      by (rule processPod_considered[OF Inr False])
    have "length (node_selector_terms p3) = length (node_selector_terms p)"
    proof (cases "cel_winner env items p")
      case None
      then have "retry_view p3 = retry_view ?p1" using considered_spec(3)[OF cel run] view by simp
      from length_terms_cong[OF retry_viewD(3)[OF this]] show ?thesis by (simp add: p1)
    next
      case (Some ppc)
      then have "retry_view p3 = retry_view (cel_place (cel_archs env items p ppc) ?p1)"
        using considered_spec(4)[OF cel run] view by simp
      from length_terms_cong[OF retry_viewD(3)[OF this]] show ?thesis
        using length_terms_place[of ?p1] ne p1 by simp
    qed
    moreover from this have "node_selector_terms p3 \<noteq> []" using ne by auto
    ultimately show ?thesis using res length_terms_detect[of p3 env] by (cases applied) (simp_all add: nt)
  qed
qed

definition ex_term_pod :: Pod where
  "ex_term_pod = ex_pod\<lparr>Affinity := Some \<lparr>NodeAffinity = Some \<lparr>Required = Some (Some [empty_term]), Preferred = None\<rparr>,
     PodAffinity = None, PodAntiAffinity = None\<rparr>\<rparr>"

theorem processPod_keeps_term_count_witness:
  "length (node_selector_terms (fst (processPod ex_cel_env ex_term_pod Uninitialised))) =
     length (node_selector_terms ex_term_pod)"
  by (rule processPod_keeps_term_count[OF ex_cel_facts(1,2)])
    (simp add: ex_term_pod_def node_selector_terms_def)

end
