(* ===== verification/Admission_Props.thy ===== *)
theory Admission_Props
  imports Placement_Props
begin

text \<open>
  Properties of the admission webhook and of the single operations on a pod: who is gated, what
  happens to ignored pods, preferred affinities and their audit trail, removal of architecture
  constraints, and the bounds of the delayed event.
\<close>

section \<open>The webhook\<close>

lemma mark_not_set_labels: "Labels (mark_not_set cppc ppcs p) \<noteq> None"
  by (simp add: mark_not_set_def Let_def EnsureLabel_def)

lemma shouldIgnorePod_labels:
  "Labels p \<noteq> None \<Longrightarrow> Labels (snd (shouldIgnorePod ns cppc ppcs p)) \<noteq> None"
proof -
  assume l: "Labels p \<noteq> None"
  have "snd (shouldIgnorePod ns cppc ppcs p) = p \<or>
      snd (shouldIgnorePod ns cppc ppcs p) = snd (isNodeSelectorConfiguredForArchitecture p)"
    by (simp add: shouldIgnorePod_def Let_def split: prod.splits)
  moreover have "Labels (snd (isNodeSelectorConfiguredForArchitecture p)) \<noteq> None"
    using l by (simp add: isNodeSelectorConfiguredForArchitecture_def split: option.splits)
  ultimately show ?thesis using l by auto
qed

lemma applyCELInWebhook_frame:
  "SchedulingGates (fst (applyCELInWebhook_loop lib ppcs p st)) = SchedulingGates p"
  "pod_metrics (fst (applyCELInWebhook_loop lib ppcs p st)) = pod_metrics p"
  "Labels p \<noteq> None \<Longrightarrow> Labels (fst (applyCELInWebhook_loop lib ppcs p st)) \<noteq> None"
  by (induction lib ppcs p st rule: applyCELInWebhook_loop.induct)
    (auto simp: EnsureLabel_def split: option.splits prod.splits sum.splits)

lemma assign_not_nil: "Labels p \<noteq> None \<Longrightarrow>
    assign_map (Labels p) k v = Some (put_map (Labels p) k v)"
  by (rule assign_map_not_nil)

lemma gated_labels:
  "Labels (ensureSchedulingGate (fst (applyCELInWebhook lib ppcs (snd (shouldIgnorePod ns cppc qs (mark_not_set cppc qs p))) st))) \<noteq> None"
  using applyCELInWebhook_frame(3)[OF shouldIgnorePod_labels[OF mark_not_set_labels]]
  by (simp add: ensureSchedulingGate_def applyCELInWebhook_def)

text \<open>The webhook never panics: the unguarded write of the scheduling-gate label always finds a non-nil label
  map, on every request, configuration and CEL outcome.\<close>

theorem webhook_never_panics: "Handle env decoded rec m st \<noteq> Panic"
proof (cases decoded)
  case (Inl e)
  then show ?thesis by (simp add: Handle_def)
next
  case (Inr core)
  let ?m1 = "m\<lparr>ProcessedPodsWH := ProcessedPodsWH m + 1\<rparr>"
  let ?p = "NewPod core rec ?m1"
  let ?ppcs = "filterMatchingPPCs (webhook_list_ppcs env (Namespace ?p)) ?p"
  let ?i = "shouldIgnorePod (operatorNamespace env) (cppcStore env) ?ppcs (mark_not_set (cppcStore env) ?ppcs ?p)"
  obtain b q where i: "?i = (b, q)" by (cases ?i)
  obtain p3 st1 where c: "applyCELInWebhook (celLib env) ?ppcs q st = (p3, st1)"
    by (cases "applyCELInWebhook (celLib env) ?ppcs q st")
  have "Labels (ensureSchedulingGate p3) \<noteq> None"
    using gated_labels[of "celLib env" ?ppcs "operatorNamespace env" "cppcStore env" ?ppcs ?p st] i c by simp
  from assign_not_nil[OF this] show ?thesis
    by (simp add: Handle_def Inr Let_def i c)
qed

lemma mark_not_set_frame [simp]:
  "Namespace (mark_not_set cppc ppcs p) = Namespace p" "NodeName (mark_not_set cppc ppcs p) = NodeName p"
  "OwnerReferences (mark_not_set cppc ppcs p) = OwnerReferences p"
  "NodeSelector (mark_not_set cppc ppcs p) = NodeSelector p" "Affinity (mark_not_set cppc ppcs p) = Affinity p"
  "SchedulingGates (mark_not_set cppc ppcs p) = SchedulingGates p"
  "pod_metrics (mark_not_set cppc ppcs p) = pod_metrics p"
  "lookup_map (Labels (mark_not_set cppc ppcs p)) SchedulingGateLabel = Some LabelValueNotSet"
  by (simp_all add: mark_not_set_def Let_def EnsureLabel_def)

lemma ignore_mark_not_set:
  "fst (shouldIgnorePod ns cppc ppcs (mark_not_set cppc' ppcs' p)) = fst (shouldIgnorePod ns cppc ppcs p)"
  by (simp add: shouldIgnorePod_fst HasControlPlaneNodeSelector_def IsFromDaemonSet_def arch_configured_def
      isPreferredAffinityConfiguredForArchitecture_def preferred_terms_def required_terms_def)

text \<open>C4: A decoded pod is gated exactly when it is not to be ignored: a considered pod leaves the webhook with the
  scheduling gate, the label value \<^verbatim>\<open>gated\<close> and both counters incremented; an ignored pod keeps its gates
  and node constraints, gets the label value \<^verbatim>\<open>not-set\<close>, and the counters are unchanged.\<close>

theorem webhook_gates_iff:
  assumes "\<forall>q. marshalErr env q = None"
  shows "\<exists>q m' st'. Handle env (Inr core) rec m st = Response (Patched q) m' st' \<and>
    (if fst (shouldIgnorePod (operatorNamespace env) (cppcStore env)
          (filterMatchingPPCs (webhook_list_ppcs env (Namespace core)) core) (NewPod core rec m))
     then SchedulingGates q = SchedulingGates core \<and> schedulable_on q = schedulable_on core \<and>
          lookup_map (Labels q) SchedulingGateLabel = Some LabelValueNotSet \<and>
          GatedPods m' = GatedPods m \<and> GatedPodsGauge m' = GatedPodsGauge m
     else HasSchedulingGate q \<and> lookup_map (Labels q) SchedulingGateLabel = Some SchedulingGateLabelValueGated \<and>
          GatedPods m' = GatedPods m + 1 \<and> GatedPodsGauge m' = GatedPodsGauge m + 1)"
proof -
  let ?m1 = "m\<lparr>ProcessedPodsWH := ProcessedPodsWH m + 1\<rparr>"
  let ?p = "NewPod core rec ?m1"
  let ?ppcs = "filterMatchingPPCs (webhook_list_ppcs env (Namespace ?p)) ?p"
  let ?pm = "mark_not_set (cppcStore env) ?ppcs ?p"
  let ?i = "shouldIgnorePod (operatorNamespace env) (cppcStore env) ?ppcs ?pm"
  have sel: "Namespace ?p = Namespace core" "Labels ?p = Labels core" "NodeName ?p = NodeName core"
    "SchedulingGates ?p = SchedulingGates core" "Affinity ?p = Affinity core" "NodeSelector ?p = NodeSelector core"
    "OwnerReferences ?p = OwnerReferences core" "pod_metrics ?p = ?m1"
    by (simp_all add: NewPod_def CorePod.extend_def Pod.fields_def)
  have sel': "Namespace (NewPod core rec m) = Namespace core" "NodeName (NewPod core rec m) = NodeName core"
    "Affinity (NewPod core rec m) = Affinity core" "NodeSelector (NewPod core rec m) = NodeSelector core"
    "OwnerReferences (NewPod core rec m) = OwnerReferences core"
    by (simp_all add: NewPod_def CorePod.extend_def Pod.fields_def)
  have ppcs: "?ppcs = filterMatchingPPCs (webhook_list_ppcs env (Namespace core)) core"
    by (simp add: filterMatchingPPCs_def ppc_matches_def sel cong: option.case_cong)
  obtain b q where i: "?i = (b, q)" by (cases ?i)
  have b: "b = fst (shouldIgnorePod (operatorNamespace env) (cppcStore env)
          (filterMatchingPPCs (webhook_list_ppcs env (Namespace core)) core) (NewPod core rec m))"
  proof -
    have "b = fst (shouldIgnorePod (operatorNamespace env) (cppcStore env) ?ppcs ?p)"
      using i ignore_mark_not_set[of "operatorNamespace env" "cppcStore env" ?ppcs "cppcStore env" ?ppcs ?p] by simp
    then show ?thesis unfolding ppcs
      by (simp add: shouldIgnorePod_fst HasControlPlaneNodeSelector_def IsFromDaemonSet_def arch_configured_def
          isPreferredAffinityConfiguredForArchitecture_def preferred_terms_def required_terms_def sel sel'
          cong: option.case_cong)
  qed
  have qi: "q = snd ?i" using i by simp
  have q: "SchedulingGates q = SchedulingGates core" "Affinity q = Affinity core" "NodeSelector q = NodeSelector core"
    "pod_metrics q = ?m1"
    unfolding qi by (simp_all add: sel)
  have qlab: "lookup_map (Labels q) SchedulingGateLabel = Some LabelValueNotSet"
  proof -
    have "q = ?pm \<or> q = snd (isNodeSelectorConfiguredForArchitecture ?pm)"
      using i by (auto simp: shouldIgnorePod_def Let_def split: prod.splits if_splits)
    then show ?thesis
      by (auto simp: isNodeSelectorConfiguredForArchitecture_def split: option.splits)
  qed
  show ?thesis
  proof (cases b)
    case True
    then have "Handle env (Inr core) rec m st = Response (Patched (PodObject q)) ?m1 st"
      using assms q by (simp add: Handle_def Let_def i patchedPodResponse_def)
    moreover have "schedulable_on (PodObject q) = schedulable_on core"
      by (rule ext, rule schedulable_cong) (simp_all add: q PodObject_def CorePod.truncate_def)
    ultimately show ?thesis using True b q qlab by (simp add: PodObject_def CorePod.truncate_def)
  next
    case False
    obtain p3 st1 where c: "applyCELInWebhook (celLib env) ?ppcs q st = (p3, st1)"
      by (cases "applyCELInWebhook (celLib env) ?ppcs q st")
    have m3: "pod_metrics p3 = ?m1"
      using applyCELInWebhook_frame(2)[of "celLib env" "sort_desc Priority ?ppcs" q st] c q
      by (simp add: applyCELInWebhook_def)
    have l3: "Labels (ensureSchedulingGate p3) \<noteq> None"
      using gated_labels[of "celLib env" ?ppcs "operatorNamespace env" "cppcStore env" ?ppcs ?p st] i c by simp
    let ?p5 = "(ensureSchedulingGate p3)\<lparr>Labels :=
      put_map (Labels (ensureSchedulingGate p3)) SchedulingGateLabel SchedulingGateLabelValueGated\<rparr>"
    have m5: "pod_metrics ?p5 = ?m1" using m3 by (simp add: ensureSchedulingGate_def)
    have "Handle env (Inr core) rec m st = Response (Patched (PodObject ?p5))
        (?m1\<lparr>GatedPods := GatedPods ?m1 + 1, GatedPodsGauge := GatedPodsGauge ?m1 + 1\<rparr>) st1"
      using False assms assign_not_nil[OF l3, of SchedulingGateLabel SchedulingGateLabelValueGated] m5
      by (simp add: Handle_def Let_def i c patchedPodResponse_def)
    moreover have "HasSchedulingGate (PodObject ?p5)"
      by (simp add: PodObject_def CorePod.truncate_def ensureSchedulingGate_def HasSchedulingGate_def HasGate_iff AddGate_gates)
    moreover have "lookup_map (Labels (PodObject ?p5)) SchedulingGateLabel = Some SchedulingGateLabelValueGated"
      by (simp add: PodObject_def CorePod.truncate_def)
    ultimately show ?thesis using False b by simp
  qed
qed

definition ex_webhook_env :: webhook_env where
  "ex_webhook_env = cluster_env.extend ex_cel_env
     \<lparr>ppcCacheSynced = Some True, hasApiReader = True, marshalErr = (\<lambda>_. None)\<rparr>"

lemma ex_webhook_marshal: "\<forall>q. marshalErr ex_webhook_env q = None"
  by (simp add: ex_webhook_env_def cluster_env.extend_def)

theorem webhook_gates_iff_witness:
  "\<exists>q m' st'. Handle ex_webhook_env (Inr ex_core) (Some []) ex_metrics Uninitialised = Response (Patched q) m' st' \<and>
    (if fst (shouldIgnorePod (operatorNamespace ex_webhook_env) (cppcStore ex_webhook_env)
          (filterMatchingPPCs (webhook_list_ppcs ex_webhook_env (Namespace ex_core)) ex_core)
          (NewPod ex_core (Some []) ex_metrics))
     then SchedulingGates q = SchedulingGates ex_core \<and> schedulable_on q = schedulable_on ex_core \<and>
          lookup_map (Labels q) SchedulingGateLabel = Some LabelValueNotSet \<and>
          GatedPods m' = GatedPods ex_metrics \<and> GatedPodsGauge m' = GatedPodsGauge ex_metrics
     else HasSchedulingGate q \<and> lookup_map (Labels q) SchedulingGateLabel = Some SchedulingGateLabelValueGated \<and>
          GatedPods m' = GatedPods ex_metrics + 1 \<and> GatedPodsGauge m' = GatedPodsGauge ex_metrics + 1)"
  by (rule webhook_gates_iff[OF ex_webhook_marshal])

text \<open>C20: The webhook and the controller take the same CEL decision: on the same pod, configurations and evaluator
  state the admission path and the reconcile path write the same labels and node constraints.\<close>

theorem webhook_and_controller_agree:
  assumes "cel_state_ok lib st" "NewEnv_error lib = None"
  shows "PodObject (fst (applyCELInWebhook lib ppcs p st)) =
    PodObject (fst (snd (apply_first_cel lib (sort_desc Priority ppcs) p st)))"
proof -
  obtain p1 st1 where w: "applyCELInWebhook_loop lib (sort_desc Priority ppcs) p st = (p1, st1)"
    by (cases "applyCELInWebhook_loop lib (sort_desc Priority ppcs) p st")
  obtain a p2 st2 where r: "apply_first_cel lib (sort_desc Priority ppcs) p st = (a, p2, st2)"
    by (metis prod_cases3)
  show ?thesis
    using applyCELInWebhook_loop_spec[OF assms w] apply_first_cel_spec[OF assms r]
    by (cases "List.find (\<lambda>ppc. cel_decision lib (podToMap (Some p)) ppc \<noteq> []) (sort_desc Priority ppcs)")
      (simp_all add: applyCELInWebhook_def w r)
qed

theorem webhook_and_controller_agree_witness:
  "PodObject (fst (applyCELInWebhook (celLib ex_cel_env) ex_items ex_pod Uninitialised)) =
   PodObject (fst (snd (apply_first_cel (celLib ex_cel_env) (sort_desc Priority ex_items) ex_pod Uninitialised)))"
  by (rule webhook_and_controller_agree[OF ex_cel_facts(1,2)])

text \<open>C29: The background job that announces a gated pod, once the worker pool has taken it, always ends: it reads the pod between 1 and 15 times and
  sleeps at most 32.766 seconds in total (half of what the comment in the source computes), and it
  publishes the event exactly when one of the first 15 reads succeeds and all earlier ones answered
  not found.\<close>

theorem delayed_event_bounds:
  "\<exists>outcome reads slept. delayedSchedulingGatedEvent True None getAt = Some (outcome, reads, slept) \<and>
     reads \<le> 15 \<and> slept \<le> 32766 \<and>
     (outcome = Published \<longleftrightarrow>
       (\<exists>k<15. (\<exists>pod. getAt k = Inr pod) \<and> (\<forall>j<k. \<exists>e. getAt j = Inl e \<and> IsNotFound e)))"
proof -
  obtain outcome reads slept where run: "backoff_loop getAt 15 2 0 0 = (outcome, reads, slept)"
    by (cases "backoff_loop getAt 15 2 0 0")
  have "slept + 2 \<le> 0 + 2 * 2 ^ (15 - 1)" by (rule backoff_slept[OF run]) simp
  moreover have "reads \<le> 15" using backoff_reads[OF run] by simp
  moreover have "outcome = Published \<longleftrightarrow>
      (\<exists>k<15. (\<exists>pod. getAt k = Inr pod) \<and> (\<forall>j<k. \<exists>e. getAt j = Inl e \<and> IsNotFound e))"
    using backoff_published[of getAt 15 2 0 0] run by simp
  ultimately show ?thesis using run by (simp add: delayedSchedulingGatedEvent_def)
qed

theorem delayed_event_bounds_witness:
  "\<exists>outcome reads slept. delayedSchedulingGatedEvent True None (\<lambda>i. if i = 0 then Inl (NotFoundError ''pod'') else Inr ex_core) =
      Some (outcome, reads, slept) \<and> reads \<le> 15 \<and> slept \<le> 32766 \<and>
     (outcome = Published \<longleftrightarrow>
       (\<exists>k<15. (\<exists>pod. (if k = (0::nat) then Inl (NotFoundError ''pod'') else Inr ex_core) = Inr pod) \<and>
         (\<forall>j<k. \<exists>e. (if j = 0 then Inl (NotFoundError ''pod'') else Inr ex_core) = Inl e \<and> IsNotFound e)))"
  by (rule delayed_event_bounds)

section \<open>Preferred affinity\<close>

text \<open>\<^verbatim>\<open>SetPreferredArchNodeAffinity\<close> appends one term per architecture of the configuration that is not yet
  preferred, keeps every existing preference and the required affinity, and applying the same
  configuration again, under any source name, adds nothing.\<close>

theorem preferred_affinity_exact:
  "(\<exists>added. elems (preferred_terms (SetPreferredArchNodeAffinity nas src p)) =
       elems (preferred_terms p) @ map preferred_term_for added \<and>
     set added \<subseteq> set (Platforms nas) \<and> distinct (map Architecture added) \<and>
     Architecture ` set added = Architecture ` set (Platforms nas) - getExistingPreferredArchitectures p) \<and>
   required_terms (SetPreferredArchNodeAffinity nas src p) = required_terms p \<and>
   elems (preferred_terms (SetPreferredArchNodeAffinity nas src' (SetPreferredArchNodeAffinity nas src p))) =
     elems (preferred_terms (SetPreferredArchNodeAffinity nas src p))"
proof -
  let ?new = "new_platforms (getExistingPreferredArchitectures p) (Platforms nas)"
  let ?q = "SetPreferredArchNodeAffinity nas src p"
  have "new_platforms (getExistingPreferredArchitectures ?q) (Platforms nas) = []"
    by (rule new_platforms_none) (simp add: SetPreferred_archs)
  then have "elems (preferred_terms (SetPreferredArchNodeAffinity nas src' ?q)) = elems (preferred_terms ?q)"
    by (simp add: SetPreferred_terms(1)[of nas src' ?q])
  then show ?thesis
    using SetPreferred_terms[of nas src p] new_platforms_archs[of "getExistingPreferredArchitectures p" "Platforms nas"]
      new_platforms_subset[of "getExistingPreferredArchitectures p" "Platforms nas"]
      new_platforms_distinct[of "getExistingPreferredArchitectures p" "Platforms nas"]
    by blast
qed

text \<open>The entries recorded in the audit annotation.\<close>

definition affinity_entries :: "('p) CorePod_scheme \<Rightarrow> string list" where
  "affinity_entries p =
     (let a = get_or [] (Annotations p) PreferredNodeAffinitySourcesAnnotation
      in if a = [] then [] else split_on (CHR '','') a)"

lemma affinity_entry_no_comma:
  assumes "CHR '','' \<notin> set arch" "CHR '','' \<notin> set source"
  shows "CHR '','' \<notin> set (affinity_entry arch w source applied)"
proof -
  have "\<not> is_digit (CHR '','')" by code_simp
  then have "CHR '','' \<notin> set (show_int i)" for i
    using show_nat_not_in[of "CHR '',''"] by (auto simp: show_int_def)
  then show ?thesis using assms by (simp add: affinity_entry_def)
qed

text \<open>The audit annotation is an ordered list without repetition: tracking a source appends its entry, unless it
  is already recorded, and keeps all earlier entries; so retries do not let the annotation grow.\<close>

theorem affinity_source_recorded_once:
  assumes "CHR '','' \<notin> set arch" "CHR '','' \<notin> set source"
  shows "affinity_entries (trackAffinitySource arch w source applied p) =
    (let e = affinity_entry arch w source applied
     in if e \<in> set (affinity_entries p) then affinity_entries p else affinity_entries p @ [e])"
proof -
  let ?e = "affinity_entry arch w source applied"
  let ?a = "get_or [] (Annotations p) PreferredNodeAffinitySourcesAnnotation"
  have e: "CHR '','' \<notin> set ?e" "?e \<noteq> []"
    using affinity_entry_no_comma[OF assms] by (simp_all add: affinity_entry_def)
  show ?thesis
  proof (cases "?a = []")
    case True
    then show ?thesis using e
      by (simp add: affinity_entries_def trackAffinitySource_def Let_def EnsureAnnotation_def split_on_id)
  next
    case False
    then show ?thesis using e split_on_snoc[OF e(1), of ?a]
      by (simp add: affinity_entries_def trackAffinitySource_def Let_def EnsureAnnotation_def)
  qed
qed

theorem affinity_source_recorded_once_witness:
  "affinity_entries (trackAffinitySource ''arm64'' 50 ''ClusterPodPlacementConfig'' True ex_pod) =
    (let e = affinity_entry ''arm64'' 50 ''ClusterPodPlacementConfig'' True
     in if e \<in> set (affinity_entries ex_pod) then affinity_entries ex_pod else affinity_entries ex_pod @ [e])"
  by (rule affinity_source_recorded_once) simp_all

section \<open>Removing architecture constraints\<close>

text \<open>\<^verbatim>\<open>removeAllArchitectureConstraints\<close> leaves no architecture requirement in the node selector or in any
  required term, keeps every other selector entry, requirement and the preferred affinity, and drops
  exactly the terms that have nothing else.\<close>

theorem removal_exact:
  "(\<forall>k. lookup_map (NodeSelector (snd (removeAllArchitectureConstraints p))) k =
      (if k = ArchLabel then None else lookup_map (NodeSelector p) k)) \<and>
   (\<forall>t \<in> set (node_selector_terms (snd (removeAllArchitectureConstraints p))). \<not> mentions_key ArchLabel t) \<and>
   map (\<lambda>t. (elems (MatchExpressions t), MatchFields t)) (node_selector_terms (snd (removeAllArchitectureConstraints p))) =
     filter (\<lambda>(es, fs). es \<noteq> [] \<or> elems fs \<noteq> [])
       (map (\<lambda>t. (filter (\<lambda>e. Key e \<noteq> ArchLabel) (elems (MatchExpressions t)), MatchFields t)) (node_selector_terms p)) \<and>
   preferred_terms (snd (removeAllArchitectureConstraints p)) = preferred_terms p"
proof -
  let ?q = "snd (removeArchitectureFromNodeSelector p)"
  have r: "snd (removeAllArchitectureConstraints p) = snd (removeArchitectureFromNodeAffinity ?q)"
    by (simp add: removeAllArchitectureConstraints_def split: prod.splits)
  have t: "node_selector_terms ?q = node_selector_terms p" by (rule node_selector_terms_cong) simp
  have pr: "preferred_terms ?q = preferred_terms p" by (rule preferred_terms_cong) simp
  have ts: "map (\<lambda>t. (elems (MatchExpressions t), MatchFields t)) (List.map_filter clean_term us) =
     filter (\<lambda>(es, fs). es \<noteq> [] \<or> elems fs \<noteq> [])
       (map (\<lambda>t. (filter (\<lambda>e. Key e \<noteq> ArchLabel) (elems (MatchExpressions t)), MatchFields t)) us)" for us
    by (induction us) (auto simp: map_filter_simps clean_term_def clean_expressions_def Let_def)
  have "\<not> mentions_key ArchLabel u" if "u \<in> set (List.map_filter clean_term us)" for u us
    using that clean_term_no_arch by (auto simp: List.map_filter_def)
  then show ?thesis
    unfolding r by (simp add: remove_affinity_terms t remove_affinity_preferred pr ts)
qed

theorem removal_exact_witness:
  "(\<forall>k. lookup_map (NodeSelector (snd (removeAllArchitectureConstraints ex_term_pod))) k =
      (if k = ArchLabel then None else lookup_map (NodeSelector ex_term_pod) k)) \<and>
   list_all (\<lambda>t. \<not> mentions_key ArchLabel t) (node_selector_terms (snd (removeAllArchitectureConstraints ex_term_pod))) \<and>
   map (\<lambda>t. (elems (MatchExpressions t), MatchFields t)) (node_selector_terms (snd (removeAllArchitectureConstraints ex_term_pod))) =
     filter (\<lambda>(es, fs). es \<noteq> [] \<or> elems fs \<noteq> [])
       (map (\<lambda>t. (filter (\<lambda>e. Key e \<noteq> ArchLabel) (elems (MatchExpressions t)), MatchFields t)) (node_selector_terms ex_term_pod)) \<and>
   preferred_terms (snd (removeAllArchitectureConstraints ex_term_pod)) = preferred_terms ex_term_pod"
  unfolding list_all_iff by (rule removal_exact)

end
