(* ===== verification/Cel_Threads.thy ===== *)
theory Cel_Threads
  imports Cel
begin

text \<open>
  The CEL evaluator under concurrency. Pods are admitted and reconciled by many goroutines that
  share one program cache; \<^verbatim>\<open>compile\<close> holds the mutex only around the lookup and around the
  insertion, so lookups, compilations and insertions of different goroutines interleave. A goroutine
  is a program counter; one step of the system is one critical section or one lock-free
  compilation. The invariant shows that every goroutine gets the result of an uncached compilation
  and that the shared cache stays well-formed and bounded.
\<close>

section \<open>The step relation\<close>

datatype goroutine =
    Idle
  | Looking string
  | Missed string
  | Compiled string cel_program
  | Done string "cel_program result"

type_synonym system = "cel_cache \<times> (nat \<Rightarrow> goroutine)"

inductive step :: "cel_lib \<Rightarrow> system \<Rightarrow> system \<Rightarrow> bool" for lib where
  call: "T t = Idle \<Longrightarrow> step lib (c, T) (c, T(t := Looking e))"
| hit: "T t = Looking e \<Longrightarrow> lru_Get e c = (Some p, c') \<Longrightarrow> step lib (c, T) (c', T(t := Done e (Inr p)))"
| miss: "T t = Looking e \<Longrightarrow> lru_Get e c = (None, c') \<Longrightarrow> step lib (c, T) (c', T(t := Missed e))"
| fail: "T t = Missed e \<Longrightarrow> compile_miss lib e = Inl err \<Longrightarrow> step lib (c, T) (c, T(t := Done e (Inl err)))"
| build: "T t = Missed e \<Longrightarrow> compile_miss lib e = Inr p \<Longrightarrow> step lib (c, T) (c, T(t := Compiled e p))"
| store: "T t = Compiled e p \<Longrightarrow> step lib (c, T) (lru_Add e p c, T(t := Done e (Inr p)))"
| ret: "T t = Done e r \<Longrightarrow> step lib (c, T) (c, T(t := Idle))"

inductive_cases stepE: "step lib (c, T) s"

abbreviation reaches :: "cel_lib \<Rightarrow> system \<Rightarrow> system \<Rightarrow> bool" where
  "reaches lib \<equiv> (step lib)\<^sup>*\<^sup>*"

definition fresh_cache :: cel_cache where
  "fresh_cache = \<lparr>lru_size = celExpressionCacheSize, lru_items = []\<rparr>"

definition initial :: system where
  "initial = (fresh_cache, \<lambda>_. Idle)"

section \<open>Invariant\<close>

definition goroutine_ok :: "cel_lib \<Rightarrow> goroutine \<Rightarrow> bool" where
  "goroutine_ok lib g =
     (case g of
        Compiled e p \<Rightarrow> compile_miss lib e = Inr p
      | Done e r \<Rightarrow> r = compile_miss lib e
      | _ \<Rightarrow> True)"

lemma goroutine_okD: "goroutine_ok lib (Done e r) \<Longrightarrow> r = compile_miss lib e"
  by (simp add: goroutine_ok_def)

definition system_ok :: "cel_lib \<Rightarrow> system \<Rightarrow> bool" where
  "system_ok lib s = (cache_ok lib (fst s) \<and> (\<forall>t. goroutine_ok lib (snd s t)))"

lemma cache_ok_Get:
  assumes "cache_ok lib c" "lru_Get e c = (r, c')"
  shows "cache_ok lib c'" and "r = Some p \<Longrightarrow> compile_miss lib e = Inr p"
proof -
  have inv: "lru_inv c" and ag: "agrees (lru_lookup c) (compile_miss lib)"
    using assms(1) by (simp_all add: cache_ok_def)
  show "cache_ok lib c'"
    using assms lru.get_inv[OF inv, of e] lru.get_look[OF inv, of e] lru_size_ops(1)[of e c]
    by (simp add: cache_ok_def)
  show "compile_miss lib e = Inr p" if "r = Some p"
    using that lru.get_value[OF inv, of e] ag assms(2) by (simp add: agrees_def)
qed

lemma cache_ok_Add: "cache_ok lib c \<Longrightarrow> compile_miss lib e = Inr p \<Longrightarrow> cache_ok lib (lru_Add e p c)"
  using lru.add_inv[of c e p] lru.add_agrees[of c "compile_miss lib" e p] by (simp add: cache_ok_def)

lemma system_ok_initial: "system_ok lib initial"
  by (simp add: system_ok_def initial_def fresh_cache_def goroutine_ok_def cache_ok_def lru_inv_def
      celExpressionCacheSize_def agrees_def lru_lookup_def)

lemma step_system_ok: "step lib s s' \<Longrightarrow> system_ok lib s \<Longrightarrow> system_ok lib s'"
proof (induction rule: step.induct)
  case (hit T t e c p c')
  then show ?case using cache_ok_Get[of lib c e "Some p" c'] by (simp add: system_ok_def goroutine_ok_def)
next
  case (miss T t e c c')
  then show ?case using cache_ok_Get(1)[of lib c e None c'] by (simp add: system_ok_def goroutine_ok_def)
next
  case (store T t e p c)
  then have "goroutine_ok lib (Compiled e p)" by (metis snd_conv system_ok_def)
  then show ?case using store cache_ok_Add[of lib c e p] by (simp add: system_ok_def goroutine_ok_def)
qed (simp_all add: system_ok_def goroutine_ok_def)

lemma reaches_system_ok: "reaches lib s s' \<Longrightarrow> system_ok lib s \<Longrightarrow> system_ok lib s'"
  by (induction rule: rtranclp_induct) (simp_all add: step_system_ok)

text \<open>The sequential model of \<open>compile\<close> is one goroutine running alone.\<close>

lemma compile_is_a_run:
  assumes "T t = Looking e"
  shows "reaches lib (c, T) (snd (compile lib e c), T(t := Done e (fst (compile lib e c))))"
proof -
  obtain r c' where g: "lru_Get e c = (r, c')" by (cases "lru_Get e c")
  show ?thesis
  proof (cases r)
    case (Some p)
    then have "step lib (c, T) (c', T(t := Done e (Inr p)))" using assms g by (intro step.hit) simp_all
    then show ?thesis using g Some by (simp add: compile_def)
  next
    case None
    let ?T1 = "T(t := Missed e)"
    have s1: "step lib (c, T) (c', ?T1)" using assms g None by (intro step.miss) simp_all
    show ?thesis
    proof (cases "compile_miss lib e")
      case (Inl err)
      then have "step lib (c', ?T1) (c', ?T1(t := Done e (Inl err)))" by (intro step.fail) simp_all
      then show ?thesis using s1 g None Inl
        by (auto simp: compile_def intro: rtranclp.rtrancl_into_rtrancl)
    next
      case (Inr p)
      let ?T2 = "?T1(t := Compiled e p)"
      have s2: "step lib (c', ?T1) (c', ?T2)" using Inr by (intro step.build) simp_all
      have "step lib (c', ?T2) (lru_Add e p c', ?T2(t := Done e (Inr p)))" by (intro step.store) simp
      then show ?thesis using s1 s2 g None Inr
        by (auto simp: compile_def intro: rtranclp.rtrancl_into_rtrancl)
    qed
  qed
qed

section \<open>Properties\<close>

text \<open>C18: Concurrent compilation is safe: in every interleaving of any number of goroutines sharing the program
  cache, each finished call returns exactly what compiling its expression without a cache returns, and
  the cache never exceeds 1024 entries and only holds correct programs.\<close>

theorem concurrent_compile_safe:
  assumes "reaches lib initial (c, T)"
  shows "(\<forall>t e r. T t = Done e r \<longrightarrow> r = compile_miss lib e) \<and>
    length (lru_items c) \<le> 1024 \<and> (\<forall>e p. lru_lookup c e = Some p \<longrightarrow> compile_miss lib e = Inr p)"
proof -
  have ok: "system_ok lib (c, T)" by (rule reaches_system_ok[OF assms system_ok_initial])
  then have "goroutine_ok lib (T t)" for t by (simp add: system_ok_def)
  then have "r = compile_miss lib e" if "T t = Done e r" for t e r
    using that goroutine_okD by metis
  then show ?thesis using ok
    by (auto simp: system_ok_def cache_ok_def lru_inv_def celExpressionCacheSize_def agrees_def)
qed

definition ex_cel :: cel_lib where
  "ex_cel = \<lparr>NewEnv_error = None,
     env_Compile = (\<lambda>e. Inr \<lparr>OutputType = BoolType, NativeRep = Ident e\<rparr>),
     env_Program = (\<lambda>ast. Inr ''prog''),
     prog_Eval = (\<lambda>prog pm. Inr (BoolVal True))\<rparr>"

lemma ex_run:
  "reaches ex_cel initial (snd (compile ex_cel ''x'' fresh_cache),
     (\<lambda>_. Idle)(0 := Looking ''x'', 0 := Done ''x'' (fst (compile ex_cel ''x'' fresh_cache))))"
proof -
  have "step ex_cel initial (fresh_cache, (\<lambda>_. Idle)(0 := Looking ''x''))"
    unfolding initial_def by (rule step.call) simp
  then show ?thesis
    by (rule converse_rtranclp_into_rtranclp) (rule compile_is_a_run, simp)
qed

theorem concurrent_compile_safe_witness:
  "fst (compile ex_cel ''x'' fresh_cache) = compile_miss ex_cel ''x'' \<and>
    length (lru_items (snd (compile ex_cel ''x'' fresh_cache))) \<le> 1024"
  using concurrent_compile_safe[OF ex_run] by simp

text \<open>C19: The evaluation of the CEL plugin through the package-level cache refines its specification: the first rule
  that evaluates to true decides, otherwise the fallback applies, flagged when every rule failed; and the
  evaluator state stays consistent for the next call.\<close>

theorem cel_evaluation_refines:
  assumes "cel_state_ok lib st" "NewEnv_error lib = None" "rules \<noteq> None \<or> fallback \<noteq> None"
  shows "fst (evaluateCELArchitecturePlacement lib rules fallback pod st) =
      Inr (placement_spec lib (elems rules) fallback (podToMap (Some pod))) \<and>
    cel_state_ok lib (snd (evaluateCELArchitecturePlacement lib rules fallback pod st))"
  by (simp add: evaluateCEL_refines_spec[OF assms])

theorem cel_evaluation_refines_witness:
  "fst (evaluateCELArchitecturePlacement ex_cel (Some []) None zero_pod Uninitialised) =
      Inr (placement_spec ex_cel (elems (Some [])) None (podToMap (Some zero_pod))) \<and>
    cel_state_ok ex_cel (snd (evaluateCELArchitecturePlacement ex_cel (Some []) None zero_pod Uninitialised))"
  by (rule cel_evaluation_refines) (simp_all add: cel_state_ok_def ex_cel_def)

text \<open>Errors in rules are isolated: a rule that fails to compile or to evaluate never changes which rule matches,
  and removing all failing rules gives the same decision as long as one rule evaluates.\<close>

theorem failing_rules_are_skipped:
  assumes "\<not> list_all (rule_errors lib m) rules"
  shows "placement_spec lib rules fallback m =
    placement_spec lib (filter (\<lambda>r. \<not> rule_errors lib m r) rules) fallback m"
proof -
  let ?ok = "\<lambda>r. rule_outcome lib m r = Inr True"
  have find: "List.find ?ok (filter (\<lambda>r. \<not> rule_errors lib m r) rs) = List.find ?ok rs" for rs
    by (induction rs) (auto simp: rule_errors_def split: sum.splits)
  have "\<not> list_all (rule_errors lib m) (filter (\<lambda>r. \<not> rule_errors lib m r) rules)"
    using assms by (auto simp: list_all_iff)
  then show ?thesis
    using assms find[of rules] by (auto simp: placement_spec_def split: option.splits)
qed

theorem failing_rules_are_skipped_witness:
  "placement_spec ex_cel [\<lparr>rule_Name = ''r'', Expression = ''x'', Architectures = Some [''arm64'']\<rparr>] None
     (podToMap (Some zero_pod)) =
   placement_spec ex_cel (filter (\<lambda>r. \<not> rule_errors ex_cel (podToMap (Some zero_pod)) r)
     [\<lparr>rule_Name = ''r'', Expression = ''x'', Architectures = Some [''arm64'']\<rparr>]) None (podToMap (Some zero_pod))"
  by (rule failing_rules_are_skipped)
    (simp add: rule_errors_def rule_outcome_def compile_miss_def eval_program_def ex_cel_def)

end
