(* ===== verification/Config_Webhook.thy ===== *)
theory Config_Webhook
  imports Config_Types
begin

text \<open>
  Admission of the operator's own resources: the validating webhook of the namespaced
  \<^verbatim>\<open>PodPlacementConfig\<close> (\<^verbatim>\<open>podplacementconfig_webhook.go\<close>), the validator of the cluster-wide
  \<^verbatim>\<open>ClusterPodPlacementConfig\<close> (\<^verbatim>\<open>clusterpodplacementconfig_webhook.go\<close>) and the conversion between
  its API versions (\<^verbatim>\<open>clusterPodPlacementConfig_conversion.go\<close>). The second half runs sequences of
  requests against a store that applies what the validators accept, and shows what holds of every
  store reached that way.
\<close>

section \<open>The PodPlacementConfig webhook\<close>

datatype admission_response = Allowed string | Denied string | Errored nat go_error

datatype operation = Create | Update | OtherOperation

text \<open>
  What the webhook reads: the answer to the read of the singleton, the listing of a namespace, and
  the typed CEL environment of the validation.
\<close>

record ppc_webhook_env =
  getCPPC :: "ClusterPodPlacementConfig result"
  listPPCs :: "string \<Rightarrow> PodPlacementConfig list result"
  validationEnv :: "(string \<Rightarrow> cel_ast result) result"

definition StatusBadRequest :: nat where "StatusBadRequest = 400"
definition StatusInternalServerError :: nat where "StatusInternalServerError = 500"

definition check_cppc_exists :: "ppc_webhook_env \<Rightarrow> admission_response option" where
  "check_cppc_exists env =
     (case getCPPC env of
        Inr _ \<Rightarrow> None
      | Inl e \<Rightarrow>
          if IsNotFound e
          then Some (Errored StatusBadRequest (GoError (
            ''ClusterPodPlacementConfig does not exist: you must create a ClusterPodPlacementConfig'' @
            '' before creating a namespaced PodPlacementConfig'')))
          else Some (Errored StatusInternalServerError
            (GoError (''failed to check ClusterPodPlacementConfig: '' @ error_msg e))))"

text \<open>The dereference of the plugins is safe: an enabled plugin is a present one.\<close>

definition check_scoring :: "PodPlacementConfig \<Rightarrow> admission_response option" where
  "check_scoring p =
     (if ppc_PluginsEnabled p NodeAffinityScoringPluginName
      then (case Option.bind (ppc_Plugins p) local_NodeAffinityScoring of
              None \<Rightarrow> None
            | Some n \<Rightarrow> map_option (\<lambda>e. Denied (error_msg e)) (ValidateArchitecturesSet n))
      else None)"

definition check_cel :: "ppc_webhook_env \<Rightarrow> PodPlacementConfig \<Rightarrow> admission_response option" where
  "check_cel env p =
     (if ppc_PluginsEnabled p CelArchitecturePlacementPluginName
      then (case Option.bind (ppc_Plugins p) local_CelArchitecturePlacement of
              None \<Rightarrow> None
            | Some c \<Rightarrow>
                (case ValidateArchitectures c of
                   Some e \<Rightarrow> Some (Denied (''invalid architectures in celArchitecturePlacement plugin: '' @ error_msg e))
                 | None \<Rightarrow> map_option (\<lambda>e. Denied (error_msg e)) (ValidateCELExpressions (validationEnv env) c)))
      else None)"

definition check_priority ::
  "operation \<Rightarrow> PodPlacementConfig \<Rightarrow> PodPlacementConfig result \<Rightarrow> PodPlacementConfig list \<Rightarrow> admission_response option" where
  "check_priority op p decodedOld existing =
     (if op = Create
      then map_option (\<lambda>e. Denied (error_msg e)) (ValidatePriorityNew p existing)
      else (case decodedOld of
              Inl e \<Rightarrow> Some (Errored StatusBadRequest (GoError (''failed to decode old PodPlacementConfig: '' @ error_msg e)))
            | Inr old \<Rightarrow> map_option (\<lambda>e. Denied (error_msg e)) (ValidatePriorityUpdate p old existing)))"

definition ppc_Handle ::
  "ppc_webhook_env \<Rightarrow> operation \<Rightarrow> string \<Rightarrow> PodPlacementConfig result \<Rightarrow> PodPlacementConfig result \<Rightarrow> admission_response" where
  "ppc_Handle env op ns decodedNew decodedOld =
     (if op = OtherOperation then Allowed ''operation not explicitly handled''
      else case decodedNew of
        Inl e \<Rightarrow> Errored StatusBadRequest (GoError (''failed to decode new PodPlacementConfig: '' @ error_msg e))
      | Inr newPPC \<Rightarrow>
          (case check_cppc_exists env of Some r \<Rightarrow> r | None \<Rightarrow>
           (case check_scoring newPPC of Some r \<Rightarrow> r | None \<Rightarrow>
            (case check_cel env newPPC of Some r \<Rightarrow> r | None \<Rightarrow>
             (case listPPCs env ns of
                Inl e \<Rightarrow> Errored StatusInternalServerError (GoError (
                  ''failed to list existing PodPlacementConfigs in namespace '' @ quote ns @ '': '' @ error_msg e))
              | Inr existing \<Rightarrow>
                  (case check_priority op newPPC decodedOld existing of
                     Some r \<Rightarrow> r
                   | None \<Rightarrow> Allowed ''valid PodPlacementConfig''))))))"

section \<open>The ClusterPodPlacementConfig validator\<close>

fun validate_platforms :: "string set \<Rightarrow> PlatformTerm list \<Rightarrow> go_error option" where
  "validate_platforms platforms [] = None"
| "validate_platforms platforms (t # ts) =
     (if Architecture t \<in> platforms
      then Some (GoError ''duplicate architecture in the .spec.plugins.nodeAffinityScoring.platforms list'')
      else validate_platforms (insert (Architecture t) platforms) ts)"

definition validate :: "ClusterPodPlacementConfig \<Rightarrow> go_error option" where
  "validate cppc =
     (case Option.bind (cppc_Plugins cppc) plugins_NodeAffinityScoring of
        None \<Rightarrow> None
      | Some n \<Rightarrow> validate_platforms {} (Platforms n))"

definition ValidateCreate :: "ClusterPodPlacementConfig \<Rightarrow> go_error option" where
  "ValidateCreate obj = validate obj"

definition ValidateUpdate :: "ClusterPodPlacementConfig \<Rightarrow> ClusterPodPlacementConfig \<Rightarrow> go_error option" where
  "ValidateUpdate oldObj newObj = validate newObj"

definition ValidateDelete :: "PodPlacementConfig list result \<Rightarrow> go_error option" where
  "ValidateDelete listed =
     (case listed of
        Inl e \<Rightarrow> Some (GoError (''failed to list existing PodPlacementConfigs: '' @ error_msg e))
      | Inr items \<Rightarrow>
          if items \<noteq> []
          then Some (GoError ''cannot delete ClusterPodPlacementConfig while local PodPlacementConfigs still exist'')
          else None)"

section \<open>Conversion between API versions\<close>

record ClusterPodPlacementConfig_v1alpha1 =
  alpha_Name :: string
  alpha_Annotations :: "(string, string) gomap"
  alpha_Finalizers :: "string list"
  alpha_Deleting :: bool
  alpha_LogVerbosity :: string
  alpha_NamespaceSelector :: "label_selector option"
  alpha_Conditions :: "condition slice"

definition FallbackArchAnnotation :: string where
  "FallbackArchAnnotation = ''multiarch.openshift.io/fallback-architecture''"

definition ConvertTo ::
  "ClusterPodPlacementConfig_v1alpha1 \<Rightarrow> ClusterPodPlacementConfig \<Rightarrow> ClusterPodPlacementConfig" where
  "ConvertTo src dst =
     (let d1 = dst\<lparr>cppc_Name := alpha_Name src, cppc_Annotations := alpha_Annotations src,
                   cppc_Finalizers := alpha_Finalizers src, cppc_Deleting := alpha_Deleting src,
                   LogVerbosity := alpha_LogVerbosity src, NamespaceSelector := alpha_NamespaceSelector src\<rparr>;
          d2 = (case lookup_map (alpha_Annotations src) FallbackArchAnnotation of
                  None \<Rightarrow> d1
                | Some arch \<Rightarrow> d1\<lparr>FallbackArchitecture := arch\<rparr>)
      in d2\<lparr>cppc_Status := (cppc_Status d2)\<lparr>Conditions := alpha_Conditions src\<rparr>\<rparr>)"

text \<open>
  Copying the object metadata copies the reference to the annotation map, so the writes of
  \<^verbatim>\<open>ConvertFrom\<close> also show in the source object, unless the map was nil and a new one is made. The
  second component is the source afterwards.
\<close>

definition ConvertFrom ::
  "ClusterPodPlacementConfig_v1alpha1 \<Rightarrow> ClusterPodPlacementConfig \<Rightarrow>
     ClusterPodPlacementConfig_v1alpha1 \<times> ClusterPodPlacementConfig" where
  "ConvertFrom dst src =
     (let annotations = make_if_nil (cppc_Annotations src);
          annotations' = (if FallbackArchitecture src \<noteq> []
                          then put_map annotations FallbackArchAnnotation (FallbackArchitecture src)
                          else delete_key annotations FallbackArchAnnotation);
          src' = (if cppc_Annotations src = None then src else src\<lparr>cppc_Annotations := annotations'\<rparr>)
      in (dst\<lparr>alpha_Name := cppc_Name src, alpha_Annotations := make_if_nil annotations',
              alpha_Finalizers := cppc_Finalizers src, alpha_Deleting := cppc_Deleting src,
              alpha_LogVerbosity := LogVerbosity src, alpha_NamespaceSelector := NamespaceSelector src,
              alpha_Conditions := Conditions (cppc_Status src)\<rparr>, src'))"

section \<open>Facts about the validators\<close>

lemma validate_platforms_None:
  "validate_platforms seen ts = None \<longleftrightarrow>
     distinct (map Architecture ts) \<and> (\<forall>t \<in> set ts. Architecture t \<notin> seen)"
proof (induction seen ts rule: validate_platforms.induct)
  case (2 seen t ts)
  then show ?case by (cases "Architecture t \<in> seen") (auto simp: image_iff)
qed simp

definition scoring_ok :: "NodeAffinityScoring option \<Rightarrow> bool" where
  "scoring_ok n = (case n of None \<Rightarrow> True | Some s \<Rightarrow> distinct (map Architecture (Platforms s)))"

definition cel_ok :: "(string \<Rightarrow> cel_ast result) result \<Rightarrow> CelArchitecturePlacement \<Rightarrow> bool" where
  "cel_ok venv c =
     (set (elems (FallbackArchitectures c)) \<subseteq> AllSupportedArchitecturesSet \<and>
      list_all (\<lambda>r. set (elems (Architectures r)) \<subseteq> AllSupportedArchitecturesSet) (elems (Rules c)) \<and>
      ValidateCELExpressions venv c = None)"

text \<open>What the webhook establishes of one configuration.\<close>

definition ppc_ok :: "(string \<Rightarrow> cel_ast result) result \<Rightarrow> PodPlacementConfig \<Rightarrow> bool" where
  "ppc_ok venv p =
     ((ppc_PluginsEnabled p NodeAffinityScoringPluginName \<longrightarrow>
         scoring_ok (Option.bind (ppc_Plugins p) local_NodeAffinityScoring)) \<and>
      (ppc_PluginsEnabled p CelArchitecturePlacementPluginName \<longrightarrow>
         (case Option.bind (ppc_Plugins p) local_CelArchitecturePlacement of None \<Rightarrow> True | Some c \<Rightarrow> cel_ok venv c)))"

definition cppc_ok :: "ClusterPodPlacementConfig \<Rightarrow> bool" where
  "cppc_ok c = scoring_ok (Option.bind (cppc_Plugins c) plugins_NodeAffinityScoring)"

lemma validate_None: "validate c = None \<longleftrightarrow> cppc_ok c"
  by (simp add: validate_def cppc_ok_def scoring_ok_def validate_platforms_None split: option.splits)

lemma check_scoring_None:
  "check_scoring p = None \<longleftrightarrow>
     (ppc_PluginsEnabled p NodeAffinityScoringPluginName \<longrightarrow>
        scoring_ok (Option.bind (ppc_Plugins p) local_NodeAffinityScoring))"
  by (simp add: check_scoring_def scoring_ok_def ValidateArchitecturesSet_None split: option.splits)

lemma cel_ok_iff:
  "cel_ok venv c \<longleftrightarrow> ValidateArchitectures c = None \<and> ValidateCELExpressions venv c = None"
  by (simp add: cel_ok_def ValidateArchitectures_None list_all_iff)

lemma check_cel_None:
  "check_cel env p = None \<longleftrightarrow>
     (ppc_PluginsEnabled p CelArchitecturePlacementPluginName \<longrightarrow>
        (case Option.bind (ppc_Plugins p) local_CelArchitecturePlacement of
           None \<Rightarrow> True | Some c \<Rightarrow> cel_ok (validationEnv env) c))"
  by (auto simp: check_cel_def cel_ok_iff split: option.splits)

lemma check_none_or_denied:
  "check_scoring p = Some r \<Longrightarrow> \<exists>m. r = Denied m"
  "check_cel env p = Some r \<Longrightarrow> \<exists>m. r = Denied m"
  "check_cppc_exists env = Some r \<Longrightarrow> \<exists>n e. r = Errored n e"
  "check_priority op p old existing = Some r \<Longrightarrow> (\<exists>m. r = Denied m) \<or> (\<exists>n e. r = Errored n e)"
  by (auto simp: check_scoring_def check_cel_def check_cppc_exists_def check_priority_def
      split: option.splits if_splits sum.splits)

lemma check_cppc_exists_None: "check_cppc_exists env = None \<longleftrightarrow> (\<exists>c. getCPPC env = Inr c)"
  by (auto simp: check_cppc_exists_def split: sum.splits)

text \<open>The webhook allows a create or update exactly when every check passes.\<close>

lemma ppc_Handle_allowed:
  assumes "op \<noteq> OtherOperation"
  shows "(\<exists>m. ppc_Handle env op ns decodedNew decodedOld = Allowed m) \<longleftrightarrow>
    (\<exists>p c existing. decodedNew = Inr p \<and> getCPPC env = Inr c \<and> ppc_ok (validationEnv env) p \<and>
       listPPCs env ns = Inr existing \<and> check_priority op p decodedOld existing = None)"
proof (cases decodedNew)
  case (Inr p)
  show ?thesis
  proof (cases "check_cppc_exists env = None \<and> check_scoring p = None \<and> check_cel env p = None")
    case True
    then show ?thesis using assms Inr
      by (auto simp: ppc_Handle_def check_cppc_exists_None[symmetric] ppc_ok_def check_scoring_None[symmetric]
          check_cel_None[symmetric] split: sum.splits option.splits dest: check_none_or_denied(4))
  next
    case False
    have "\<nexists>m. ppc_Handle env op ns decodedNew decodedOld = Allowed m"
      using False assms Inr
      by (cases "check_cppc_exists env"; cases "check_scoring p"; cases "check_cel env p")
        (auto simp: ppc_Handle_def dest!: check_none_or_denied(1-3))
    moreover have "\<not> (ppc_ok (validationEnv env) p \<and> (\<exists>c. getCPPC env = Inr c))"
      using False by (auto simp: ppc_ok_def check_scoring_None[symmetric] check_cel_None[symmetric] check_cppc_exists_None)
    ultimately show ?thesis using Inr by auto
  qed
qed (use assms in \<open>auto simp: ppc_Handle_def\<close>)

section \<open>Sequences of requests\<close>

text \<open>
  The API server applies a request when the object it names exists (or does not, for a creation) and
  the validators accept it. Requests are applied one after another. The webhook of the namespaced
  configurations reads from the API server, so it sees the current store; the validator of the
  cluster-wide one lists through a cache, so a deletion comes with whatever that listing returned.
  Deleting an object that has finalizers only marks it; it disappears when a controller has written it
  without finalizers, which may be at any time.
\<close>

record api_store =
  the_cppc :: "ClusterPodPlacementConfig option"
  the_ppcs :: "PodPlacementConfig list"

datatype request =
    CreatePPC PodPlacementConfig
  | UpdatePPC PodPlacementConfig
  | DeletePPC string string
  | CreateCPPC ClusterPodPlacementConfig
  | UpdateCPPC ClusterPodPlacementConfig
  | DeleteCPPC "PodPlacementConfig list result"
  | FinalizeCPPC "string list"

abbreviation ppc_key :: "PodPlacementConfig \<Rightarrow> string \<times> string" where
  "ppc_key p \<equiv> (ppc_Namespace p, ppc_Name p)"

definition empty_store :: api_store where
  "empty_store = \<lparr>the_cppc = None, the_ppcs = []\<rparr>"

definition in_namespace :: "string \<Rightarrow> PodPlacementConfig list \<Rightarrow> PodPlacementConfig list" where
  "in_namespace ns = filter (\<lambda>p. ppc_Namespace p = ns)"

definition store_env :: "(string \<Rightarrow> cel_ast result) result \<Rightarrow> api_store \<Rightarrow> ppc_webhook_env" where
  "store_env venv s =
     \<lparr>getCPPC = (case the_cppc s of None \<Rightarrow> Inl (NotFoundError ''cluster'') | Some c \<Rightarrow> Inr c),
      listPPCs = (\<lambda>ns. Inr (in_namespace ns (the_ppcs s))), validationEnv = venv\<rparr>"

primrec is_allowed :: "admission_response \<Rightarrow> bool" where
  "is_allowed (Allowed m) = True"
| "is_allowed (Denied m) = False"
| "is_allowed (Errored n e) = False"

definition replace_ppc :: "PodPlacementConfig \<Rightarrow> PodPlacementConfig list \<Rightarrow> PodPlacementConfig list" where
  "replace_ppc p = map (\<lambda>q. if ppc_key q = ppc_key p then p else q)"

fun admit :: "(string \<Rightarrow> cel_ast result) result \<Rightarrow> request \<Rightarrow> api_store \<Rightarrow> api_store" where
  "admit venv (CreatePPC p) s =
     (if ppc_key p \<notin> ppc_key ` set (the_ppcs s) \<and>
         is_allowed (ppc_Handle (store_env venv s) Create (ppc_Namespace p) (Inr p) (Inl (GoError ''no old object'')))
      then s\<lparr>the_ppcs := the_ppcs s @ [p]\<rparr> else s)"
| "admit venv (UpdatePPC p) s =
     (case List.find (\<lambda>q. ppc_key q = ppc_key p) (the_ppcs s) of
        None \<Rightarrow> s
      | Some old \<Rightarrow>
          if is_allowed (ppc_Handle (store_env venv s) Update (ppc_Namespace p) (Inr p) (Inr old))
          then s\<lparr>the_ppcs := replace_ppc p (the_ppcs s)\<rparr> else s)"
| "admit venv (DeletePPC ns name) s =
     (if is_allowed (ppc_Handle (store_env venv s) OtherOperation ns (Inl (GoError ''not decoded'')) (Inl (GoError ''not decoded'')))
      then s\<lparr>the_ppcs := filter (\<lambda>q. ppc_key q \<noteq> (ns, name)) (the_ppcs s)\<rparr> else s)"
| "admit venv (CreateCPPC c) s =
     (if the_cppc s = None \<and> ValidateCreate c = None then s\<lparr>the_cppc := Some (c\<lparr>cppc_Deleting := False\<rparr>)\<rparr> else s)"
| "admit venv (UpdateCPPC c) s =
     (case the_cppc s of
        None \<Rightarrow> s
      | Some old \<Rightarrow>
          if ValidateUpdate old c = None
          then s\<lparr>the_cppc := Some (c\<lparr>cppc_Deleting := cppc_Deleting old\<rparr>)\<rparr> else s)"
| "admit venv (DeleteCPPC listed) s =
     (case the_cppc s of
        None \<Rightarrow> s
      | Some c \<Rightarrow>
          if ValidateDelete listed = None
          then s\<lparr>the_cppc := (if cppc_Finalizers c = [] then None else Some (c\<lparr>cppc_Deleting := True\<rparr>))\<rparr> else s)"
| "admit venv (FinalizeCPPC finalizers) s =
     (case the_cppc s of
        None \<Rightarrow> s
      | Some c \<Rightarrow>
          s\<lparr>the_cppc := (if cppc_Deleting c \<and> finalizers = [] then None else Some (c\<lparr>cppc_Finalizers := finalizers\<rparr>))\<rparr>)"

definition admit_all :: "(string \<Rightarrow> cel_ast result) result \<Rightarrow> request list \<Rightarrow> api_store \<Rightarrow> api_store" where
  "admit_all venv rs s = fold (admit venv) rs s"

text \<open>The invariant of the store.\<close>

definition store_ok :: "(string \<Rightarrow> cel_ast result) result \<Rightarrow> api_store \<Rightarrow> bool" where
  "store_ok venv s =
     (distinct (map ppc_key (the_ppcs s)) \<and>
      distinct (map (\<lambda>p. (ppc_Namespace p, Priority p)) (the_ppcs s)) \<and>
      list_all (ppc_ok venv) (the_ppcs s) \<and>
      pred_option cppc_ok (the_cppc s))"

lemma is_allowed_iff: "is_allowed r \<longleftrightarrow> (\<exists>m. r = Allowed m)"
  by (cases r) auto

lemma store_env_sel [simp]:
  "listPPCs (store_env venv s) ns = Inr (in_namespace ns (the_ppcs s))"
  "validationEnv (store_env venv s) = venv"
  "getCPPC (store_env venv s) = Inr c \<longleftrightarrow> the_cppc s = Some c"
  by (simp_all add: store_env_def split: option.splits)

lemma admitted_PPC:
  assumes "op \<noteq> OtherOperation" "is_allowed (ppc_Handle (store_env venv s) op ns (Inr p) old)"
  shows "the_cppc s \<noteq> None" "ppc_ok venv p" "check_priority op p old (in_namespace ns (the_ppcs s)) = None"
  using assms by (auto simp: is_allowed_iff ppc_Handle_allowed)

lemma distinct_replace:
  assumes "distinct (map f xs)" "\<forall>q \<in> set xs. k q \<noteq> k p \<longrightarrow> f q \<noteq> f p" "distinct (map k xs)"
  shows "distinct (map f (map (\<lambda>q. if k q = k p then p else q) xs))"
  using assms
proof (induction xs)
  case (Cons x xs)
  show ?case
  proof (cases "k x = k p")
    case True
    then have "\<forall>q \<in> set xs. k q \<noteq> k p" using Cons.prems(3) by (metis distinct.simps(2) imageI list.simps(9) set_map)
    then have "map (\<lambda>q. if k q = k p then p else q) xs = xs" by (induction xs) auto
    then show ?thesis using Cons.prems \<open>\<forall>q \<in> set xs. k q \<noteq> k p\<close> True by auto
  next
    case False
    then show ?thesis using Cons by (auto split: if_splits)
  qed
qed simp

lemma create_ok:
  assumes "store_ok venv s" shows "store_ok venv (admit venv (CreatePPC p) s)"
proof (cases "admit venv (CreatePPC p) s = s")
  case False
  then have fresh: "ppc_key p \<notin> ppc_key ` set (the_ppcs s)" and
    allowed: "is_allowed (ppc_Handle (store_env venv s) Create (ppc_Namespace p) (Inr p) (Inl (GoError ''no old object'')))"
    by (simp_all split: if_splits)
  have "Priority q \<noteq> Priority p" if "q \<in> set (the_ppcs s)" "ppc_Namespace q = ppc_Namespace p" for q
    using admitted_PPC(3)[OF _ allowed] that
    by (simp add: check_priority_def ValidatePriorityNew_None in_namespace_def)
  then have "(ppc_Namespace p, Priority p) \<notin> (\<lambda>p. (ppc_Namespace p, Priority p)) ` set (the_ppcs s)"
    by fastforce
  then show ?thesis
    using assms fresh allowed admitted_PPC(2)[OF _ allowed] by (simp add: store_ok_def)
qed (use assms in simp)

lemma update_ok:
  assumes "store_ok venv s" shows "store_ok venv (admit venv (UpdatePPC p) s)"
proof (cases "admit venv (UpdatePPC p) s = s")
  case False
  then obtain old where found: "List.find (\<lambda>q. ppc_key q = ppc_key p) (the_ppcs s) = Some old"
    and allowed: "is_allowed (ppc_Handle (store_env venv s) Update (ppc_Namespace p) (Inr p) (Inr old))"
    by (auto split: option.splits if_splits)
  have old: "old \<in> set (the_ppcs s)" "ppc_key old = ppc_key p"
    using found by (auto simp: find_Some_iff)
  have prio: "ValidatePriorityUpdate p old (in_namespace (ppc_Namespace p) (the_ppcs s)) = None"
    using admitted_PPC(3)[OF _ allowed] by (simp add: check_priority_def)
  have inj: "inj_on (\<lambda>p. (ppc_Namespace p, Priority p)) (set (the_ppcs s))"
    using assms by (simp add: store_ok_def distinct_map)
  have "(ppc_Namespace q, Priority q) \<noteq> (ppc_Namespace p, Priority p)"
    if q: "q \<in> set (the_ppcs s)" "ppc_key q \<noteq> ppc_key p" for q
  proof (cases "Priority p = Priority old")
    case True
    then show ?thesis using inj_onD[OF inj, of q old] old q by auto
  next
    case False
    then show ?thesis using prio q
      by (auto simp: ValidatePriorityUpdate_def ValidatePriorityUpdate_loop_None in_namespace_def)
  qed
  moreover have keys: "map ppc_key (replace_ppc p (the_ppcs s)) = map ppc_key (the_ppcs s)"
    by (auto simp: replace_ppc_def)
  ultimately have "distinct (map (\<lambda>p. (ppc_Namespace p, Priority p)) (replace_ppc p (the_ppcs s)))"
    unfolding replace_ppc_def using assms by (intro distinct_replace) (auto simp: store_ok_def)
  moreover have "list_all (ppc_ok venv) (replace_ppc p (the_ppcs s))"
    using assms admitted_PPC(2)[OF _ allowed] by (auto simp: store_ok_def list_all_iff replace_ppc_def)
  ultimately show ?thesis using assms found allowed keys by (simp add: store_ok_def)
qed (use assms in simp)

lemma cppc_ok_meta [simp]:
  "cppc_ok (c\<lparr>cppc_Deleting := b\<rparr>) = cppc_ok c" "cppc_ok (c\<lparr>cppc_Finalizers := fs\<rparr>) = cppc_ok c"
  by (simp_all add: cppc_ok_def)

lemma admit_ok:
  assumes "store_ok venv s" shows "store_ok venv (admit venv r s)"
proof (cases r)
  case (CreatePPC p)
  then show ?thesis using create_ok[OF assms] by blast
next
  case (UpdatePPC p)
  then show ?thesis using update_ok[OF assms] by blast
next
  case (DeletePPC ns name)
  then show ?thesis using assms by (auto simp: store_ok_def list_all_iff distinct_map_filter)
qed (use assms in \<open>auto simp: store_ok_def ValidateCreate_def ValidateUpdate_def validate_None split: option.splits\<close>)

lemma admit_all_ok: "store_ok venv s \<Longrightarrow> store_ok venv (admit_all venv rs s)"
  unfolding admit_all_def by (induction rs arbitrary: s) (simp_all add: admit_ok del: admit.simps)

lemma empty_store_ok: "store_ok venv empty_store"
  by (simp add: store_ok_def empty_store_def)

section \<open>Properties\<close>

text \<open>C11: Whatever sequence of creations, updates and deletions users submit, the stored configurations are sound:
  within a namespace no two of them have the same name or the same priority, every enabled plugin of
  theirs is valid (distinct scoring architectures, supported architectures and compiling boolean
  metadata-only expressions in the CEL rules), and the cluster-wide configuration has distinct scoring
  architectures.\<close>

theorem admitted_configs_sound:
  "(let s = admit_all venv requests empty_store in
     distinct (map ppc_key (the_ppcs s)) \<and>
     distinct (map (\<lambda>p. (ppc_Namespace p, Priority p)) (the_ppcs s)) \<and>
     list_all (ppc_ok venv) (the_ppcs s) \<and> pred_option cppc_ok (the_cppc s))"
  using admit_all_ok[OF empty_store_ok, of venv requests] by (simp add: store_ok_def Let_def)

text \<open>The exact condition under which the webhook allows the creation of a configuration: the request decodes, the
  cluster-wide configuration exists, all enabled plugins are valid, the namespace can be listed, and no
  configuration of the namespace has the same priority.\<close>

theorem create_allowed_iff:
  "is_allowed (ppc_Handle env Create ns decodedNew decodedOld) \<longleftrightarrow>
    (\<exists>p c existing. decodedNew = Inr p \<and> getCPPC env = Inr c \<and> ppc_ok (validationEnv env) p \<and>
       listPPCs env ns = Inr existing \<and> Priority p \<notin> Priority ` set existing)"
proof -
  have "check_priority Create p decodedOld existing = None \<longleftrightarrow> Priority p \<notin> Priority ` set existing" for p existing
    by (simp add: check_priority_def ValidatePriorityNew_None image_iff) metis
  then show ?thesis by (simp add: is_allowed_iff ppc_Handle_allowed)
qed

text \<open>The round trip through the older API version.\<close>

definition zero_status :: ClusterPodPlacementConfigStatus where
  "zero_status = \<lparr>Conditions = None, available = False, progressing = False, degraded = False,
     deprovisioning = False, podPlacementControllerNotReady = False, podPlacementWebhookNotReady = False,
     mutatingWebhookConfigurationNotAvailable = False, canDeployMutatingWebhook = False\<rparr>"

definition zero_cppc :: ClusterPodPlacementConfig where
  "zero_cppc = \<lparr>cppc_Name = [], cppc_Annotations = None, cppc_Finalizers = [], cppc_Deleting = False,
     LogVerbosity = [], NamespaceSelector = None, cppc_Plugins = None, FallbackArchitecture = [],
     cppc_Status = zero_status\<rparr>"

text \<open>C31: Converting a cluster-wide configuration to v1alpha1 and back into a fresh object keeps the metadata, the log
  verbosity, the namespace selector, the fallback architecture and the conditions; of the annotations only
  the one that carries the fallback architecture differs. The plugins are lost.\<close>

theorem conversion_round_trip:
  "(let back = ConvertTo (fst (ConvertFrom dst src)) zero_cppc in
     cppc_Name back = cppc_Name src \<and> cppc_Finalizers back = cppc_Finalizers src \<and>
     cppc_Deleting back = cppc_Deleting src \<and> LogVerbosity back = LogVerbosity src \<and>
     NamespaceSelector back = NamespaceSelector src \<and> FallbackArchitecture back = FallbackArchitecture src \<and>
     Conditions (cppc_Status back) = Conditions (cppc_Status src) \<and> cppc_Plugins back = None \<and>
     (\<forall>k. lookup_map (cppc_Annotations back) k =
        (if k = FallbackArchAnnotation
         then (if FallbackArchitecture src = [] then None else Some (FallbackArchitecture src))
         else lookup_map (cppc_Annotations src) k)))"
  by (auto simp: ConvertTo_def ConvertFrom_def zero_cppc_def zero_status_def Let_def split: option.splits)

end
