(* ===== verification/Cppc_Status.thy ===== *)
theory Cppc_Status
  imports Config_Types
begin

text \<open>
  The status of the \<^verbatim>\<open>ClusterPodPlacementConfig\<close>: the private flags and the conditions derived from
  them (\<^verbatim>\<open>clusterpodplacementconfig_types.go\<close>, \<^verbatim>\<open>conditions.go\<close>), the upsert of a condition as the
  vendored \<^verbatim>\<open>v1helpers.SetCondition\<close> does it, and the log levels (\<^verbatim>\<open>verbositylevel.go\<close>). The clock
  is a parameter: the \<open>i\<close>-th upsert of a build reads the time \<open>clock i\<close>.
\<close>

section \<open>Names and messages\<close>

definition MutatingWebhookConfigurationNotAvailable :: string where
  "MutatingWebhookConfigurationNotAvailable = ''MutatingWebhookConfigurationNotAvailable''"
definition PodPlacementControllerNotRolledOutType :: string where
  "PodPlacementControllerNotRolledOutType = ''PodPlacementControllerNotRolledOut''"
definition PodPlacementWebhookNotRolledOutType :: string where
  "PodPlacementWebhookNotRolledOutType = ''PodPlacementWebhookNotRolledOut''"
definition AvailableType :: string where "AvailableType = ''Available''"
definition DegradedType :: string where "DegradedType = ''Degraded''"
definition ProgressingType :: string where "ProgressingType = ''Progressing''"
definition DeprovisioningType :: string where "DeprovisioningType = ''Deprovisioning''"
definition AllComponentsReady :: string where "AllComponentsReady = ''AllComponentsReady''"

text \<open>The messages with verbs, as functions of their arguments.\<close>

definition MutatingWebhookConfigurationReadyMsg :: "string \<Rightarrow> string" where
  "MutatingWebhookConfigurationReadyMsg a = ''The mutating webhook configuration is '' @ a @ ''ready.''"
definition PodPlacementControllerRolledOutMsg :: "string \<Rightarrow> string" where
  "PodPlacementControllerRolledOutMsg a = ''The pod placement controller is '' @ a @ ''fully rolled out.''"
definition PodPlacementWebhookRolledOutMsg :: "string \<Rightarrow> string" where
  "PodPlacementWebhookRolledOutMsg a = ''The pod placement webhook is '' @ a @ ''fully rolled out.''"
definition ReadyMsg :: "string \<Rightarrow> string \<Rightarrow> string" where
  "ReadyMsg a b = ''The cluster pod placement config operand is '' @ a @ ''ready. We can'' @ b @ '' gate and reconcile pods.''"
definition DegradedMsg :: "string \<Rightarrow> string" where
  "DegradedMsg a = ''The cluster pod placement config operand is '' @ a @ ''degraded.''"
definition ProgressingMsg :: "string \<Rightarrow> string" where
  "ProgressingMsg a = ''The cluster pod placement config operand is '' @ a @ ''progressing.''"
definition DeprovisioningMsg :: "string \<Rightarrow> string \<Rightarrow> string" where
  "DeprovisioningMsg a b = ''The cluster pod placement config operand is '' @ a @ ''being deprovisioned. '' @ b"
definition PendingDeprovisioningMsg :: string where
  "PendingDeprovisioningMsg = ''Some pods may still have the '' @ SchedulingGateName @
     ''scheduling gate. The pod placement controller is updating them and will terminate.''"

lemmas condition_type_defs =
  MutatingWebhookConfigurationNotAvailable_def PodPlacementControllerNotRolledOutType_def
  PodPlacementWebhookNotRolledOutType_def AvailableType_def DegradedType_def ProgressingType_def
  DeprovisioningType_def

section \<open>Helpers\<close>

definition ConditionTrue :: string where "ConditionTrue = ''True''"
definition ConditionFalse :: string where "ConditionFalse = ''False''"

definition conditionFromBool :: "bool \<Rightarrow> string" where
  "conditionFromBool b = (if b then ConditionTrue else ConditionFalse)"

definition notFromBool :: "bool \<Rightarrow> string" where
  "notFromBool b = (if b then [] else ''not '')"

text \<open>\<^verbatim>\<open>strings.TrimSpace\<close> and \<^verbatim>\<open>strings.ToUpper\<close> on ASCII text, which is all the code passes to them.\<close>

definition is_space :: "char \<Rightarrow> bool" where
  "is_space c = (c = CHR '' '' \<or> in_range 9 13 (of_char c))"

definition TrimSpace :: "string \<Rightarrow> string" where
  "TrimSpace s = rev (dropWhile is_space (rev (dropWhile is_space s)))"

definition upper :: "char \<Rightarrow> char" where
  "upper c = (if in_range 97 122 (of_char c) then char_of (of_char c - (32::nat)) else c)"

definition trimAndCapitalize :: "string \<Rightarrow> string" where
  "trimAndCapitalize s = (case TrimSpace s of [] \<Rightarrow> [] | c # cs \<Rightarrow> upper c # cs)"

section \<open>Conditions\<close>

text \<open>The condition of a type is the first one with it; an upsert changes that one in place or appends.\<close>

definition FindCondition :: "condition list \<Rightarrow> string \<Rightarrow> condition option" where
  "FindCondition cs ty = List.find (\<lambda>c. cond_Type c = ty) cs"

definition merge_condition :: "nat \<Rightarrow> condition \<Rightarrow> condition \<Rightarrow> condition" where
  "merge_condition now new old =
     (let c = (if cond_Status old \<noteq> cond_Status new
               then old\<lparr>cond_Status := cond_Status new, cond_LastTransitionTime := now\<rparr> else old)
      in c\<lparr>cond_Reason := cond_Reason new, cond_Message := cond_Message new\<rparr>)"

fun SetCondition :: "nat \<Rightarrow> condition \<Rightarrow> condition list \<Rightarrow> condition list" where
  "SetCondition now new [] = [new\<lparr>cond_LastTransitionTime := now\<rparr>]"
| "SetCondition now new (c # cs) =
     (if cond_Type c = cond_Type new then merge_condition now new c # cs
      else c # SetCondition now new cs)"

definition new_condition :: "string \<Rightarrow> bool \<Rightarrow> string \<Rightarrow> string \<Rightarrow> condition" where
  "new_condition ty st reason msg =
     \<lparr>cond_Type = ty, cond_Status = conditionFromBool st, cond_Reason = reason, cond_Message = msg,
      cond_LastTransitionTime = 0\<rparr>"

definition status_reason :: "ClusterPodPlacementConfigStatus \<Rightarrow> string" where
  "status_reason s =
     (let reason = (if podPlacementControllerNotReady s then PodPlacementControllerNotRolledOutType else []) @
                   (if podPlacementWebhookNotReady s then PodPlacementWebhookNotRolledOutType else []) @
                   (if mutatingWebhookConfigurationNotAvailable s then MutatingWebhookConfigurationNotAvailable else [])
      in if reason = [] then AllComponentsReady else reason)"

definition status_conditions :: "ClusterPodPlacementConfigStatus \<Rightarrow> condition list" where
  "status_conditions s =
     (let reason = status_reason s in
      [new_condition AvailableType (available s) reason
         (ReadyMsg (notFromBool (available s)) (TrimSpace (notFromBool (available s)))),
       new_condition ProgressingType (progressing s) reason (ProgressingMsg (notFromBool (progressing s))),
       new_condition DegradedType (degraded s)
         (trimAndCapitalize (notFromBool (degraded s)) @ DegradedType) (DegradedMsg (notFromBool (degraded s))),
       new_condition DeprovisioningType (deprovisioning s)
         (trimAndCapitalize (notFromBool (deprovisioning s)) @ DeprovisioningType)
         (DeprovisioningMsg (notFromBool (deprovisioning s))
            (if deprovisioning s then PendingDeprovisioningMsg else [])),
       new_condition PodPlacementControllerNotRolledOutType (podPlacementControllerNotReady s)
         (''PodPlacementController'' @ trimAndCapitalize (notFromBool (\<not> podPlacementControllerNotReady s)) @ ''Ready'')
         (PodPlacementControllerRolledOutMsg (notFromBool (\<not> podPlacementControllerNotReady s))),
       new_condition PodPlacementWebhookNotRolledOutType (podPlacementWebhookNotReady s)
         (''PodPlacementWebhook'' @ trimAndCapitalize (notFromBool (\<not> podPlacementWebhookNotReady s)) @ ''Ready'')
         (PodPlacementWebhookRolledOutMsg (notFromBool (\<not> podPlacementWebhookNotReady s))),
       new_condition MutatingWebhookConfigurationNotAvailable (mutatingWebhookConfigurationNotAvailable s) reason
         (MutatingWebhookConfigurationReadyMsg (notFromBool (\<not> mutatingWebhookConfigurationNotAvailable s)))])"

fun set_conditions :: "(nat \<Rightarrow> nat) \<Rightarrow> nat \<Rightarrow> condition list \<Rightarrow> condition list \<Rightarrow> condition list" where
  "set_conditions clock i [] cs = cs"
| "set_conditions clock i (n # ns) cs = set_conditions clock (Suc i) ns (SetCondition (clock i) n cs)"

definition buildConditions ::
  "(nat \<Rightarrow> nat) \<Rightarrow> ClusterPodPlacementConfigStatus \<Rightarrow> ClusterPodPlacementConfigStatus" where
  "buildConditions clock s =
     s\<lparr>Conditions := Some (set_conditions clock 0 (status_conditions s) (elems (Conditions s)))\<rparr>"

record component_state =
  controllerAvailable :: bool
  webhookAvailable :: bool
  controllerUpToDate :: bool
  webhookUpToDate :: bool
  mutatingWebhookAvailable :: bool

definition set_flags ::
  "component_state \<Rightarrow> bool \<Rightarrow> ClusterPodPlacementConfigStatus \<Rightarrow> ClusterPodPlacementConfigStatus" where
  "set_flags cs deprov s =
     (let avail = mutatingWebhookAvailable cs \<and> webhookAvailable cs \<and> controllerAvailable cs
      in s\<lparr>
        deprovisioning := deprov,
        mutatingWebhookConfigurationNotAvailable := \<not> mutatingWebhookAvailable cs,
        podPlacementControllerNotReady := \<not> controllerAvailable cs \<or> \<not> controllerUpToDate cs,
        podPlacementWebhookNotReady := \<not> webhookAvailable cs \<or> \<not> webhookUpToDate cs,
        available := avail,
        degraded := \<not> avail \<and> \<not> deprov,
        canDeployMutatingWebhook := webhookAvailable cs \<and> controllerAvailable cs \<and> \<not> deprov,
        progressing := (\<not> controllerUpToDate cs \<or> \<not> webhookUpToDate cs \<or> \<not> mutatingWebhookAvailable cs) \<and> \<not> deprov\<rparr>)"

definition Build ::
  "(nat \<Rightarrow> nat) \<Rightarrow> component_state \<Rightarrow> bool \<Rightarrow> ClusterPodPlacementConfigStatus \<Rightarrow> ClusterPodPlacementConfigStatus" where
  "Build clock cs deprov s = buildConditions clock (set_flags cs deprov s)"

definition IsReady :: "ClusterPodPlacementConfigStatus \<Rightarrow> bool" where "IsReady s = available s"
definition IsProgressing :: "ClusterPodPlacementConfigStatus \<Rightarrow> bool" where "IsProgressing s = progressing s"
definition IsDegraded :: "ClusterPodPlacementConfigStatus \<Rightarrow> bool" where "IsDegraded s = degraded s"
definition IsDeprovisioning :: "ClusterPodPlacementConfigStatus \<Rightarrow> bool" where "IsDeprovisioning s = deprovisioning s"
definition IsPodPlacementControllerNotReady :: "ClusterPodPlacementConfigStatus \<Rightarrow> bool" where
  "IsPodPlacementControllerNotReady s = podPlacementControllerNotReady s"
definition IsPodPlacementWebhookNotReady :: "ClusterPodPlacementConfigStatus \<Rightarrow> bool" where
  "IsPodPlacementWebhookNotReady s = podPlacementWebhookNotReady s"
definition IsMutatingWebhookConfigurationNotAvailable :: "ClusterPodPlacementConfigStatus \<Rightarrow> bool" where
  "IsMutatingWebhookConfigurationNotAvailable s = mutatingWebhookConfigurationNotAvailable s"
definition CanDeployMutatingWebhook :: "ClusterPodPlacementConfigStatus \<Rightarrow> bool" where
  "CanDeployMutatingWebhook s = canDeployMutatingWebhook s"

section \<open>Log levels\<close>

definition logVerbosityToZapLevelMap :: "string \<rightharpoonup> int" where
  "logVerbosityToZapLevelMap = [''Normal'' \<mapsto> 0, ''Debug'' \<mapsto> 1, ''Trace'' \<mapsto> 2, ''TraceAll'' \<mapsto> 3]"

definition ToZapLevelInt :: "string \<Rightarrow> int" where
  "ToZapLevelInt verbosity =
     (case logVerbosityToZapLevelMap verbosity of Some level \<Rightarrow> level | None \<Rightarrow> 0)"

section \<open>Facts\<close>

definition condition_status :: "condition list \<Rightarrow> string \<Rightarrow> string option" where
  "condition_status cs ty = map_option cond_Status (FindCondition cs ty)"

lemma FindCondition_SetCondition:
  "FindCondition (SetCondition now new cs) ty =
     (if ty = cond_Type new
      then Some (case FindCondition cs ty of None \<Rightarrow> new\<lparr>cond_LastTransitionTime := now\<rparr> | Some old \<Rightarrow> merge_condition now new old)
      else FindCondition cs ty)"
  by (induction cs) (auto simp: FindCondition_def merge_condition_def Let_def)

lemma types_SetCondition:
  "map cond_Type (SetCondition now new cs) =
     map cond_Type cs @ (if cond_Type new \<in> cond_Type ` set cs then [] else [cond_Type new])"
  by (induction cs) (auto simp: merge_condition_def Let_def)

lemma distinct_SetCondition:
  "distinct (map cond_Type cs) \<Longrightarrow> distinct (map cond_Type (SetCondition now new cs))"
  unfolding types_SetCondition by auto

lemma distinct_set_conditions:
  "distinct (map cond_Type cs) \<Longrightarrow> distinct (map cond_Type (set_conditions clock i ns cs))"
  by (induction ns arbitrary: i cs) (auto simp: distinct_SetCondition)

lemma FindCondition_set_conditions_other:
  "ty \<notin> cond_Type ` set ns \<Longrightarrow> FindCondition (set_conditions clock i ns cs) ty = FindCondition cs ty"
  by (induction ns arbitrary: i cs) (auto simp: FindCondition_SetCondition)

lemma FindCondition_set_conditions:
  assumes "distinct (map cond_Type ns)" "n \<in> set ns"
  shows "\<exists>now. FindCondition (set_conditions clock i ns cs) (cond_Type n) =
    Some (case FindCondition cs (cond_Type n) of
            None \<Rightarrow> n\<lparr>cond_LastTransitionTime := now\<rparr> | Some old \<Rightarrow> merge_condition now n old)"
  using assms
proof (induction ns arbitrary: i cs)
  case (Cons m ns)
  show ?case
  proof (cases "n = m")
    case True
    then have "cond_Type n \<notin> cond_Type ` set ns" using Cons.prems by auto
    then show ?thesis using True
      by (auto simp: FindCondition_set_conditions_other FindCondition_SetCondition)
  next
    case False
    then have "n \<in> set ns" using Cons.prems by simp
    then have "cond_Type n \<noteq> cond_Type m" using Cons.prems(1) by (metis distinct.simps(2) imageI list.simps(9) set_map)
    note \<open>n \<in> set ns\<close> this
    then show ?thesis
      using Cons.IH[of "Suc i" "SetCondition (clock i) m cs"] Cons.prems(1)
      by (simp add: FindCondition_SetCondition)
  qed
qed simp

lemma merge_condition_sel [simp]:
  "cond_Type (merge_condition now n old) = cond_Type old"
  "cond_Status (merge_condition now n old) = cond_Status n"
  "cond_Reason (merge_condition now n old) = cond_Reason n"
  "cond_Message (merge_condition now n old) = cond_Message n"
  "cond_LastTransitionTime (merge_condition now n old) =
     (if cond_Status old = cond_Status n then cond_LastTransitionTime old else now)"
  by (simp_all add: merge_condition_def Let_def)

lemma status_conditions_types:
  "map cond_Type (status_conditions s) =
     [AvailableType, ProgressingType, DegradedType, DeprovisioningType,
      PodPlacementControllerNotRolledOutType, PodPlacementWebhookNotRolledOutType,
      MutatingWebhookConfigurationNotAvailable]"
  by (simp add: status_conditions_def Let_def new_condition_def)

lemma distinct_status_conditions: "distinct (map cond_Type (status_conditions s))"
  unfolding status_conditions_types by (simp add: condition_type_defs)

lemma condition_status_set:
  assumes "n \<in> set (status_conditions s)"
  shows "condition_status (set_conditions clock i (status_conditions s) cs) (cond_Type n) = Some (cond_Status n)"
proof -
  obtain now where "FindCondition (set_conditions clock i (status_conditions s) cs) (cond_Type n) =
      Some (case FindCondition cs (cond_Type n) of
              None \<Rightarrow> n\<lparr>cond_LastTransitionTime := now\<rparr> | Some old \<Rightarrow> merge_condition now n old)"
    using FindCondition_set_conditions[OF distinct_status_conditions assms] by blast
  then show ?thesis by (auto simp: condition_status_def split: option.splits)
qed

lemma built_status:
  "list_all (\<lambda>(ty, flag). condition_status (elems (Conditions (buildConditions clock s))) ty = Some (conditionFromBool flag))
     [(AvailableType, available s), (ProgressingType, progressing s), (DegradedType, degraded s),
      (DeprovisioningType, deprovisioning s),
      (PodPlacementControllerNotRolledOutType, podPlacementControllerNotReady s),
      (PodPlacementWebhookNotRolledOutType, podPlacementWebhookNotReady s),
      (MutatingWebhookConfigurationNotAvailable, mutatingWebhookConfigurationNotAvailable s)]"
proof -
  have "\<forall>n \<in> set (status_conditions s).
      condition_status (elems (Conditions (buildConditions clock s))) (cond_Type n) = Some (cond_Status n)"
    using condition_status_set by (simp add: buildConditions_def)
  then show ?thesis by (simp add: status_conditions_def Let_def new_condition_def)
qed

lemma set_flags_sel:
  "available (set_flags cs deprov s) = (mutatingWebhookAvailable cs \<and> webhookAvailable cs \<and> controllerAvailable cs)"
  "progressing (set_flags cs deprov s) =
     (\<not> (controllerUpToDate cs \<and> webhookUpToDate cs \<and> mutatingWebhookAvailable cs) \<and> \<not> deprov)"
  "degraded (set_flags cs deprov s) =
     (\<not> (mutatingWebhookAvailable cs \<and> webhookAvailable cs \<and> controllerAvailable cs) \<and> \<not> deprov)"
  "deprovisioning (set_flags cs deprov s) = deprov"
  "podPlacementControllerNotReady (set_flags cs deprov s) = (\<not> (controllerAvailable cs \<and> controllerUpToDate cs))"
  "podPlacementWebhookNotReady (set_flags cs deprov s) = (\<not> (webhookAvailable cs \<and> webhookUpToDate cs))"
  "mutatingWebhookConfigurationNotAvailable (set_flags cs deprov s) = (\<not> mutatingWebhookAvailable cs)"
  "canDeployMutatingWebhook (set_flags cs deprov s) = (webhookAvailable cs \<and> controllerAvailable cs \<and> \<not> deprov)"
  "Conditions (set_flags cs deprov s) = Conditions s"
  by (auto simp: set_flags_def Let_def)

section \<open>Properties\<close>

text \<open>C32: The conditions published after a build say exactly what the state of the components is, whatever conditions
  were there before: available when all three components are, progressing when one is out of date and
  nothing is being deleted, degraded when unavailable and nothing is being deleted, and so on.\<close>

theorem conditions_report_components:
  "list_all (\<lambda>(ty, flag).
       condition_status (elems (Conditions (Build clock cs deprov s))) ty = Some (conditionFromBool flag))
     [(AvailableType, mutatingWebhookAvailable cs \<and> webhookAvailable cs \<and> controllerAvailable cs),
      (ProgressingType, \<not> (controllerUpToDate cs \<and> webhookUpToDate cs \<and> mutatingWebhookAvailable cs) \<and> \<not> deprov),
      (DegradedType, \<not> (mutatingWebhookAvailable cs \<and> webhookAvailable cs \<and> controllerAvailable cs) \<and> \<not> deprov),
      (DeprovisioningType, deprov),
      (PodPlacementControllerNotRolledOutType, \<not> (controllerAvailable cs \<and> controllerUpToDate cs)),
      (PodPlacementWebhookNotRolledOutType, \<not> (webhookAvailable cs \<and> webhookUpToDate cs)),
      (MutatingWebhookConfigurationNotAvailable, \<not> mutatingWebhookAvailable cs)]"
  unfolding Build_def by (rule built_status[of clock "set_flags cs deprov s", unfolded set_flags_sel])

text \<open>Publishing the conditions keeps the list well-formed: types stay unique, conditions of other types are
  untouched, and the transition time of a condition moves only when its status changes.\<close>

theorem conditions_well_formed:
  assumes "distinct (map cond_Type (elems (Conditions s)))"
  shows "distinct (map cond_Type (elems (Conditions (buildConditions clock s)))) \<and>
    (\<forall>ty old. FindCondition (elems (Conditions s)) ty = Some old \<longrightarrow>
       (\<exists>new. FindCondition (elems (Conditions (buildConditions clock s))) ty = Some new \<and>
          (ty \<notin> cond_Type ` set (status_conditions s) \<longrightarrow> new = old) \<and>
          (cond_Status new = cond_Status old \<longrightarrow> cond_LastTransitionTime new = cond_LastTransitionTime old)))"
proof -
  have "\<exists>new. FindCondition (set_conditions clock 0 (status_conditions s) cs) ty = Some new \<and>
      (ty \<notin> cond_Type ` set (status_conditions s) \<longrightarrow> new = old) \<and>
      (cond_Status new = cond_Status old \<longrightarrow> cond_LastTransitionTime new = cond_LastTransitionTime old)"
    if old: "FindCondition cs ty = Some old" for cs ty old
  proof (cases "ty \<in> cond_Type ` set (status_conditions s)")
    case True
    then obtain n where n: "n \<in> set (status_conditions s)" "ty = cond_Type n" by blast
    then obtain now where "FindCondition (set_conditions clock 0 (status_conditions s) cs) ty = Some (merge_condition now n old)"
      using FindCondition_set_conditions[OF distinct_status_conditions n(1), of clock 0 cs] old by auto
    then show ?thesis using True by simp
  qed (use old in \<open>simp add: FindCondition_set_conditions_other\<close>)
  then show ?thesis using assms by (simp add: buildConditions_def distinct_set_conditions)
qed

definition ex_status :: ClusterPodPlacementConfigStatus where
  "ex_status = \<lparr>Conditions = Some [new_condition AvailableType True ''r'' ''m''], available = True, progressing = False,
     degraded = False, deprovisioning = False, podPlacementControllerNotReady = False,
     podPlacementWebhookNotReady = False, mutatingWebhookConfigurationNotAvailable = False,
     canDeployMutatingWebhook = True\<rparr>"

theorem conditions_well_formed_witness:
  "distinct (map cond_Type (elems (Conditions (buildConditions (\<lambda>i. i) ex_status)))) \<and>
   map_option cond_LastTransitionTime (FindCondition (elems (Conditions (buildConditions (\<lambda>i. i + 5) ex_status))) AvailableType) = Some 0"
proof -
  have d: "distinct (map cond_Type (elems (Conditions ex_status)))" by (simp add: ex_status_def)
  have old: "FindCondition (elems (Conditions ex_status)) AvailableType = Some (new_condition AvailableType True ''r'' ''m'')"
    by (simp add: ex_status_def FindCondition_def new_condition_def)
  obtain new where new: "FindCondition (elems (Conditions (buildConditions (\<lambda>i. i + 5) ex_status))) AvailableType = Some new"
    and keep: "cond_Status new = ConditionTrue \<longrightarrow> cond_LastTransitionTime new = 0"
    using conditions_well_formed[OF d, of "\<lambda>i. i + 5"] old by (fastforce simp: new_condition_def conditionFromBool_def)
  have "condition_status (elems (Conditions (buildConditions (\<lambda>i. i + 5) ex_status))) AvailableType = Some ConditionTrue"
    using built_status[of "\<lambda>i. i + 5" ex_status] by (simp add: ex_status_def conditionFromBool_def)
  then show ?thesis using conditions_well_formed[OF d] new keep by (simp add: condition_status_def)
qed

end
