(* ===== verification/Operator_Objects.thy ===== *)
theory Operator_Objects
  imports Config_Types Cppc_Status
begin

text \<open>
  The objects the operator deploys: \<^verbatim>\<open>objects.go\<close>, \<^verbatim>\<open>podplacement_objects.go\<close> and
  \<^verbatim>\<open>enoexecevent_objects.go\<close>, one definition per builder, and the lists of objects that
  \<^verbatim>\<open>buildPodPlacementConfigObjects\<close> and \<^verbatim>\<open>buildENoExecEventObjects\<close> assemble. A Kubernetes type is a
  record of the fields the builders set; a Go map literal is an association list with distinct keys.
  The process environment (namespace, image, proxies) is a parameter, as \<^verbatim>\<open>runtime.go\<close> reads it.
\<close>

section \<open>Types\<close>

record objmeta =
  meta_Name :: string
  meta_Namespace :: string
  meta_Labels :: "(string \<times> string) list"
  meta_Annotations :: "(string \<times> string) list"
  meta_Finalizers :: "string list"

record service_port =
  port_Name :: string
  port_Protocol :: string
  port_Port :: int
  port_TargetPort :: int

record service_spec =
  svc_Ports :: "service_port list"
  svc_Selector :: "(string \<times> string) list"
  svc_Type :: string

record service =
  svc_meta :: objmeta
  svc_Spec :: service_spec

datatype env_value = Value string | FieldRef string string

record env_var =
  env_Name :: string
  env_Value :: env_value

record probe =
  probe_Path :: string
  probe_Port :: int
  probe_Scheme :: string
  InitialDelaySeconds :: int
  TimeoutSeconds :: int
  PeriodSeconds :: int
  SuccessThreshold :: int
  FailureThreshold :: int

record security_context =
  AllowPrivilegeEscalation :: "bool option"
  CapabilitiesDrop :: "string list"
  Privileged :: "bool option"
  ReadOnlyRootFilesystem :: "bool option"
  RunAsNonRoot :: "bool option"
  RunAsUser :: "int option"
  SELinuxType :: "string option"

record volume_mount =
  mount_Name :: string
  MountPath :: string
  mount_ReadOnly :: bool

datatype volume_source =
    ConfigMapSource string "(string \<times> string) list"
  | SecretSource string int
  | HostPathSource string string
  | EmptyDirSource

record volume =
  vol_Name :: string
  vol_Source :: volume_source

record container_spec =
  c_Name :: string
  c_Image :: string
  c_ImagePullPolicy :: string
  c_Env :: "env_var list"
  c_Args :: "string list"
  c_Command :: "string list"
  LivenessProbe :: "probe option"
  ReadinessProbe :: "probe option"
  c_Requests :: "(string \<times> string) list"
  SecurityContext :: "security_context option"
  VolumeMounts :: "volume_mount list"

record topology_spread =
  MaxSkew :: int
  TopologyKey :: string
  WhenUnsatisfiable :: string
  spread_Labels :: "(string \<times> string) list"
  MatchLabelKeys :: "string list"

record pod_template =
  tpl_Labels :: "(string \<times> string) list"
  tpl_Annotations :: "(string \<times> string) list"
  AutomountServiceAccountToken :: "bool option"
  HostPID :: bool
  tpl_NodeSelectorTerms :: "node_selector_term list"
  tpl_Containers :: "container_spec list"
  PriorityClassName :: string
  ServiceAccountName :: string
  pod_RunAsNonRoot :: "bool option"
  TopologySpreadConstraints :: "topology_spread list"
  Volumes :: "volume list"

record deployment =
  dep_meta :: objmeta
  dep_Replicas :: int
  dep_Selector :: "(string \<times> string) list"
  MaxSurge :: string
  MaxUnavailable :: string
  dep_Template :: pod_template

record daemonset =
  ds_meta :: objmeta
  ds_Selector :: "(string \<times> string) list"
  ds_Template :: pod_template

record policy_rule =
  APIGroups :: "string list"
  Resources :: "string list"
  ResourceNames :: "string list"
  Verbs :: "string list"

record role =
  role_meta :: objmeta
  role_Rules :: "policy_rule list"

record role_ref =
  ref_APIGroup :: string
  ref_Kind :: string
  ref_Name :: string

record subject =
  sub_Kind :: string
  sub_Name :: string
  sub_Namespace :: string

record role_binding =
  rb_meta :: objmeta
  rb_RoleRef :: role_ref
  rb_Subjects :: "subject list"

record service_account =
  sa_meta :: objmeta
  sa_Automount :: "bool option"

record service_monitor =
  sm_meta :: objmeta
  sm_Path :: string
  sm_Port :: string
  sm_Scheme :: string
  sm_HonorLabels :: bool
  sm_BearerTokenFile :: string
  sm_CAFile :: string
  sm_ServerName :: string
  sm_MatchNames :: "string list"
  sm_Selector :: "(string \<times> string) list"

record alert_rule =
  Alert :: string
  Expr :: string
  For :: string
  alert_Annotations :: "(string \<times> string) list"
  alert_Labels :: "(string \<times> string) list"

record prometheus_rule =
  pr_meta :: objmeta
  pr_Group :: string
  pr_Rules :: "alert_rule list"

record mutating_webhook =
  mw_Name :: string
  mw_ServiceName :: string
  mw_ServiceNamespace :: string
  mw_Path :: string
  mw_NamespaceSelector :: "label_selector option"
  mw_FailurePolicy :: string
  mw_SideEffects :: string
  mw_ReviewVersions :: "string list"
  mw_Operations :: "string list"
  mw_APIGroups :: "string list"
  mw_APIVersions :: "string list"
  mw_Resources :: "string list"

record mutating_webhook_configuration =
  mwc_meta :: objmeta
  mwc_Webhooks :: "mutating_webhook list"

datatype k8s_object =
    OService service
  | ODeployment deployment
  | ODaemonSet daemonset
  | OMutatingWebhookConfiguration mutating_webhook_configuration
  | ORole role
  | ORoleBinding role_binding
  | OServiceAccount service_account
  | OClusterRole role
  | OClusterRoleBinding role_binding
  | OServiceMonitor service_monitor
  | OPrometheusRule prometheus_rule

datatype kind = KService | KDeployment | KDaemonSet | KMutatingWebhookConfiguration | KRole | KRoleBinding
  | KServiceAccount | KClusterRole | KClusterRoleBinding | KServiceMonitor | KPrometheusRule

primrec obj_meta :: "k8s_object \<Rightarrow> objmeta" where
  "obj_meta (OService s) = svc_meta s"
| "obj_meta (ODeployment d) = dep_meta d"
| "obj_meta (ODaemonSet d) = ds_meta d"
| "obj_meta (OMutatingWebhookConfiguration m) = mwc_meta m"
| "obj_meta (ORole r) = role_meta r"
| "obj_meta (ORoleBinding b) = rb_meta b"
| "obj_meta (OServiceAccount a) = sa_meta a"
| "obj_meta (OClusterRole r) = role_meta r"
| "obj_meta (OClusterRoleBinding b) = rb_meta b"
| "obj_meta (OServiceMonitor m) = sm_meta m"
| "obj_meta (OPrometheusRule p) = pr_meta p"

primrec obj_kind :: "k8s_object \<Rightarrow> kind" where
  "obj_kind (OService s) = KService"
| "obj_kind (ODeployment d) = KDeployment"
| "obj_kind (ODaemonSet d) = KDaemonSet"
| "obj_kind (OMutatingWebhookConfiguration m) = KMutatingWebhookConfiguration"
| "obj_kind (ORole r) = KRole"
| "obj_kind (ORoleBinding b) = KRoleBinding"
| "obj_kind (OServiceAccount a) = KServiceAccount"
| "obj_kind (OClusterRole r) = KClusterRole"
| "obj_kind (OClusterRoleBinding b) = KClusterRoleBinding"
| "obj_kind (OServiceMonitor m) = KServiceMonitor"
| "obj_kind (OPrometheusRule p) = KPrometheusRule"

definition obj_ref :: "k8s_object \<Rightarrow> kind \<times> string" where
  "obj_ref o1 = (obj_kind o1, meta_Name (obj_meta o1))"

section \<open>The process environment\<close>

record runtime =
  rt_Namespace :: string
  rt_Image :: string
  rt_Getenv :: "string \<Rightarrow> string"

text \<open>\<^verbatim>\<open>os.LookupEnv\<close> distinguishes an unset variable from an empty one; \<^verbatim>\<open>os.Getenv\<close> does not.\<close>

definition init_runtime :: "(string \<rightharpoonup> string) \<Rightarrow> runtime" where
  "init_runtime environ =
     \<lparr>rt_Namespace = (case environ ''NAMESPACE'' of Some ns \<Rightarrow> ns | None \<Rightarrow> ''default''),
      rt_Image = (case environ ''IMAGE'' of Some img \<Rightarrow> img | None \<Rightarrow> ''quay.io/example/example-operator:latest''),
      rt_Getenv = (\<lambda>v. case environ v of Some x \<Rightarrow> x | None \<Rightarrow> [])\<rparr>"

section \<open>Constants\<close>

definition CREATE :: string where "CREATE = ''create''"
definition UPDATE :: string where "UPDATE = ''update''"
definition PATCH :: string where "PATCH = ''patch''"
definition LIST :: string where "LIST = ''list''"
definition WATCH :: string where "WATCH = ''watch''"
definition GET :: string where "GET = ''get''"
definition USE :: string where "USE = ''use''"
definition DELETE :: string where "DELETE = ''delete''"
definition serviceAccountKind :: string where "serviceAccountKind = ''ServiceAccount''"
definition roleKind :: string where "roleKind = ''Role''"
definition clusterRoleKind :: string where "clusterRoleKind = ''ClusterRole''"
definition requiredSCCAnnotation :: string where "requiredSCCAnnotation = ''openshift.io/required-scc''"
definition requiredSCCRestrictedV2 :: string where "requiredSCCRestrictedV2 = ''restricted-v2''"
definition operandName :: string where "operandName = ''pod-placement-controller''"
definition priorityClassName :: string where "priorityClassName = ''system-cluster-critical''"
definition ControllerNameKey :: string where "ControllerNameKey = ''controller''"
definition group_v1beta1 :: string where "group_v1beta1 = ''multiarch.openshift.io''"
definition ClusterPodPlacementConfigResource :: string where
  "ClusterPodPlacementConfigResource = ''clusterpodplacementconfigs''"
definition PodPlacementConfigResource :: string where "PodPlacementConfigResource = ''podplacementconfigs''"
definition ENoExecEventResource :: string where "ENoExecEventResource = ''enoexecevents''"
definition ExecFormatErrorMonitorName :: string where "ExecFormatErrorMonitorName = ''execFormatErrorMonitor''"

abbreviation dq :: string where "dq \<equiv> [CHR 0x22]"

definition lower :: "char \<Rightarrow> char" where
  "lower c = (if in_range 65 90 (of_char c) then char_of (of_char c + (32::nat)) else c)"

text \<open>\<^verbatim>\<open>strings.ToLower\<close> on ASCII text.\<close>

definition ToLower :: "string \<Rightarrow> string" where
  "ToLower s = map lower s"

section \<open>Builders shared by the components\<close>

definition controller_labels :: "string \<Rightarrow> (string \<times> string) list" where
  "controller_labels name = [(OperandLabelKey, operandName), (ControllerNameKey, name)]"

definition namespaced_meta :: "runtime \<Rightarrow> string \<Rightarrow> (string \<times> string) list \<Rightarrow> objmeta" where
  "namespaced_meta rt name labels =
     \<lparr>meta_Name = name, meta_Namespace = rt_Namespace rt, meta_Labels = labels, meta_Annotations = [], meta_Finalizers = []\<rparr>"

definition cluster_meta :: "string \<Rightarrow> (string \<times> string) list \<Rightarrow> objmeta" where
  "cluster_meta name labels =
     \<lparr>meta_Name = name, meta_Namespace = [], meta_Labels = labels, meta_Annotations = [], meta_Finalizers = []\<rparr>"

definition buildService :: "runtime \<Rightarrow> string \<Rightarrow> service" where
  "buildService rt name =
     \<lparr>svc_meta = (namespaced_meta rt name (controller_labels name))
        \<lparr>meta_Annotations := [(''service.beta.openshift.io/serving-cert-secret-name'', name)]\<rparr>,
      svc_Spec =
        \<lparr>svc_Ports =
           [\<lparr>port_Name = ''https'', port_Protocol = ''TCP'', port_Port = 443, port_TargetPort = 9443\<rparr>,
            \<lparr>port_Name = ''metrics'', port_Protocol = ''TCP'', port_Port = 8443, port_TargetPort = 8443\<rparr>],
         svc_Selector = controller_labels name,
         svc_Type = []\<rparr>\<rparr>"

definition http_probe :: "string \<Rightarrow> int \<Rightarrow> int \<Rightarrow> probe" where
  "http_probe path initial period =
     \<lparr>probe_Path = path, probe_Port = 8081, probe_Scheme = ''HTTP'', InitialDelaySeconds = initial,
      TimeoutSeconds = 1, PeriodSeconds = period, SuccessThreshold = 1, FailureThreshold = 3\<rparr>"

definition manager_container :: "runtime \<Rightarrow> int \<Rightarrow> string \<Rightarrow> string list \<Rightarrow> container_spec" where
  "manager_container rt logVerbosity name args =
     \<lparr>c_Name = name, c_Image = rt_Image rt, c_ImagePullPolicy = ''IfNotPresent'',
      c_Env = [\<lparr>env_Name = ''NAMESPACE'', env_Value = Value (rt_Namespace rt)\<rparr>,
               \<lparr>env_Name = ''HTTP_PROXY'', env_Value = Value (rt_Getenv rt ''HTTP_PROXY'')\<rparr>,
               \<lparr>env_Name = ''HTTPS_PROXY'', env_Value = Value (rt_Getenv rt ''HTTPS_PROXY'')\<rparr>,
               \<lparr>env_Name = ''NO_PROXY'', env_Value = Value (rt_Getenv rt ''NO_PROXY'')\<rparr>],
      c_Args = [''--health-probe-bind-address=:8081'', ''--metrics-bind-address=:8443'',
                ''--initial-log-level='' @ show_int logVerbosity] @ args,
      c_Command = [''/manager''],
      LivenessProbe = Some (http_probe ''/healthz'' 15 20),
      ReadinessProbe = Some (http_probe ''/readyz'' 5 10),
      c_Requests = [(''cpu'', ''10m''), (''memory'', ''64Mi'')],
      SecurityContext = Some
        \<lparr>AllowPrivilegeEscalation = Some False, CapabilitiesDrop = [''ALL''], Privileged = Some False,
         ReadOnlyRootFilesystem = Some True, RunAsNonRoot = Some True, RunAsUser = None, SELinuxType = None\<rparr>,
      VolumeMounts =
        [\<lparr>mount_Name = ''trusted-ca'', MountPath = ''/etc/pki/ca-trust/extracted/pem'', mount_ReadOnly = True\<rparr>]\<rparr>"

definition manager_template :: "runtime \<Rightarrow> int \<Rightarrow> string \<Rightarrow> string \<Rightarrow> string list \<Rightarrow> pod_template" where
  "manager_template rt logVerbosity name serviceAccount args =
     \<lparr>tpl_Labels = controller_labels name,
      tpl_Annotations =
        [(''target.workload.openshift.io/management'',
          ''{'' @ dq @ ''effect'' @ dq @ '': '' @ dq @ ''PreferredDuringScheduling'' @ dq @ ''}''),
         (requiredSCCAnnotation, requiredSCCRestrictedV2)],
      AutomountServiceAccountToken = Some True,
      HostPID = False,
      tpl_NodeSelectorTerms =
        [\<lparr>MatchExpressions = Some [\<lparr>Key = ArchLabel, Operator = OpIn,
            Values = Some [ArchitectureAmd64, ArchitectureArm64, ArchitectureS390x, ArchitecturePpc64le]\<rparr>],
          MatchFields = None\<rparr>],
      tpl_Containers = [manager_container rt logVerbosity name args],
      PriorityClassName = priorityClassName,
      ServiceAccountName = serviceAccount,
      pod_RunAsNonRoot = Some True,
      TopologySpreadConstraints =
        [\<lparr>MaxSkew = 1, TopologyKey = ''kubernetes.io/hostname'', WhenUnsatisfiable = ''ScheduleAnyway'',
          spread_Labels = controller_labels name, MatchLabelKeys = [''pod-template-hash'']\<rparr>],
      Volumes =
        [\<lparr>vol_Name = ''trusted-ca'',
          vol_Source = ConfigMapSource ''multiarch-tuning-operator-trusted-ca'' [(''ca-bundle.crt'', ''tls-ca-bundle.pem'')]\<rparr>]\<rparr>"

definition buildDeployment ::
  "runtime \<Rightarrow> int \<Rightarrow> string \<Rightarrow> int \<Rightarrow> string \<Rightarrow> string \<Rightarrow> string list \<Rightarrow> deployment" where
  "buildDeployment rt logVerbosity name replicas serviceAccount finalizer args =
     \<lparr>dep_meta = (namespaced_meta rt name (controller_labels name))
        \<lparr>meta_Finalizers := (if finalizer \<noteq> [] then [finalizer] else [])\<rparr>,
      dep_Replicas = replicas,
      dep_Selector = controller_labels name,
      MaxSurge = ''25%'', MaxUnavailable = ''25%'',
      dep_Template = manager_template rt logVerbosity name serviceAccount args\<rparr>"

definition buildClusterRole :: "string \<Rightarrow> policy_rule list \<Rightarrow> role" where
  "buildClusterRole name rules = \<lparr>role_meta = cluster_meta name (controller_labels name), role_Rules = rules\<rparr>"

definition buildClusterRoleBinding :: "string \<Rightarrow> role_ref \<Rightarrow> subject list \<Rightarrow> role_binding" where
  "buildClusterRoleBinding name roleRef subjects =
     \<lparr>rb_meta = cluster_meta name (controller_labels name), rb_RoleRef = roleRef, rb_Subjects = subjects\<rparr>"

definition buildRoleBinding :: "runtime \<Rightarrow> string \<Rightarrow> role_ref \<Rightarrow> subject list \<Rightarrow> role_binding" where
  "buildRoleBinding rt name roleRef subjects =
     \<lparr>rb_meta = namespaced_meta rt name (controller_labels name), rb_RoleRef = roleRef, rb_Subjects = subjects\<rparr>"

definition buildServiceAccount :: "runtime \<Rightarrow> string \<Rightarrow> service_account" where
  "buildServiceAccount rt name =
     \<lparr>sa_meta = namespaced_meta rt name (controller_labels name), sa_Automount = Some False\<rparr>"

definition buildServiceMonitor :: "runtime \<Rightarrow> string \<Rightarrow> service_monitor" where
  "buildServiceMonitor rt name =
     \<lparr>sm_meta = namespaced_meta rt name [], sm_Path = ''/metrics'', sm_Port = ''metrics'', sm_Scheme = ''https'',
      sm_HonorLabels = True, sm_BearerTokenFile = ''/var/run/secrets/kubernetes.io/serviceaccount/token'',
      sm_CAFile = ''/etc/prometheus/configmaps/serving-certs-ca-bundle/service-ca.crt'',
      sm_ServerName = name @ ''.'' @ rt_Namespace rt @ ''.svc'',
      sm_MatchNames = [rt_Namespace rt],
      sm_Selector = [(ControllerNameKey, name)]\<rparr>"

section \<open>The pod placement operand\<close>

text \<open>Appending to the slices of the built template: volumes, and mounts and variables of its first container.\<close>

definition map_first :: "('a \<Rightarrow> 'a) \<Rightarrow> 'a list \<Rightarrow> 'a list" where
  "map_first f xs = (case xs of [] \<Rightarrow> [] | x # rest \<Rightarrow> f x # rest)"

definition add_volumes :: "volume list \<Rightarrow> volume_mount list \<Rightarrow> deployment \<Rightarrow> deployment" where
  "add_volumes vols mounts d =
     d\<lparr>dep_Template := (dep_Template d)
        \<lparr>Volumes := Volumes (dep_Template d) @ vols,
         tpl_Containers := map_first (\<lambda>c. c\<lparr>VolumeMounts := VolumeMounts c @ mounts\<rparr>) (tpl_Containers (dep_Template d))\<rparr>\<rparr>"

definition secret_volume :: "string \<Rightarrow> string \<Rightarrow> volume" where
  "secret_volume name secret = \<lparr>vol_Name = name, vol_Source = SecretSource secret 420\<rparr>"

definition tls_mount :: "string \<Rightarrow> volume_mount" where
  "tls_mount name = \<lparr>mount_Name = name, MountPath = ''/var/run/manager/tls'', mount_ReadOnly = True\<rparr>"

definition buildMutatingWebhookConfiguration ::
  "runtime \<Rightarrow> ClusterPodPlacementConfig \<Rightarrow> mutating_webhook_configuration" where
  "buildMutatingWebhookConfiguration rt cppc =
     \<lparr>mwc_meta = (cluster_meta PodMutatingWebhookConfigurationName
          [(OperandLabelKey, operandName), (ControllerNameKey, PodPlacementWebhookName)])
        \<lparr>meta_Annotations := [(''service.beta.openshift.io/inject-cabundle'', ''true'')]\<rparr>,
      mwc_Webhooks =
        [\<lparr>mw_Name = PodMutatingWebhookName, mw_ServiceName = PodPlacementWebhookName,
          mw_ServiceNamespace = rt_Namespace rt, mw_Path = ''/add-pod-scheduling-gate'',
          mw_NamespaceSelector = NamespaceSelector cppc,
          mw_FailurePolicy = ''Ignore'', mw_SideEffects = ''None'', mw_ReviewVersions = [''v1''],
          mw_Operations = [''CREATE''], mw_APIGroups = [[]], mw_APIVersions = [''v1''], mw_Resources = [''pods'']\<rparr>]\<rparr>"

definition buildWebhookDeployment :: "runtime \<Rightarrow> ClusterPodPlacementConfig \<Rightarrow> deployment" where
  "buildWebhookDeployment rt cppc =
     add_volumes [secret_volume ''webhook-server-cert'' PodPlacementWebhookName] [tls_mount ''webhook-server-cert'']
       (buildDeployment rt (ToZapLevelInt (LogVerbosity cppc)) PodPlacementWebhookName 3 PodPlacementWebhookName []
          [''--enable-ppc-webhook'', ''--enable-cppc-informer''])"

definition controller_volumes :: "volume list" where
  "controller_volumes =
     [secret_volume ''webhook-server-cert'' PodPlacementControllerName,
      \<lparr>vol_Name = ''docker-conf'', vol_Source = HostPathSource ''/etc/docker/certs.d/'' ''DirectoryOrCreate''\<rparr>,
      \<lparr>vol_Name = ''containers-conf'', vol_Source = HostPathSource ''/etc/containers/'' ''Directory''\<rparr>,
      \<lparr>vol_Name = ''shortnames-cache'', vol_Source = EmptyDirSource\<rparr>]"

definition controller_mounts :: "volume_mount list" where
  "controller_mounts =
     [tls_mount ''webhook-server-cert'',
      \<lparr>mount_Name = ''docker-conf'', MountPath = ''/etc/docker/certs.d/'', mount_ReadOnly = True\<rparr>,
      \<lparr>mount_Name = ''containers-conf'', MountPath = ''/etc/containers/'', mount_ReadOnly = True\<rparr>,
      \<lparr>mount_Name = ''shortnames-cache'', MountPath = ''/tmp/container/cache'', mount_ReadOnly = False\<rparr>]"

definition set_annotation :: "string \<Rightarrow> string \<Rightarrow> (string \<times> string) list \<Rightarrow> (string \<times> string) list" where
  "set_annotation k v as = (k, v) # filter (\<lambda>(k', _). k' \<noteq> k) as"

definition empty_security_context :: security_context where
  "empty_security_context =
     \<lparr>AllowPrivilegeEscalation = None, CapabilitiesDrop = [], Privileged = None, ReadOnlyRootFilesystem = None,
      RunAsNonRoot = None, RunAsUser = None, SELinuxType = None\<rparr>"

definition controller_container :: "string option \<Rightarrow> container_spec \<Rightarrow> container_spec" where
  "controller_container seLinuxOptionsType c =
     c\<lparr>c_Env := c_Env c @ [\<lparr>env_Name = ''XDG_CACHE_HOME'', env_Value = Value ''/tmp/container/cache''\<rparr>],
       SecurityContext :=
         (case seLinuxOptionsType of
            None \<Rightarrow> SecurityContext c
          | Some t \<Rightarrow> Some ((case SecurityContext c of None \<Rightarrow> empty_security_context | Some sc \<Rightarrow> sc)
                            \<lparr>SELinuxType := Some t\<rparr>))\<rparr>"

definition buildControllerDeployment ::
  "runtime \<Rightarrow> ClusterPodPlacementConfig \<Rightarrow> string \<Rightarrow> string option \<Rightarrow> deployment" where
  "buildControllerDeployment rt cppc requiredSCC seLinuxOptionsType =
     (let d = add_volumes controller_volumes controller_mounts
                (buildDeployment rt (ToZapLevelInt (LogVerbosity cppc)) PodPlacementControllerName 2
                   PodPlacementControllerName PodPlacementFinalizerName
                   [''--leader-elect'', ''--enable-ppc-controllers'', ''--enable-cppc-informer'']);
          t = dep_Template d
      in d\<lparr>dep_Template := t
            \<lparr>tpl_Annotations := set_annotation requiredSCCAnnotation requiredSCC (tpl_Annotations t),
             tpl_Containers := map_first (controller_container seLinuxOptionsType) (tpl_Containers t)\<rparr>\<rparr>)"

abbreviation rule :: "string \<Rightarrow> string list \<Rightarrow> string list \<Rightarrow> policy_rule" where
  "rule grp resources verbs \<equiv> \<lparr>APIGroups = [grp], Resources = resources, ResourceNames = [], Verbs = verbs\<rparr>"

definition buildClusterRoleWebhook :: role where
  "buildClusterRoleWebhook = buildClusterRole PodPlacementWebhookName
     [rule [] [''events''] [CREATE, PATCH],
      rule group_v1beta1 [ClusterPodPlacementConfigResource] [LIST, WATCH, GET],
      rule group_v1beta1 [PodPlacementConfigResource] [LIST, WATCH, GET],
      rule [] [''pods''] [LIST, WATCH, GET],
      rule ''authentication.k8s.io'' [''tokenreviews''] [CREATE],
      rule ''authorization.k8s.io'' [''subjectaccessreviews''] [CREATE]]"

definition buildClusterRoleController :: role where
  "buildClusterRoleController = buildClusterRole PodPlacementControllerName
     [rule ''security.openshift.io'' [''securitycontextconstraints''] [USE],
      rule [] [''pods''] [LIST, WATCH, GET, UPDATE],
      rule [] [''events''] [CREATE, PATCH],
      rule [] [''pods/status''] [UPDATE],
      rule group_v1beta1 [ClusterPodPlacementConfigResource] [LIST, WATCH, GET],
      rule group_v1beta1 [PodPlacementConfigResource] [LIST, WATCH, GET],
      rule [] [''configmaps''] [LIST, WATCH, GET],
      rule [] [''secrets''] [LIST, WATCH, GET],
      rule ''authentication.k8s.io'' [''tokenreviews''] [CREATE],
      rule ''authorization.k8s.io'' [''subjectaccessreviews''] [CREATE]]"

definition buildRoleController :: "runtime \<Rightarrow> role" where
  "buildRoleController rt =
     \<lparr>role_meta = namespaced_meta rt PodPlacementControllerName [],
      role_Rules =
        [rule [] [''configmaps''] [LIST, WATCH, GET, UPDATE, PATCH, CREATE, DELETE],
         rule ''coordination.k8s.io'' [''leases''] [LIST, WATCH, GET, UPDATE, PATCH, CREATE, DELETE]]\<rparr>"

definition replicas_expr :: "runtime \<Rightarrow> string \<Rightarrow> string" where
  "replicas_expr rt name =
     ''kube_deployment_status_replicas_available{namespace='' @ dq @ rt_Namespace rt @ dq @ '', deployment='' @ dq @
     name @ dq @ ''} == 0''"

definition buildCPPCAvailabilityAlertRule :: "runtime \<Rightarrow> prometheus_rule" where
  "buildCPPCAvailabilityAlertRule rt =
     \<lparr>pr_meta = namespaced_meta rt OperatorName [],
      pr_Group = ''multiarch-tuning-operator.rules'',
      pr_Rules =
        [\<lparr>Alert = ''PodPlacementControllerDown'', Expr = replicas_expr rt PodPlacementControllerName, For = ''1m'',
          alert_Annotations =
            [(''summary'', ''The pod placement controller should have at least 1 replica running and ready.''),
             (''description'',
              ''The pod placement controller has been down for more than 1 minute. '' @
              ''If the controller is not running, no architecture constraints can be set. '' @
              ''The multiarch.openshift.io/scheduling-gate scheduling gate will not be '' @
              ''automatically removed from gated pods, and pods may stuck in the Pending state.''),
             (''runbook_url'',
              ''https://github.com/openshift/multiarch-tuning-operator/blob/main/docs/alerts/pod-placement-controller-down.md'')],
          alert_Labels = [(''severity'', ''critical'')]\<rparr>,
         \<lparr>Alert = ''PodPlacementWebhookDown'', Expr = replicas_expr rt PodPlacementWebhookName, For = ''5m'',
          alert_Annotations =
            [(''summary'', ''The pod placement webhook should have at least 1 replica running and ready.''),
             (''description'',
              ''The pod placement webhook has been down for more than 5 minutes. Pods will not be gated. '' @
              ''Therefore, the architecture-specific constraints will not be enforced and pods may be scheduled on nodes '' @
              ''that are not supported by their images.''),
             (''runbook_url'',
              ''https://github.com/openshift/multiarch-tuning-operator/blob/main/docs/alerts/pod-placement-webhook-down.md'')],
          alert_Labels = [(''severity'', ''warning'')]\<rparr>]\<rparr>"

section \<open>The exec format error monitor\<close>

definition buildClusterRoleENoExecEventsController :: role where
  "buildClusterRoleENoExecEventsController = buildClusterRole EnoexecControllerName
     [rule [] [''pods'', ''nodes''] [LIST, GET],
      rule [] [''events''] [CREATE, PATCH],
      rule [] [''pods'', ''pods/status''] [UPDATE],
      rule ''authentication.k8s.io'' [''tokenreviews''] [CREATE],
      rule ''authorization.k8s.io'' [''subjectaccessreviews''] [CREATE]]"

definition buildRoleENoExecEventController :: "runtime \<Rightarrow> role" where
  "buildRoleENoExecEventController rt =
     \<lparr>role_meta = namespaced_meta rt EnoexecControllerName [],
      role_Rules =
        [rule group_v1beta1 [ENoExecEventResource] [LIST, WATCH, GET, UPDATE, PATCH, CREATE, DELETE],
         rule [] [''configmaps''] [LIST, WATCH, GET, UPDATE, PATCH, CREATE, DELETE],
         rule ''coordination.k8s.io'' [''leases''] [LIST, WATCH, GET, UPDATE, PATCH, CREATE, DELETE]]\<rparr>"

definition buildClusterRoleENoExecEventsDaemonSet :: role where
  "buildClusterRoleENoExecEventsDaemonSet = buildClusterRole EnoexecDaemonSet
     [\<lparr>APIGroups = [''security.openshift.io''], Resources = [''securitycontextconstraints''],
       ResourceNames = [''privileged''], Verbs = [USE]\<rparr>]"

definition buildRoleENoExecEventDaemonSet :: "runtime \<Rightarrow> role" where
  "buildRoleENoExecEventDaemonSet rt =
     \<lparr>role_meta = namespaced_meta rt EnoexecDaemonSet [],
      role_Rules =
        [rule group_v1beta1 [ENoExecEventResource] [GET, CREATE, DELETE],
         rule group_v1beta1 [ENoExecEventResource @ ''/status''] [UPDATE]]\<rparr>"

definition daemon_volumes :: "volume list" where
  "daemon_volumes =
     [\<lparr>vol_Name = ''debugfs'', vol_Source = HostPathSource ''/sys/kernel/debug'' ''Directory''\<rparr>,
      \<lparr>vol_Name = ''tracingfs'', vol_Source = HostPathSource ''/sys/kernel/tracing'' ''Directory''\<rparr>,
      \<lparr>vol_Name = ''crio'', vol_Source = HostPathSource ''/var/run/crio/crio.sock'' ''Socket''\<rparr>]"

definition daemon_container :: "runtime \<Rightarrow> string \<Rightarrow> int \<Rightarrow> string list \<Rightarrow> container_spec" where
  "daemon_container rt name logVerbosity args =
     \<lparr>c_Name = name, c_Image = rt_Image rt, c_ImagePullPolicy = ''IfNotPresent'',
      c_Env = [\<lparr>env_Name = ''NAMESPACE'', env_Value = FieldRef ''v1'' ''metadata.namespace''\<rparr>,
               \<lparr>env_Name = ''NODE_NAME'', env_Value = FieldRef ''v1'' ''spec.nodeName''\<rparr>],
      c_Args = args,
      c_Command = [''/enoexec-daemon'', ''--initial-log-level='' @ show_int logVerbosity],
      LivenessProbe = None, ReadinessProbe = None, c_Requests = [],
      SecurityContext = Some (empty_security_context
        \<lparr>Privileged := Some True, RunAsUser := Some 0, ReadOnlyRootFilesystem := Some True\<rparr>),
      VolumeMounts =
        [\<lparr>mount_Name = ''debugfs'', MountPath = ''/sys/kernel/debug'', mount_ReadOnly = True\<rparr>,
         \<lparr>mount_Name = ''tracingfs'', MountPath = ''/sys/kernel/tracing'', mount_ReadOnly = True\<rparr>,
         \<lparr>mount_Name = ''crio'', MountPath = ''/var/run/crio/crio.sock'', mount_ReadOnly = True\<rparr>]\<rparr>"

definition buildDaemonSetENoExecEvent :: "runtime \<Rightarrow> string \<Rightarrow> string \<Rightarrow> int \<Rightarrow> string list \<Rightarrow> daemonset" where
  "buildDaemonSetENoExecEvent rt serviceAccount name logVerbosity args =
     \<lparr>ds_meta = namespaced_meta rt EnoexecDaemonSet [(''app'', EnoexecDaemonSet)],
      ds_Selector = [(''app'', EnoexecDaemonSet)],
      ds_Template =
        \<lparr>tpl_Labels = [(''app'', EnoexecDaemonSet)], tpl_Annotations = [],
         AutomountServiceAccountToken = Some True, HostPID = True, tpl_NodeSelectorTerms = [],
         tpl_Containers = [daemon_container rt name logVerbosity args],
         PriorityClassName = [], ServiceAccountName = serviceAccount, pod_RunAsNonRoot = None,
         TopologySpreadConstraints = [], Volumes = daemon_volumes\<rparr>\<rparr>"

definition buildDeploymentENoExecEventHandler :: "runtime \<Rightarrow> int \<Rightarrow> deployment" where
  "buildDeploymentENoExecEventHandler rt logVerbosity =
     add_volumes [secret_volume ''metrics-cert'' EnoexecControllerName] [tls_mount ''metrics-cert'']
       (buildDeployment rt logVerbosity EnoexecControllerName 2 EnoexecControllerName []
          [''--leader-elect'', ''--enable-enoexec-event-controllers''])"

definition buildExecFormatErrorAvailabilityAlertRule :: "runtime \<Rightarrow> prometheus_rule" where
  "buildExecFormatErrorAvailabilityAlertRule rt =
     \<lparr>pr_meta = namespaced_meta rt (ToLower ExecFormatErrorMonitorName) [],
      pr_Group = ''multiarch-tuning-operator-enoexec.rules'',
      pr_Rules =
        [\<lparr>Alert = ''ExecFormatErrorHandlerDown'', Expr = replicas_expr rt EnoexecControllerName, For = ''1m'',
          alert_Annotations =
            [(''summary'', ''The exec format error handler should have at least 1 replica running and ready.''),
             (''description'', ''The exec format error handler has been down for more than 1 minute. ''),
             (''runbook_url'',
              ''https://github.com/outrigger-project/multiarch-tuning-operator/blob/main/docs/alerts/enoexec-event-handler-down.md'')],
          alert_Labels = [(''severity'', ''critical'')]\<rparr>,
         \<lparr>Alert = ''ExecFormatErrorDaemonDown'',
          Expr = ''kube_daemonset_status_number_unavailable{namespace='' @ dq @ rt_Namespace rt @ dq @ '', daemonset='' @ dq @
            EnoexecDaemonSet @ dq @ ''} > 0'',
          For = ''20m'',
          alert_Annotations =
            [(''summary'', ''The exec format error daemon is not available in all the nodes.''),
             (''description'',
              ''Some nodes that should be running the exec format error daemon have none of the daemonset pod running and available for more than 20 minutes. '' @
              ''Exec Format Errors will not be detected in those nodes''),
             (''runbook_url'',
              ''https://github.com/openshift/multiarch-tuning-operator/blob/main/docs/alerts/enoexec-event-daemon-down.md'')],
          alert_Labels = [(''severity'', ''warning'')]\<rparr>]\<rparr>"

definition buildExecFormatErrorsDetectedAlertRule :: "runtime \<Rightarrow> prometheus_rule" where
  "buildExecFormatErrorsDetectedAlertRule rt =
     \<lparr>pr_meta = namespaced_meta rt (ToLower ExecFormatErrorsDetected) [],
      pr_Group = ''multiarch-tuning-operator-enoexec-detected.rules'',
      pr_Rules =
        [\<lparr>Alert = ExecFormatErrorsDetected, Expr = ''rate(mto_enoexecevents_total[6h]) > 0'', For = ''1m'',
          alert_Annotations =
            [(''summary'', ''Exec Format Errors detected in the past 6 hours.''),
             (''description'', ''Exec Format Errors detected in the past 6 hours.''),
             (''runbook_url'',
              ''https://github.com/outrigger-project/multiarch-tuning-operator/blob/main/docs/alerts/enoexec-controller-down.md'')],
          alert_Labels = [(''severity'', ''critical'')]\<rparr>]\<rparr>"

section \<open>The lists of objects\<close>

text \<open>The security context constraint for the host mounts, from the minor version of the cluster.\<close>

definition getCorrectHostmountAnyUIDSCC :: "int result \<Rightarrow> (string \<times> string option) result" where
  "getCorrectHostmountAnyUIDSCC minorVersion =
     (case minorVersion of
        Inl e \<Rightarrow> Inl e
      | Inr minor \<Rightarrow>
          if minor < 30 then Inr (''hostmount-anyuid'', None)
          else if minor = 30 \<or> minor = 31 then Inr (''privileged'', Some ''spc_t'')
          else Inr (''hostmount-anyuid-v2'', Some ''spc_t''))"

definition role_ref_to :: "string \<Rightarrow> string \<Rightarrow> role_ref" where
  "role_ref_to kind name = \<lparr>ref_APIGroup = ''rbac.authorization.k8s.io'', ref_Kind = kind, ref_Name = name\<rparr>"

definition account :: "string \<Rightarrow> string \<Rightarrow> subject" where
  "account ns name = \<lparr>sub_Kind = serviceAccountKind, sub_Name = name, sub_Namespace = ns\<rparr>"

definition pod_placement_objects ::
  "runtime \<Rightarrow> ClusterPodPlacementConfig \<Rightarrow> string \<Rightarrow> string option \<Rightarrow> k8s_object list" where
  "pod_placement_objects rt cppc requiredSCC seLinux =
     [OService (buildService rt PodPlacementControllerName),
      OService (buildService rt PodPlacementWebhookName),
      OClusterRole buildClusterRoleController,
      OClusterRole buildClusterRoleWebhook,
      ORole (buildRoleController rt),
      OServiceAccount (buildServiceAccount rt PodPlacementWebhookName),
      OServiceAccount (buildServiceAccount rt PodPlacementControllerName),
      OClusterRoleBinding (buildClusterRoleBinding PodPlacementControllerName
        (role_ref_to clusterRoleKind PodPlacementControllerName)
        [account (rt_Namespace rt) PodPlacementControllerName]),
      ORoleBinding (buildRoleBinding rt PodPlacementControllerName
        (role_ref_to roleKind PodPlacementControllerName) [account [] PodPlacementControllerName]),
      OClusterRoleBinding (buildClusterRoleBinding PodPlacementWebhookName
        (role_ref_to clusterRoleKind PodPlacementWebhookName)
        [account (rt_Namespace rt) PodPlacementWebhookName]),
      ODeployment (buildControllerDeployment rt cppc requiredSCC seLinux),
      ODeployment (buildWebhookDeployment rt cppc)]"

definition monitoring_objects :: "runtime \<Rightarrow> k8s_object list" where
  "monitoring_objects rt =
     [OServiceMonitor (buildServiceMonitor rt PodPlacementControllerName),
      OServiceMonitor (buildServiceMonitor rt PodPlacementWebhookName),
      OPrometheusRule (buildCPPCAvailabilityAlertRule rt)]"

definition buildENoExecEventObjects :: "runtime \<Rightarrow> bool \<Rightarrow> ClusterPodPlacementConfig \<Rightarrow> k8s_object list" where
  "buildENoExecEventObjects rt monitoring cppc =
     [OService (buildService rt EnoexecControllerName),
      OServiceAccount (buildServiceAccount rt EnoexecControllerName),
      OServiceAccount (buildServiceAccount rt EnoexecDaemonSet),
      OClusterRole buildClusterRoleENoExecEventsController,
      ORole (buildRoleENoExecEventController rt),
      OClusterRole buildClusterRoleENoExecEventsDaemonSet,
      ORole (buildRoleENoExecEventDaemonSet rt),
      OClusterRoleBinding (buildClusterRoleBinding EnoexecControllerName
        (role_ref_to clusterRoleKind EnoexecControllerName) [account (rt_Namespace rt) EnoexecControllerName]),
      ORoleBinding (buildRoleBinding rt EnoexecControllerName
        (role_ref_to roleKind EnoexecControllerName) [account (rt_Namespace rt) EnoexecControllerName]),
      OClusterRoleBinding (buildClusterRoleBinding EnoexecDaemonSet
        (role_ref_to clusterRoleKind EnoexecDaemonSet) [account (rt_Namespace rt) EnoexecDaemonSet]),
      ORoleBinding (buildRoleBinding rt EnoexecDaemonSet
        (role_ref_to roleKind EnoexecDaemonSet) [account (rt_Namespace rt) EnoexecDaemonSet]),
      ODeployment (buildDeploymentENoExecEventHandler rt (ToZapLevelInt (LogVerbosity cppc)))] @
     (if monitoring
      then [OServiceMonitor (buildServiceMonitor rt EnoexecControllerName),
            OPrometheusRule (buildExecFormatErrorAvailabilityAlertRule rt),
            OPrometheusRule (buildExecFormatErrorsDetectedAlertRule rt)]
      else [])"

end
