(* ===== verification/State_Ops.thy ===== *)
theory State_Ops
  imports Prelude "HOL-Library.State_Monad"
begin

text \<open>
  What the controllers share of the state monad: reading and changing the state, and the collection
  \<open>run_simps\<close> of the equations that run an operation on a state.
\<close>

named_theorems run_simps \<open>running operations of the state monad\<close>

definition read :: "('s \<Rightarrow> 'a) \<Rightarrow> ('s, 'a) state" where
  "read f = State (\<lambda>s. (f s, s))"

definition modify :: "('s \<Rightarrow> 's) \<Rightarrow> ('s, unit) state" where
  "modify f = State (\<lambda>s. ((), f s))"

lemma run_bind [run_simps]:
  "run_state (State_Monad.bind m f) s = (case run_state m s of (a, s') \<Rightarrow> run_state (f a) s')"
  by (simp add: State_Monad.bind_def split: prod.splits)

lemma run_return [run_simps]: "run_state (State_Monad.return a) s = (a, s)"
  by (simp add: State_Monad.return_def)

lemma run_read [run_simps]: "run_state (read f) s = (f s, s)"
  by (simp add: read_def)

lemma run_modify [run_simps]: "run_state (modify f) s = ((), f s)"
  by (simp add: modify_def)

text \<open>The answer of the API server about an object that may be missing.\<close>

definition found :: "string \<Rightarrow> 'a option \<Rightarrow> 'a result" where
  "found name x = (case x of None \<Rightarrow> Inl (NotFoundError name) | Some v \<Rightarrow> Inr v)"

end
