(* ===== verification/Operator_Cluster.thy ===== *)
theory Operator_Cluster
  imports Operator_Objects State_Ops
begin

text \<open>
  The cluster as the operator sees it, the calls it makes to the API server, and the helpers of
  \<^verbatim>\<open>pkg/utils/resource.go\<close> and \<^verbatim>\<open>pkg/utils/runtime.go\<close> that apply and delete objects. Every call may
  fail: the environment gives an error, or none, for the \<open>i\<close>-th call of the process. A call that does
  not fail acts on the stored objects as the API server does: deleting an object that has finalizers
  only marks it, and an update that leaves a marked object without finalizers removes it.
\<close>

section \<open>State\<close>

record deployment_status =
  spec_Replicas :: "int option"
  AvailableReplicas :: int
  UpdatedReplicas :: int
  Replicas :: int
  ReadyReplicas :: int
  UnavailableReplicas :: int
  ObservedGeneration :: int

text \<open>
  A stored object: its actual contents, the version it was last applied from (which the spec-hash
  annotation of library-go records), its generation, and the fields other controllers fill in.
\<close>

record stored_object =
  so_Object :: k8s_object
  so_Applied :: k8s_object
  so_Generation :: int
  so_Finalizers :: "string list"
  so_Deleting :: bool
  so_Status :: deployment_status
  so_ImagePullSecrets :: "string list"

record enoexec_event =
  ee_Name :: string
  ee_Labels :: "(string, string) gomap"

record cluster =
  api_calls :: nat
  writes :: nat
  cppc_obj :: "ClusterPodPlacementConfig option"
  objs :: "kind \<times> string \<rightharpoonup> stored_object"
  ppc_list :: "PodPlacementConfig list"
  enoexec_events :: "enoexec_event list"
  pending_pods :: "CorePod list"
  ns_labels :: "(string, string) gomap"
  log_level :: int
  last_generations :: "kind \<times> string \<rightharpoonup> int"
  resource_known :: "bool option"

record operator_env =
  runtime_of :: runtime
  fault :: "nat \<Rightarrow> go_error option"
  cached :: cluster
  cacheEmptyUID :: "kind \<times> string \<Rightarrow> bool"
  cppcEmptyUID :: bool
  hasAPIReader :: bool
  minorVersion :: "int result"
  controllerRef :: "k8s_object \<Rightarrow> go_error option"
  clock :: "nat \<Rightarrow> nat"

type_synonym 'a op = "(cluster, 'a) state"

section \<open>API calls\<close>

text \<open>One call to the API server or to an informer cache: it fails as the environment says, or runs.\<close>

definition api :: "operator_env \<Rightarrow> 'a result op \<Rightarrow> 'a result op" where
  "api env m = State (\<lambda>s.
     let s' = s\<lparr>api_calls := Suc (api_calls s)\<rparr>
     in case fault env (api_calls s) of Some e \<Rightarrow> (Inl e, s') | None \<Rightarrow> run_state m s')"

definition get_object :: "operator_env \<Rightarrow> kind \<times> string \<Rightarrow> stored_object result op" where
  "get_object env ref = api env (read (\<lambda>s. found (snd ref) (objs s ref)))"

definition get_cached :: "operator_env \<Rightarrow> kind \<times> string \<Rightarrow> stored_object result op" where
  "get_cached env ref = api env (State_Monad.return (found (snd ref) (objs (cached env) ref)))"

definition put_object :: "kind \<times> string \<Rightarrow> stored_object \<Rightarrow> cluster \<Rightarrow> cluster" where
  "put_object ref ob s =
     s\<lparr>writes := Suc (writes s),
       objs := (objs s)(ref := (if so_Deleting ob \<and> so_Finalizers ob = [] then None else Some ob))\<rparr>"

text \<open>
  Updates are optimistic: an update of an object that is no longer the one that was read conflicts.
\<close>

definition update_object :: "operator_env \<Rightarrow> kind \<times> string \<Rightarrow> stored_object \<Rightarrow> stored_object \<Rightarrow> unit result op" where
  "update_object env ref base ob = api env (State (\<lambda>s.
     case objs s ref of
       None \<Rightarrow> (Inl (NotFoundError (snd ref)), s)
     | Some current \<Rightarrow>
         if current = base then (Inr (), put_object ref ob s) else (Inl (ConflictError (snd ref)), s)))"

definition zero_deployment_status :: deployment_status where
  "zero_deployment_status =
     \<lparr>spec_Replicas = None, AvailableReplicas = 0, UpdatedReplicas = 0, Replicas = 0, ReadyReplicas = 0,
      UnavailableReplicas = 0, ObservedGeneration = 0\<rparr>"

definition new_object :: "k8s_object \<Rightarrow> stored_object" where
  "new_object ob =
     \<lparr>so_Object = ob, so_Applied = ob, so_Generation = 1, so_Finalizers = meta_Finalizers (obj_meta ob),
      so_Deleting = False,
      so_Status = zero_deployment_status
        \<lparr>spec_Replicas := (case ob of ODeployment d \<Rightarrow> Some (dep_Replicas d) | _ \<Rightarrow> None)\<rparr>,
      so_ImagePullSecrets = []\<rparr>"

definition create_object :: "operator_env \<Rightarrow> k8s_object \<Rightarrow> stored_object result op" where
  "create_object env ob = api env (State (\<lambda>s.
     case objs s (obj_ref ob) of
       None \<Rightarrow> (Inr (new_object ob), put_object (obj_ref ob) (new_object ob) s)
     | Some _ \<Rightarrow> (Inl (GoError (snd (obj_ref ob) @ '' already exists'')), s)))"

definition delete_object :: "operator_env \<Rightarrow> kind \<times> string \<Rightarrow> unit result op" where
  "delete_object env ref = api env (State (\<lambda>s.
     case objs s ref of
       None \<Rightarrow> (Inl (NotFoundError (snd ref)), s)
     | Some ob \<Rightarrow> (Inr (), s\<lparr>objs := (objs s)(ref :=
          (if so_Finalizers ob = [] then None else Some (ob\<lparr>so_Deleting := True\<rparr>)))\<rparr>)))"

text \<open>
  The flags of the status are unexported: they are not sent to the API server nor read back, and keep
  their values in the object that an update call has sent.
\<close>

definition wire_status :: "ClusterPodPlacementConfigStatus \<Rightarrow> ClusterPodPlacementConfigStatus" where
  "wire_status st =
     st\<lparr>available := False, progressing := False, degraded := False, deprovisioning := False,
        podPlacementControllerNotReady := False, podPlacementWebhookNotReady := False,
        mutatingWebhookConfigurationNotAvailable := False, canDeployMutatingWebhook := False\<rparr>"

definition decoded :: "ClusterPodPlacementConfig \<Rightarrow> ClusterPodPlacementConfig" where
  "decoded c = c\<lparr>cppc_Status := wire_status (cppc_Status c)\<rparr>"

definition refreshed :: "ClusterPodPlacementConfigStatus \<Rightarrow> ClusterPodPlacementConfig \<Rightarrow> ClusterPodPlacementConfig" where
  "refreshed stored c =
     c\<lparr>cppc_Status := (cppc_Status c)\<lparr>Conditions :=
         (if elems (Conditions stored) = [] then Conditions (cppc_Status c) else Conditions stored)\<rparr>\<rparr>"

text \<open>
  Whether two readings of the configuration are the same version. The status does not count: only the
  operator writes it, one replica at a time, and it keeps the version its own writes return.
\<close>

definition same_version :: "ClusterPodPlacementConfig \<Rightarrow> ClusterPodPlacementConfig \<Rightarrow> bool" where
  "same_version a b = (a\<lparr>cppc_Status := cppc_Status b\<rparr> = b)"

text \<open>
  The update of the configuration object writes its metadata only, since its status is a subresource,
  and returns the object as the answer of the API server leaves it in memory.
\<close>

definition update_cppc ::
  "operator_env \<Rightarrow> ClusterPodPlacementConfig \<Rightarrow> ClusterPodPlacementConfig \<Rightarrow> ClusterPodPlacementConfig result op" where
  "update_cppc env base c = api env (State (\<lambda>s.
     case cppc_obj s of
       None \<Rightarrow> (Inl (NotFoundError (cppc_Name c)), s)
     | Some current \<Rightarrow>
         if same_version base current
         then (Inr (refreshed (cppc_Status current) c),
               s\<lparr>writes := Suc (writes s),
                 cppc_obj := (if cppc_Deleting current \<and> cppc_Finalizers c = [] then None
                              else Some (c\<lparr>cppc_Status := cppc_Status current\<rparr>))\<rparr>)
         else (Inl (ConflictError (cppc_Name c)), s)))"

definition update_cppc_status :: "operator_env \<Rightarrow> ClusterPodPlacementConfig \<Rightarrow> unit result op" where
  "update_cppc_status env c = api env (State (\<lambda>s.
     case cppc_obj s of
       None \<Rightarrow> (Inl (NotFoundError (cppc_Name c)), s)
     | Some current \<Rightarrow>
         if same_version c current
         then (Inr (), s\<lparr>cppc_obj := Some (current\<lparr>cppc_Status := wire_status (cppc_Status c)\<rparr>)\<rparr>)
         else (Inl (ConflictError (cppc_Name c)), s)))"

section \<open>Reading through the cache\<close>

definition getCacheWithAPIFallback :: "operator_env \<Rightarrow> bool \<Rightarrow> 'a result op \<Rightarrow> 'a result op \<Rightarrow> 'a result op" where
  "getCacheWithAPIFallback env emptyUID cacheGet apiGet = do {
     r \<leftarrow> cacheGet;
     (case r of
        Inr x \<Rightarrow>
          if \<not> emptyUID then State_Monad.return (Inr x)
          else if \<not> hasAPIReader env then State_Monad.return (Inl (NotFoundError ''objects''))
          else apiGet
      | Inl e \<Rightarrow>
          if \<not> IsNotFound e then State_Monad.return (Inl e)
          else if \<not> hasAPIReader env then State_Monad.return (Inl e)
          else apiGet) }"

definition get_object_with_fallback :: "operator_env \<Rightarrow> kind \<times> string \<Rightarrow> stored_object result op" where
  "get_object_with_fallback env ref =
     getCacheWithAPIFallback env (cacheEmptyUID env ref) (get_cached env ref) (get_object env ref)"

definition get_cppc_with_fallback :: "operator_env \<Rightarrow> ClusterPodPlacementConfig result op" where
  "get_cppc_with_fallback env =
     getCacheWithAPIFallback env (cppcEmptyUID env)
       (api env (State_Monad.return (found ''cluster'' (map_option decoded (cppc_obj (cached env))))))
       (api env (read (\<lambda>s. found ''cluster'' (map_option decoded (cppc_obj s)))))"

section \<open>Deleting objects\<close>

definition error_of :: "'a result \<Rightarrow> go_error option" where
  "error_of r = (case r of Inl e \<Rightarrow> Some e | Inr _ \<Rightarrow> None)"

definition DeleteResource :: "operator_env \<Rightarrow> kind \<times> string \<Rightarrow> go_error option op" where
  "DeleteResource env ref = do {
     r \<leftarrow> delete_object env ref;
     State_Monad.return (IgnoreNotFound (error_of r)) }"

fun delete_each :: "operator_env \<Rightarrow> (kind \<times> string) list \<Rightarrow> go_error list op" where
  "delete_each env [] = State_Monad.return []"
| "delete_each env (ref # refs) = do {
     e \<leftarrow> DeleteResource env ref;
     errs \<leftarrow> delete_each env refs;
     State_Monad.return ((case e of None \<Rightarrow> [] | Some x \<Rightarrow> [x]) @ errs) }"

definition DeleteResources :: "operator_env \<Rightarrow> (kind \<times> string) list \<Rightarrow> go_error list op" where
  "DeleteResources env refs = delete_each env refs"

section \<open>Applying objects\<close>

definition defaulted :: "string \<Rightarrow> string \<Rightarrow> string" where
  "defaulted d s = (if s = [] then d else s)"

fun servicePortsMatch :: "service_port list \<Rightarrow> service_port list \<Rightarrow> bool" where
  "servicePortsMatch [] [] = True"
| "servicePortsMatch (e # es) (r # rs) =
     (port_Name e = port_Name r \<and>
      defaulted ''TCP'' (port_Protocol e) = defaulted ''TCP'' (port_Protocol r) \<and>
      port_Port e = port_Port r \<and> port_TargetPort e = port_TargetPort r \<and> servicePortsMatch es rs)"
| "servicePortsMatch _ _ = False"

text \<open>Semantic equality of maps: the same value under every key.\<close>

definition same_map :: "(string \<times> string) list \<Rightarrow> (string \<times> string) list \<Rightarrow> bool" where
  "same_map xs ys = list_all (\<lambda>k. map_of xs k = map_of ys k) (map fst xs @ map fst ys)"

definition serviceSpecMatchesRequired :: "service_spec \<Rightarrow> service_spec \<Rightarrow> bool" where
  "serviceSpecMatchesRequired existing required =
     (same_map (svc_Selector existing) (svc_Selector required) \<and>
      defaulted ''ClusterIP'' (svc_Type existing) = defaulted ''ClusterIP'' (svc_Type required) \<and>
      servicePortsMatch (svc_Ports existing) (svc_Ports required))"

text \<open>Writing new contents into a stored object; the generation moves when they differ.\<close>

definition overwrite :: "k8s_object \<Rightarrow> k8s_object \<Rightarrow> stored_object \<Rightarrow> stored_object" where
  "overwrite required contents ob =
     ob\<lparr>so_Object := contents, so_Applied := required,
        so_Generation := (if so_Object ob = contents then so_Generation ob else so_Generation ob + 1),
        so_Status := (so_Status ob)
          \<lparr>spec_Replicas := (case contents of ODeployment d \<Rightarrow> Some (dep_Replicas d) | _ \<Rightarrow> spec_Replicas (so_Status ob))\<rparr>\<rparr>"

definition write_object :: "operator_env \<Rightarrow> k8s_object \<Rightarrow> k8s_object \<Rightarrow> stored_object \<Rightarrow> stored_object result op" where
  "write_object env required contents ob = do {
     r \<leftarrow> update_object env (obj_ref required) ob (overwrite required contents ob);
     State_Monad.return (case r of Inl e \<Rightarrow> Inl e | Inr _ \<Rightarrow> Inr (overwrite required contents ob)) }"

text \<open>
  The common shape of the apply functions: create when missing, write the \<open>merged\<close> contents when
  \<open>stale\<close>, else leave alone.
\<close>

definition apply_with ::
  "operator_env \<Rightarrow> (stored_object \<Rightarrow> bool) \<Rightarrow> (stored_object \<Rightarrow> k8s_object) \<Rightarrow> k8s_object \<Rightarrow> (stored_object \<times> bool) result op" where
  "apply_with env stale merged required = do {
     existing \<leftarrow> get_object env (obj_ref required);
     (case existing of
        Inl e \<Rightarrow>
          if IsNotFound e
          then do { r \<leftarrow> create_object env required;
                    State_Monad.return (case r of Inl e' \<Rightarrow> Inl e' | Inr ob \<Rightarrow> Inr (ob, True)) }
          else State_Monad.return (Inl e)
      | Inr ob \<Rightarrow>
          if stale ob
          then do { r \<leftarrow> write_object env required (merged ob) ob;
                    State_Monad.return (case r of Inl e' \<Rightarrow> Inl e' | Inr ob' \<Rightarrow> Inr (ob', True)) }
          else State_Monad.return (Inr (ob, False))) }"

definition service_stale :: "service \<Rightarrow> stored_object \<Rightarrow> bool" where
  "service_stale required ob =
     (case so_Object ob of
        OService s \<Rightarrow> \<not> serviceSpecMatchesRequired (svc_Spec s) (svc_Spec required)
      | _ \<Rightarrow> True)"

text \<open>An existing service keeps its metadata and gets the required spec.\<close>

definition with_spec :: "service \<Rightarrow> stored_object \<Rightarrow> k8s_object" where
  "with_spec required ob =
     (case so_Object ob of
        OService s \<Rightarrow> OService (s\<lparr>svc_Spec := svc_Spec required\<rparr>)
      | _ \<Rightarrow> OService required)"

definition applyService :: "operator_env \<Rightarrow> service \<Rightarrow> (stored_object \<times> bool) result op" where
  "applyService env required = apply_with env (service_stale required) (with_spec required) (OService required)"

definition expected_generation :: "kind \<times> string \<Rightarrow> cluster \<Rightarrow> int" where
  "expected_generation ref s = (case last_generations s ref of None \<Rightarrow> -1 | Some g \<Rightarrow> g)"

text \<open>
  Deployments and daemon sets are left alone when they were last applied from the same version and
  nobody has changed them since, which their generation shows.
\<close>

definition apply_tracked :: "operator_env \<Rightarrow> k8s_object \<Rightarrow> (stored_object \<times> bool) result op" where
  "apply_tracked env required = do {
     expectedGen \<leftarrow> read (expected_generation (obj_ref required));
     r \<leftarrow> apply_with env (\<lambda>ob. so_Applied ob \<noteq> required \<or> so_Generation ob \<noteq> expectedGen) (\<lambda>_. required) required;
     (case r of
        Inl e \<Rightarrow> State_Monad.return r
      | Inr (ob, _) \<Rightarrow> do {
          modify (\<lambda>s. s\<lparr>last_generations := (last_generations s)(obj_ref required \<mapsto> so_Generation ob)\<rparr>);
          State_Monad.return r }) }"

definition applyDeployment :: "operator_env \<Rightarrow> deployment \<Rightarrow> (stored_object \<times> bool) result op" where
  "applyDeployment env required = apply_tracked env (ODeployment required)"

definition applyDaemonSet :: "operator_env \<Rightarrow> daemonset \<Rightarrow> (stored_object \<times> bool) result op" where
  "applyDaemonSet env required = apply_tracked env (ODaemonSet required)"

text \<open>
  The other kinds go through the generic functions of library-go: they merge the required metadata into
  the stored one, compare and update. Here this is storing the required object when it differs; labels
  and annotations that others have added, and the defaults of the API server, are not part of the
  stored contents.
\<close>

definition apply_other :: "operator_env \<Rightarrow> k8s_object \<Rightarrow> (stored_object \<times> bool) result op" where
  "apply_other env required = apply_with env (\<lambda>ob. so_Object ob \<noteq> required) (\<lambda>_. required) required"

definition ApplyResource :: "operator_env \<Rightarrow> k8s_object \<Rightarrow> (stored_object \<times> bool) result op" where
  "ApplyResource env ob =
     (case ob of
        ODeployment d \<Rightarrow> applyDeployment env d
      | ODaemonSet d \<Rightarrow> applyDaemonSet env d
      | OService s \<Rightarrow> applyService env s
      | _ \<Rightarrow> apply_other env ob)"

fun apply_each :: "operator_env \<Rightarrow> k8s_object list \<Rightarrow> go_error list op" where
  "apply_each env [] = State_Monad.return []"
| "apply_each env (ob # obs) = do {
     r \<leftarrow> ApplyResource env ob;
     errs \<leftarrow> apply_each env obs;
     State_Monad.return ((case error_of r of None \<Rightarrow> [] | Some x \<Rightarrow> [x]) @ errs) }"

definition ApplyResources :: "operator_env \<Rightarrow> k8s_object list \<Rightarrow> go_error list op" where
  "ApplyResources env obs = apply_each env obs"

section \<open>Available resources\<close>

text \<open>The first answer is remembered for the life of the process, also when it is a failure.\<close>

definition IsResourceAvailable :: "operator_env \<Rightarrow> bool op" where
  "IsResourceAvailable env = do {
     known \<leftarrow> read resource_known;
     (case known of
        Some v \<Rightarrow> State_Monad.return v
      | None \<Rightarrow> do {
          r \<leftarrow> api env (State_Monad.return (Inr ()));
          modify (\<lambda>s. s\<lparr>resource_known := Some (error_of r = None)\<rparr>);
          State_Monad.return (error_of r = None) }) }"

end
