(* ===== verification/Operator_Controller.thy ===== *)
theory Operator_Controller
  imports Operator_Cluster Pod_Base
begin

text \<open>
  The controller of the \<^verbatim>\<open>ClusterPodPlacementConfig\<close>
  (\<^verbatim>\<open>internal/controller/operator/clusterpodplacementconfig_controller.go\<close>): the reconcile pass that
  deploys the operand and reports its status, and the ordered teardown on deletion, written over the
  cluster state with every early return of the source. A function that may change the in-memory
  configuration object returns it next to its error.
\<close>

section \<open>Errors\<close>

datatype rec_error = RequeueAfter nat string | PlainError go_error | Aggregate "rec_error list"

type_synonym outcome = "rec_error option"

definition newRequeueAfterError :: "nat \<Rightarrow> string \<Rightarrow> rec_error" where
  "newRequeueAfterError d msg = RequeueAfter d msg"

text \<open>\<^verbatim>\<open>errorutils.NewAggregate\<close>: nil errors are dropped, and nothing is left of an empty list.\<close>

definition NewAggregate :: "outcome list \<Rightarrow> outcome" where
  "NewAggregate es =
     (case List.map_filter (\<lambda>e. e) es of [] \<Rightarrow> None | xs \<Rightarrow> Some (Aggregate xs))"

definition is_requeue :: "rec_error \<Rightarrow> bool" where
  "is_requeue e = (case e of RequeueAfter d m \<Rightarrow> True | _ \<Rightarrow> False)"

definition mergeWithStatusErr :: "outcome \<Rightarrow> outcome list \<Rightarrow> outcome" where
  "mergeWithStatusErr statusErr primaryErrs =
     (case statusErr of
        Some (RequeueAfter d m) \<Rightarrow> Some (RequeueAfter d m)
      | _ \<Rightarrow> NewAggregate (primaryErrs @ [statusErr]))"

definition waitingForUngatingPodsError :: string where
  "waitingForUngatingPodsError = ''waiting for pods with the scheduling gate to be ungated''"
definition waitingForWebhookSInterruptionError :: string where
  "waitingForWebhookSInterruptionError =
     ''re-queueing to ensure the webhook objects deletion interrupt pods gating before checking the pods gating status''"
definition clusterPodPlacementConfigNotReady :: string where
  "clusterPodPlacementConfigNotReady = ''cluster pod placement config is not ready yet. re-queueing''"
definition RemainingPodPlacementConfig :: string where
  "RemainingPodPlacementConfig = ''cannot delete: namespaced PodPlacementConfig resources still exist''"
section \<open>Finalizers\<close>

definition ContainsFinalizer :: "string list \<Rightarrow> string \<Rightarrow> bool" where
  "ContainsFinalizer fs f = (f \<in> set fs)"

definition AddFinalizer :: "string \<Rightarrow> string list \<Rightarrow> string list" where
  "AddFinalizer f fs = (if f \<in> set fs then fs else fs @ [f])"

definition RemoveFinalizer :: "string \<Rightarrow> string list \<Rightarrow> string list" where
  "RemoveFinalizer f fs = filter (\<lambda>g. g \<noteq> f) fs"

definition drop_finalizer :: "string \<Rightarrow> ClusterPodPlacementConfig \<Rightarrow> ClusterPodPlacementConfig" where
  "drop_finalizer f c = c\<lparr>cppc_Finalizers := RemoveFinalizer f (cppc_Finalizers c)\<rparr>"

definition with_finalizer :: "string \<Rightarrow> ClusterPodPlacementConfig \<Rightarrow> ClusterPodPlacementConfig" where
  "with_finalizer f c = c\<lparr>cppc_Finalizers := AddFinalizer f (cppc_Finalizers c)\<rparr>"

text \<open>Removing a finalizer from a deployment that was read, if it carries it.\<close>

definition release_object :: "operator_env \<Rightarrow> kind \<times> string \<Rightarrow> string \<Rightarrow> stored_object \<Rightarrow> unit result op" where
  "release_object env ref f ob =
     (if f \<in> set (so_Finalizers ob)
      then update_object env ref ob (ob\<lparr>so_Finalizers := RemoveFinalizer f (so_Finalizers ob)\<rparr>)
      else State_Monad.return (Inr ()))"

section \<open>Status\<close>

definition isDeploymentAvailable :: "deployment_status \<Rightarrow> bool" where
  "isDeploymentAvailable d = (AvailableReplicas d > 0)"

definition isDeploymentUpToDate :: "deployment_status \<Rightarrow> int \<Rightarrow> bool" where
  "isDeploymentUpToDate d generation =
     (let expectedReplicas = (case spec_Replicas d of None \<Rightarrow> -1 | Some n \<Rightarrow> n)
      in UpdatedReplicas d = expectedReplicas \<and> Replicas d = expectedReplicas \<and>
         AvailableReplicas d = expectedReplicas \<and> ReadyReplicas d = expectedReplicas \<and>
         UnavailableReplicas d = 0 \<and> ObservedGeneration d = generation)"

definition updateStatus :: "operator_env \<Rightarrow> ClusterPodPlacementConfig \<Rightarrow> outcome op" where
  "updateStatus env config = do {
     r \<leftarrow> update_cppc_status env config;
     State_Monad.return
       (case r of
          Inl e \<Rightarrow> Some (PlainError e)
        | Inr _ \<Rightarrow> if IsProgressing (cppc_Status config)
                   then Some (newRequeueAfterError 5 clusterPodPlacementConfigNotReady) else None) }"

text \<open>
  A read that answers not found leaves an empty deployment, which is neither available nor up to
  date.
\<close>

definition read_status :: "stored_object result \<Rightarrow> deployment_status \<times> int" where
  "read_status r = (case r of Inl e \<Rightarrow> (zero_deployment_status, 0) | Inr ob \<Rightarrow> (so_Status ob, so_Generation ob))"

definition fatal :: "'a result \<Rightarrow> go_error option" where
  "fatal r = IgnoreNotFound (error_of r)"

definition dependentsStatusToClusterPodPlacementConfig ::
  "operator_env \<Rightarrow> ClusterPodPlacementConfig \<Rightarrow> (outcome \<times> ClusterPodPlacementConfig) op" where
  "dependentsStatusToClusterPodPlacementConfig env config = do {
     controller \<leftarrow> get_object env (KDeployment, PodPlacementControllerName);
     (case fatal controller of
        Some e \<Rightarrow> State_Monad.return (Some (PlainError e), config)
      | None \<Rightarrow> do {
          released \<leftarrow> (case controller of
             Inr ob \<Rightarrow> if \<not> cppc_Deleting config \<and> so_Deleting ob
                       then release_object env (KDeployment, PodPlacementControllerName) PodPlacementFinalizerName ob
                       else State_Monad.return (Inr ())
           | Inl _ \<Rightarrow> State_Monad.return (Inr ()));
          (case released of
             Inl e \<Rightarrow> State_Monad.return (Some (PlainError e), config)
           | Inr _ \<Rightarrow> do {
               webhook \<leftarrow> get_object env (KDeployment, PodPlacementWebhookName);
               (case fatal webhook of
                  Some e \<Rightarrow> State_Monad.return (Some (PlainError e), config)
                | None \<Rightarrow> do {
                    mwc \<leftarrow> get_object env (KMutatingWebhookConfiguration, PodMutatingWebhookConfigurationName);
                    (case fatal mwc of
                       Some e \<Rightarrow> State_Monad.return (Some (PlainError e), config)
                     | None \<Rightarrow>
                         (let (cs, cg) = read_status controller; (ws, wg) = read_status webhook;
                              components = \<lparr>controllerAvailable = isDeploymentAvailable cs,
                                webhookAvailable = isDeploymentAvailable ws,
                                controllerUpToDate = isDeploymentUpToDate cs cg,
                                webhookUpToDate = isDeploymentUpToDate ws wg,
                                mutatingWebhookAvailable = (error_of mwc = None)\<rparr>
                          in State_Monad.return (None,
                               config\<lparr>cppc_Status := Build (clock env) components (cppc_Deleting config) (cppc_Status config)\<rparr>))) }) }) }) }"

section \<open>Namespace labels\<close>

definition privileged_labels :: "(string \<times> string) list" where
  "privileged_labels =
     [(''pod-security.kubernetes.io/audit'', ''privileged''), (''pod-security.kubernetes.io/audit-version'', ''v1.29''),
      (''pod-security.kubernetes.io/enforce'', ''privileged''), (''pod-security.kubernetes.io/enforce-version'', ''v1.29''),
      (''pod-security.kubernetes.io/warn'', ''privileged''), (''pod-security.kubernetes.io/warn-version'', ''v1.29''),
      (''workload.openshift.io/allowed'', ''management'')]"

definition ensureNamespaceLabels :: "operator_env \<Rightarrow> outcome op" where
  "ensureNamespaceLabels env = do {
     ns \<leftarrow> api env (read (\<lambda>s. Inr (ns_labels s)));
     (case ns of
        Inl e \<Rightarrow> State_Monad.return (Some (PlainError e))
      | Inr labels \<Rightarrow> do {
          u \<leftarrow> api env (State (\<lambda>s.
                 (Inr (), s\<lparr>ns_labels := fold (\<lambda>(k, v) m. put_map m k v) privileged_labels labels\<rparr>)));
          State_Monad.return (map_option PlainError (error_of u)) }) }"

section \<open>Teardown of the exec format error monitor\<close>

definition has_error_label :: "enoexec_event \<Rightarrow> bool" where
  "has_error_label ev = has_key (ee_Labels ev) ENoExecEventErrorLabel"

definition delete_event :: "operator_env \<Rightarrow> enoexec_event \<Rightarrow> unit result op" where
  "delete_event env ev = api env (State (\<lambda>s.
     if ev \<in> set (enoexec_events s)
     then (Inr (), s\<lparr>enoexec_events := filter (\<lambda>x. ee_Name x \<noteq> ee_Name ev) (enoexec_events s)\<rparr>)
     else (Inl (NotFoundError (ee_Name ev)), s)))"

fun deleteErroredENoExecEvents :: "operator_env \<Rightarrow> enoexec_event list \<Rightarrow> (nat \<times> nat) op" where
  "deleteErroredENoExecEvents env [] = State_Monad.return (0, 0)"
| "deleteErroredENoExecEvents env (ev # evs) =
     (if \<not> has_error_label ev
      then do { (nonErrored, errored) \<leftarrow> deleteErroredENoExecEvents env evs;
                State_Monad.return (Suc nonErrored, errored) }
      else do { _ \<leftarrow> delete_event env ev;
                (nonErrored, errored) \<leftarrow> deleteErroredENoExecEvents env evs;
                State_Monad.return (nonErrored, Suc errored) })"

definition enoexec_daemon_refs :: "(kind \<times> string) list" where
  "enoexec_daemon_refs =
     [(KClusterRole, EnoexecDaemonSet), (KClusterRoleBinding, EnoexecDaemonSet), (KRole, EnoexecDaemonSet),
      (KRoleBinding, EnoexecDaemonSet), (KServiceAccount, EnoexecDaemonSet), (KDaemonSet, EnoexecDaemonSet)]"

definition enoexec_handler_refs :: "bool \<Rightarrow> (kind \<times> string) list" where
  "enoexec_handler_refs monitoring =
     [(KDeployment, EnoexecControllerName), (KRole, EnoexecControllerName), (KRoleBinding, EnoexecControllerName),
      (KClusterRole, EnoexecControllerName), (KClusterRoleBinding, EnoexecControllerName),
      (KServiceAccount, EnoexecControllerName), (KServiceAccount, EnoexecDaemonSet), (KService, EnoexecControllerName)] @
     (if monitoring
      then [(KServiceMonitor, EnoexecControllerName), (KPrometheusRule, ExecFormatErrorMonitorName),
            (KPrometheusRule, ExecFormatErrorsDetected)]
      else [])"

definition list_cached :: "operator_env \<Rightarrow> (cluster \<Rightarrow> 'a list) \<Rightarrow> 'a list result op" where
  "list_cached env f = api env (State_Monad.return (Inr (f (cached env))))"

definition plain_aggregate :: "go_error list \<Rightarrow> outcome" where
  "plain_aggregate errs = NewAggregate (map (\<lambda>e. Some (PlainError e)) errs)"

text \<open>The last part: the handler deployment is released, its objects deleted, and the finalizer dropped.\<close>

definition enoexec_finish ::
  "operator_env \<Rightarrow> ClusterPodPlacementConfig \<Rightarrow> (outcome \<times> ClusterPodPlacementConfig) op" where
  "enoexec_finish env config = do {
     deployment \<leftarrow> get_object_with_fallback env (KDeployment, EnoexecControllerName);
     (case fatal deployment of
        Some e \<Rightarrow> State_Monad.return (Some (PlainError e), config)
      | None \<Rightarrow> do {
          released \<leftarrow> (case deployment of
             Inr ob \<Rightarrow> release_object env (KDeployment, EnoexecControllerName) ExecFormatErrorFinalizerName ob
           | Inl _ \<Rightarrow> State_Monad.return (Inr ()));
          (case released of
             Inl e \<Rightarrow> State_Monad.return (Some (PlainError e), config)
           | Inr _ \<Rightarrow> do {
               monitoring \<leftarrow> IsResourceAvailable env;
               errs \<leftarrow> DeleteResources env (enoexec_handler_refs monitoring);
               if errs \<noteq> [] then State_Monad.return (plain_aggregate errs, config)
               else do {
                 u \<leftarrow> update_cppc env config (drop_finalizer ExecFormatErrorFinalizerName config);
                 State_Monad.return
                   (case u of
                      Inl e \<Rightarrow> (Some (PlainError e), drop_finalizer ExecFormatErrorFinalizerName config)
                    | Inr config' \<Rightarrow> (None, config')) } }) }) }"

definition handleEnoexecDelete ::
  "operator_env \<Rightarrow> ClusterPodPlacementConfig \<Rightarrow> (outcome \<times> ClusterPodPlacementConfig) op" where
  "handleEnoexecDelete env config =
     (if \<not> ContainsFinalizer (cppc_Finalizers config) ExecFormatErrorFinalizerName
      then State_Monad.return (None, config)
      else do {
        errs \<leftarrow> DeleteResources env enoexec_daemon_refs;
        if errs \<noteq> [] then State_Monad.return (plain_aggregate errs, config)
        else do {
          ds \<leftarrow> get_object_with_fallback env (KDaemonSet, EnoexecDaemonSet);
          (case ds of
             Inr _ \<Rightarrow> State_Monad.return (Some (newRequeueAfterError 5 ''enoexec DaemonSet is still terminating''), config)
           | Inl e \<Rightarrow>
               if \<not> IsNotFound e then State_Monad.return (Some (PlainError e), config)
               else do {
                 listed \<leftarrow> list_cached env enoexec_events;
                 (case listed of
                    Inl e' \<Rightarrow> State_Monad.return (Some (PlainError e'), config)
                  | Inr events \<Rightarrow> do {
                      (nonErrored, _) \<leftarrow> deleteErroredENoExecEvents env events;
                      if nonErrored > 0
                      then State_Monad.return (Some (newRequeueAfterError 5
                             ''found existing ENoExecEvent resources that need reconciliation''), config)
                      else enoexec_finish env config }) }) } })"

section \<open>Teardown of the operand\<close>

definition webhook_refs :: "(kind \<times> string) list" where
  "webhook_refs =
     [(KMutatingWebhookConfiguration, PodMutatingWebhookConfigurationName), (KService, PodPlacementWebhookName),
      (KDeployment, PodPlacementWebhookName), (KClusterRole, PodPlacementWebhookName),
      (KClusterRoleBinding, PodPlacementWebhookName), (KServiceAccount, PodPlacementWebhookName)]"

definition controller_refs :: "bool \<Rightarrow> (kind \<times> string) list" where
  "controller_refs monitoring =
     [(KService, PodPlacementControllerName), (KDeployment, PodPlacementControllerName),
      (KClusterRole, PodPlacementControllerName), (KClusterRoleBinding, PodPlacementControllerName),
      (KRole, PodPlacementControllerName), (KRoleBinding, PodPlacementControllerName),
      (KServiceAccount, PodPlacementControllerName)] @
     (if monitoring
      then [(KServiceMonitor, PodPlacementWebhookName), (KServiceMonitor, PodPlacementControllerName),
            (KPrometheusRule, OperatorName)]
      else [])"

definition is_gated :: "CorePod \<Rightarrow> bool" where
  "is_gated pod = list_ex (\<lambda>sg. sg = SchedulingGateName) (elems (SchedulingGates pod))"

text \<open>
  After the pods are ungated: release the controller deployment, drop the finalizer of the
  configuration, delete what remains. The final error is that of the read of the deployment unless
  the update of the configuration has replaced it.
\<close>

definition finish_delete :: "operator_env \<Rightarrow> ClusterPodPlacementConfig \<Rightarrow> outcome op" where
  "finish_delete env config = do {
     deployment \<leftarrow> get_object_with_fallback env (KDeployment, PodPlacementControllerName);
     (case fatal deployment of
        Some e \<Rightarrow> State_Monad.return (Some (PlainError e))
      | None \<Rightarrow> do {
          released \<leftarrow> (case deployment of
             Inr ob \<Rightarrow> release_object env (KDeployment, PodPlacementControllerName) PodPlacementFinalizerName ob
           | Inl _ \<Rightarrow> State_Monad.return (Inr ()));
          (case released of
             Inl e \<Rightarrow> State_Monad.return (Some (PlainError e))
           | Inr _ \<Rightarrow> do {
               err \<leftarrow> (if ContainsFinalizer (cppc_Finalizers config) PodPlacementFinalizerName
                       then do { u \<leftarrow> update_cppc env config (drop_finalizer PodPlacementFinalizerName config);
                                 State_Monad.return (error_of u) }
                       else State_Monad.return (error_of deployment));
               if ContainsFinalizer (cppc_Finalizers config) PodPlacementFinalizerName \<and> err \<noteq> None
               then State_Monad.return (map_option PlainError err)
               else do {
                 monitoring \<leftarrow> IsResourceAvailable env;
                 errs \<leftarrow> DeleteResources env (controller_refs monitoring);
                 State_Monad.return
                   (if errs \<noteq> [] then plain_aggregate errs else map_option PlainError err) } }) }) }"

definition check_ungated :: "operator_env \<Rightarrow> ClusterPodPlacementConfig \<Rightarrow> outcome op" where
  "check_ungated env config = do {
     svc \<leftarrow> get_object env (KService, PodPlacementWebhookName);
     if error_of svc = None \<or> fatal svc \<noteq> None
     then State_Monad.return (Some (PlainError (GoError waitingForWebhookSInterruptionError)))
     else do {
       pods \<leftarrow> api env (read (\<lambda>s. Inr (pending_pods s)));
       (case pods of
          Inl e \<Rightarrow> State_Monad.return (Some (PlainError e))
        | Inr items \<Rightarrow>
            if list_ex is_gated items
            then State_Monad.return (Some (PlainError (GoError waitingForUngatingPodsError)))
            else finish_delete env config) } }"

definition handleDelete :: "operator_env \<Rightarrow> ClusterPodPlacementConfig \<Rightarrow> outcome op" where
  "handleDelete env config0 = do {
     (err, config) \<leftarrow> handleEnoexecDelete env config0;
     if err \<noteq> None then State_Monad.return err
     else do {
       _ \<leftarrow> updateStatus env config;
       if ContainsFinalizer (cppc_Finalizers config) CPPCNoPPCObjectFinalizer
       then do {
         listed \<leftarrow> list_cached env ppc_list;
         (case listed of
            Inl e \<Rightarrow> State_Monad.return (Some (PlainError e))
          | Inr items \<Rightarrow>
              if items \<noteq> [] then State_Monad.return (Some (PlainError (GoError RemainingPodPlacementConfig)))
              else do {
                u \<leftarrow> update_cppc env config (drop_finalizer CPPCNoPPCObjectFinalizer config);
                State_Monad.return (map_option PlainError (error_of u)) }) }
       else do {
         errs \<leftarrow> DeleteResources env webhook_refs;
         if errs \<noteq> [] then State_Monad.return (plain_aggregate errs)
         else check_ungated env config } } }"

section \<open>Deployment of the operand\<close>

definition buildPodPlacementConfigObjects ::
  "operator_env \<Rightarrow> ClusterPodPlacementConfig \<Rightarrow> (rec_error + k8s_object list) op" where
  "buildPodPlacementConfigObjects env config =
     (case getCorrectHostmountAnyUIDSCC (minorVersion env) of
        Inr (scc, seLinux) \<Rightarrow> State_Monad.return (Inr (pod_placement_objects (runtime_of env) config scc seLinux))
      | Inl e \<Rightarrow> do {
          st \<leftarrow> updateStatus env config;
          State_Monad.return (Inl (Aggregate (PlainError e # (case st of None \<Rightarrow> [] | Some x \<Rightarrow> [x])))) })"

definition isEnoexecDaemonSetSAReady :: "operator_env \<Rightarrow> bool result op" where
  "isEnoexecDaemonSetSAReady env = do {
     sa \<leftarrow> get_cached env (KServiceAccount, EnoexecDaemonSet);
     State_Monad.return
       (case sa of
          Inl e \<Rightarrow> if IsNotFound e then Inr False else Inl e
        | Inr ob \<Rightarrow> Inr (so_ImagePullSecrets ob \<noteq> [])) }"

text \<open>
  Whether the daemon set is applied in this pass: always once it exists, otherwise when its service
  account has its pull secrets. The second component tells that it was deferred.
\<close>

definition decide_daemonset :: "operator_env \<Rightarrow> (bool \<times> bool) result op" where
  "decide_daemonset env = do {
     ds \<leftarrow> get_cached env (KDaemonSet, EnoexecDaemonSet);
     (case ds of
        Inr _ \<Rightarrow> State_Monad.return (Inr (True, False))
      | Inl e \<Rightarrow>
          if \<not> IsNotFound e then State_Monad.return (Inl e)
          else do {
            ready \<leftarrow> isEnoexecDaemonSetSAReady env;
            State_Monad.return (case ready of Inl e' \<Rightarrow> Inl e' | Inr b \<Rightarrow> Inr (b, \<not> b)) }) }"

definition daemonset_object :: "operator_env \<Rightarrow> ClusterPodPlacementConfig \<Rightarrow> k8s_object" where
  "daemonset_object env config =
     ODaemonSet (buildDaemonSetENoExecEvent (runtime_of env) EnoexecDaemonSet EnoexecDaemonSet
       (ToZapLevelInt (LogVerbosity config)) [])"

text \<open>Owner references, application and status: the end of a pass.\<close>

definition apply_and_report ::
  "operator_env \<Rightarrow> ClusterPodPlacementConfig \<Rightarrow> k8s_object list \<Rightarrow> bool \<Rightarrow> outcome op" where
  "apply_and_report env config objects daemonSetDeferred =
     (let refErrs = List.map_filter (controllerRef env) objects in
      if refErrs \<noteq> []
      then do { st \<leftarrow> updateStatus env config;
                State_Monad.return (mergeWithStatusErr st (map (\<lambda>e. Some (PlainError e)) refErrs)) }
      else do {
        errs \<leftarrow> ApplyResources env objects;
        if errs \<noteq> []
        then do { st \<leftarrow> updateStatus env config; State_Monad.return (mergeWithStatusErr st [plain_aggregate errs]) }
        else do {
          st \<leftarrow> updateStatus env config;
          State_Monad.return
            (if daemonSetDeferred \<and> st = None
             then Some (newRequeueAfterError 5 ''waiting for enoexec SA imagePullSecrets before creating DaemonSet'')
             else st) } })"

definition execFormatErrorEnabled :: "ClusterPodPlacementConfig \<Rightarrow> bool" where
  "execFormatErrorEnabled config = cppc_PluginsEnabled config ExecFormatErrorMonitorPluginName"

text \<open>The objects of the monitor when it is enabled, its teardown when it is not.\<close>

definition enoexec_part ::
  "operator_env \<Rightarrow> ClusterPodPlacementConfig \<Rightarrow> (rec_error + k8s_object list \<times> ClusterPodPlacementConfig) op" where
  "enoexec_part env config =
     (if execFormatErrorEnabled config
      then do { monitoring \<leftarrow> IsResourceAvailable env;
                State_Monad.return (Inr (buildENoExecEventObjects (runtime_of env) monitoring config, config)) }
      else do { (err, config') \<leftarrow> handleEnoexecDelete env config;
                State_Monad.return (case err of Some e \<Rightarrow> Inl e | None \<Rightarrow> Inr ([], config')) })"

definition webhook_part :: "operator_env \<Rightarrow> ClusterPodPlacementConfig \<Rightarrow> k8s_object list op" where
  "webhook_part env config =
     (if CanDeployMutatingWebhook (cppc_Status config)
      then State_Monad.return [OMutatingWebhookConfiguration (buildMutatingWebhookConfiguration (runtime_of env) config)]
      else if \<not> IsMutatingWebhookConfigurationNotAvailable (cppc_Status config)
      then do { _ \<leftarrow> delete_object env (KMutatingWebhookConfiguration, PodMutatingWebhookConfigurationName);
                State_Monad.return [] }
      else State_Monad.return [])"

definition daemonset_part ::
  "operator_env \<Rightarrow> ClusterPodPlacementConfig \<Rightarrow> (rec_error + k8s_object list \<times> bool) op" where
  "daemonset_part env config =
     (if \<not> execFormatErrorEnabled config then State_Monad.return (Inr ([], False))
      else do {
        d \<leftarrow> decide_daemonset env;
        (case d of
           Inr (include, deferred) \<Rightarrow>
             State_Monad.return (Inr (if include then [daemonset_object env config] else [], deferred))
         | Inl e \<Rightarrow> do {
             st \<leftarrow> updateStatus env config;
             State_Monad.return (Inl (Aggregate (PlainError e # (case st of None \<Rightarrow> [] | Some x \<Rightarrow> [x])))) }) })"

definition operator_reconcile :: "operator_env \<Rightarrow> ClusterPodPlacementConfig \<Rightarrow> outcome op" where
  "operator_reconcile env config0 = do {
     modify (\<lambda>s. s\<lparr>log_level := - ToZapLevelInt (LogVerbosity config0)\<rparr>);
     nsErr \<leftarrow> ensureNamespaceLabels env;
     if nsErr \<noteq> None
     then do { st \<leftarrow> updateStatus env config0; State_Monad.return (mergeWithStatusErr st [nsErr]) }
     else do {
       built \<leftarrow> buildPodPlacementConfigObjects env config0;
       (case built of
          Inl e \<Rightarrow> State_Monad.return (Some e)
        | Inr base \<Rightarrow> do {
            enoexec \<leftarrow> enoexec_part env config0;
            (case enoexec of
               Inl e \<Rightarrow> State_Monad.return (Some e)
             | Inr (execObjects, config) \<Rightarrow> do {
                 webhook \<leftarrow> webhook_part env config;
                 daemon \<leftarrow> daemonset_part env config;
                 (case daemon of
                    Inl e \<Rightarrow> State_Monad.return (Some e)
                  | Inr (daemonObjects, deferred) \<Rightarrow> do {
                      monitoring \<leftarrow> IsResourceAvailable env;
                      apply_and_report env config
                        (base @ execObjects @ webhook @ daemonObjects @
                         (if monitoring then monitoring_objects (runtime_of env) else []))
                        deferred }) }) }) } }"

section \<open>The reconcile entry point\<close>

text \<open>The result: the delay after which the request is queued again (0 for none) and the error.\<close>

definition as_result :: "outcome \<Rightarrow> nat \<times> outcome" where
  "as_result e = (case e of Some (RequeueAfter d m) \<Rightarrow> (d, None) | _ \<Rightarrow> (0, e))"

definition store_finalizers ::
  "operator_env \<Rightarrow> ClusterPodPlacementConfig \<Rightarrow> ClusterPodPlacementConfig \<Rightarrow> (nat \<times> outcome) op" where
  "store_finalizers env config config' = do {
     u \<leftarrow> update_cppc env config config';
     State_Monad.return (0, map_option PlainError (error_of u)) }"

text \<open>
  The finalizers of the monitor on the configuration and on the handler deployment; \<open>None\<close> when both
  are in place and the pass goes on.
\<close>

definition ensure_enoexec_finalizers :: "operator_env \<Rightarrow> ClusterPodPlacementConfig \<Rightarrow> (nat \<times> outcome) option op" where
  "ensure_enoexec_finalizers env config =
     (if \<not> execFormatErrorEnabled config then State_Monad.return None
      else if \<not> ContainsFinalizer (cppc_Finalizers config) ExecFormatErrorFinalizerName
      then do { r \<leftarrow> store_finalizers env config (with_finalizer ExecFormatErrorFinalizerName config);
                State_Monad.return (Some r) }
      else do {
        deployment \<leftarrow> get_cached env (KDeployment, EnoexecControllerName);
        (case deployment of
           Inl e \<Rightarrow> State_Monad.return (if IsNotFound e then None else Some (0, Some (PlainError e)))
         | Inr ob \<Rightarrow>
             if ContainsFinalizer (so_Finalizers ob) ExecFormatErrorFinalizerName then State_Monad.return None
             else do {
               u \<leftarrow> update_object env (KDeployment, EnoexecControllerName) ob
                     (ob\<lparr>so_Finalizers := AddFinalizer ExecFormatErrorFinalizerName (so_Finalizers ob)\<rparr>);
               State_Monad.return (Some (0, map_option PlainError (error_of u))) }) })"

definition reconcile_active :: "operator_env \<Rightarrow> ClusterPodPlacementConfig \<Rightarrow> (nat \<times> outcome) op" where
  "reconcile_active env config =
     (if \<not> ContainsFinalizer (cppc_Finalizers config) PodPlacementFinalizerName
      then store_finalizers env config (with_finalizer PodPlacementFinalizerName config)
      else do {
        listed \<leftarrow> list_cached env ppc_list;
        (case listed of
           Inl e \<Rightarrow> State_Monad.return (0, Some (PlainError e))
         | Inr items \<Rightarrow>
             if (items \<noteq> []) \<noteq> ContainsFinalizer (cppc_Finalizers config) CPPCNoPPCObjectFinalizer
             then store_finalizers env config
                    (if items \<noteq> [] then with_finalizer CPPCNoPPCObjectFinalizer config
                     else drop_finalizer CPPCNoPPCObjectFinalizer config)
             else do {
               early \<leftarrow> ensure_enoexec_finalizers env config;
               (case early of
                  Some r \<Rightarrow> State_Monad.return r
                | None \<Rightarrow> do {
                    (err, config') \<leftarrow> dependentsStatusToClusterPodPlacementConfig env config;
                    if err \<noteq> None then State_Monad.return (0, err)
                    else do { r \<leftarrow> operator_reconcile env config'; State_Monad.return (as_result r) } }) }) })"

definition operator_Reconcile :: "operator_env \<Rightarrow> (nat \<times> outcome) op" where
  "operator_Reconcile env = do {
     fetched \<leftarrow> get_cppc_with_fallback env;
     (case fetched of
        Inl e \<Rightarrow> State_Monad.return (0, map_option PlainError (IgnoreNotFound (Some e)))
      | Inr config \<Rightarrow>
          if cppc_Deleting config
          then (if \<not> ContainsFinalizer (cppc_Finalizers config) PodPlacementFinalizerName
                then State_Monad.return (0, None)
                else do { r \<leftarrow> handleDelete env config; State_Monad.return (as_result r) })
          else reconcile_active env config) }"

section \<open>The watch predicate\<close>

record watched_object =
  wo_Generation :: int
  wo_DeletionTimestamp :: "nat option"
  wo_Finalizers :: "string list"

definition cppcUpdatePredicate :: "watched_object \<Rightarrow> watched_object \<Rightarrow> bool" where
  "cppcUpdatePredicate old new =
     (wo_Generation old \<noteq> wo_Generation new \<or> wo_DeletionTimestamp old \<noteq> wo_DeletionTimestamp new \<or>
      wo_Finalizers old \<noteq> wo_Finalizers new)"

end
