(* ===== verification/Operator_Frames.thy ===== *)
theory Operator_Frames
  imports Operator_Controller
begin

text \<open>
  What the operations of the operator leave alone. A reflexive and transitive relation between the
  states before and after is shown for a whole operation from its API calls: the locale gives the
  rules, one per construct of the monad, and each interpretation says which calls respect the relation.
\<close>

section \<open>Running operations\<close>

lemma run_api [run_simps]:
  "run_state (api env m) s =
     (case fault env (api_calls s) of
        Some e \<Rightarrow> (Inl e, s\<lparr>api_calls := Suc (api_calls s)\<rparr>)
      | None \<Rightarrow> run_state m (s\<lparr>api_calls := Suc (api_calls s)\<rparr>))"
  by (simp add: api_def Let_def)

section \<open>Frames\<close>

definition framed :: "('s \<Rightarrow> 's \<Rightarrow> bool) \<Rightarrow> ('s, 'a) state \<Rightarrow> bool" where
  "framed R m = (\<forall>s. R s (snd (run_state m s)))"

lemma framedD: "framed R m \<Longrightarrow> run_state m s = (a, s') \<Longrightarrow> R s s'"
  by (metis framed_def snd_conv)

locale frame =
  fixes R :: "cluster \<Rightarrow> cluster \<Rightarrow> bool"
  assumes refl: "R s s"
    and trans: "R s t \<Longrightarrow> R t u \<Longrightarrow> R s u"
    and calls: "R s (s\<lparr>api_calls := n\<rparr>)"
begin

lemma ret: "framed R (State_Monad.return a)"
  by (simp add: framed_def run_return refl)

lemma seq:
  assumes "framed R m" and "\<And>a. framed R (f a)"
  shows "framed R (State_Monad.bind m f)"
  unfolding framed_def
proof
  fix s
  obtain a s' where m: "run_state m s = (a, s')" by fastforce
  have "R s s'" using framedD[OF assms(1) m] .
  moreover have "R s' (snd (run_state (f a) s'))" using assms(2) by (simp add: framed_def)
  ultimately show "R s (snd (run_state (State_Monad.bind m f) s))" using trans by (simp add: run_bind m)
qed

lemma branch: "framed R m \<Longrightarrow> framed R m' \<Longrightarrow> framed R (if b then m else m')"
  by simp

lemma opt: "framed R m \<Longrightarrow> (\<And>x. framed R (f x)) \<Longrightarrow> framed R (case v of None \<Rightarrow> m | Some x \<Rightarrow> f x)"
  by (cases v) auto

lemma alt: "(\<And>x. v = Inl x \<Longrightarrow> framed R (f x)) \<Longrightarrow> (\<And>x. v = Inr x \<Longrightarrow> framed R (g x)) \<Longrightarrow> framed R (case v of Inl x \<Rightarrow> f x | Inr x \<Rightarrow> g x)"
  by (cases v) auto

lemma pair: "(\<And>x y. v = (x, y) \<Longrightarrow> framed R (f x y)) \<Longrightarrow> framed R (case v of (x, y) \<Rightarrow> f x y)"
  by (cases v) auto

lemma reading: "framed R (read f)"
  by (simp add: framed_def run_read refl)

lemma calling:
  assumes "framed R m"
  shows "framed R (api env m)"
  unfolding framed_def
proof
  fix s
  show "R s (snd (run_state (api env m) s))"
    using assms calls[of s] trans
    by (cases "fault env (api_calls s)") (auto simp: run_api framed_def intro: trans[OF calls])
qed

lemmas constructs = ret seq branch opt alt pair reading calling

lemma getting: "framed R (get_object env ref)" "framed R (get_cached env ref)"
  "framed R (list_cached env f)" "framed R (get_object_with_fallback env ref)"
  "framed R (get_cppc_with_fallback env)"
  unfolding get_object_def get_cached_def list_cached_def get_object_with_fallback_def
    get_cppc_with_fallback_def getCacheWithAPIFallback_def
  by (intro constructs)+

end

section \<open>Frames of the whole operator\<close>

text \<open>
  A relation that ignores the bookkeeping of the process and the fields only other controllers read;
  \<open>allowed\<close> are the objects whose creation respects it, \<open>ok\<close> the updates of the configuration that do,
  and \<open>publish\<close> the statuses that may be written.
\<close>

locale operator_frame = frame +
  fixes allowed :: "kind \<times> string \<Rightarrow> bool"
    and ok :: "ClusterPodPlacementConfig \<Rightarrow> ClusterPodPlacementConfig \<Rightarrow> bool"
    and publish :: "ClusterPodPlacementConfig \<Rightarrow> bool"
  assumes bookkeeping:
    "R s (s\<lparr>last_generations := g\<rparr>)" "R s (s\<lparr>resource_known := k\<rparr>)" "R s (s\<lparr>log_level := l\<rparr>)"
    "R s (s\<lparr>ns_labels := m\<rparr>)" "R s (s\<lparr>enoexec_events := evs\<rparr>)"
    and updating: "framed R (update_object env ref base ob)"
    and removing: "framed R (delete_object env ref)"
    and creating: "allowed (obj_ref obj) \<Longrightarrow> framed R (create_object env obj)"
    and configuring: "ok b c \<Longrightarrow> framed R (update_cppc env b c)"
    and publishing: "publish c \<Longrightarrow> framed R (update_cppc_status env c)"
begin

lemma modifying: "(\<And>s. R s (f s)) \<Longrightarrow> framed R (modify f)"
  by (simp add: framed_def run_modify)

lemma stepping: "(\<And>s. R s (snd (f s))) \<Longrightarrow> framed R (State f)"
  by (simp add: framed_def)

lemma available: "framed R (IsResourceAvailable env)"
  unfolding IsResourceAvailable_def by (intro constructs modifying bookkeeping)

lemma deleting: "framed R (DeleteResources env refs)"
  unfolding DeleteResources_def
  by (induction refs) (simp_all add: DeleteResource_def, (intro constructs removing)+)

lemma applying_one:
  assumes "allowed (obj_ref ob)"
  shows "framed R (ApplyResource env ob)"
proof -
  have "framed R (apply_with env stale merged required)" if "allowed (obj_ref required)" for stale merged required
    unfolding apply_with_def write_object_def by (intro constructs getting updating creating that)
  moreover from this have "framed R (apply_tracked env required)" if "allowed (obj_ref required)" for required
    using that unfolding apply_tracked_def by (intro constructs modifying bookkeeping)
  ultimately show ?thesis
    using assms
    by (cases ob) (simp_all add: ApplyResource_def applyDeployment_def applyDaemonSet_def applyService_def apply_other_def)
qed

lemma applying: "\<forall>ob\<in>set obs. allowed (obj_ref ob) \<Longrightarrow> framed R (ApplyResources env obs)"
  unfolding ApplyResources_def by (induction obs) (simp_all, (intro constructs applying_one; simp)+)

lemma dropping_event: "framed R (delete_event env ev)"
  unfolding delete_event_def by (intro constructs stepping) (simp add: refl bookkeeping)

lemma events: "framed R (deleteErroredENoExecEvents env evs)"
proof (induction evs)
  case (Cons ev evs)
  then show ?case unfolding deleteErroredENoExecEvents.simps by (intro constructs dropping_event)
qed (simp add: ret)

lemma releasing: "framed R (release_object env ref f ob)"
  unfolding release_object_def by (intro constructs updating)

lemma labelling: "framed R (ensureNamespaceLabels env)"
  unfolding ensureNamespaceLabels_def by (intro constructs stepping) (simp add: bookkeeping)

lemma inspecting: "framed R (dependentsStatusToClusterPodPlacementConfig env config)"
  unfolding dependentsStatusToClusterPodPlacementConfig_def Let_def by (intro constructs getting releasing)

lemma reporting: "publish c \<Longrightarrow> framed R (updateStatus env c)"
  unfolding updateStatus_def by (intro constructs publishing)

lemma storing: "ok c c' \<Longrightarrow> framed R (store_finalizers env c c')"
  unfolding store_finalizers_def by (intro constructs configuring)

lemmas parts = constructs getting removing updating available deleting events releasing labelling inspecting

lemma enoexec_finishing:
  "ok config (drop_finalizer ExecFormatErrorFinalizerName config) \<Longrightarrow> framed R (enoexec_finish env config)"
  unfolding enoexec_finish_def by (intro parts configuring)

lemma enoexec_deleting:
  "ok config (drop_finalizer ExecFormatErrorFinalizerName config) \<Longrightarrow> framed R (handleEnoexecDelete env config)"
  unfolding handleEnoexecDelete_def by (intro parts enoexec_finishing)

lemma building: "publish c \<Longrightarrow> framed R (buildPodPlacementConfigObjects env c)"
  unfolding buildPodPlacementConfigObjects_def
  by (cases "getCorrectHostmountAnyUIDSCC (minorVersion env)") (auto intro!: constructs reporting)

lemma daemonset_deciding: "publish c \<Longrightarrow> framed R (daemonset_part env c)"
  unfolding daemonset_part_def decide_daemonset_def isEnoexecDaemonSetSAReady_def
  by (intro parts reporting)

lemma webhook_deciding: "framed R (webhook_part env c)"
  unfolding webhook_part_def by (intro parts)

lemma finishing_pass:
  "publish c \<Longrightarrow> \<forall>ob\<in>set obs. allowed (obj_ref ob) \<Longrightarrow> framed R (apply_and_report env c obs deferred)"
  unfolding apply_and_report_def Let_def by (intro parts reporting applying)

lemma enoexec_finalizing:
  "ok config (with_finalizer ExecFormatErrorFinalizerName config) \<Longrightarrow> framed R (ensure_enoexec_finalizers env config)"
  unfolding ensure_enoexec_finalizers_def by (intro parts storing)

end

section \<open>Triples\<close>

definition hoare :: "('s \<Rightarrow> bool) \<Rightarrow> ('s, 'a) state \<Rightarrow> ('a \<Rightarrow> 's \<Rightarrow> bool) \<Rightarrow> bool" where
  "hoare P m Q = (\<forall>s a s'. P s \<longrightarrow> run_state m s = (a, s') \<longrightarrow> Q a s')"

lemma hoareI: "(\<And>s a s'. P s \<Longrightarrow> run_state m s = (a, s') \<Longrightarrow> Q a s') \<Longrightarrow> hoare P m Q"
  by (simp add: hoare_def)

lemma hoareD: "hoare P m Q \<Longrightarrow> P s \<Longrightarrow> run_state m s = (a, s') \<Longrightarrow> Q a s'"
  by (simp add: hoare_def)

lemma hoare_seq:
  "hoare P m Q \<Longrightarrow> (\<And>a. hoare (Q a) (f a) Q') \<Longrightarrow> hoare P (State_Monad.bind m f) Q'"
  by (auto simp: hoare_def run_bind split: prod.splits)

lemma hoare_return: "(\<And>s. P s \<Longrightarrow> Q a s) \<Longrightarrow> hoare P (State_Monad.return a) Q"
  by (auto simp: hoare_def run_return)

lemma hoare_pre: "hoare P' m Q \<Longrightarrow> (\<And>s. P s \<Longrightarrow> P' s) \<Longrightarrow> hoare P m Q"
  by (auto simp: hoare_def)

lemma hoare_post: "hoare P m Q' \<Longrightarrow> (\<And>a s. Q' a s \<Longrightarrow> Q a s) \<Longrightarrow> hoare P m Q"
  by (auto simp: hoare_def)

lemma hoare_cases:
  "(b \<Longrightarrow> hoare P m Q) \<Longrightarrow> (\<not> b \<Longrightarrow> hoare P m' Q) \<Longrightarrow> hoare P (if b then m else m') Q"
  "(v = None \<Longrightarrow> hoare P m Q) \<Longrightarrow> (\<And>x. v = Some x \<Longrightarrow> hoare P (f x) Q) \<Longrightarrow>
     hoare P (case v of None \<Rightarrow> m | Some x \<Rightarrow> f x) Q"
  "(\<And>x. w = Inl x \<Longrightarrow> hoare P (g x) Q) \<Longrightarrow> (\<And>x. w = Inr x \<Longrightarrow> hoare P (h x) Q) \<Longrightarrow>
     hoare P (case w of Inl x \<Rightarrow> g x | Inr x \<Rightarrow> h x) Q"
  "(\<And>x y. p = (x, y) \<Longrightarrow> hoare P (k x y) Q) \<Longrightarrow> hoare P (case p of (x, y) \<Rightarrow> k x y) Q"
  by (auto split: option.splits sum.splits prod.splits)

text \<open>An invariant kept by a frame.\<close>

lemma hoare_kept: "framed (\<lambda>s s'. P s \<longrightarrow> P s') m \<Longrightarrow> hoare P m (\<lambda>_. P)"
  by (auto simp: hoare_def dest: framedD)

lemma hoare_framed: "framed R m \<Longrightarrow> (\<And>s s'. R s s' \<Longrightarrow> P s \<Longrightarrow> Q s') \<Longrightarrow> hoare P m (\<lambda>_. Q)"
  by (auto simp: hoare_def dest: framedD)

section \<open>Values returned\<close>

definition returns :: "('s, 'a) state \<Rightarrow> ('a \<Rightarrow> bool) \<Rightarrow> bool" where
  "returns m P = (\<forall>s. P (fst (run_state m s)))"

lemma returns_return [simp]: "returns (State_Monad.return a) P = P a"
  by (simp add: returns_def run_return)

lemma returns_bind: "(\<And>a. returns (f a) P) \<Longrightarrow> returns (State_Monad.bind m f) P"
  by (simp add: returns_def run_bind split: prod.splits)

lemma returns_bind_with:
  assumes "returns m Q" and "\<And>a. Q a \<Longrightarrow> returns (f a) P"
  shows "returns (State_Monad.bind m f) P"
  unfolding returns_def
proof
  fix s
  obtain a s' where m: "run_state m s = (a, s')" by fastforce
  then have "Q a" using assms(1) by (metis fst_conv returns_def)
  then show "P (fst (run_state (State_Monad.bind m f) s))" using assms(2) by (simp add: run_bind m returns_def)
qed

lemma returns_cases:
  "returns m P \<Longrightarrow> returns m' P \<Longrightarrow> returns (if b then m else m') P"
  "returns m P \<Longrightarrow> (\<And>x. returns (f x) P) \<Longrightarrow> returns (case v of None \<Rightarrow> m | Some x \<Rightarrow> f x) P"
  "(\<And>x. returns (g x) P) \<Longrightarrow> (\<And>x. returns (h x) P) \<Longrightarrow> returns (case w of Inl x \<Rightarrow> g x | Inr x \<Rightarrow> h x) P"
  "(\<And>x y. returns (k x y) P) \<Longrightarrow> returns (case p of (x, y) \<Rightarrow> k x y) P"
  by (auto split: option.splits sum.splits prod.splits)

lemma returns_get_cached:
  "returns (get_cached env ref) (\<lambda>r. \<forall>ob. r = Inr ob \<longrightarrow> objs (cached env) ref = Some ob)"
  by (auto simp: returns_def get_cached_def run_simps found_def split: option.splits)

text \<open>The daemon set is applied only if the cache shows it, or its service account with pull secrets.\<close>

definition daemonset_ready :: "operator_env \<Rightarrow> bool" where
  "daemonset_ready env =
     (objs (cached env) (KDaemonSet, EnoexecDaemonSet) \<noteq> None \<or>
      (case objs (cached env) (KServiceAccount, EnoexecDaemonSet) of
         None \<Rightarrow> False | Some sa \<Rightarrow> so_ImagePullSecrets sa \<noteq> []))"

lemma returns_sa_ready:
  "returns (isEnoexecDaemonSetSAReady env) (\<lambda>r. r = Inr True \<longrightarrow> daemonset_ready env)"
  unfolding isEnoexecDaemonSetSAReady_def
  by (rule returns_bind_with[OF returns_get_cached]) (auto simp: daemonset_ready_def split: sum.splits)

lemma returns_decide:
  "returns (decide_daemonset env) (\<lambda>r. \<forall>d. r = Inr (True, d) \<longrightarrow> daemonset_ready env)"
  unfolding decide_daemonset_def
proof (rule returns_bind_with[OF returns_get_cached])
  fix r :: "stored_object result"
  assume "\<forall>ob. r = Inr ob \<longrightarrow> objs (cached env) (KDaemonSet, EnoexecDaemonSet) = Some ob"
  then show "returns (case r of
        Inl e \<Rightarrow> if \<not> IsNotFound e then State_Monad.return (Inl e)
                 else do { ready \<leftarrow> isEnoexecDaemonSetSAReady env;
                           State_Monad.return (case ready of Inl e' \<Rightarrow> Inl e' | Inr b \<Rightarrow> Inr (b, \<not> b)) }
      | Inr _ \<Rightarrow> State_Monad.return (Inr (True, False)))
    (\<lambda>r. \<forall>d. r = Inr (True, d) \<longrightarrow> daemonset_ready env)"
    by (cases r) (auto simp: daemonset_ready_def split: sum.splits intro!: returns_bind_with[OF returns_sa_ready])
qed

lemma returns_daemonset:
  "returns (daemonset_part env c)
     (\<lambda>r. \<forall>obs d. r = Inr (obs, d) \<longrightarrow> obs = [] \<or> obs = [daemonset_object env c] \<and> daemonset_ready env)"
  unfolding daemonset_part_def
  by (rule returns_cases, simp, rule returns_bind_with[OF returns_decide])
    (auto intro!: returns_bind split: sum.splits)

lemma returns_webhook:
  "returns (webhook_part env c)
     (\<lambda>obs. obs = [] \<or>
        CanDeployMutatingWebhook (cppc_Status c) \<and>
        obs = [OMutatingWebhookConfiguration (buildMutatingWebhookConfiguration (runtime_of env) c)])"
  unfolding webhook_part_def by (auto intro!: returns_cases returns_bind)

definition same_flags :: "ClusterPodPlacementConfig \<Rightarrow> ClusterPodPlacementConfig \<Rightarrow> bool" where
  "same_flags c c' = (CanDeployMutatingWebhook (cppc_Status c') = CanDeployMutatingWebhook (cppc_Status c))"

lemma returns_update_cppc: "returns (update_cppc env b c) (\<lambda>r. \<forall>c'. r = Inr c' \<longrightarrow> (\<exists>st. c' = refreshed st c))"
  by (auto simp: returns_def update_cppc_def run_simps split: option.splits)

lemma same_flags_refreshed [simp]: "same_flags c (refreshed st (drop_finalizer f c))"
  by (simp add: same_flags_def refreshed_def drop_finalizer_def CanDeployMutatingWebhook_def)

lemma same_flags_refl [simp]: "same_flags c c" by (simp add: same_flags_def)

lemma returns_enoexec_finish: "returns (enoexec_finish env c) (\<lambda>(e, c'). e = None \<longrightarrow> same_flags c c')"
  unfolding enoexec_finish_def
  by (auto intro!: returns_cases returns_bind returns_bind_with[OF returns_update_cppc] split: option.splits sum.splits)

lemma returns_enoexec_delete: "returns (handleEnoexecDelete env c) (\<lambda>(e, c'). e = None \<longrightarrow> same_flags c c')"
  unfolding handleEnoexecDelete_def
  by (auto intro!: returns_cases returns_bind returns_enoexec_finish split: option.splits sum.splits)

lemma returns_enoexec_part:
  "returns (enoexec_part env c) (\<lambda>r. \<forall>obs c'. r = Inr (obs, c') \<longrightarrow>
     same_flags c c' \<and> (obs = [] \<or> (\<exists>m. obs = buildENoExecEventObjects (runtime_of env) m c)))"
  unfolding enoexec_part_def
  by (rule returns_cases, (auto intro!: returns_bind)[1], rule returns_bind_with[OF returns_enoexec_delete])
    (auto split: option.splits)

lemma returns_built:
  "returns (buildPodPlacementConfigObjects env c) (\<lambda>r. \<forall>obs. r = Inr obs \<longrightarrow>
     (\<exists>scc se. obs = pod_placement_objects (runtime_of env) c scc se))"
  unfolding buildPodPlacementConfigObjects_def
  by (auto intro!: returns_cases returns_bind split: sum.splits)

section \<open>A whole pass\<close>

abbreviation "mwc_ref \<equiv> (KMutatingWebhookConfiguration, PodMutatingWebhookConfigurationName)"
abbreviation "daemonset_ref \<equiv> (KDaemonSet, EnoexecDaemonSet)"
abbreviation "webhook_service_ref \<equiv> (KService, PodPlacementWebhookName)"

lemma built_kinds:
  "ob \<in> set (pod_placement_objects rt c scc se) \<Longrightarrow> obj_kind ob \<notin> {KMutatingWebhookConfiguration, KDaemonSet}"
  "ob \<in> set (buildENoExecEventObjects rt m c) \<Longrightarrow> obj_kind ob \<notin> {KMutatingWebhookConfiguration, KDaemonSet}"
  "ob \<in> set (monitoring_objects rt) \<Longrightarrow> obj_kind ob \<notin> {KMutatingWebhookConfiguration, KDaemonSet}"
  by (auto simp: pod_placement_objects_def buildENoExecEventObjects_def monitoring_objects_def split: if_splits)

lemma special_refs [simp]:
  "obj_ref (daemonset_object env c) = daemonset_ref"
  "obj_ref (OMutatingWebhookConfiguration (buildMutatingWebhookConfiguration rt c)) = mwc_ref"
  by (simp_all add: daemonset_object_def obj_ref_def buildDaemonSetENoExecEvent_def
      buildMutatingWebhookConfiguration_def namespaced_meta_def cluster_meta_def)

lemma fst_obj_ref: "fst (obj_ref ob) = obj_kind ob"
  by (simp add: obj_ref_def)

context operator_frame
begin

lemma seq_with:
  assumes "framed R m" and "returns m P" and "\<And>a. P a \<Longrightarrow> framed R (f a)"
  shows "framed R (State_Monad.bind m f)"
  unfolding framed_def
proof
  fix s
  obtain a s' where m: "run_state m s = (a, s')" by fastforce
  have "R s s'" using framedD[OF assms(1) m] .
  moreover have "P a" using assms(2) m by (metis fst_conv returns_def)
  then have "R s' (snd (run_state (f a) s'))" using assms(3) by (simp add: framed_def)
  ultimately show "R s (snd (run_state (State_Monad.bind m f) s))" using trans by (simp add: run_bind m)
qed

lemma enoexec_acting:
  "ok config (drop_finalizer ExecFormatErrorFinalizerName config) \<Longrightarrow> framed R (enoexec_part env config)"
  unfolding enoexec_part_def by (intro parts enoexec_deleting)

lemma reconciling:
  assumes publish: "\<And>c. publish c"
    and ok: "ok config (drop_finalizer ExecFormatErrorFinalizerName config)"
    and free: "\<And>ref. fst ref \<notin> {KMutatingWebhookConfiguration, KDaemonSet} \<Longrightarrow> allowed ref"
    and webhook: "CanDeployMutatingWebhook (cppc_Status config) \<Longrightarrow> allowed mwc_ref"
    and daemonset: "daemonset_ready env \<Longrightarrow> allowed daemonset_ref"
  shows "framed R (operator_reconcile env config)"
proof -
  note free' = free[OF built_kinds(1)[folded fst_obj_ref]] free[OF built_kinds(2)[folded fst_obj_ref]]
    free[OF built_kinds(3)[folded fst_obj_ref]]
  have last: "framed R (apply_and_report env c (base @ execObjects @ w @ d @ (if m then monitoring_objects (runtime_of env) else [])) deferred)"
    if "\<exists>scc se. base = pod_placement_objects (runtime_of env) config scc se"
      "execObjects = [] \<or> (\<exists>m. execObjects = buildENoExecEventObjects (runtime_of env) m config)"
      "w = [] \<or> CanDeployMutatingWebhook (cppc_Status config) \<and>
         w = [OMutatingWebhookConfiguration (buildMutatingWebhookConfiguration (runtime_of env) c)]"
      "d = [] \<or> d = [daemonset_object env c] \<and> daemonset_ready env"
    for c base execObjects w d m deferred
    by (rule finishing_pass[OF publish]) (use that free' webhook daemonset in auto)
  show ?thesis
    unfolding operator_reconcile_def
    apply (rule seq[OF modifying[OF bookkeeping(3)]], rule seq[OF labelling], rule branch)
     apply (intro seq reporting publish ret)
    apply (rule seq_with[OF building[OF publish] returns_built], rule alt, rule ret)
    apply (rule seq_with[OF enoexec_acting[OF ok] returns_enoexec_part], rule alt, rule ret, rule pair)
    apply (rule seq_with[OF webhook_deciding returns_webhook])
    apply (rule seq_with[OF daemonset_deciding[OF publish] returns_daemonset], rule alt, rule ret, rule pair)
    apply (rule seq[OF available], rule last)
    apply (auto simp: same_flags_def)
    done
qed

end

end
