(* ===== verification/Operator_Manifests.thy ===== *)
theory Operator_Manifests
  imports Operator_Objects
begin

text \<open>
  What makes the deployed objects fit together: bindings point to roles and service accounts that are
  deployed with them, services select the pods of the deployment of the same name, mounts name
  declared volumes, and the roles grant nothing the operator does not hold itself (the API server
  refuses a role that does). The permissions of the operator are those of \<^verbatim>\<open>config/rbac\<close>.
\<close>

section \<open>Permissions of the operator\<close>

definition manager_role :: "policy_rule list" where
  "manager_role =
     [rule [] [''configmaps'', ''secrets''] [GET, LIST, WATCH],
      rule [] [''events''] [CREATE, PATCH],
      rule [] [''namespaces'', ''pods/status''] [GET, UPDATE],
      rule [] [''nodes''] [GET, LIST],
      rule [] [''pods''] [GET, LIST, PATCH, UPDATE, WATCH],
      rule [] [''serviceaccounts'', ''services''] [CREATE, DELETE, GET, LIST, PATCH, UPDATE, WATCH],
      rule [] [''serviceaccounts/finalizers''] [UPDATE],
      rule [] [''serviceaccounts/status'', ''services/status''] [GET],
      rule ''admissionregistration.k8s.io'' [''mutatingwebhookconfigurations''] [CREATE, LIST, WATCH],
      \<lparr>APIGroups = [''admissionregistration.k8s.io''], Resources = [''mutatingwebhookconfigurations''],
       ResourceNames = [''pod-placement-mutating-webhook-configuration''], Verbs = [DELETE, GET, PATCH, UPDATE]\<rparr>,
      rule ''admissionregistration.k8s.io'' [''mutatingwebhookconfigurations/status''] [GET],
      rule ''apps'' [''daemonsets'', ''deployments''] [CREATE, DELETE, GET, LIST, PATCH, UPDATE, WATCH],
      rule ''apps'' [''deployments/finalizers''] [UPDATE],
      rule ''apps'' [''deployments/status''] [GET],
      rule ''monitoring.coreos.com'' [''prometheusrules'', ''servicemonitors''] [CREATE, DELETE, GET, LIST, PATCH, UPDATE, WATCH],
      rule ''multiarch.openshift.io'' [''clusterpodplacementconfigs'', ''enoexecevents'', ''podplacementconfigs'']
        [CREATE, DELETE, GET, LIST, PATCH, UPDATE, WATCH],
      rule ''multiarch.openshift.io''
        [''clusterpodplacementconfigs/finalizers'', ''enoexecevents/finalizers'', ''podplacementconfigs/finalizers''] [UPDATE],
      rule ''multiarch.openshift.io''
        [''clusterpodplacementconfigs/status'', ''enoexecevents/status'', ''podplacementconfigs/status''] [GET, PATCH, UPDATE],
      \<lparr>APIGroups = [''rbac.authorization.k8s.io''], Resources = [''clusterrolebindings'', ''clusterroles''],
       ResourceNames = [''enoexec-event-daemon'', ''enoexec-event-handler-controller'', ''pod-placement-controller'',
                        ''pod-placement-web-hook''],
       Verbs = [DELETE, GET, PATCH, UPDATE]\<rparr>,
      rule ''rbac.authorization.k8s.io'' [''clusterrolebindings'', ''clusterroles'', ''rolebindings'', ''roles'']
        [CREATE, LIST, WATCH],
      rule ''rbac.authorization.k8s.io''
        [''clusterrolebindings/finalizers'', ''clusterroles/finalizers'', ''rolebindings/finalizers'', ''roles/finalizers''] [UPDATE],
      rule ''rbac.authorization.k8s.io''
        [''clusterrolebindings/status'', ''clusterroles/status'', ''rolebindings/status'', ''roles/status''] [GET],
      \<lparr>APIGroups = [''rbac.authorization.k8s.io''], Resources = [''rolebindings'', ''roles''],
       ResourceNames = [''enoexec-event-daemon'', ''enoexec-event-handler-controller'', ''pod-placement-controller''],
       Verbs = [DELETE, GET, PATCH, UPDATE]\<rparr>,
      rule ''security.openshift.io'' [''securitycontextconstraints''] [USE]]"

definition metrics_auth_role :: "policy_rule list" where
  "metrics_auth_role =
     [rule ''authentication.k8s.io'' [''tokenreviews''] [CREATE],
      rule ''authorization.k8s.io'' [''subjectaccessreviews''] [CREATE]]"

text \<open>This one is a namespaced role: it counts for roles of the operator's namespace only.\<close>

definition leader_election_role :: "policy_rule list" where
  "leader_election_role =
     [rule [] [''configmaps''] [GET, LIST, WATCH, CREATE, UPDATE, PATCH, DELETE],
      rule ''coordination.k8s.io'' [''leases''] [GET, LIST, WATCH, CREATE, UPDATE, PATCH, DELETE],
      rule [] [''events''] [CREATE, PATCH]]"

text \<open>A permission without resource names covers all names.\<close>

definition permits :: "policy_rule list \<Rightarrow> string \<Rightarrow> string \<Rightarrow> string option \<Rightarrow> string \<Rightarrow> bool" where
  "permits rules grp res name verb =
     list_ex (\<lambda>r. grp \<in> set (APIGroups r) \<and> res \<in> set (Resources r) \<and> verb \<in> set (Verbs r) \<and>
       (ResourceNames r = [] \<or> (case name of None \<Rightarrow> False | Some n \<Rightarrow> n \<in> set (ResourceNames r)))) rules"

definition covered :: "policy_rule list \<Rightarrow> policy_rule \<Rightarrow> bool" where
  "covered owned r =
     list_all (\<lambda>g. list_all (\<lambda>res. list_all (\<lambda>v.
       if ResourceNames r = [] then permits owned g res None v
       else list_all (\<lambda>n. permits owned g res (Some n) v) (ResourceNames r)) (Verbs r)) (Resources r)) (APIGroups r)"

section \<open>Fitting together\<close>

definition full_manifest :: "runtime \<Rightarrow> ClusterPodPlacementConfig \<Rightarrow> string \<Rightarrow> string option \<Rightarrow> k8s_object list" where
  "full_manifest rt cppc scc seLinux =
     pod_placement_objects rt cppc scc seLinux @ buildENoExecEventObjects rt True cppc @
     [OMutatingWebhookConfiguration (buildMutatingWebhookConfiguration rt cppc),
      ODaemonSet (buildDaemonSetENoExecEvent rt EnoexecDaemonSet EnoexecDaemonSet (ToZapLevelInt (LogVerbosity cppc)) [])] @
     monitoring_objects rt"

definition subject_ok :: "(kind \<times> string) list \<Rightarrow> string \<Rightarrow> bool \<Rightarrow> subject \<Rightarrow> bool" where
  "subject_ok refs ns namespaced s =
     (sub_Kind s = serviceAccountKind \<and> (KServiceAccount, sub_Name s) \<in> set refs \<and>
      (sub_Namespace s = ns \<or> (namespaced \<and> sub_Namespace s = [])))"

definition template_ok :: "(kind \<times> string) list \<Rightarrow> pod_template \<Rightarrow> bool" where
  "template_ok refs t =
     ((KServiceAccount, ServiceAccountName t) \<in> set refs \<and>
      distinct (map vol_Name (Volumes t)) \<and>
      list_all (\<lambda>c. list_all (\<lambda>m. mount_Name m \<in> set (map vol_Name (Volumes t))) (VolumeMounts c)) (tpl_Containers t))"

primrec object_ok :: "(kind \<times> string) list \<Rightarrow> string \<Rightarrow> k8s_object \<Rightarrow> bool" where
  "object_ok refs ns (OService s) = (meta_Namespace (svc_meta s) = ns \<and> (KDeployment, meta_Name (svc_meta s)) \<in> set refs)"
| "object_ok refs ns (ODeployment d) =
     (meta_Namespace (dep_meta d) = ns \<and> dep_Selector d = tpl_Labels (dep_Template d) \<and> template_ok refs (dep_Template d))"
| "object_ok refs ns (ODaemonSet d) =
     (meta_Namespace (ds_meta d) = ns \<and> ds_Selector d = tpl_Labels (ds_Template d) \<and> template_ok refs (ds_Template d))"
| "object_ok refs ns (OMutatingWebhookConfiguration m) =
     list_all (\<lambda>w. (KService, mw_ServiceName w) \<in> set refs \<and> mw_ServiceNamespace w = ns) (mwc_Webhooks m)"
| "object_ok refs ns (ORole r) = (meta_Namespace (role_meta r) = ns)"
| "object_ok refs ns (ORoleBinding b) =
     (meta_Namespace (rb_meta b) = ns \<and> ref_Kind (rb_RoleRef b) = roleKind \<and>
      (KRole, ref_Name (rb_RoleRef b)) \<in> set refs \<and> list_all (subject_ok refs ns True) (rb_Subjects b))"
| "object_ok refs ns (OServiceAccount a) = (meta_Namespace (sa_meta a) = ns)"
| "object_ok refs ns (OClusterRole r) = True"
| "object_ok refs ns (OClusterRoleBinding b) =
     (ref_Kind (rb_RoleRef b) = clusterRoleKind \<and> (KClusterRole, ref_Name (rb_RoleRef b)) \<in> set refs \<and>
      list_all (subject_ok refs ns False) (rb_Subjects b))"
| "object_ok refs ns (OServiceMonitor m) =
     (meta_Namespace (sm_meta m) = ns \<and> (KService, meta_Name (sm_meta m)) \<in> set refs \<and> sm_MatchNames m = [ns])"
| "object_ok refs ns (OPrometheusRule p) = (meta_Namespace (pr_meta p) = ns)"

section \<open>Facts\<close>

lemmas name_defs =
  PodPlacementControllerName_def PodPlacementWebhookName_def EnoexecControllerName_def EnoexecDaemonSet_def
  PodMutatingWebhookConfigurationName_def OperatorName_def

lemma name_neqs [simp]:
  "PodPlacementControllerName \<noteq> PodPlacementWebhookName" "PodPlacementWebhookName \<noteq> PodPlacementControllerName"
  "PodPlacementControllerName \<noteq> EnoexecControllerName" "EnoexecControllerName \<noteq> PodPlacementControllerName"
  "PodPlacementControllerName \<noteq> EnoexecDaemonSet" "EnoexecDaemonSet \<noteq> PodPlacementControllerName"
  "PodPlacementWebhookName \<noteq> EnoexecControllerName" "EnoexecControllerName \<noteq> PodPlacementWebhookName"
  "PodPlacementWebhookName \<noteq> EnoexecDaemonSet" "EnoexecDaemonSet \<noteq> PodPlacementWebhookName"
  "EnoexecControllerName \<noteq> EnoexecDaemonSet" "EnoexecDaemonSet \<noteq> EnoexecControllerName"
  by (simp_all add: name_defs)

lemma rule_name_neqs [simp]:
  "ToLower ExecFormatErrorMonitorName \<noteq> OperatorName" "OperatorName \<noteq> ToLower ExecFormatErrorMonitorName"
  "ToLower ExecFormatErrorsDetected \<noteq> OperatorName" "OperatorName \<noteq> ToLower ExecFormatErrorsDetected"
  "ToLower ExecFormatErrorMonitorName \<noteq> ToLower ExecFormatErrorsDetected"
  "ToLower ExecFormatErrorsDetected \<noteq> ToLower ExecFormatErrorMonitorName"
  by code_simp+

lemma meta_simps [simp]:
  "meta_Name (namespaced_meta rt name ls) = name" "meta_Namespace (namespaced_meta rt name ls) = rt_Namespace rt"
  "meta_Name (cluster_meta name ls) = name"
  by (simp_all add: namespaced_meta_def cluster_meta_def)

lemma deployment_simps [simp]:
  "dep_meta (add_volumes vs ms d) = dep_meta d"
  "dep_Selector (add_volumes vs ms d) = dep_Selector d"
  "tpl_Labels (dep_Template (add_volumes vs ms d)) = tpl_Labels (dep_Template d)"
  "ServiceAccountName (dep_Template (add_volumes vs ms d)) = ServiceAccountName (dep_Template d)"
  "Volumes (dep_Template (add_volumes vs ms d)) = Volumes (dep_Template d) @ vs"
  "tpl_NodeSelectorTerms (dep_Template (add_volumes vs ms d)) = tpl_NodeSelectorTerms (dep_Template d)"
  "tpl_Containers (dep_Template (add_volumes vs ms d)) =
     map_first (\<lambda>c. c\<lparr>VolumeMounts := VolumeMounts c @ ms\<rparr>) (tpl_Containers (dep_Template d))"
  by (simp_all add: add_volumes_def)

lemmas builder_defs =
  buildService_def buildClusterRole_def buildClusterRoleBinding_def buildRoleBinding_def buildServiceAccount_def
  buildServiceMonitor_def buildMutatingWebhookConfiguration_def buildWebhookDeployment_def
  buildControllerDeployment_def buildClusterRoleWebhook_def buildClusterRoleController_def buildRoleController_def
  buildCPPCAvailabilityAlertRule_def buildClusterRoleENoExecEventsController_def buildRoleENoExecEventController_def
  buildClusterRoleENoExecEventsDaemonSet_def buildRoleENoExecEventDaemonSet_def buildDaemonSetENoExecEvent_def
  buildDeploymentENoExecEventHandler_def buildExecFormatErrorAvailabilityAlertRule_def
  buildExecFormatErrorsDetectedAlertRule_def buildDeployment_def

lemma full_refs:
  "map obj_ref (full_manifest rt cppc scc seLinux) =
     [(KService, PodPlacementControllerName), (KService, PodPlacementWebhookName),
      (KClusterRole, PodPlacementControllerName), (KClusterRole, PodPlacementWebhookName),
      (KRole, PodPlacementControllerName),
      (KServiceAccount, PodPlacementWebhookName), (KServiceAccount, PodPlacementControllerName),
      (KClusterRoleBinding, PodPlacementControllerName), (KRoleBinding, PodPlacementControllerName),
      (KClusterRoleBinding, PodPlacementWebhookName),
      (KDeployment, PodPlacementControllerName), (KDeployment, PodPlacementWebhookName),
      (KService, EnoexecControllerName), (KServiceAccount, EnoexecControllerName), (KServiceAccount, EnoexecDaemonSet),
      (KClusterRole, EnoexecControllerName), (KRole, EnoexecControllerName),
      (KClusterRole, EnoexecDaemonSet), (KRole, EnoexecDaemonSet),
      (KClusterRoleBinding, EnoexecControllerName), (KRoleBinding, EnoexecControllerName),
      (KClusterRoleBinding, EnoexecDaemonSet), (KRoleBinding, EnoexecDaemonSet),
      (KDeployment, EnoexecControllerName), (KServiceMonitor, EnoexecControllerName),
      (KPrometheusRule, ToLower ExecFormatErrorMonitorName), (KPrometheusRule, ToLower ExecFormatErrorsDetected),
      (KMutatingWebhookConfiguration, PodMutatingWebhookConfigurationName), (KDaemonSet, EnoexecDaemonSet),
      (KServiceMonitor, PodPlacementControllerName), (KServiceMonitor, PodPlacementWebhookName),
      (KPrometheusRule, OperatorName)]"
  by (simp add: full_manifest_def pod_placement_objects_def buildENoExecEventObjects_def monitoring_objects_def
      obj_ref_def builder_defs Let_def)

lemma map_first_Cons [simp]: "map_first f (x # xs) = f x # xs"
  by (simp add: map_first_def)

lemma template_simps:
  "tpl_Labels (manager_template rt v name sa args) = controller_labels name"
  "ServiceAccountName (manager_template rt v name sa args) = sa"
  "map vol_Name (Volumes (manager_template rt v name sa args)) = [''trusted-ca'']"
  "tpl_Containers (manager_template rt v name sa args) = [manager_container rt v name args]"
  "VolumeMounts (manager_container rt v name args) =
     [\<lparr>mount_Name = ''trusted-ca'', MountPath = ''/etc/pki/ca-trust/extracted/pem'', mount_ReadOnly = True\<rparr>]"
  by (simp_all add: manager_template_def manager_container_def)

lemma mounts_ok:
  "list_all (\<lambda>m. mount_Name m \<in> V) ms \<longleftrightarrow> list_all (\<lambda>n. n \<in> V) (map mount_Name ms)"
  by (simp add: list_all_iff)

text \<open>A deployment of the shared builder fits when its account is deployed and its extra mounts are declared.\<close>

lemma deployment_template_ok:
  assumes "(KServiceAccount, sa) \<in> set refs" "distinct (''trusted-ca'' # map vol_Name vs)"
    and "set (map mount_Name ms) \<subseteq> set (map vol_Name vs)"
  shows "template_ok refs (dep_Template (add_volumes vs ms (buildDeployment rt v name n sa fin args)))"
  using assms unfolding template_ok_def mounts_ok
  by (auto simp: buildDeployment_def template_simps list_all_iff)

lemma controller_template_ok:
  assumes "(KServiceAccount, PodPlacementControllerName) \<in> set refs"
  shows "template_ok refs (dep_Template (buildControllerDeployment rt cppc scc seLinux))"
proof -
  have "template_ok refs (dep_Template (add_volumes controller_volumes controller_mounts
      (buildDeployment rt v PodPlacementControllerName 2 PodPlacementControllerName fin args)))" for v fin args
    by (rule deployment_template_ok[OF assms])
      (simp_all add: controller_volumes_def controller_mounts_def secret_volume_def tls_mount_def)
  then show ?thesis
    by (simp add: buildControllerDeployment_def Let_def template_ok_def buildDeployment_def template_simps
        controller_container_def)
qed

lemma webhook_template_ok:
  "(KServiceAccount, PodPlacementWebhookName) \<in> set refs \<Longrightarrow>
     template_ok refs (dep_Template (buildWebhookDeployment rt cppc))"
  unfolding buildWebhookDeployment_def
  by (rule deployment_template_ok) (simp_all add: secret_volume_def tls_mount_def)

lemma handler_template_ok:
  "(KServiceAccount, EnoexecControllerName) \<in> set refs \<Longrightarrow>
     template_ok refs (dep_Template (buildDeploymentENoExecEventHandler rt v))"
  unfolding buildDeploymentENoExecEventHandler_def
  by (rule deployment_template_ok) (simp_all add: secret_volume_def tls_mount_def)

lemma daemon_template_ok:
  "(KServiceAccount, sa) \<in> set refs \<Longrightarrow> template_ok refs (ds_Template (buildDaemonSetENoExecEvent rt sa name v args))"
  by (simp add: buildDaemonSetENoExecEvent_def template_ok_def daemon_volumes_def daemon_container_def)

lemma deployments_ok:
  assumes "(KServiceAccount, PodPlacementControllerName) \<in> set refs" "(KServiceAccount, PodPlacementWebhookName) \<in> set refs"
    "(KServiceAccount, EnoexecControllerName) \<in> set refs"
  shows "object_ok refs (rt_Namespace rt) (ODeployment (buildControllerDeployment rt cppc scc seLinux))"
    "object_ok refs (rt_Namespace rt) (ODeployment (buildWebhookDeployment rt cppc))"
    "object_ok refs (rt_Namespace rt) (ODeployment (buildDeploymentENoExecEventHandler rt v))"
  using controller_template_ok[OF assms(1)] webhook_template_ok[OF assms(2)] handler_template_ok[OF assms(3)]
  by (simp_all add: buildControllerDeployment_def buildWebhookDeployment_def buildDeploymentENoExecEventHandler_def
      buildDeployment_def template_simps Let_def)

lemma daemonset_ok:
  "(KServiceAccount, EnoexecDaemonSet) \<in> set refs \<Longrightarrow>
     object_ok refs (rt_Namespace rt) (ODaemonSet (buildDaemonSetENoExecEvent rt EnoexecDaemonSet name v args))"
  using daemon_template_ok[of EnoexecDaemonSet refs rt name v args] by (simp add: buildDaemonSetENoExecEvent_def)

lemma shared_builders_ok:
  "(KDeployment, n) \<in> set refs \<Longrightarrow> object_ok refs (rt_Namespace rt) (OService (buildService rt n))"
  "object_ok refs (rt_Namespace rt) (OServiceAccount (buildServiceAccount rt n))"
  "(KService, n) \<in> set refs \<Longrightarrow> object_ok refs (rt_Namespace rt) (OServiceMonitor (buildServiceMonitor rt n))"
  "(KClusterRole, n) \<in> set refs \<Longrightarrow> (KServiceAccount, n) \<in> set refs \<Longrightarrow>
     object_ok refs (rt_Namespace rt) (OClusterRoleBinding (buildClusterRoleBinding n (role_ref_to clusterRoleKind n)
       [account (rt_Namespace rt) n]))"
  "(KRole, n) \<in> set refs \<Longrightarrow> (KServiceAccount, n) \<in> set refs \<Longrightarrow> ns \<in> {[], rt_Namespace rt} \<Longrightarrow>
     object_ok refs (rt_Namespace rt) (ORoleBinding (buildRoleBinding rt n (role_ref_to roleKind n) [account ns n]))"
  by (auto simp: buildService_def buildServiceAccount_def buildServiceMonitor_def buildClusterRoleBinding_def
      buildRoleBinding_def role_ref_to_def account_def subject_ok_def)

lemma manifest_ok:
  assumes "\<forall>n \<in> {PodPlacementControllerName, PodPlacementWebhookName, EnoexecControllerName}.
      (KServiceAccount, n) \<in> set refs \<and> (KDeployment, n) \<in> set refs \<and> (KService, n) \<in> set refs"
    and "(KServiceAccount, EnoexecDaemonSet) \<in> set refs"
    and "\<forall>n \<in> {PodPlacementControllerName, PodPlacementWebhookName, EnoexecControllerName, EnoexecDaemonSet}. (KClusterRole, n) \<in> set refs"
    and "\<forall>n \<in> {PodPlacementControllerName, EnoexecControllerName, EnoexecDaemonSet}. (KRole, n) \<in> set refs"
  shows "list_all (object_ok refs (rt_Namespace rt)) (full_manifest rt cppc scc seLinux)"
proof -
  have other: "object_ok refs (rt_Namespace rt) (ORole (buildRoleController rt))"
    "object_ok refs (rt_Namespace rt) (ORole (buildRoleENoExecEventController rt))"
    "object_ok refs (rt_Namespace rt) (ORole (buildRoleENoExecEventDaemonSet rt))"
    "object_ok refs (rt_Namespace rt) (OPrometheusRule (buildCPPCAvailabilityAlertRule rt))"
    "object_ok refs (rt_Namespace rt) (OPrometheusRule (buildExecFormatErrorAvailabilityAlertRule rt))"
    "object_ok refs (rt_Namespace rt) (OPrometheusRule (buildExecFormatErrorsDetectedAlertRule rt))"
    "object_ok refs (rt_Namespace rt) (OMutatingWebhookConfiguration (buildMutatingWebhookConfiguration rt cppc))"
    "object_ok refs (rt_Namespace rt) (OClusterRole r)" for r
    using assms(1) by (simp_all add: buildRoleController_def buildRoleENoExecEventController_def
        buildRoleENoExecEventDaemonSet_def buildCPPCAvailabilityAlertRule_def buildExecFormatErrorAvailabilityAlertRule_def
        buildExecFormatErrorsDetectedAlertRule_def buildMutatingWebhookConfiguration_def)
  show ?thesis
    unfolding full_manifest_def pod_placement_objects_def buildENoExecEventObjects_def monitoring_objects_def
    using assms by (simp add: deployments_ok daemonset_ok shared_builders_ok other del: object_ok.simps)
qed

section \<open>Properties\<close>

text \<open>C25: The deployed objects fit together, for every environment and configuration: no two have the same kind and
  name, every binding names a deployed role and deployed service accounts, every workload runs under a
  deployed account and mounts declared volumes only, every service and monitor has its deployment and
  service, and the mutating webhook points to the deployed webhook service.\<close>

theorem manifest_is_closed:
  "(let objs = full_manifest rt cppc scc seLinux; refs = map obj_ref objs in
     distinct refs \<and> list_all (object_ok refs (rt_Namespace rt)) objs)"
proof -
  have "distinct (map obj_ref (full_manifest rt cppc scc seLinux))" unfolding full_refs by simp
  moreover have "list_all (object_ok (map obj_ref (full_manifest rt cppc scc seLinux)) (rt_Namespace rt))
      (full_manifest rt cppc scc seLinux)"
    by (rule manifest_ok) (simp_all add: full_refs del: set_map)
  ultimately show ?thesis by (simp add: Let_def)
qed

text \<open>C30: No privilege escalation through the operator: every permission of the cluster roles and of the namespaced roles
  it creates is one that the operator's own service account holds.\<close>

theorem no_escalation:
  "list_all (covered (manager_role @ metrics_auth_role))
     (concat (map role_Rules [buildClusterRoleController, buildClusterRoleWebhook,
        buildClusterRoleENoExecEventsController, buildClusterRoleENoExecEventsDaemonSet])) \<and>
   list_all (covered (manager_role @ metrics_auth_role @ leader_election_role))
     (concat (map role_Rules [buildRoleController rt, buildRoleENoExecEventController rt, buildRoleENoExecEventDaemonSet rt]))"
proof
  show "list_all (covered (manager_role @ metrics_auth_role))
     (concat (map role_Rules [buildClusterRoleController, buildClusterRoleWebhook,
        buildClusterRoleENoExecEventsController, buildClusterRoleENoExecEventsDaemonSet]))"
    by code_simp
  have rules: "concat (map role_Rules [buildRoleController rt, buildRoleENoExecEventController rt, buildRoleENoExecEventDaemonSet rt]) =
      concat (map role_Rules [buildRoleController r0, buildRoleENoExecEventController r0, buildRoleENoExecEventDaemonSet r0])"
    for r0 by (simp add: buildRoleController_def buildRoleENoExecEventController_def buildRoleENoExecEventDaemonSet_def)
  have "list_all (covered (manager_role @ metrics_auth_role @ leader_election_role))
     (concat (map role_Rules [buildRoleController (init_runtime Map.empty),
        buildRoleENoExecEventController (init_runtime Map.empty), buildRoleENoExecEventDaemonSet (init_runtime Map.empty)]))"
    by code_simp
  then show "list_all (covered (manager_role @ metrics_auth_role @ leader_election_role))
     (concat (map role_Rules [buildRoleController rt, buildRoleENoExecEventController rt, buildRoleENoExecEventDaemonSet rt]))"
    unfolding rules[of "init_runtime Map.empty"] .
qed

definition restricted :: "container_spec \<Rightarrow> bool" where
  "restricted c =
     (case SecurityContext c of
        None \<Rightarrow> False
      | Some sc \<Rightarrow> AllowPrivilegeEscalation sc = Some False \<and> Privileged sc = Some False \<and>
          RunAsNonRoot sc = Some True \<and> ReadOnlyRootFilesystem sc = Some True \<and> CapabilitiesDrop sc = [''ALL''])"

lemma manager_terms:
  "terms_match n (tpl_NodeSelectorTerms (manager_template rt v name sa args)) \<longleftrightarrow>
     (\<exists>a \<in> AllSupportedArchitecturesSet. arch_of n = Some a)"
  by (auto simp: manager_template_def terms_match_def term_matches_def requirement_holds_def arch_of_def
      mem_AllSupported split: option.splits)

text \<open>The containers of the three deployments run unprivileged: not as root, with a read-only root file system,
  without privilege escalation and without capabilities, whatever the configuration and the cluster version;
  and their pods can run on nodes of exactly the supported architectures.\<close>

theorem deployments_restricted:
  "list_all (\<lambda>d. list_all restricted (tpl_Containers (dep_Template d)) \<and>
       (\<forall>n. terms_match n (tpl_NodeSelectorTerms (dep_Template d)) = (\<exists>a \<in> AllSupportedArchitecturesSet. arch_of n = Some a)))
     [buildControllerDeployment rt cppc scc seLinux, buildWebhookDeployment rt cppc,
      buildDeploymentENoExecEventHandler rt v]"
  by (simp add: buildControllerDeployment_def buildWebhookDeployment_def buildDeploymentENoExecEventHandler_def
      buildDeployment_def template_simps manager_terms Let_def restricted_def manager_container_def
      controller_container_def split: option.splits)

end
