(* ===== verification/Operator_Props.thy ===== *)
theory Operator_Props
  imports Operator_Frames Operator_Manifests
begin

text \<open>
  The properties of the controller of the configuration: the order in which the operand is rolled out
  and torn down, what applying and deleting objects achieves under any pattern of failing calls, and
  what a deletion leaves behind.
\<close>

section \<open>Names\<close>

lemma finalizer_names:
  "PodPlacementFinalizerName \<noteq> ExecFormatErrorFinalizerName"
  "PodPlacementFinalizerName \<noteq> CPPCNoPPCObjectFinalizer"
  by (simp_all add: PodPlacementFinalizerName_def ExecFormatErrorFinalizerName_def CPPCNoPPCObjectFinalizer_def)

lemma webhook_names:
  "PodPlacementWebhookName \<noteq> PodPlacementControllerName"
  by (simp add: PodPlacementWebhookName_def PodPlacementControllerName_def)

section \<open>Absent objects stay absent\<close>

definition absent_kept :: "kind \<times> string \<Rightarrow> cluster \<Rightarrow> cluster \<Rightarrow> bool" where
  "absent_kept ref s s' = (objs s ref = None \<longrightarrow> objs s' ref = None)"

lemma absent_kept_calls:
  "framed (absent_kept r) (update_object env ref base ob)"
  "framed (absent_kept r) (delete_object env ref)"
  "obj_ref obj \<noteq> r \<Longrightarrow> framed (absent_kept r) (create_object env obj)"
  "framed (absent_kept r) (update_cppc env b c)"
  "framed (absent_kept r) (update_cppc_status env c)"
  by (auto simp: framed_def absent_kept_def update_object_def delete_object_def create_object_def put_object_def
      update_cppc_def update_cppc_status_def run_simps split: option.splits if_splits)

interpretation absent: operator_frame "absent_kept ref" "\<lambda>r. r \<noteq> ref" "\<lambda>_ _. True" "\<lambda>_. True" for ref
  by unfold_locales (auto simp: absent_kept_calls absent_kept_def)

section \<open>Finalizers that stay\<close>

definition carries :: "string \<Rightarrow> cluster \<Rightarrow> bool" where
  "carries f s = (case cppc_obj s of None \<Rightarrow> False | Some c \<Rightarrow> f \<in> set (cppc_Finalizers c))"

definition finalizer_kept :: "string \<Rightarrow> cluster \<Rightarrow> cluster \<Rightarrow> bool" where
  "finalizer_kept f s s' = (carries f s \<longrightarrow> carries f s')"

lemma same_version_sel:
  assumes "same_version b c"
  shows "cppc_Finalizers b = cppc_Finalizers c" "cppc_Deleting b = cppc_Deleting c"
proof -
  have "b\<lparr>cppc_Status := cppc_Status c\<rparr> = c" using assms by (simp add: same_version_def)
  from this[symmetric] show "cppc_Finalizers b = cppc_Finalizers c" "cppc_Deleting b = cppc_Deleting c"
    by (metis ClusterPodPlacementConfig.select_convs ClusterPodPlacementConfig.surjective ClusterPodPlacementConfig.update_convs)+
qed

lemma finalizer_kept_calls:
  "framed (finalizer_kept f) (update_object env ref base ob)"
  "framed (finalizer_kept f) (delete_object env ref)"
  "framed (finalizer_kept f) (create_object env obj)"
  "(f \<in> set (cppc_Finalizers b) \<longrightarrow> f \<in> set (cppc_Finalizers c)) \<Longrightarrow> framed (finalizer_kept f) (update_cppc env b c)"
  "framed (finalizer_kept f) (update_cppc_status env c)"
  by (auto simp: framed_def finalizer_kept_def carries_def update_object_def delete_object_def create_object_def
      put_object_def update_cppc_def update_cppc_status_def run_simps same_version_sel split: option.splits if_splits)

interpretation kept: operator_frame "finalizer_kept f" "\<lambda>_. True"
  "\<lambda>b c. f \<in> set (cppc_Finalizers b) \<longrightarrow> f \<in> set (cppc_Finalizers c)" "\<lambda>_. True" for f
  by unfold_locales (auto simp: finalizer_kept_calls finalizer_kept_def carries_def)

section \<open>Pods are only read\<close>

definition same_pods :: "cluster \<Rightarrow> cluster \<Rightarrow> bool" where
  "same_pods s s' = (pending_pods s' = pending_pods s)"

lemma same_pods_calls:
  "framed same_pods (update_object env ref base ob)" "framed same_pods (delete_object env ref)"
  "framed same_pods (create_object env obj)" "framed same_pods (update_cppc env b c)"
  "framed same_pods (update_cppc_status env c)"
  by (auto simp: framed_def same_pods_def update_object_def delete_object_def create_object_def put_object_def
      update_cppc_def update_cppc_status_def run_simps split: option.splits if_splits)

interpretation pods: operator_frame same_pods "\<lambda>_. True" "\<lambda>_ _. True" "\<lambda>_. True"
  by unfold_locales (auto simp: same_pods_calls same_pods_def)

section \<open>Objects left alone\<close>

definition same_obj :: "kind \<times> string \<Rightarrow> cluster \<Rightarrow> cluster \<Rightarrow> bool" where
  "same_obj ref s s' = (objs s' ref = objs s ref)"

interpretation same: frame "same_obj ref" for ref
  by unfold_locales (auto simp: same_obj_def)

lemma same_obj_calls:
  "r \<noteq> ref \<Longrightarrow> framed (same_obj r) (update_object env ref base ob)"
  "r \<noteq> ref \<Longrightarrow> framed (same_obj r) (delete_object env ref)"
  "framed (same_obj r) (update_cppc env b c)"
  "framed (same_obj r) (update_cppc_status env c)"
  by (auto simp: framed_def same_obj_def update_object_def delete_object_def put_object_def
      update_cppc_def update_cppc_status_def run_simps split: option.splits if_splits)

lemma same_obj_available: "framed (same_obj r) (IsResourceAvailable env)"
  by (simp add: framed_def same_obj_def IsResourceAvailable_def run_simps split: option.splits)

lemma same_obj_deleting: "r \<notin> set refs \<Longrightarrow> framed (same_obj r) (DeleteResources env refs)"
  unfolding DeleteResources_def
  by (induction refs) (simp_all add: DeleteResource_def, (intro same.constructs same_obj_calls; simp)+)

lemma same_obj_releasing: "r \<noteq> ref \<Longrightarrow> framed (same_obj r) (release_object env ref f ob)"
  unfolding release_object_def by (intro same.constructs same_obj_calls)

lemma same_obj_events: "framed (same_obj r) (deleteErroredENoExecEvents env evs)"
proof (induction evs)
  case (Cons ev evs)
  have "framed (same_obj r) (delete_event env ev)"
    by (auto simp: framed_def same_obj_def delete_event_def run_simps split: option.splits)
  then show ?case using Cons unfolding deleteErroredENoExecEvents.simps by (intro same.constructs)
qed (simp add: same.ret)

lemma same_obj_finish:
  assumes "r \<notin> set (controller_refs True)"
  shows "framed (same_obj r) (finish_delete env c)"
proof -
  have "r \<noteq> (KDeployment, PodPlacementControllerName)" "\<And>m. r \<notin> set (controller_refs m)"
    using assms by (auto simp: controller_refs_def)
  then show ?thesis unfolding finish_delete_def
    by (intro same.constructs same.getting same_obj_releasing same_obj_calls same_obj_available same_obj_deleting)
qed

section \<open>Teardown\<close>

text \<open>The API server answers that an object is missing only when it is.\<close>

definition truthful :: "operator_env \<Rightarrow> bool" where
  "truthful env = (\<forall>i e. fault env i = Some e \<longrightarrow> \<not> IsNotFound e)"

definition gone :: "kind \<times> string \<Rightarrow> cluster \<Rightarrow> bool" where
  "gone ref s = (case objs s ref of None \<Rightarrow> True | Some ob \<Rightarrow> so_Deleting ob)"

lemma gone_kept: "framed (\<lambda>s s'. gone ref s \<longrightarrow> gone ref s') (DeleteResource env ref')"
  by (auto simp: framed_def gone_def DeleteResource_def delete_object_def run_simps split: option.splits if_splits)

lemma DeleteResource_gone:
  assumes "truthful env"
  shows "hoare (\<lambda>_. True) (DeleteResource env ref) (\<lambda>e s. e = None \<longrightarrow> gone ref s)"
  using assms
  by (auto simp: hoare_def DeleteResource_def delete_object_def run_simps gone_def error_of_def IgnoreNotFound_def
      truthful_def IsNotFound_def split: option.splits if_splits)

lemma delete_each_gone_kept: "framed (\<lambda>s s'. gone ref s \<longrightarrow> gone ref s') (delete_each env refs)"
proof -
  have f: "frame (\<lambda>s s'. gone ref s \<longrightarrow> gone ref s')" by unfold_locales (auto simp: gone_def)
  show ?thesis
    by (induction refs) (auto intro!: frame.ret[OF f] frame.seq[OF f] gone_kept)
qed

lemma delete_each_gone:
  assumes "truthful env"
  shows "hoare (\<lambda>_. True) (delete_each env refs) (\<lambda>errs s. errs = [] \<longrightarrow> (\<forall>ref\<in>set refs. gone ref s))"
proof (induction refs)
  case (Cons r refs)
  show ?case
  proof (rule hoareI)
    fix s errs s' assume "run_state (delete_each env (r # refs)) s = (errs, s')"
    then obtain e s1 errs' where one: "run_state (DeleteResource env r) s = (e, s1)"
      and rest: "run_state (delete_each env refs) s1 = (errs', s')"
      and errs: "errs = (case e of None \<Rightarrow> [] | Some x \<Rightarrow> [x]) @ errs'"
      by (auto simp: run_simps split: prod.splits)
    have "e = None \<longrightarrow> gone r s1" using hoareD[OF DeleteResource_gone[OF assms] TrueI one] .
    moreover have "gone r s1 \<longrightarrow> gone r s'" using framedD[OF delete_each_gone_kept rest] .
    moreover have "errs' = [] \<longrightarrow> (\<forall>ref\<in>set refs. gone ref s')" using hoareD[OF Cons TrueI rest] .
    ultimately show "errs = [] \<longrightarrow> (\<forall>ref\<in>set (r # refs). gone ref s')"
      using errs by (auto split: option.splits)
  qed
qed (simp add: hoare_def run_simps)

text \<open>Nothing gates new pods any more, and no pending pod is gated.\<close>

definition gating_stopped :: "cluster \<Rightarrow> bool" where
  "gating_stopped s =
     (objs s webhook_service_ref = None \<and> gone mwc_ref s \<and> \<not> list_ex is_gated (pending_pods s))"

lemma gating_stopped_kept: "framed (\<lambda>s s'. gating_stopped s \<longrightarrow> gating_stopped s') (finish_delete env c)"
proof -
  have "webhook_service_ref \<notin> set (controller_refs True)" "mwc_ref \<notin> set (controller_refs True)"
    by (auto simp: controller_refs_def webhook_names)
  then have "framed (same_obj webhook_service_ref) (finish_delete env c)" "framed (same_obj mwc_ref) (finish_delete env c)"
    by (simp_all add: same_obj_finish)
  moreover have "framed same_pods (finish_delete env c)"
    unfolding finish_delete_def by (intro pods.parts pods.configuring TrueI)
  ultimately show ?thesis
    by (auto simp: framed_def gating_stopped_def gone_def same_obj_def same_pods_def)
qed

abbreviation "held \<equiv> carries PodPlacementFinalizerName"
abbreviation "released_safely s \<equiv> held s \<or> gating_stopped s"

lemma hoare_held: "framed (finalizer_kept PodPlacementFinalizerName) m \<Longrightarrow> hoare held m (\<lambda>_. held)"
  by (auto simp: hoare_def finalizer_kept_def dest: framedD)

lemma check_ungated_safe:
  assumes "truthful env"
  shows "hoare (\<lambda>s. held s \<and> gone mwc_ref s) (check_ungated env c) (\<lambda>_. released_safely)"
proof -
  have get: "hoare (\<lambda>s. held s \<and> gone mwc_ref s) (get_object env webhook_service_ref)
    (\<lambda>svc s. held s \<and> gone mwc_ref s \<and> (\<not> (error_of svc = None \<or> fatal svc \<noteq> None) \<longrightarrow> objs s webhook_service_ref = None))"
    using assms by (auto simp: hoare_def get_object_def run_simps found_def error_of_def fatal_def IgnoreNotFound_def
        truthful_def carries_def gone_def split: option.splits if_splits)
  let ?P = "\<lambda>s. held s \<and> gone mwc_ref s \<and> objs s webhook_service_ref = None"
  have list: "hoare ?P (api env (read (\<lambda>s. Inr (pending_pods s))))
    (\<lambda>pods s. ?P s \<and> (\<forall>items. pods = Inr items \<longrightarrow> items = pending_pods s))"
    by (auto simp: hoare_def run_simps carries_def gone_def split: option.splits)
  have finish: "hoare gating_stopped (finish_delete env c) (\<lambda>_. gating_stopped)"
    by (rule hoare_kept[OF gating_stopped_kept])
  show ?thesis
    unfolding check_ungated_def
    apply (rule hoare_seq[OF get], rule hoare_cases(1), rule hoare_return, simp)
    apply (rule hoare_pre[where P' = ?P], rule hoare_seq[OF list], rule hoare_cases(3), rule hoare_return, simp)
     apply (rule hoare_cases(1), rule hoare_return, simp)
     apply (rule hoare_pre[OF hoare_post[OF finish]])
    by (auto simp: gating_stopped_def)
qed

lemma handleDelete_safe:
  assumes "truthful env"
  shows "hoare held (handleDelete env c) (\<lambda>_. released_safely)"
proof -
  have delete: "hoare held (DeleteResources env webhook_refs) (\<lambda>errs s. held s \<and> (errs = [] \<longrightarrow> gone mwc_ref s))"
    using hoare_held[OF kept.deleting, of env webhook_refs] delete_each_gone[OF assms, of webhook_refs]
    by (auto simp: hoare_def DeleteResources_def webhook_refs_def)
  show ?thesis
    unfolding handleDelete_def
    apply (rule hoare_seq[OF hoare_held[OF kept.enoexec_deleting]])
    apply (simp add: drop_finalizer_def RemoveFinalizer_def finalizer_names)
    apply (rule hoare_cases(4), rule hoare_cases(1), rule hoare_return, simp)
    apply (rule hoare_seq[OF hoare_held[OF kept.reporting]], simp, rule hoare_cases(1))
    subgoal
      by (rule hoare_post[OF hoare_held], intro kept.parts kept.configuring)
        (auto simp: drop_finalizer_def RemoveFinalizer_def finalizer_names)
    apply (rule hoare_seq[OF delete], rule hoare_cases(1), rule hoare_return, simp)
    apply (rule hoare_pre[OF check_ungated_safe[OF assms]])
    by auto
qed

lemma operator_Reconcile_safe:
  assumes "truthful env"
  shows "hoare held (operator_Reconcile env) (\<lambda>_. released_safely)"
proof -
  have active: "framed (finalizer_kept PodPlacementFinalizerName) (reconcile_active env c)" for c
    unfolding reconcile_active_def
    by (intro kept.parts kept.storing kept.enoexec_finalizing kept.reconciling)
      (auto simp: drop_finalizer_def with_finalizer_def AddFinalizer_def RemoveFinalizer_def finalizer_names)
  show ?thesis
    unfolding operator_Reconcile_def
    apply (rule hoare_seq[OF hoare_held[OF kept.getting(5)]], rule hoare_cases(3), rule hoare_return, simp)
    apply (rule hoare_cases(1), rule hoare_cases(1), rule hoare_return, simp)
     apply (rule hoare_seq[OF handleDelete_safe[OF assms]], rule hoare_return, simp)
    apply (rule hoare_post[OF hoare_held[OF active]])
    by simp
qed

section \<open>Deleting without faults\<close>

definition delete_at :: "kind \<times> string \<Rightarrow> (kind \<times> string \<rightharpoonup> stored_object) \<Rightarrow> (kind \<times> string \<rightharpoonup> stored_object)" where
  "delete_at ref m = m(ref := (case m ref of
       None \<Rightarrow> None
     | Some ob \<Rightarrow> if so_Finalizers ob = [] then None else Some (ob\<lparr>so_Deleting := True\<rparr>)))"

lemma delete_at_absent: "m ref = None \<Longrightarrow> delete_at ref m = m"
  by (simp add: delete_at_def fun_upd_idem)

lemma same_objs [simp]: "(s::cluster)\<lparr>objs := objs s\<rparr> = s" by simp

lemma DeleteResource_run:
  assumes "fault env = (\<lambda>_. None)"
  shows "run_state (DeleteResource env ref) s =
    (None, s\<lparr>api_calls := Suc (api_calls s), objs := delete_at ref (objs s)\<rparr>)"
proof (cases "objs s ref")
  case None
  then show ?thesis using assms
    by (cases s) (simp add: DeleteResource_def delete_object_def run_simps delete_at_absent error_of_def IgnoreNotFound_def IsNotFound_def)
next
  case (Some ob)
  then show ?thesis using assms
    by (simp add: DeleteResource_def delete_object_def run_simps delete_at_def error_of_def IgnoreNotFound_def)
qed

lemma DeleteResources_run:
  assumes "fault env = (\<lambda>_. None)"
  shows "run_state (DeleteResources env refs) s =
    ([], s\<lparr>api_calls := api_calls s + length refs, objs := fold delete_at refs (objs s)\<rparr>)"
  unfolding DeleteResources_def
  by (induction refs arbitrary: s) (simp_all add: run_simps DeleteResource_run[OF assms])

lemma fold_delete_at:
  "fold delete_at refs m ref =
     (if ref \<in> set refs
      then (case m ref of None \<Rightarrow> None
            | Some ob \<Rightarrow> if so_Finalizers ob = [] then None else Some (ob\<lparr>so_Deleting := True\<rparr>))
      else m ref)"
  by (induction refs arbitrary: m) (auto simp: delete_at_def split: option.splits)

section \<open>Completing a teardown\<close>

text \<open>
  The last stage of a deletion: only the finalizer of the operand is left on the configuration, the
  cache is in sync, no pending pod is gated, and the objects of the operand carry no finalizer but the
  one that the controller deployment has.
\<close>

definition last_stage :: "operator_env \<Rightarrow> cluster \<Rightarrow> ClusterPodPlacementConfig \<Rightarrow> bool" where
  "last_stage env s c =
     (cached env = s \<and> \<not> cppcEmptyUID env \<and> \<not> cacheEmptyUID env (KDeployment, PodPlacementControllerName) \<and>
      cppc_obj s = Some c \<and> cppc_Deleting c \<and> cppc_Finalizers c = [PodPlacementFinalizerName] \<and>
      \<not> list_ex is_gated (pending_pods s) \<and>
      list_all (\<lambda>ref. case objs s ref of
          None \<Rightarrow> True
        | Some ob \<Rightarrow> RemoveFinalizer PodPlacementFinalizerName (so_Finalizers ob) = [] \<and>
            (ref \<noteq> (KDeployment, PodPlacementControllerName) \<longrightarrow> so_Finalizers ob = []))
        (webhook_refs @ controller_refs True))"

lemma same_version_status [simp]:
  "same_version (c\<lparr>cppc_Status := a\<rparr>) (c\<lparr>cppc_Status := b\<rparr>)" "same_version (c\<lparr>cppc_Status := a\<rparr>) c"
  by (simp_all add: same_version_def)

lemma release_run:
  assumes "fault env = (\<lambda>_. None)" and "objs s ref = Some ob" and "RemoveFinalizer f (so_Finalizers ob) = []"
  shows "\<exists>s'. run_state (release_object env ref f ob) s = (Inr (), s') \<and>
    (\<forall>r. r \<noteq> ref \<longrightarrow> objs s' r = objs s r) \<and> cppc_obj s' = cppc_obj s \<and> resource_known s' = resource_known s \<and>
    (case objs s' ref of None \<Rightarrow> True | Some ob' \<Rightarrow> so_Finalizers ob' = [])"
proof (cases "f \<in> set (so_Finalizers ob)")
  case True
  then show ?thesis using assms by (simp add: release_object_def update_object_def run_simps put_object_def)
next
  case False
  then have "RemoveFinalizer f (so_Finalizers ob) = so_Finalizers ob"
    by (auto simp: RemoveFinalizer_def filter_id_conv)
  then have "so_Finalizers ob = []" using assms(3) by simp
  with False show ?thesis using assms by (simp add: release_object_def run_simps)
qed

lemma release_found_run:
  assumes "fault env = (\<lambda>_. None)" and "objs s ref = v" and "\<forall>ob. v = Some ob \<longrightarrow> RemoveFinalizer f (so_Finalizers ob) = []"
  shows "\<exists>s'. run_state (case found n v of Inr ob \<Rightarrow> release_object env ref f ob | Inl _ \<Rightarrow> State_Monad.return (Inr ())) s =
      (Inr (), s') \<and>
    (\<forall>r. r \<noteq> ref \<longrightarrow> objs s' r = objs s r) \<and> cppc_obj s' = cppc_obj s \<and> resource_known s' = resource_known s \<and>
    (case objs s' ref of None \<Rightarrow> True | Some ob' \<Rightarrow> so_Finalizers ob' = [])"
proof (cases v)
  case None
  then show ?thesis using assms(2) by (simp add: found_def run_simps)
next
  case (Some ob)
  then show ?thesis using release_run[OF assms(1), of s ref ob f] assms by (simp add: found_def)
qed

lemma decoded_sel [simp]: "cppc_Finalizers (decoded c) = cppc_Finalizers c" "cppc_Deleting (decoded c) = cppc_Deleting c"
  by (simp_all add: decoded_def)

lemma available_run:
  assumes "fault env = (\<lambda>_. None)"
  shows "\<exists>s'. run_state (IsResourceAvailable env) s = (resource_known s \<noteq> Some False, s') \<and>
    objs s' = objs s \<and> cppc_obj s' = cppc_obj s"
  using assms by (cases "resource_known s") (simp_all add: IsResourceAvailable_def run_simps error_of_def)

lemma finish_delete_completes:
  assumes faults: "fault env = (\<lambda>_. None)"
    and base: "last_stage env s0 c"
    and objects: "objs s = fold delete_at webhook_refs (objs s0)"
    and config: "cppc_obj s = Some (c\<lparr>cppc_Status := st\<rparr>)"
    and config': "c' = c\<lparr>cppc_Status := st'\<rparr>"
  shows "\<exists>s'. run_state (finish_delete env c') s = (None, s') \<and> cppc_obj s' = None \<and>
    (\<forall>ref\<in>set (webhook_refs @ controller_refs (resource_known s \<noteq> Some False)). objs s' ref = None)"
proof -
  let ?cd = "(KDeployment, PodPlacementControllerName)"
  have cd: "?cd \<notin> set webhook_refs" by (simp add: webhook_refs_def webhook_names[symmetric])
  have current: "objs s ?cd = objs s0 ?cd" using objects cd by (simp add: fold_delete_at)
  have mem: "set (webhook_refs @ controller_refs m) \<subseteq> set (webhook_refs @ controller_refs True)" for m
    by (auto simp: controller_refs_def)
  have small: "so_Finalizers ob = []"
    if "objs s0 ref = Some ob" "ref \<in> set (webhook_refs @ controller_refs m)" "ref \<noteq> ?cd" for ref ob m
    using base that mem by (force simp: last_stage_def list_all_iff)
  have freed: "RemoveFinalizer PodPlacementFinalizerName (so_Finalizers ob) = []" if "objs s0 ?cd = Some ob" for ob
    using base that by (force simp: last_stage_def list_all_iff controller_refs_def)
  have cut: "cppc_Finalizers (drop_finalizer PodPlacementFinalizerName c') = []" "cppc_Deleting c"
    using base config' by (simp_all add: last_stage_def drop_finalizer_def RemoveFinalizer_def)
  have sync: "cached env = s0" "\<not> cacheEmptyUID env ?cd" using base by (simp_all add: last_stage_def)
  obtain n where get: "run_state (get_object_with_fallback env ?cd) s =
      (found PodPlacementControllerName (objs s0 ?cd), s\<lparr>api_calls := n\<rparr>)"
    using faults sync current
    by (cases "objs s0 ?cd"; cases "hasAPIReader env") (auto simp: get_object_with_fallback_def getCacheWithAPIFallback_def get_cached_def
        get_object_def run_simps found_def IsNotFound_def)
  obtain s1 where rel: "run_state (case found PodPlacementControllerName (objs s0 ?cd) of
        Inr ob \<Rightarrow> release_object env ?cd PodPlacementFinalizerName ob
      | Inl _ \<Rightarrow> State_Monad.return (Inr ())) (s\<lparr>api_calls := n\<rparr>) = (Inr (), s1)"
    and s1: "\<forall>ref. ref \<noteq> ?cd \<longrightarrow> objs s1 ref = objs s ref" "cppc_obj s1 = cppc_obj s" "resource_known s1 = resource_known s"
       "case objs s1 ?cd of None \<Rightarrow> True | Some ob \<Rightarrow> so_Finalizers ob = []"
    using release_found_run[OF faults, of "s\<lparr>api_calls := n\<rparr>" ?cd "objs s0 ?cd" PodPlacementFinalizerName
        PodPlacementControllerName] freed current by auto
  obtain s2 where upd: "run_state (update_cppc env c' (drop_finalizer PodPlacementFinalizerName c')) s1 =
      (Inr (refreshed st (drop_finalizer PodPlacementFinalizerName c')), s2)"
    and s2: "objs s2 = objs s1" "cppc_obj s2 = None" "resource_known s2 = resource_known s1"
    using faults s1 config config' cut by (auto simp: update_cppc_def run_simps)
  define m where "m = (resource_known s \<noteq> Some False)"
  obtain s3 where av: "run_state (IsResourceAvailable env) s2 = (m, s3)"
    and s3: "objs s3 = objs s2" "cppc_obj s3 = cppc_obj s2"
    using available_run[OF faults, of s2] s1 s2 by (auto simp: m_def)
  let ?s' = "s3\<lparr>api_calls := api_calls s3 + length (controller_refs m), objs := fold delete_at (controller_refs m) (objs s3)\<rparr>"
  have nonfatal: "fatal (found PodPlacementControllerName (objs s0 ?cd)) = None"
    by (cases "objs s0 ?cd") (simp_all add: fatal_def found_def error_of_def IgnoreNotFound_def IsNotFound_def)
  have has: "ContainsFinalizer (cppc_Finalizers c') PodPlacementFinalizerName"
    using base config' by (simp add: last_stage_def ContainsFinalizer_def)
  have "run_state (finish_delete env c') s = (None, ?s')"
    by (simp add: finish_delete_def run_simps get nonfatal has rel upd av DeleteResources_run[OF faults] error_of_def)
  moreover have "objs ?s' ref = None" if ref: "ref \<in> set (webhook_refs @ controller_refs m)" for ref
  proof (cases "ref = ?cd")
    case True
    moreover have "?cd \<in> set (controller_refs m)" by (simp add: controller_refs_def)
    ultimately show ?thesis using s1(4) s2 s3 by (cases "objs s1 ?cd") (simp_all add: fold_delete_at)
  next
    case False
    have "objs s1 ref = fold delete_at webhook_refs (objs s0) ref" using s1(1)[rule_format, OF False] objects by simp
    then show ?thesis using small[OF _ ref False] ref s2 s3
      by (cases "objs s0 ref"; cases "ref \<in> set webhook_refs") (simp_all add: fold_delete_at)
  qed
  moreover have "cppc_obj ?s' = None" using s2 s3 by simp
  ultimately show ?thesis unfolding m_def[symmetric] by blast
qed

lemma deletion_reaches_check:
  assumes faults: "fault env = (\<lambda>_. None)" and env: "cached env = s" "\<not> cppcEmptyUID env"
    and c: "cppc_obj s = Some c" "cppc_Deleting c" "cppc_Finalizers c = [PodPlacementFinalizerName]"
  shows "\<exists>s1. run_state (operator_Reconcile env) s =
      (case run_state (check_ungated env (decoded c)) s1 of (r, s') \<Rightarrow> (as_result r, s')) \<and>
    objs s1 = fold delete_at webhook_refs (objs s) \<and>
    cppc_obj s1 = Some (c\<lparr>cppc_Status := wire_status (wire_status (cppc_Status c))\<rparr>) \<and>
    pending_pods s1 = pending_pods s \<and> resource_known s1 = resource_known s"
proof -
  let ?s0 = "s\<lparr>api_calls := Suc (api_calls s)\<rparr>"
  have get: "run_state (get_cppc_with_fallback env) s = (Inr (decoded c), ?s0)"
    using faults env c by (simp add: get_cppc_with_fallback_def getCacheWithAPIFallback_def run_simps found_def)
  have enoexec: "run_state (handleEnoexecDelete env (decoded c)) ?s0 = ((None, decoded c), ?s0)"
    using c finalizer_names by (simp add: handleEnoexecDelete_def ContainsFinalizer_def run_simps)
  obtain r s2 where status: "run_state (updateStatus env (decoded c)) ?s0 = (r, s2)"
    and s2: "objs s2 = objs s" "cppc_obj s2 = Some (c\<lparr>cppc_Status := wire_status (wire_status (cppc_Status c))\<rparr>)"
      "pending_pods s2 = pending_pods s" "resource_known s2 = resource_known s"
    using faults c by (auto simp: updateStatus_def update_cppc_status_def run_simps decoded_def)
  let ?s1 = "s2\<lparr>api_calls := api_calls s2 + length webhook_refs, objs := fold delete_at webhook_refs (objs s2)\<rparr>"
  have "run_state (handleDelete env (decoded c)) ?s0 = run_state (check_ungated env (decoded c)) ?s1"
    using c finalizer_names
    by (simp add: handleDelete_def run_simps enoexec status DeleteResources_run[OF faults] ContainsFinalizer_def)
  then have "run_state (operator_Reconcile env) s =
      (case run_state (check_ungated env (decoded c)) ?s1 of (r, s') \<Rightarrow> (as_result r, s'))"
    using c by (simp add: operator_Reconcile_def run_simps get ContainsFinalizer_def)
  then show ?thesis using s2 by (intro exI[of _ ?s1]) simp
qed

text \<open>The check when the webhook service is gone: it finds a gated pod, or goes on.\<close>

lemma check_ungated_run:
  assumes faults: "fault env = (\<lambda>_. None)" and svc: "objs s webhook_service_ref = None"
  shows "run_state (check_ungated env c) s =
    (if list_ex is_gated (pending_pods s)
     then (Some (PlainError (GoError waitingForUngatingPodsError)), s\<lparr>api_calls := Suc (Suc (api_calls s))\<rparr>)
     else run_state (finish_delete env c) (s\<lparr>api_calls := Suc (Suc (api_calls s))\<rparr>))"
  using assms
  by (simp add: check_ungated_def get_object_def run_simps found_def error_of_def fatal_def IgnoreNotFound_def IsNotFound_def)

lemma service_deleted:
  assumes "case objs s webhook_service_ref of None \<Rightarrow> True | Some ob \<Rightarrow> so_Finalizers ob = []"
  shows "fold delete_at webhook_refs (objs s) webhook_service_ref = None"
proof -
  have "webhook_service_ref \<in> set webhook_refs" by (simp add: webhook_refs_def)
  then show ?thesis using assms by (cases "objs s webhook_service_ref") (simp_all add: fold_delete_at)
qed

lemma last_pass:
  assumes faults: "fault env = (\<lambda>_. None)" and base: "last_stage env s c"
  shows "\<exists>s'. run_state (operator_Reconcile env) s = ((0, None), s') \<and> cppc_obj s' = None \<and>
    (\<forall>ref\<in>set (webhook_refs @ controller_refs (resource_known s \<noteq> Some False)). objs s' ref = None)"
proof -
  have c: "cppc_obj s = Some c" "cppc_Deleting c" "cppc_Finalizers c = [PodPlacementFinalizerName]"
    "cached env = s" "\<not> cppcEmptyUID env" "\<not> list_ex is_gated (pending_pods s)"
    using base by (simp_all add: last_stage_def)
  obtain s1 where run: "run_state (operator_Reconcile env) s =
      (case run_state (check_ungated env (decoded c)) s1 of (r, s') \<Rightarrow> (as_result r, s'))"
    and s1: "objs s1 = fold delete_at webhook_refs (objs s)"
      "cppc_obj s1 = Some (c\<lparr>cppc_Status := wire_status (wire_status (cppc_Status c))\<rparr>)"
      "pending_pods s1 = pending_pods s" "resource_known s1 = resource_known s"
    using deletion_reaches_check[OF faults c(4,5,1,2,3)] by blast
  let ?s2 = "s1\<lparr>api_calls := Suc (Suc (api_calls s1))\<rparr>"
  have "webhook_service_ref \<in> set (webhook_refs @ controller_refs True)" by (simp add: webhook_refs_def)
  then have "case objs s webhook_service_ref of None \<Rightarrow> True | Some ob \<Rightarrow> so_Finalizers ob = []"
    using base by (auto simp: last_stage_def list_all_iff split: option.splits)
  then have svc: "objs s1 webhook_service_ref = None" using service_deleted s1(1) by simp
  obtain s' where fin: "run_state (finish_delete env (decoded c)) ?s2 = (None, s')" "cppc_obj s' = None"
      "\<forall>ref\<in>set (webhook_refs @ controller_refs (resource_known s \<noteq> Some False)). objs s' ref = None"
    using finish_delete_completes[OF faults base, of ?s2 "wire_status (wire_status (cppc_Status c))"
        "decoded c" "wire_status (cppc_Status c)"] s1 by (auto simp: decoded_def)
  have "run_state (operator_Reconcile env) s = ((0, None), s')"
    using run c(6) s1(3) fin(1) by (simp add: check_ungated_run[OF faults svc] as_result_def)
  then show ?thesis using fin by blast
qed

section \<open>Rollout\<close>

definition available_at :: "kind \<times> string \<Rightarrow> cluster \<Rightarrow> bool" where
  "available_at ref s = (case objs s ref of None \<Rightarrow> False | Some ob \<Rightarrow> isDeploymentAvailable (so_Status ob))"

definition operand_available :: "cluster \<Rightarrow> bool" where
  "operand_available s =
     (available_at (KDeployment, PodPlacementControllerName) s \<and> available_at (KDeployment, PodPlacementWebhookName) s)"

lemma available_zero [simp]: "\<not> isDeploymentAvailable zero_deployment_status"
  by (simp add: isDeploymentAvailable_def zero_deployment_status_def)

lemma CanDeploy_Build [simp]:
  "CanDeployMutatingWebhook (Build clk cs deprov st) = (webhookAvailable cs \<and> controllerAvailable cs \<and> \<not> deprov)"
  by (simp add: CanDeployMutatingWebhook_def Build_def buildConditions_def set_flags_def Let_def)

lemma absent_teardown: "framed (absent_kept r) (handleDelete env c)"
  unfolding handleDelete_def check_ungated_def finish_delete_def
  by (intro absent.parts absent.configuring absent.enoexec_deleting absent.reporting TrueI)

lemma dependents_post:
  "hoare (\<lambda>s. \<not> operand_available s) (dependentsStatusToClusterPodPlacementConfig env c)
     (\<lambda>(e, c') s. e = None \<longrightarrow> \<not> CanDeployMutatingWebhook (cppc_Status c'))"
proof -
  let ?cd = "(KDeployment, PodPlacementControllerName)" and ?wd = "(KDeployment, PodPlacementWebhookName)"
  let ?av = "\<lambda>r. isDeploymentAvailable (fst (read_status r))"
  have controller: "hoare (\<lambda>s. \<not> operand_available s) (get_object env ?cd) (\<lambda>r s. ?av r \<longrightarrow> \<not> available_at ?wd s)"
    by (auto simp: hoare_def get_object_def run_simps found_def read_status_def available_at_def operand_available_def
        split: option.splits)
  have webhook: "hoare (\<lambda>s. b \<longrightarrow> \<not> available_at ?wd s) (get_object env ?wd) (\<lambda>r s. b \<longrightarrow> \<not> ?av r)" for b
    by (auto simp: hoare_def get_object_def run_simps found_def read_status_def available_at_def split: option.splits)
  have release: "framed (same_obj ?wd) (case r of
        Inr ob \<Rightarrow> if b ob then release_object env ?cd f ob else State_Monad.return (Inr ())
      | Inl _ \<Rightarrow> State_Monad.return (Inr ()))" for r :: "stored_object result" and b f
    by (intro same.constructs same_obj_releasing) (simp add: webhook_names)
  have released: "hoare (\<lambda>s. a \<longrightarrow> \<not> available_at ?wd s) (case r of
        Inr ob \<Rightarrow> if b ob then release_object env ?cd f ob else State_Monad.return (Inr ())
      | Inl _ \<Rightarrow> State_Monad.return (Inr ())) (\<lambda>_ s. a \<longrightarrow> \<not> available_at ?wd s)"
    for r :: "stored_object result" and a b f
    by (rule hoare_framed[OF release]) (simp add: same_obj_def available_at_def)
  have mwc: "hoare (\<lambda>_. b) (get_object env ref) (\<lambda>_ _. b)" for b ref
    by (simp add: hoare_def)
  show ?thesis
    unfolding dependentsStatusToClusterPodPlacementConfig_def Let_def
    apply (rule hoare_seq[OF controller], rule hoare_cases(2))
     apply (rule hoare_seq[OF released], rule hoare_cases(3), rule hoare_return, simp)
     apply (rule hoare_seq[OF webhook], rule hoare_cases(2), rule hoare_seq[OF mwc], rule hoare_cases(2))
       apply (auto intro!: hoare_return split: prod.splits)
    done
qed

lemma enoexec_finalizers_post:
  "hoare (\<lambda>s. objs s r = None \<and> \<not> operand_available s) (ensure_enoexec_finalizers env c)
     (\<lambda>early s. objs s r = None \<and> (early = None \<longrightarrow> \<not> operand_available s))"
proof -
  have kept: "hoare (\<lambda>s. objs s r = None \<and> \<not> operand_available s) (ensure_enoexec_finalizers env c) (\<lambda>_ s. objs s r = None)"
    using absent.enoexec_finalizing[OF TrueI, of r env c]
    by (auto simp: hoare_def absent_kept_def dest!: framedD)
  have "operand_available s' = operand_available s" if "run_state (ensure_enoexec_finalizers env c) s = (None, s')" for s s'
    using that
    by (auto simp: ensure_enoexec_finalizers_def run_simps get_cached_def operand_available_def available_at_def
        split: if_splits option.splits sum.splits prod.splits)
  then show ?thesis using kept by (auto simp: hoare_def)
qed

lemma mwc_needs_operand:
  "hoare (\<lambda>s. objs s mwc_ref = None \<and> \<not> operand_available s) (operator_Reconcile env) (\<lambda>_ s. objs s mwc_ref = None)"
proof -
  let ?P = "\<lambda>s. objs s mwc_ref = None \<and> \<not> operand_available s" and ?Q = "\<lambda>s. objs s mwc_ref = None"
  have absent: "framed (absent_kept mwc_ref) m \<Longrightarrow> (\<And>s. P s \<Longrightarrow> ?Q s) \<Longrightarrow> hoare P m (\<lambda>_. ?Q)" for m :: "'a op" and P
    by (auto simp: hoare_def absent_kept_def dest: framedD)
  have config: "hoare ?P (get_cppc_with_fallback env) (\<lambda>_. ?P)"
    by (auto simp: hoare_def get_cppc_with_fallback_def getCacheWithAPIFallback_def run_simps operand_available_def
        available_at_def split: option.splits if_splits sum.splits)
  have listing: "hoare ?P (list_cached env ppc_list) (\<lambda>_. ?P)"
    by (auto simp: hoare_def list_cached_def run_simps operand_available_def available_at_def split: option.splits)
  have status: "hoare ?P (dependentsStatusToClusterPodPlacementConfig env c)
      (\<lambda>(e, c') s. ?Q s \<and> (e = None \<longrightarrow> \<not> CanDeployMutatingWebhook (cppc_Status c')))" for c
    using absent[OF absent.inspecting, of ?P env c] dependents_post[of env c] by (auto simp: hoare_def)
  have pass: "\<not> CanDeployMutatingWebhook (cppc_Status c) \<Longrightarrow> hoare ?Q (operator_reconcile env c) (\<lambda>_. ?Q)" for c
    by (rule absent[OF absent.reconciling]) auto
  have tail: "hoare (\<lambda>s. ?Q s \<and> \<not> CanDeployMutatingWebhook (cppc_Status c))
      (do { r \<leftarrow> operator_reconcile env c; State_Monad.return (as_result r) }) (\<lambda>_. ?Q)" for c
  proof (cases "CanDeployMutatingWebhook (cppc_Status c)")
    case False
    then show ?thesis by (auto intro!: hoare_pre[OF hoare_seq[OF pass]] hoare_return)
  qed (simp add: hoare_def)
  have active: "hoare ?P (reconcile_active env c) (\<lambda>_. ?Q)" for c
    unfolding reconcile_active_def
    apply (rule hoare_cases(1), rule absent[OF absent.storing], simp, simp)
    apply (rule hoare_seq[OF listing], rule hoare_cases(3), rule hoare_return, simp)
    apply (rule hoare_cases(1), rule absent[OF absent.storing], simp, simp)
    apply (rule hoare_seq[OF enoexec_finalizers_post], rule hoare_cases(2))
     apply (rule hoare_pre[OF hoare_seq[OF status]])
      apply (rule hoare_cases(4), rule hoare_cases(1), rule hoare_return, simp)
      apply (simp add: tail)
     apply simp
    apply (rule hoare_return, simp)
    done
  show ?thesis
    unfolding operator_Reconcile_def
    apply (rule hoare_seq[OF config], rule hoare_cases(3), rule hoare_return, simp)
    apply (rule hoare_cases(1), rule absent)
      apply (intro absent.constructs absent_teardown, simp, rule active)
    done
qed

lemma daemonset_needs_secrets:
  assumes "\<not> daemonset_ready env"
  shows "framed (absent_kept daemonset_ref) (operator_Reconcile env)"
  unfolding operator_Reconcile_def reconcile_active_def
  by (intro absent.parts absent_teardown absent.storing absent.enoexec_finalizing absent.reconciling)
    (use assms in auto)

section \<open>Applying objects\<close>

text \<open>The stored objects that are marked for deletion wait for a finalizer.\<close>

definition objects_ok :: "cluster \<Rightarrow> bool" where
  "objects_ok s =
     ((\<forall>ref ob. objs s ref = Some ob \<and> so_Deleting ob \<longrightarrow> so_Finalizers ob \<noteq> []) \<and>
      (\<forall>c. cppc_obj s = Some c \<and> cppc_Deleting c \<longrightarrow> cppc_Finalizers c \<noteq> []))"

lemma objects_ok_calls:
  "framed (\<lambda>s s'. objects_ok s \<longrightarrow> objects_ok s') (update_object env ref base ob)"
  "framed (\<lambda>s s'. objects_ok s \<longrightarrow> objects_ok s') (delete_object env ref)"
  "framed (\<lambda>s s'. objects_ok s \<longrightarrow> objects_ok s') (create_object env obj)"
  "cppc_Deleting c = cppc_Deleting b \<Longrightarrow> framed (\<lambda>s s'. objects_ok s \<longrightarrow> objects_ok s') (update_cppc env b c)"
  "framed (\<lambda>s s'. objects_ok s \<longrightarrow> objects_ok s') (update_cppc_status env c)"
  by (auto simp: framed_def objects_ok_def update_object_def delete_object_def create_object_def put_object_def
      new_object_def update_cppc_def update_cppc_status_def run_simps dest: same_version_sel(2) split: option.splits if_splits)

interpretation stored: operator_frame "\<lambda>s s'. objects_ok s \<longrightarrow> objects_ok s'" "\<lambda>_. True"
  "\<lambda>b c. cppc_Deleting c = cppc_Deleting b" "\<lambda>_. True"
  by unfold_locales (auto simp: objects_ok_calls, auto simp: objects_ok_def)

lemma deleting_finalizers [simp]:
  "cppc_Deleting (drop_finalizer f c) = cppc_Deleting c" "cppc_Deleting (with_finalizer f c) = cppc_Deleting c"
  by (simp_all add: drop_finalizer_def with_finalizer_def)

lemma objects_ok_Reconcile: "framed (\<lambda>s s'. objects_ok s \<longrightarrow> objects_ok s') (operator_Reconcile env)"
  unfolding operator_Reconcile_def reconcile_active_def handleDelete_def check_ungated_def finish_delete_def
  by (intro stored.parts stored.configuring stored.storing stored.enoexec_deleting stored.reporting
      stored.enoexec_finalizing stored.reconciling) auto

text \<open>
  What the stored form of a service has to share with the required one: the value under every key of
  the selector, the type, and the ports in their order, where an empty type or protocol stands for the
  default the API server fills in.
\<close>

definition same_port :: "service_port \<Rightarrow> service_port \<Rightarrow> bool" where
  "same_port p q =
     (p\<lparr>port_Protocol := defaulted ''TCP'' (port_Protocol p)\<rparr> = q\<lparr>port_Protocol := defaulted ''TCP'' (port_Protocol q)\<rparr>)"

definition serves :: "service \<Rightarrow> k8s_object \<Rightarrow> bool" where
  "serves svc ob =
     (\<exists>s. ob = OService s \<and>
        map_of (svc_Selector (svc_Spec s)) = map_of (svc_Selector (svc_Spec svc)) \<and>
        defaulted ''ClusterIP'' (svc_Type (svc_Spec s)) = defaulted ''ClusterIP'' (svc_Type (svc_Spec svc)) \<and>
        list_all2 same_port (svc_Ports (svc_Spec s)) (svc_Ports (svc_Spec svc)))"

text \<open>
  A stored object is as required: a service serves as the required one does, every other object has
  the required contents, and the controller has noted the generation of deployments and daemon sets.
\<close>

definition synced :: "k8s_object \<Rightarrow> cluster \<Rightarrow> bool" where
  "synced ob s =
     (case objs s (obj_ref ob) of
        None \<Rightarrow> False
      | Some so \<Rightarrow>
          (case ob of
             OService svc \<Rightarrow> serves svc (so_Object so)
           | ODeployment d \<Rightarrow>
               so_Object so = ob \<and> so_Applied so = ob \<and> last_generations s (obj_ref ob) = Some (so_Generation so)
           | ODaemonSet d \<Rightarrow>
               so_Object so = ob \<and> so_Applied so = ob \<and> last_generations s (obj_ref ob) = Some (so_Generation so)
           | _ \<Rightarrow> so_Object so = ob))"

text \<open>
  The API server moves the generation of a deployment or daemon set whenever its spec changes, whoever
  changes it. So one that still has the generation the controller noted has the contents it was last
  applied with. Nothing is said of the objects the controller has not applied yet.
\<close>

definition drift_shows :: "cluster \<Rightarrow> bool" where
  "drift_shows s =
     (\<forall>ref so. fst ref \<in> {KDeployment, KDaemonSet} \<and> objs s ref = Some so \<and>
        so_Generation so = expected_generation ref s \<longrightarrow> so_Object so = so_Applied so)"

lemma drift_shows_cong: "objs s' = objs s \<Longrightarrow> last_generations s' = last_generations s \<Longrightarrow> drift_shows s' = drift_shows s"
  by (simp add: drift_shows_def expected_generation_def)

lemma synced_cong:
  assumes "objs s' (obj_ref ob) = objs s (obj_ref ob)" and "last_generations s' (obj_ref ob) = last_generations s (obj_ref ob)"
  shows "synced ob s' = synced ob s"
  using assms unfolding synced_def by (cases "objs s (obj_ref ob)"; cases ob) simp_all

lemma servicePortsMatch_iff: "servicePortsMatch es rs \<longleftrightarrow> list_all2 same_port es rs"
proof (induction es rs rule: servicePortsMatch.induct)
  case (2 e es r rs)
  then show ?case by (cases e; cases r) (auto simp: same_port_def)
qed (simp_all)

lemma same_map_iff: "same_map xs ys \<longleftrightarrow> map_of xs = map_of ys"
proof
  assume same: "same_map xs ys"
  show "map_of xs = map_of ys"
  proof
    fix k
    show "map_of xs k = map_of ys k"
    proof (cases "k \<in> fst ` set xs \<union> fst ` set ys")
      case True
      then show ?thesis using same by (auto simp: same_map_def list_all_iff)
    next
      case False
      then have "map_of xs k = None" "map_of ys k = None" by (simp_all add: map_of_eq_None_iff)
      then show ?thesis by simp
    qed
  qed
qed (simp add: same_map_def list_all_iff)

lemma service_stale_iff: "service_stale svc so \<longleftrightarrow> \<not> serves svc (so_Object so)"
  by (auto simp: service_stale_def serves_def serviceSpecMatchesRequired_def servicePortsMatch_iff same_map_iff
      split: k8s_object.splits)

lemma same_port_refl: "list_all2 same_port ps ps"
  by (simp add: list_all2_same same_port_def)

lemma serves_self: "serves svc (OService svc)"
  by (simp add: serves_def same_port_refl)

lemma serves_written: "serves svc (with_spec svc old)"
  by (auto simp: serves_def with_spec_def same_port_refl split: k8s_object.splits)

text \<open>The result of the common shape, whatever fails.\<close>

definition left_as :: "(stored_object \<Rightarrow> bool) \<Rightarrow> (stored_object \<Rightarrow> k8s_object) \<Rightarrow> k8s_object \<Rightarrow> stored_object \<Rightarrow> bool" where
  "left_as stale merged required so =
     ((so_Object so = required \<or> (\<exists>old. so_Object so = merged old)) \<and> so_Applied so = required \<or> \<not> stale so)"

lemma apply_with_post:
  assumes "run_state (apply_with env stale merged required) s = (r, s')" and "objects_ok s"
  shows "case r of Inl e \<Rightarrow> True
    | Inr (so, b) \<Rightarrow> objs s' (obj_ref required) = Some so \<and> left_as stale merged required so \<and>
        last_generations s' = last_generations s"
proof -
  have "so_Finalizers so \<noteq> []" if "objs s (obj_ref required) = Some so" "so_Deleting so" for so
    using assms(2) that unfolding objects_ok_def by blast
  then show ?thesis using assms(1)
    by (auto simp: apply_with_def get_object_def create_object_def write_object_def update_object_def put_object_def
        run_simps found_def left_as_def overwrite_def new_object_def split: option.splits if_splits sum.splits prod.splits)
qed

lemma ApplyResource_failed:
  assumes "run_state (ApplyResource env ob) s = (Inl e, s')"
  shows "objs s' = objs s \<and> last_generations s' = last_generations s"
proof -
  have w: "objs s' = objs s \<and> last_generations s' = last_generations s"
    if "run_state (apply_with env stale merged req) s = (Inl e, s')" for stale merged req
    using that by (auto simp: apply_with_def get_object_def create_object_def write_object_def update_object_def
        run_simps found_def split: option.splits if_splits sum.splits prod.splits)
  have t: "run_state (apply_with env (\<lambda>ob. so_Applied ob \<noteq> req \<or>
        so_Generation ob \<noteq> expected_generation (obj_ref req) s) (\<lambda>_. req) req) s = (Inl e, s')"
    if "run_state (apply_tracked env req) s = (Inl e, s')" for req
    using that by (auto simp: apply_tracked_def run_simps split: sum.splits prod.splits)
  show ?thesis
    using assms w w[OF t]
    by (cases ob) (auto simp: ApplyResource_def applyDeployment_def applyDaemonSet_def applyService_def apply_other_def)
qed

lemma apply_tracked_synced:
  assumes run: "run_state (apply_tracked env req) s = (Inr x, s')" and ok: "objects_ok s" "drift_shows s"
    and kind: "obj_kind req \<in> {KDeployment, KDaemonSet}"
  shows "\<exists>so. objs s' (obj_ref req) = Some so \<and> so_Object so = req \<and> so_Applied so = req \<and>
    last_generations s' (obj_ref req) = Some (so_Generation so)"
proof -
  let ?stale = "\<lambda>ob. so_Applied ob \<noteq> req \<or> so_Generation ob \<noteq> expected_generation (obj_ref req) s"
  obtain r s1 where w: "run_state (apply_with env ?stale (\<lambda>_. req) req) s = (r, s1)" by fastforce
  obtain so b where r: "r = Inr (so, b)" and s': "objs s' = objs s1" "last_generations s' (obj_ref req) = Some (so_Generation so)"
    using run w by (auto simp: apply_tracked_def run_simps split: sum.splits prod.splits)
  have so: "objs s1 (obj_ref req) = Some so" "left_as ?stale (\<lambda>_. req) req so"
    using apply_with_post[OF w ok(1)] r by simp_all
  have "so_Object so = so_Applied so" if "\<not> ?stale so"
  proof -
    have "objs s (obj_ref req) = Some so \<or> so_Object so = req"
      using w r by (auto simp: apply_with_def get_object_def create_object_def write_object_def run_simps found_def
          new_object_def overwrite_def split: option.splits if_splits sum.splits prod.splits)
    then show ?thesis using ok(2) kind that unfolding drift_shows_def by (auto simp: obj_ref_def)
  qed
  then show ?thesis using so s' by (auto simp: left_as_def)
qed

lemma ApplyResource_synced:
  assumes run: "run_state (ApplyResource env ob) s = (Inr x, s')" and ok: "objects_ok s" "drift_shows s"
  shows "synced ob s'"
proof -
  have other: "\<exists>so. objs s' (obj_ref req) = Some so \<and> left_as stale merged req so"
    if "run_state (apply_with env stale merged req) s = (Inr x, s')" for req stale merged
    using apply_with_post[OF that ok(1)] by (auto split: prod.splits)
  show ?thesis
  proof (cases "obj_kind ob \<in> {KDeployment, KDaemonSet}")
    case True
    then show ?thesis
      using run apply_tracked_synced[OF _ ok, of env ob]
      by (cases ob) (auto simp: ApplyResource_def applyDeployment_def applyDaemonSet_def synced_def)
  next
    case False
    then show ?thesis
      using run
      by (cases ob) (auto simp: ApplyResource_def applyService_def apply_other_def synced_def left_as_def service_stale_iff
          serves_self serves_written dest!: other split: option.splits)
  qed
qed

definition others_kept :: "kind \<times> string \<Rightarrow> cluster \<Rightarrow> cluster \<Rightarrow> bool" where
  "others_kept ref s s' = (\<forall>r. r \<noteq> ref \<longrightarrow> objs s' r = objs s r \<and> last_generations s' r = last_generations s r)"

lemma ApplyResource_others: "framed (others_kept (obj_ref ob)) (ApplyResource env ob)"
proof -
  have w: "framed (others_kept (obj_ref req)) (apply_with env stale merged req)" for req stale merged
    by (auto simp: framed_def others_kept_def apply_with_def get_object_def create_object_def write_object_def update_object_def
        put_object_def run_simps found_def split: option.splits if_splits sum.splits prod.splits)
  have t: "framed (others_kept (obj_ref req)) (apply_tracked env req)" for req
    unfolding framed_def
  proof
    fix s
    let ?m = "apply_with env (\<lambda>ob. so_Applied ob \<noteq> req \<or> so_Generation ob \<noteq> expected_generation (obj_ref req) s) (\<lambda>_. req) req"
    obtain r s1 where m: "run_state ?m s = (r, s1)" by fastforce
    show "others_kept (obj_ref req) s (snd (run_state (apply_tracked env req) s))"
      using framedD[OF w m] m by (auto simp: apply_tracked_def run_simps others_kept_def split: sum.splits prod.splits)
  qed
  show ?thesis
    using w t by (cases ob) (simp_all add: ApplyResource_def applyDeployment_def applyDaemonSet_def applyService_def apply_other_def)
qed

lemma ApplyResource_drift:
  assumes run: "run_state (ApplyResource env ob) s = (r, s')" and ok: "objects_ok s" "drift_shows s"
  shows "drift_shows s'"
proof (cases r)
  case (Inl e)
  then show ?thesis using ApplyResource_failed[of env ob s e s'] run ok(2) drift_shows_cong[of s' s] by simp
next
  case (Inr x)
  have here: "synced ob s'" using ApplyResource_synced ok run Inr by blast
  have kept: "others_kept (obj_ref ob) s s'" by (rule framedD[OF ApplyResource_others run])
  show ?thesis
    unfolding drift_shows_def
  proof (intro allI impI)
    fix ref so
    assume a: "fst ref \<in> {KDeployment, KDaemonSet} \<and> objs s' ref = Some so \<and> so_Generation so = expected_generation ref s'"
    show "so_Object so = so_Applied so"
    proof (cases "ref = obj_ref ob")
      case True
      then show ?thesis using here a by (cases ob) (auto simp: synced_def fst_obj_ref)
    next
      case False
      then have "objs s' ref = objs s ref" "expected_generation ref s' = expected_generation ref s"
        using kept[unfolded others_kept_def, rule_format, OF False] by (simp_all add: expected_generation_def)
      then show ?thesis using a ok(2) unfolding drift_shows_def by metis
    qed
  qed
qed

lemma ApplyResources_post:
  assumes "run_state (ApplyResources env obs) s = (errs, s')" and "objects_ok s" and "drift_shows s"
    and "distinct (map obj_ref obs)"
  shows "(\<forall>r. r \<notin> obj_ref ` set obs \<longrightarrow> objs s' r = objs s r \<and> last_generations s' r = last_generations s r) \<and>
    drift_shows s' \<and> (errs = [] \<longrightarrow> (\<forall>ob\<in>set obs. synced ob s'))"
  using assms unfolding ApplyResources_def
proof (induction obs arbitrary: s errs s')
  case (Cons ob obs)
  from Cons.prems(1) obtain r s1 errs' where one: "run_state (ApplyResource env ob) s = (r, s1)"
    and rest: "run_state (apply_each env obs) s1 = (errs', s')"
    and errs: "errs = (case error_of r of None \<Rightarrow> [] | Some x \<Rightarrow> [x]) @ errs'"
    by (auto simp: run_simps split: prod.splits)
  have ok: "objects_ok s1" using framedD[OF stored.applying_one[OF TrueI] one] Cons.prems(2) by simp
  have drift: "drift_shows s1" by (rule ApplyResource_drift[OF one Cons.prems(2,3)])
  have IH: "(\<forall>r. r \<notin> obj_ref ` set obs \<longrightarrow> objs s' r = objs s1 r \<and> last_generations s' r = last_generations s1 r) \<and>
      drift_shows s' \<and> (errs' = [] \<longrightarrow> (\<forall>ob\<in>set obs. synced ob s'))"
    using Cons.IH[OF rest ok drift] Cons.prems(4) by simp
  have kept: "others_kept (obj_ref ob) s s1" by (rule framedD[OF ApplyResource_others one])
  have here: "objs s' (obj_ref ob) = objs s1 (obj_ref ob)" "last_generations s' (obj_ref ob) = last_generations s1 (obj_ref ob)"
    using conjunct1[OF IH, rule_format, of "obj_ref ob"] Cons.prems(4) by auto
  have "synced ob s'" if none: "errs = []"
  proof -
    obtain x where "r = Inr x" using none errs by (cases r) (simp_all add: error_of_def)
    then have "synced ob s1" using ApplyResource_synced one Cons.prems(2,3) by blast
    then show ?thesis using synced_cong[OF here] by simp
  qed
  moreover have "objs s' r = objs s r \<and> last_generations s' r = last_generations s r"
    if "r \<notin> obj_ref ` set (ob # obs)" for r
    using conjunct1[OF IH, rule_format, of r] kept[unfolded others_kept_def, rule_format, of r] that by auto
  ultimately show ?case using IH errs by auto
qed (simp add: run_simps)

lemma apply_with_total:
  assumes "fault env = (\<lambda>_. None)"
  shows "\<exists>x s'. run_state (apply_with env stale merged required) s = (Inr x, s')"
  using assms
  by (cases "objs s (obj_ref required)")
    (auto simp: apply_with_def get_object_def create_object_def write_object_def update_object_def run_simps found_def IsNotFound_def)

lemma apply_with_noop:
  assumes "fault env = (\<lambda>_. None)" and "objs s (obj_ref required) = Some so" and "\<not> stale so"
  shows "run_state (apply_with env stale merged required) s = (Inr (so, False), s\<lparr>api_calls := Suc (api_calls s)\<rparr>)"
  using assms by (simp add: apply_with_def get_object_def run_simps found_def)

lemma apply_tracked_total:
  assumes "fault env = (\<lambda>_. None)"
  shows "\<exists>x s'. run_state (apply_tracked env required) s = (Inr x, s')"
proof -
  obtain x s' where "run_state (apply_with env (\<lambda>ob. so_Applied ob \<noteq> required \<or>
      so_Generation ob \<noteq> expected_generation (obj_ref required) s) (\<lambda>_. required) required) s = (Inr x, s')"
    using apply_with_total[OF assms] by blast
  then show ?thesis by (auto simp: apply_tracked_def run_simps split: prod.splits)
qed

lemma ApplyResource_total:
  assumes "fault env = (\<lambda>_. None)"
  shows "\<exists>x s'. run_state (ApplyResource env ob) s = (Inr x, s')"
  using apply_with_total[OF assms] apply_tracked_total[OF assms]
  by (cases ob) (simp_all add: ApplyResource_def applyDeployment_def applyDaemonSet_def applyService_def apply_other_def)

lemma ApplyResources_total:
  assumes "fault env = (\<lambda>_. None)"
  shows "\<exists>s'. run_state (ApplyResources env obs) s = ([], s')"
  unfolding ApplyResources_def
proof (induction obs arbitrary: s)
  case (Cons ob obs)
  obtain x s1 where one: "run_state (ApplyResource env ob) s = (Inr x, s1)" using ApplyResource_total[OF assms] by blast
  obtain s2 where "run_state (apply_each env obs) s1 = ([], s2)" using Cons by blast
  then show ?case by (simp add: run_simps one error_of_def)
qed (simp add: run_simps)

definition same_store :: "cluster \<Rightarrow> cluster \<Rightarrow> bool" where
  "same_store s s' = (objs s' = objs s \<and> last_generations s' = last_generations s \<and> writes s' = writes s)"

lemma same_store_synced: "same_store s s' \<Longrightarrow> synced ob s' = synced ob s"
  by (rule synced_cong) (simp_all add: same_store_def)

lemma ApplyResource_noop:
  assumes faults: "fault env = (\<lambda>_. None)" and "synced ob s"
  shows "same_store s (snd (run_state (ApplyResource env ob) s))"
proof -
  obtain so where so: "objs s (obj_ref ob) = Some so" using assms(2) by (auto simp: synced_def split: option.splits)
  have tracked: "same_store s (snd (run_state (apply_tracked env ob) s))"
    if "so_Applied so = ob" "last_generations s (obj_ref ob) = Some (so_Generation so)"
    using that apply_with_noop[OF faults so, of "\<lambda>o'. so_Applied o' \<noteq> ob \<or> so_Generation o' \<noteq> expected_generation (obj_ref ob) s"]
    by (auto simp: apply_tracked_def run_simps expected_generation_def same_store_def fun_upd_idem)
  have other: "same_store s (snd (run_state (apply_with env stale merged ob) s))" if "\<not> stale so" for stale merged
    using apply_with_noop[OF faults so, of stale] that by (simp add: same_store_def)
  show ?thesis
    using assms(2) so tracked other
    by (cases ob) (simp_all add: synced_def ApplyResource_def applyDeployment_def applyDaemonSet_def applyService_def
        apply_other_def service_stale_iff)
qed

lemma ApplyResources_noop:
  assumes "fault env = (\<lambda>_. None)" and "\<forall>ob\<in>set obs. synced ob s"
  shows "same_store s (snd (run_state (ApplyResources env obs) s))"
  using assms(2) unfolding ApplyResources_def
proof (induction obs arbitrary: s)
  case (Cons ob obs)
  obtain r s1 where one: "run_state (ApplyResource env ob) s = (r, s1)" by fastforce
  have "same_store s s1" using ApplyResource_noop[OF assms(1), of ob s] one Cons.prems by simp
  moreover from this have "\<forall>ob\<in>set obs. synced ob s1" using Cons.prems by (simp add: same_store_synced)
  from Cons.IH[OF this] have "same_store s1 (snd (run_state (apply_each env obs) s1))" .
  ultimately show ?case by (auto simp: run_simps one same_store_def split: prod.splits)
qed (simp add: run_simps same_store_def)

section \<open>Reported conditions during a deletion\<close>

definition reports :: "condition slice \<Rightarrow> cluster \<Rightarrow> bool" where
  "reports C s = (\<forall>c. cppc_obj s = Some c \<longrightarrow> Conditions (cppc_Status c) = C)"

lemma reports_calls:
  "framed (\<lambda>s s'. reports C s \<longrightarrow> reports C s') (update_object env ref base ob)"
  "framed (\<lambda>s s'. reports C s \<longrightarrow> reports C s') (delete_object env ref)"
  "framed (\<lambda>s s'. reports C s \<longrightarrow> reports C s') (create_object env obj)"
  "framed (\<lambda>s s'. reports C s \<longrightarrow> reports C s') (update_cppc env b c)"
  "Conditions (cppc_Status c) = C \<Longrightarrow> framed (\<lambda>s s'. reports C s \<longrightarrow> reports C s') (update_cppc_status env c)"
  by (auto simp: framed_def reports_def update_object_def delete_object_def create_object_def put_object_def
      update_cppc_def update_cppc_status_def wire_status_def run_simps split: option.splits if_splits)

interpretation reporting: operator_frame "\<lambda>s s'. reports C s \<longrightarrow> reports C s'" "\<lambda>_. True" "\<lambda>_ _. True"
  "\<lambda>c. Conditions (cppc_Status c) = C" for C
  by unfold_locales (auto simp: reports_calls, auto simp: reports_def)

lemma Conditions_decoded: "Conditions (cppc_Status (decoded c)) = Conditions (cppc_Status c)"
  by (simp add: decoded_def wire_status_def)

lemma get_cppc_post:
  assumes "run_state (get_cppc_with_fallback env) s = (a, s')"
  shows "cppc_obj s' = cppc_obj s \<and>
    (\<forall>x. a = Inr x \<longrightarrow> Some x = map_option decoded (cppc_obj (cached env)) \<or> Some x = map_option decoded (cppc_obj s))"
proof -
  have one: "cppc_obj s2 = cppc_obj s1 \<and> (\<forall>x. b = Inr x \<longrightarrow> Some x = v s1)"
    if "run_state (api env (read (\<lambda>s. found n (v s)))) s1 = (b, s2)" "\<And>n. v (s1\<lparr>api_calls := n\<rparr>) = v s1" for v n b s1 s2
    using that by (auto simp: run_simps found_def split: option.splits)
  obtain b s1 where first: "run_state (api env (State_Monad.return (found ''cluster'' (map_option decoded (cppc_obj (cached env)))))) s = (b, s1)"
    by fastforce
  then have b: "cppc_obj s1 = cppc_obj s" "\<forall>x. b = Inr x \<longrightarrow> Some x = map_option decoded (cppc_obj (cached env))"
    by (auto simp: run_simps found_def split: option.splits)
  obtain d s2 where second: "run_state (api env (read (\<lambda>s. found ''cluster'' (map_option decoded (cppc_obj s))))) s1 = (d, s2)"
    by fastforce
  then have d: "cppc_obj s2 = cppc_obj s1" "\<forall>x. d = Inr x \<longrightarrow> Some x = map_option decoded (cppc_obj s1)"
    using one[OF second] by auto
  show ?thesis
    using assms b d
    by (auto simp: get_cppc_with_fallback_def getCacheWithAPIFallback_def run_bind run_return first second
        split: sum.splits if_splits)
qed

lemma Conditions_drop [simp]: "cppc_Status (drop_finalizer f c) = cppc_Status c"
  by (simp add: drop_finalizer_def)

lemma update_reports:
  assumes "Conditions (cppc_Status c) = C"
  shows "hoare (reports C) (update_cppc env b c) (\<lambda>r s. reports C s \<and> (\<forall>c'. r = Inr c' \<longrightarrow> Conditions (cppc_Status c') = C))"
  using assms
  by (auto simp: hoare_def reports_def update_cppc_def refreshed_def run_simps split: option.splits if_splits)

lemma enoexec_delete_reports:
  assumes c: "Conditions (cppc_Status c) = C"
  shows "hoare (reports C) (handleEnoexecDelete env c)
    (\<lambda>(e, c') s. reports C s \<and> (e = None \<longrightarrow> Conditions (cppc_Status c') = C))"
proof -
  note kept = hoare_kept[where P = "reports C"]
  have finish: "hoare (reports C) (enoexec_finish env c)
      (\<lambda>(e, c') s. reports C s \<and> (e = None \<longrightarrow> Conditions (cppc_Status c') = C))"
    unfolding enoexec_finish_def
    apply (rule hoare_seq[OF kept[OF reporting.getting(4)]], rule hoare_cases(2))
     apply (rule hoare_seq, rule kept, intro reporting.parts, rule hoare_cases(3), rule hoare_return, simp)
     apply (rule hoare_seq[OF kept[OF reporting.available]], rule hoare_seq[OF kept[OF reporting.deleting]])
     apply (rule hoare_cases(1), rule hoare_return, simp add: c)
     apply (rule hoare_seq[OF update_reports], simp add: c)
     apply (auto intro!: hoare_return split: sum.splits)
    done
  show ?thesis
    unfolding handleEnoexecDelete_def
    apply (rule hoare_cases(1), rule hoare_return, simp add: c)
    apply (rule hoare_seq[OF kept[OF reporting.deleting]], rule hoare_cases(1), rule hoare_return, simp add: c)
    apply (rule hoare_seq[OF kept[OF reporting.getting(4)]], rule hoare_cases(3), rule hoare_cases(1), rule hoare_return, simp)
     apply (rule hoare_seq[OF kept[OF reporting.getting(3)]], rule hoare_cases(3), rule hoare_return, simp)
     apply (rule hoare_seq[OF kept[OF reporting.events]], rule hoare_cases(4), rule hoare_cases(1), rule hoare_return, simp)
     apply (rule finish)
    apply (rule hoare_return, simp)
    done
qed

lemma deletion_reports:
  assumes c: "Conditions (cppc_Status c) = C"
  shows "hoare (reports C) (handleDelete env c) (\<lambda>_. reports C)"
proof -
  have rest: "framed (\<lambda>s s'. reports C s \<longrightarrow> reports C s') (do {
      _ \<leftarrow> updateStatus env c';
      if ContainsFinalizer (cppc_Finalizers c') CPPCNoPPCObjectFinalizer
      then do {
         listed \<leftarrow> list_cached env ppc_list;
         (case listed of
            Inl e \<Rightarrow> State_Monad.return (Some (PlainError e))
          | Inr items \<Rightarrow>
              if items \<noteq> [] then State_Monad.return (Some (PlainError (GoError RemainingPodPlacementConfig)))
              else do {
                u \<leftarrow> update_cppc env c' (drop_finalizer CPPCNoPPCObjectFinalizer c');
                State_Monad.return (map_option PlainError (error_of u)) }) }
       else do {
         errs \<leftarrow> DeleteResources env webhook_refs;
         if errs \<noteq> [] then State_Monad.return (plain_aggregate errs)
         else check_ungated env c' } })" if "Conditions (cppc_Status c') = C" for c'
    unfolding check_ungated_def finish_delete_def
    by (intro reporting.parts reporting.configuring reporting.reporting that TrueI)
  have rest': "hoare (\<lambda>s. reports C s \<and> Conditions (cppc_Status c') = C) m (\<lambda>_. reports C)"
    if "Conditions (cppc_Status c') = C \<Longrightarrow> framed (\<lambda>s s'. reports C s \<longrightarrow> reports C s') m" for c' and m :: "outcome op"
    using that by (auto simp: hoare_def dest: framedD)
  show ?thesis
    unfolding handleDelete_def
    apply (rule hoare_seq[OF enoexec_delete_reports[OF c]], rule hoare_cases(4), rule hoare_cases(1), rule hoare_return, simp)
    apply (rule hoare_pre[OF rest'[OF rest]])
    by auto
qed

section \<open>Completing a rollout\<close>

lemma hoare_returns: "hoare P m (\<lambda>_. Q) \<Longrightarrow> returns m V \<Longrightarrow> hoare P m (\<lambda>a s. Q s \<and> V a)"
  unfolding hoare_def returns_def by (metis fst_conv)

lemma hoare_pure: "(b \<Longrightarrow> hoare P m Q) \<Longrightarrow> hoare (\<lambda>s. P s \<and> b) m Q"
  by (auto simp: hoare_def)

lemma apply_and_report_syncs:
  assumes faults: "fault env = (\<lambda>_. None)" and refs: "controllerRef env = (\<lambda>_. None)" and "distinct (map obj_ref obs)"
  shows "hoare (\<lambda>s. objects_ok s \<and> drift_shows s) (apply_and_report env c obs deferred) (\<lambda>_ s. \<forall>ob\<in>set obs. synced ob s)"
proof -
  have none: "List.map_filter (controllerRef env) obs = []" by (simp add: refs map_filter_def)
  have applied: "hoare (\<lambda>s. objects_ok s \<and> drift_shows s) (ApplyResources env obs) (\<lambda>errs s. (\<forall>ob\<in>set obs. synced ob s) \<and> errs = [])"
    using ApplyResources_post[OF _ _ _ assms(3), of env] ApplyResources_total[OF faults, of obs]
    unfolding hoare_def by (metis Pair_inject)
  have status: "hoare (\<lambda>s. \<forall>ob\<in>set obs. synced ob s) (updateStatus env c) (\<lambda>_ s. \<forall>ob\<in>set obs. synced ob s)"
  proof (rule hoareI)
    fix s a s' assume pre: "\<forall>ob\<in>set obs. synced ob s" and run: "run_state (updateStatus env c) s = (a, s')"
    then have "objs s' = objs s" "last_generations s' = last_generations s"
      by (auto simp: updateStatus_def update_cppc_status_def run_simps split: option.splits if_splits)
    then show "\<forall>ob\<in>set obs. synced ob s'" using pre synced_cong[of s' _ s] by simp
  qed
  show ?thesis
    unfolding apply_and_report_def none Let_def
    apply (simp, rule hoare_seq[OF applied], rule hoare_pure, simp)
    apply (rule hoare_seq[OF status], rule hoare_return, simp)
    done
qed

text \<open>The objects of a pass when the monitor is disabled and the operand is available.\<close>

definition operand_objects ::
  "operator_env \<Rightarrow> bool \<Rightarrow> ClusterPodPlacementConfig \<Rightarrow> string \<Rightarrow> string option \<Rightarrow> k8s_object list" where
  "operand_objects env monitoring c scc se =
     pod_placement_objects (runtime_of env) c scc se @
     [OMutatingWebhookConfiguration (buildMutatingWebhookConfiguration (runtime_of env) c)] @
     (if monitoring then monitoring_objects (runtime_of env) else [])"

lemma operand_distinct: "distinct (map obj_ref (operand_objects env m c scc se))"
proof -
  have "distinct (map obj_ref (full_manifest (runtime_of env) c scc se))" unfolding full_refs by simp
  then show ?thesis by (auto simp: full_manifest_def operand_objects_def)
qed

definition tracking_kept :: "cluster \<Rightarrow> cluster \<Rightarrow> bool" where
  "tracking_kept s s' = (objs s' = objs s \<and> last_generations s' = last_generations s)"

interpretation tracking: frame tracking_kept
  by unfold_locales (simp_all add: tracking_kept_def)

lemma tracking_parts: "framed tracking_kept (ensureNamespaceLabels env)" "framed tracking_kept (IsResourceAvailable env)"
  unfolding ensureNamespaceLabels_def IsResourceAvailable_def
  by (intro tracking.constructs; simp add: framed_def run_modify tracking_kept_def)+

lemma pass_syncs:
  assumes faults: "fault env = (\<lambda>_. None)" and refs: "controllerRef env = (\<lambda>_. None)"
    and scc: "getCorrectHostmountAnyUIDSCC (minorVersion env) = Inr (scc, se)"
    and off: "\<not> execFormatErrorEnabled c" "\<not> ContainsFinalizer (cppc_Finalizers c) ExecFormatErrorFinalizerName"
    and can: "CanDeployMutatingWebhook (cppc_Status c)"
  shows "hoare (\<lambda>s. objects_ok s \<and> drift_shows s) (operator_reconcile env c) (\<lambda>_ s. \<forall>ob\<in>set (operand_objects env False c scc se). synced ob s)"
proof -
  let ?P = "\<lambda>s. objects_ok s \<and> drift_shows s"
  have kept: "hoare ?P m (\<lambda>_. ?P)" if "framed (\<lambda>s s'. objects_ok s \<longrightarrow> objects_ok s') m" "framed tracking_kept m" for m :: "'x op"
    using that unfolding hoare_def framed_def tracking_kept_def by (metis drift_shows_cong snd_conv)
  have labels: "hoare ?P (ensureNamespaceLabels env) (\<lambda>e s. ?P s \<and> e = None)"
    by (rule hoare_returns[OF kept[OF stored.labelling tracking_parts(1)]])
      (simp add: returns_def ensureNamespaceLabels_def run_simps faults error_of_def)
  have built: "buildPodPlacementConfigObjects env c = State_Monad.return (Inr (pod_placement_objects (runtime_of env) c scc se))"
    by (simp add: buildPodPlacementConfigObjects_def scc)
  have enoexec: "enoexec_part env c = State_Monad.return (Inr ([], c))"
    using off by (simp add: enoexec_part_def handleEnoexecDelete_def)
  have webhook: "webhook_part env c =
      State_Monad.return [OMutatingWebhookConfiguration (buildMutatingWebhookConfiguration (runtime_of env) c)]"
    using can by (simp add: webhook_part_def)
  have daemon: "daemonset_part env c = State_Monad.return (Inr ([], False))"
    using off by (simp add: daemonset_part_def)
  have last: "hoare ?P (apply_and_report env c (operand_objects env m c scc se) False)
      (\<lambda>_ s. \<forall>ob\<in>set (operand_objects env False c scc se). synced ob s)" for m
    by (rule hoare_post[OF apply_and_report_syncs[OF faults refs operand_distinct]]) (auto simp: operand_objects_def)
  show ?thesis
    unfolding operator_reconcile_def built enoexec
    apply (rule hoare_seq, rule kept, rule stored.modifying, rule stored.bookkeeping, simp add: framed_def run_modify tracking_kept_def)
    apply (rule hoare_seq[OF labels], rule hoare_pure)
    apply (simp add: webhook daemon)
    apply (rule hoare_seq[OF kept[OF stored.available tracking_parts(2)]])
    using last unfolding operand_objects_def by simp
qed

lemma dependents_run:
  assumes "fault env = (\<lambda>_. None)" and "operand_available s" and "\<not> cppc_Deleting c"
    and "\<forall>ob. objs s (KDeployment, PodPlacementControllerName) = Some ob \<longrightarrow> \<not> so_Deleting ob"
  shows "\<exists>st n. run_state (dependentsStatusToClusterPodPlacementConfig env c) s =
      ((None, c\<lparr>cppc_Status := st\<rparr>), s\<lparr>api_calls := n\<rparr>) \<and> CanDeployMutatingWebhook st"
proof -
  obtain co wo where "objs s (KDeployment, PodPlacementControllerName) = Some co" "isDeploymentAvailable (so_Status co)"
    "objs s (KDeployment, PodPlacementWebhookName) = Some wo" "isDeploymentAvailable (so_Status wo)"
    using assms(2) by (auto simp: operand_available_def available_at_def split: option.splits)
  then show ?thesis
    using assms
    by (cases "objs s mwc_ref")
      (auto simp: dependentsStatusToClusterPodPlacementConfig_def get_object_def run_simps found_def fatal_def error_of_def
        IgnoreNotFound_def IsNotFound_def read_status_def)
qed

text \<open>
  A pass over a configuration in use: its finalizers are in place, the monitor is disabled, the
  deployments have replicas, the cache is in sync and the cluster version is known.
\<close>

definition rollout_stage :: "operator_env \<Rightarrow> cluster \<Rightarrow> ClusterPodPlacementConfig \<Rightarrow> bool" where
  "rollout_stage env s c =
     (cached env = s \<and> \<not> cppcEmptyUID env \<and> controllerRef env = (\<lambda>_. None) \<and> objects_ok s \<and> drift_shows s \<and>
      cppc_obj s = Some c \<and> \<not> cppc_Deleting c \<and> PodPlacementFinalizerName \<in> set (cppc_Finalizers c) \<and>
      ExecFormatErrorFinalizerName \<notin> set (cppc_Finalizers c) \<and> \<not> execFormatErrorEnabled c \<and>
      (CPPCNoPPCObjectFinalizer \<in> set (cppc_Finalizers c)) = (ppc_list s \<noteq> []) \<and> operand_available s \<and>
      (case objs s (KDeployment, PodPlacementControllerName) of None \<Rightarrow> True | Some ob \<Rightarrow> \<not> so_Deleting ob))"

lemma operand_objects_status: "operand_objects env m (c\<lparr>cppc_Status := st\<rparr>) scc se = operand_objects env m c scc se"
  by (simp add: operand_objects_def pod_placement_objects_def buildControllerDeployment_def buildWebhookDeployment_def
      buildMutatingWebhookConfiguration_def)

lemma execFormatErrorEnabled_status [simp]: "execFormatErrorEnabled (c\<lparr>cppc_Status := st\<rparr>) = execFormatErrorEnabled c"
  by (simp add: execFormatErrorEnabled_def cppc_PluginsEnabled_def)

lemma rollout_pass:
  assumes faults: "fault env = (\<lambda>_. None)" and stage: "rollout_stage env s c"
    and scc: "getCorrectHostmountAnyUIDSCC (minorVersion env) = Inr (scc, se)"
  shows "\<exists>r s'. run_state (operator_Reconcile env) s = (r, s') \<and>
    (\<forall>ob\<in>set (operand_objects env False c scc se). synced ob s')"
proof -
  note st = stage[unfolded rollout_stage_def]
  let ?s1 = "s\<lparr>api_calls := Suc (api_calls s)\<rparr>" and ?s2 = "s\<lparr>api_calls := Suc (Suc (api_calls s))\<rparr>"
  have get: "run_state (get_cppc_with_fallback env) s = (Inr (decoded c), ?s1)"
    using faults st by (simp add: get_cppc_with_fallback_def getCacheWithAPIFallback_def run_simps found_def)
  have list: "run_state (list_cached env ppc_list) ?s1 = (Inr (ppc_list s), ?s2)"
    using faults st by (simp add: list_cached_def run_simps)
  have early: "ensure_enoexec_finalizers env (decoded c) = State_Monad.return None"
    using st by (simp add: ensure_enoexec_finalizers_def decoded_def)
  have "operand_available ?s2" using st by (simp add: operand_available_def available_at_def)
  then obtain st' n where dep: "run_state (dependentsStatusToClusterPodPlacementConfig env (decoded c)) ?s2 =
      ((None, c\<lparr>cppc_Status := st'\<rparr>), s\<lparr>api_calls := n\<rparr>)" and can: "CanDeployMutatingWebhook st'"
    using dependents_run[OF faults, of ?s2 "decoded c"] st by (auto simp: decoded_def split: option.splits)
  obtain r s' where run: "run_state (operator_reconcile env (c\<lparr>cppc_Status := st'\<rparr>)) (s\<lparr>api_calls := n\<rparr>) = (r, s')"
    by fastforce
  have "objects_ok (s\<lparr>api_calls := n\<rparr>) \<and> drift_shows (s\<lparr>api_calls := n\<rparr>)"
    using st stored.calls drift_shows_cong[of "s\<lparr>api_calls := n\<rparr>" s] by simp
  then have "\<forall>ob\<in>set (operand_objects env False c scc se). synced ob s'"
    using hoareD[OF pass_syncs[OF faults _ scc, of "c\<lparr>cppc_Status := st'\<rparr>"] _ run] st can
    by (simp add: operand_objects_status ContainsFinalizer_def)
  moreover have "run_state (operator_Reconcile env) s = (as_result r, s')"
    using st by (simp add: operator_Reconcile_def reconcile_active_def run_simps get list early dep run ContainsFinalizer_def)
  ultimately show ?thesis by blast
qed

section \<open>Properties\<close>

text \<open>C2: A reconcile pass takes the operand's finalizer off the configuration only after pod gating has stopped:
  the webhook service is gone, the webhook configuration is gone or marked for deletion, and no pending pod carries
  the scheduling gate; whatever calls fail and however stale the caches are, provided the API server does not claim
  that existing objects are missing.\<close>

theorem teardown_order:
  assumes "truthful env" and "run_state (operator_Reconcile env) s = (r, s')"
    and "carries PodPlacementFinalizerName s" and "\<not> carries PodPlacementFinalizerName s'"
  shows "objs s' (KService, PodPlacementWebhookName) = None \<and>
    gone (KMutatingWebhookConfiguration, PodMutatingWebhookConfigurationName) s' \<and>
    \<not> list_ex is_gated (pending_pods s')"
  using hoareD[OF operator_Reconcile_safe[OF assms(1)] assms(3,2)] assms(4) by (simp add: gating_stopped_def)

definition sample_config :: "bool \<Rightarrow> ClusterPodPlacementConfig" where
  "sample_config deleting =
     \<lparr>cppc_Name = ''cluster'', cppc_Annotations = None, cppc_Finalizers = [PodPlacementFinalizerName],
      cppc_Deleting = deleting, LogVerbosity = ''Normal'', NamespaceSelector = None, cppc_Plugins = None,
      FallbackArchitecture = [],
      cppc_Status = \<lparr>Conditions = None, available = False, progressing = False, degraded = False, deprovisioning = False,
        podPlacementControllerNotReady = False, podPlacementWebhookNotReady = False,
        mutatingWebhookConfigurationNotAvailable = False, canDeployMutatingWebhook = False\<rparr>\<rparr>"

definition sample_runtime :: runtime where "sample_runtime = init_runtime Map.empty"

definition sample_deployment :: "k8s_object \<Rightarrow> stored_object" where
  "sample_deployment d = (new_object d)\<lparr>so_Status := zero_deployment_status\<lparr>AvailableReplicas := 3\<rparr>, so_Finalizers := []\<rparr>"

definition sample_cluster :: "bool \<Rightarrow> cluster" where
  "sample_cluster deleting =
     \<lparr>api_calls = 0, writes = 0, cppc_obj = Some (sample_config deleting),
      objs = [webhook_service_ref \<mapsto> new_object (OService (buildService sample_runtime PodPlacementWebhookName)),
              (KDeployment, PodPlacementControllerName) \<mapsto>
                sample_deployment (ODeployment (buildWebhookDeployment sample_runtime (sample_config deleting))),
              (KDeployment, PodPlacementWebhookName) \<mapsto>
                sample_deployment (ODeployment (buildWebhookDeployment sample_runtime (sample_config deleting)))],
      ppc_list = [], enoexec_events = [], pending_pods = [], ns_labels = None, log_level = 0,
      last_generations = Map.empty, resource_known = None\<rparr>"

definition sample_env :: "bool \<Rightarrow> operator_env" where
  "sample_env deleting =
     \<lparr>runtime_of = sample_runtime, fault = (\<lambda>_. None), cached = sample_cluster deleting, cacheEmptyUID = (\<lambda>_. False),
      cppcEmptyUID = False, hasAPIReader = True, minorVersion = Inr 33, controllerRef = (\<lambda>_. None), clock = (\<lambda>n. n)\<rparr>"

lemma sample_last_stage: "last_stage (sample_env True) (sample_cluster True) (sample_config True)"
  by (simp add: last_stage_def sample_env_def sample_cluster_def sample_config_def webhook_refs_def controller_refs_def
      sample_deployment_def new_object_def buildService_def namespaced_meta_def RemoveFinalizer_def webhook_names)

theorem teardown_order_witness:
  "\<exists>s'. truthful (sample_env True) \<and> run_state (operator_Reconcile (sample_env True)) (sample_cluster True) = ((0, None), s') \<and>
     carries PodPlacementFinalizerName (sample_cluster True) \<and> \<not> carries PodPlacementFinalizerName s' \<and>
     objs (sample_cluster True) (KService, PodPlacementWebhookName) \<noteq> None \<and>
     objs s' (KService, PodPlacementWebhookName) = None"
proof -
  have env: "fault (sample_env True) = (\<lambda>_. None)" "truthful (sample_env True)"
    by (simp_all add: sample_env_def truthful_def)
  obtain s' where run: "run_state (operator_Reconcile (sample_env True)) (sample_cluster True) = ((0, None), s')"
    and none: "cppc_obj s' = None"
    using last_pass[OF env(1) sample_last_stage] by blast
  have carried: "carries PodPlacementFinalizerName (sample_cluster True)" "\<not> carries PodPlacementFinalizerName s'"
    using none by (simp_all add: carries_def sample_cluster_def sample_config_def)
  show ?thesis using teardown_order[OF env(2) run carried] env(2) run carried
    by (auto simp: sample_cluster_def webhook_names)
qed



text \<open>C10: A pass registers the mutating webhook only when both the controller and the webhook deployments have available
  replicas, and creates the daemon set of the monitor only when the cache already shows it or its service account with
  pull secrets.\<close>

theorem rollout_order:
  assumes "run_state (operator_Reconcile env) s = (r, s')"
  shows "(objs s (KMutatingWebhookConfiguration, PodMutatingWebhookConfigurationName) = None \<and>
        objs s' (KMutatingWebhookConfiguration, PodMutatingWebhookConfigurationName) \<noteq> None \<longrightarrow> operand_available s) \<and>
    (objs s (KDaemonSet, EnoexecDaemonSet) = None \<and> objs s' (KDaemonSet, EnoexecDaemonSet) \<noteq> None \<longrightarrow> daemonset_ready env)"
proof -
  have "operand_available s" if "objs s mwc_ref = None" "objs s' mwc_ref \<noteq> None"
    using hoareD[OF mwc_needs_operand _ assms] that by blast
  moreover have "daemonset_ready env" if "objs s daemonset_ref = None" "objs s' daemonset_ref \<noteq> None"
    using framedD[OF daemonset_needs_secrets assms] that unfolding absent_kept_def by blast
  ultimately show ?thesis by blast
qed

lemma sample_drift: "drift_shows (sample_cluster deleting)"
  by (auto simp: drift_shows_def sample_cluster_def sample_deployment_def new_object_def expected_generation_def split: if_splits)

lemma sample_rollout_stage: "rollout_stage (sample_env False) (sample_cluster False) (sample_config False)"
  using sample_drift[of False]
  by (simp add: rollout_stage_def sample_env_def sample_cluster_def sample_config_def objects_ok_def operand_available_def
      available_at_def sample_deployment_def isDeploymentAvailable_def finalizer_names finalizer_names[symmetric]
      execFormatErrorEnabled_def cppc_PluginsEnabled_def new_object_def)

theorem rollout_order_witness:
  "\<exists>r s'. run_state (operator_Reconcile (sample_env False)) (sample_cluster False) = (r, s') \<and>
     objs (sample_cluster False) (KMutatingWebhookConfiguration, PodMutatingWebhookConfigurationName) = None \<and>
     objs s' (KMutatingWebhookConfiguration, PodMutatingWebhookConfigurationName) \<noteq> None \<and>
     operand_available (sample_cluster False)"
proof -
  let ?env = "sample_env False" and ?s = "sample_cluster False" and ?c = "sample_config False"
  have faults: "fault ?env = (\<lambda>_. None)" by (simp add: sample_env_def)
  have "getCorrectHostmountAnyUIDSCC (minorVersion ?env) = Inr (''hostmount-anyuid-v2'', Some ''spc_t'')"
    by (simp add: sample_env_def getCorrectHostmountAnyUIDSCC_def)
  from rollout_pass[OF faults sample_rollout_stage this] obtain r s' where
    run: "run_state (operator_Reconcile ?env) ?s = (r, s')" and
    synced: "\<forall>ob\<in>set (operand_objects ?env False ?c ''hostmount-anyuid-v2'' (Some ''spc_t'')). synced ob s'" by blast
  have "synced (OMutatingWebhookConfiguration (buildMutatingWebhookConfiguration (runtime_of ?env) ?c)) s'"
    using synced by (simp add: operand_objects_def)
  then have "objs s' mwc_ref \<noteq> None" by (auto simp: synced_def split: option.splits)
  moreover have "objs ?s mwc_ref = None" by (simp add: sample_cluster_def)
  ultimately show ?thesis using rollout_order[OF run] run by blast
qed

text \<open>C14: Without failing calls, a pass over a configuration in use whose deployments have replicas stores every object of
  the operand, the webhook configuration included, with the contents the builders require: a service with the required
  selector, type and ports, every other object exactly as built. It is assumed that a deployment or daemon set which still
  has the generation the controller noted has not been changed since it was applied.\<close>

theorem rollout_converges:
  assumes "fault env = (\<lambda>_. None)" and "rollout_stage env s c"
    and "getCorrectHostmountAnyUIDSCC (minorVersion env) = Inr (scc, se)"
  shows "\<exists>r s'. run_state (operator_Reconcile env) s = (r, s') \<and>
    (\<forall>ob\<in>set (pod_placement_objects (runtime_of env) c scc se @
       [OMutatingWebhookConfiguration (buildMutatingWebhookConfiguration (runtime_of env) c)]). synced ob s')"
  using rollout_pass[OF assms] by (simp add: operand_objects_def)

theorem rollout_converges_witness:
  "\<exists>r s'. run_state (operator_Reconcile (sample_env False)) (sample_cluster False) = (r, s') \<and>
     map_option so_Object (objs (sample_cluster False) (KDeployment, PodPlacementControllerName)) =
       Some (ODeployment (buildWebhookDeployment sample_runtime (sample_config False))) \<and>
     map_option so_Object (objs s' (KDeployment, PodPlacementControllerName)) =
       Some (ODeployment (buildControllerDeployment sample_runtime (sample_config False) ''hostmount-anyuid-v2'' (Some ''spc_t'')))"
proof -
  let ?d = "ODeployment (buildControllerDeployment sample_runtime (sample_config False) ''hostmount-anyuid-v2'' (Some ''spc_t''))"
  have "fault (sample_env False) = (\<lambda>_. None)"
    "getCorrectHostmountAnyUIDSCC (minorVersion (sample_env False)) = Inr (''hostmount-anyuid-v2'', Some ''spc_t'')"
    by (simp_all add: sample_env_def getCorrectHostmountAnyUIDSCC_def)
  from rollout_converges[OF this(1) sample_rollout_stage this(2)] obtain r s' where
    run: "run_state (operator_Reconcile (sample_env False)) (sample_cluster False) = (r, s')" and here: "synced ?d s'"
    by (auto simp: pod_placement_objects_def sample_env_def)
  have "obj_ref ?d = (KDeployment, PodPlacementControllerName)"
    by (simp add: obj_ref_def buildControllerDeployment_def buildDeployment_def add_volumes_def namespaced_meta_def Let_def)
  then have "map_option so_Object (objs s' (KDeployment, PodPlacementControllerName)) = Some ?d"
    using here by (auto simp: synced_def split: option.splits)
  then show ?thesis using run by (auto simp: sample_cluster_def sample_deployment_def new_object_def webhook_names)
qed

text \<open>C13: Applying a list of objects with distinct references, whatever calls fail, touches no other object and reports no
  error only if every object of the list is then stored with the required contents: a service with the required selector,
  type and ports, every other object exactly as required, with its generation noted if it is a deployment or a daemon set.
  When no call fails it reports none, and applying the list again writes nothing. It is assumed, and kept, that a deployment
  or daemon set which still has the generation the controller noted has not been changed since it was applied.\<close>

theorem apply_converges:
  assumes "objects_ok s" and "drift_shows s" and "distinct (map obj_ref obs)"
    and "run_state (ApplyResources env obs) s = (errs, s')"
  shows "(\<forall>ref. ref \<notin> obj_ref ` set obs \<longrightarrow> objs s' ref = objs s ref) \<and> drift_shows s' \<and>
    (errs = [] \<longrightarrow> (\<forall>ob\<in>set obs. synced ob s')) \<and>
    (fault env = (\<lambda>_. None) \<longrightarrow>
       errs = [] \<and> objs (snd (run_state (ApplyResources env obs) s')) = objs s' \<and>
       writes (snd (run_state (ApplyResources env obs) s')) = writes s')"
proof -
  have post: "(\<forall>ref. ref \<notin> obj_ref ` set obs \<longrightarrow> objs s' ref = objs s ref) \<and> drift_shows s' \<and>
      (errs = [] \<longrightarrow> (\<forall>ob\<in>set obs. synced ob s'))"
    using ApplyResources_post[OF assms(4,1,2,3)] by simp
  moreover have "errs = [] \<and> same_store s' (snd (run_state (ApplyResources env obs) s'))" if faults: "fault env = (\<lambda>_. None)"
  proof -
    have "errs = []" using ApplyResources_total[OF faults, of obs s] assms(4) by simp
    then show ?thesis using ApplyResources_noop[OF faults] post by simp
  qed
  ultimately show ?thesis by (simp add: same_store_def)
qed

theorem apply_converges_witness:
  "\<exists>errs s'. run_state (ApplyResources (sample_env False) (pod_placement_objects sample_runtime (sample_config False) [] None))
       (sample_cluster False) = (errs, s') \<and>
     errs = [] \<and> synced (OClusterRole buildClusterRoleController) s' \<and>
     synced (ODeployment (buildWebhookDeployment sample_runtime (sample_config False))) s' \<and>
     \<not> synced (ODeployment (buildWebhookDeployment sample_runtime (sample_config False))) (sample_cluster False) \<and>
     writes (snd (run_state (ApplyResources (sample_env False)
       (pod_placement_objects sample_runtime (sample_config False) [] None)) s')) = writes s'"
proof -
  let ?obs = "pod_placement_objects sample_runtime (sample_config False) [] None"
  obtain errs s' where run: "run_state (ApplyResources (sample_env False) ?obs) (sample_cluster False) = (errs, s')" by fastforce
  have ok: "objects_ok (sample_cluster False)" using sample_rollout_stage by (simp add: rollout_stage_def)
  have "distinct (map obj_ref ?obs)"
    using operand_distinct[of "sample_env False" False "sample_config False" "[]" None]
    by (simp add: operand_objects_def sample_env_def)
  moreover have "fault (sample_env False) = (\<lambda>_. None)" by (simp add: sample_env_def)
  ultimately have "errs = [] \<and> (\<forall>ob\<in>set ?obs. synced ob s') \<and>
      writes (snd (run_state (ApplyResources (sample_env False) ?obs) s')) = writes s'"
    using apply_converges[OF ok sample_drift _ run] by simp
  moreover have "\<not> synced (ODeployment (buildWebhookDeployment sample_runtime (sample_config False))) (sample_cluster False)"
    by (auto simp: synced_def sample_cluster_def split: option.splits)
  ultimately show ?thesis using run by (auto simp: pod_placement_objects_def)
qed

text \<open>C33: The passes over a configuration that is being deleted never change the conditions it reports: the status is
  written back as it was read, so that \<open>Deprovisioning\<close> does not become true.\<close>

theorem deletion_conditions_frozen:
  assumes "run_state (operator_Reconcile env) s = (r, s')" and "cppc_obj s = Some c" and "cppc_Deleting c"
    and "cppc_obj (cached env) = Some c" and "\<not> cppcEmptyUID env" and "cppc_obj s' = Some left"
  shows "Conditions (cppc_Status left) = Conditions (cppc_Status c)"
proof -
  let ?C = "Conditions (cppc_Status c)" and ?c = "decoded c"
  have start: "reports ?C s" using assms(2) by (simp add: reports_def)
  have get: "hoare (\<lambda>s. reports ?C s \<and> cppc_obj s = Some c) (get_cppc_with_fallback env)
      (\<lambda>r s. reports ?C s \<and> (\<forall>x. r = Inr x \<longrightarrow> Conditions (cppc_Status x) = ?C \<and> cppc_Deleting x))"
  proof (rule hoareI)
    fix s a s' assume pre: "reports ?C s \<and> cppc_obj s = Some c" and run: "run_state (get_cppc_with_fallback env) s = (a, s')"
    have same: "cppc_obj s' = cppc_obj s" using get_cppc_post[OF run] by simp
    have "Conditions (cppc_Status x) = ?C \<and> cppc_Deleting x" if "a = Inr x" for x
    proof -
      have "Some x = map_option decoded (cppc_obj (cached env)) \<or> Some x = map_option decoded (cppc_obj s)"
        using get_cppc_post[OF run] that by blast
      then have "x = decoded c" using pre assms(4) by auto
      then show ?thesis using assms(3) by (simp add: Conditions_decoded)
    qed
    then show "reports ?C s' \<and> (\<forall>x. a = Inr x \<longrightarrow> Conditions (cppc_Status x) = ?C \<and> cppc_Deleting x)"
      using same pre unfolding reports_def by (metis option.inject)
  qed
  have delete: "hoare (\<lambda>s. reports ?C s \<and> Conditions (cppc_Status x) = ?C) (handleDelete env x) (\<lambda>_. reports ?C)" for x
    using deletion_reports[of x ?C env] by (auto simp: hoare_def)
  have "hoare (\<lambda>s. reports ?C s \<and> cppc_obj s = Some c) (operator_Reconcile env) (\<lambda>_. reports ?C)"
    unfolding operator_Reconcile_def
    apply (rule hoare_seq[OF get], rule hoare_cases(3), rule hoare_return, simp)
    apply (rule hoare_cases(1), rule hoare_cases(1), rule hoare_return, simp)
     apply (rule hoare_seq, rule hoare_pre[OF delete], simp, rule hoare_return, simp)
    apply (simp add: hoare_def)
    done
  from hoareD[OF this _ assms(1)] show ?thesis using start assms(2,6) by (simp add: reports_def)
qed

text \<open>A deletion that waits for a pod to be ungated.\<close>

definition gated_cluster :: cluster where
  "gated_cluster = (sample_cluster True)\<lparr>pending_pods := [zero_pod\<lparr>SchedulingGates := Some [SchedulingGateName]\<rparr>]\<rparr>"

definition gated_env :: operator_env where
  "gated_env = (sample_env True)\<lparr>cached := gated_cluster\<rparr>"

theorem deletion_conditions_frozen_witness:
  "\<exists>s' left. run_state (operator_Reconcile gated_env) gated_cluster =
       ((0, Some (PlainError (GoError waitingForUngatingPodsError))), s') \<and>
     cppc_obj s' = Some left \<and> Conditions (cppc_Status left) = None"
proof -
  have faults: "fault gated_env = (\<lambda>_. None)" by (simp add: gated_env_def sample_env_def)
  obtain s1 where run: "run_state (operator_Reconcile gated_env) gated_cluster =
      (case run_state (check_ungated gated_env (decoded (sample_config True))) s1 of (r, s') \<Rightarrow> (as_result r, s'))"
    and s1: "objs s1 = fold delete_at webhook_refs (objs gated_cluster)" "cppc_obj s1 \<noteq> None"
      "pending_pods s1 = pending_pods gated_cluster"
    using deletion_reaches_check[OF faults, of gated_cluster "sample_config True"]
    by (auto simp: gated_env_def gated_cluster_def sample_env_def sample_cluster_def sample_config_def)
  have "objs s1 webhook_service_ref = None"
    unfolding s1(1) by (rule service_deleted)
      (simp add: gated_cluster_def sample_cluster_def new_object_def buildService_def namespaced_meta_def webhook_names)
  moreover have "list_ex is_gated (pending_pods s1)" by (simp add: s1 gated_cluster_def is_gated_def elems_def)
  ultimately have "\<exists>s' left. run_state (operator_Reconcile gated_env) gated_cluster =
       ((0, Some (PlainError (GoError waitingForUngatingPodsError))), s') \<and> cppc_obj s' = Some left"
    using run s1(2) by (simp add: check_ungated_run[OF faults] as_result_def)
  then obtain s' left where run: "run_state (operator_Reconcile gated_env) gated_cluster =
       ((0, Some (PlainError (GoError waitingForUngatingPodsError))), s')" and left: "cppc_obj s' = Some left" by blast
  have "Conditions (cppc_Status left) = Conditions (cppc_Status (sample_config True))"
    by (rule deletion_conditions_frozen[OF run _ _ _ _ left])
      (simp_all add: gated_env_def gated_cluster_def sample_env_def sample_cluster_def sample_config_def)
  then show ?thesis using run left by (auto simp: sample_config_def)
qed

text \<open>C34: Disabling the monitor leaves its two alerting rules behind: the rules are created under lower-case names, and
  the teardown deletes objects under other names.\<close>

theorem alert_rules_left:
  "length (filter (\<lambda>ob. obj_kind ob = KPrometheusRule) (buildENoExecEventObjects rt True c)) = 2 \<and>
   list_all (\<lambda>ob. objs (snd (run_state (handleEnoexecDelete env c') s)) (obj_ref ob) = objs s (obj_ref ob))
     (filter (\<lambda>ob. obj_kind ob = KPrometheusRule) (buildENoExecEventObjects rt True c))"
proof -
  have rules: "map obj_ref (filter (\<lambda>ob. obj_kind ob = KPrometheusRule) (buildENoExecEventObjects rt True c)) =
      [(KPrometheusRule, ToLower ExecFormatErrorMonitorName), (KPrometheusRule, ToLower ExecFormatErrorsDetected)]"
    by (simp add: buildENoExecEventObjects_def obj_ref_def builder_defs Let_def)
  have same: "framed (same_obj ref) (handleEnoexecDelete env c')"
    if "ref \<notin> set enoexec_daemon_refs" "ref \<notin> set (enoexec_handler_refs True)" for ref
  proof -
    have "ref \<noteq> (KDeployment, EnoexecControllerName)" "\<And>m. ref \<notin> set (enoexec_handler_refs m)"
      using that(2) by (auto simp: enoexec_handler_refs_def)
    then show ?thesis unfolding handleEnoexecDelete_def enoexec_finish_def
      by (intro same.constructs same.getting same_obj_releasing same_obj_calls same_obj_available same_obj_deleting same_obj_events that)
  qed
  have names: "ToLower ExecFormatErrorMonitorName \<noteq> ExecFormatErrorMonitorName"
    "ToLower ExecFormatErrorMonitorName \<noteq> ExecFormatErrorsDetected"
    "ToLower ExecFormatErrorsDetected \<noteq> ExecFormatErrorMonitorName"
    "ToLower ExecFormatErrorsDetected \<noteq> ExecFormatErrorsDetected"
    by code_simp+
  have "framed (same_obj (obj_ref ob)) (handleEnoexecDelete env c')"
    if "ob \<in> set (filter (\<lambda>ob. obj_kind ob = KPrometheusRule) (buildENoExecEventObjects rt True c))" for ob
  proof (rule same)
    have "obj_ref ob \<in> set (map obj_ref (filter (\<lambda>ob. obj_kind ob = KPrometheusRule) (buildENoExecEventObjects rt True c)))"
      using that by simp
    then have "obj_ref ob \<in> {(KPrometheusRule, ToLower ExecFormatErrorMonitorName), (KPrometheusRule, ToLower ExecFormatErrorsDetected)}"
      unfolding rules by simp
    then show "obj_ref ob \<notin> set enoexec_daemon_refs" "obj_ref ob \<notin> set (enoexec_handler_refs True)"
      using names by (auto simp: enoexec_daemon_refs_def enoexec_handler_refs_def)
  qed
  then have "list_all (\<lambda>ob. objs (snd (run_state (handleEnoexecDelete env c') s)) (obj_ref ob) = objs s (obj_ref ob))
      (filter (\<lambda>ob. obj_kind ob = KPrometheusRule) (buildENoExecEventObjects rt True c))"
    by (simp add: list_all_iff framed_def same_obj_def)
  then show ?thesis using arg_cong[OF rules, of length] by simp
qed

end
