(* ===== verification/Ebpf.thy ===== *)
theory Ebpf
  imports Prelude
begin

text \<open>
  The eBPF program of the exec format error daemon
  (\<^verbatim>\<open>internal/controller/enoexecevent/daemon/internal/tracepoint/tracepoint_program.go\<close>):
  the machine it runs on, the program as the Go code assembles it, and what a run of it reports.

  The machine is defensive. A register that no instruction has written, or that a call has
  clobbered, holds \<^term>\<open>None\<close>; reading it, reading memory nobody has initialised, writing outside
  the stack and the reserved slot, submitting a slot that was not reserved and exiting with a slot
  that was neither submitted nor discarded leave the machine stuck. The helpers of the kernel are
  the fields of the record \<open>kernel\<close>.
\<close>

unbundle bit_operations_syntax

section \<open>Byte order\<close>

datatype order = LittleEndian | BigEndian

fun le_word :: "8 word list \<Rightarrow> 'a::len word" where
  "le_word [] = 0"
| "le_word (b # bs) = ucast b OR push_bit 8 (le_word bs)"

fun le_bytes :: "nat \<Rightarrow> 'a::len word \<Rightarrow> 8 word list" where
  "le_bytes 0 w = []"
| "le_bytes (Suc n) w = ucast w # le_bytes n (drop_bit 8 w)"

definition read_word :: "order \<Rightarrow> 8 word list \<Rightarrow> 'a::len word" where
  "read_word ord bs = (case ord of LittleEndian \<Rightarrow> le_word bs | BigEndian \<Rightarrow> le_word (rev bs))"

definition put_word :: "order \<Rightarrow> nat \<Rightarrow> 'a::len word \<Rightarrow> 8 word list" where
  "put_word ord n w = (case ord of LittleEndian \<Rightarrow> le_bytes n w | BigEndian \<Rightarrow> rev (le_bytes n w))"

lemma length_le_bytes [simp]: "length (le_bytes n w) = n"
  by (induction n arbitrary: w) simp_all

lemma length_put_word [simp]: "length (put_word ord n w) = n"
  by (simp add: put_word_def split: order.split)

lemma le_word_bytes: "le_word (le_bytes n w) = take_bit (8 * n) w"
proof (induction n arbitrary: w)
  case (Suc n)
  show ?case
    by (rule bit_word_eqI)
      (auto simp: Suc.IH bit_simps bit_take_bit_iff bit_drop_bit_eq)
qed simp

lemma read_put_word: "LENGTH('a::len) \<le> 8 * n \<Longrightarrow> read_word ord (put_word ord n w) = (w :: 'a word)"
  by (simp add: read_word_def put_word_def le_word_bytes take_bit_word_eq_self split: order.split)

section \<open>Memory\<close>

type_synonym addr = "64 word"
type_synonym memory = "addr \<rightharpoonup> 8 word"

definition span :: "addr \<Rightarrow> nat \<Rightarrow> addr list" where
  "span a n = map (\<lambda>i. a + of_nat i) [0..<n]"

definition load :: "memory \<Rightarrow> addr \<Rightarrow> nat \<Rightarrow> 8 word list option" where
  "load m a n = those (map m (span a n))"

definition store :: "memory \<Rightarrow> addr \<Rightarrow> 8 word list \<Rightarrow> memory" where
  "store m a bs = m(span a (length bs) [\<mapsto>] bs)"

definition forget :: "memory \<Rightarrow> addr \<Rightarrow> nat \<Rightarrow> memory" where
  "forget m a n = m |` (- set (span a n))"

lemma length_span [simp]: "length (span a n) = n"
  by (simp add: span_def)

lemma span_0 [simp]: "span a 0 = []"
  by (simp add: span_def)

lemma set_span: "set (span a n) = (\<lambda>i. a + of_nat i) ` {..<n}"
  by (auto simp: span_def)

lemma span_add: "span a (m + n) = span a m @ span (a + of_nat m) n"
  by (rule nth_equalityI) (auto simp: span_def nth_append add_ac simp flip: of_nat_add)

lemma span_sub: "k + n \<le> m \<Longrightarrow> set (span (a + of_nat k) n) \<subseteq> set (span a m)"
  by (auto simp: set_span add_ac simp flip: of_nat_add)

lemma distinct_span: "n \<le> 2 ^ 64 \<Longrightarrow> distinct (span a n)"
  by (auto simp: span_def distinct_map inj_on_def word_of_nat_eq_iff take_bit_nat_eq_self)

lemma those_map_Some [simp]: "those (map Some xs) = Some xs"
  by (induction xs) simp_all

lemma those_append:
  "those (xs @ ys) = (case those xs of None \<Rightarrow> None | Some us \<Rightarrow> map_option (\<lambda>vs. us @ vs) (those ys))"
  by (induction xs; cases "those ys") (auto split: option.split)

lemma map_upds_self: "distinct ks \<Longrightarrow> length ks = length vs \<Longrightarrow> map (m(ks [\<mapsto>] vs)) ks = map Some vs"
  by (induction ks vs arbitrary: m rule: list_induct2') (simp_all add: fun_upd_def)

lemma load_store_same:
  assumes "n = length bs" "n \<le> 2 ^ 64"
  shows "load (store m a bs) a n = Some bs"
  using assms by (simp add: load_def store_def map_upds_self distinct_span)

lemma load_store_other:
  assumes "set (span a n) \<inter> set (span b (length bs)) = {}"
  shows "load (store m b bs) a n = load m a n"
proof -
  have "map (store m b bs) (span a n) = map m (span a n)"
    using assms unfolding store_def by (intro map_cong refl map_upds_apply_nontin) blast
  then show ?thesis by (simp only: load_def)
qed

lemma load_append:
  assumes "load m a i = Some us" "load m (a + of_nat i) j = Some vs"
  shows "load m a (i + j) = Some (us @ vs)"
  using assms by (simp add: load_def span_add those_append)

section \<open>The machine\<close>

datatype reg = R0 | R1 | R2 | R3 | R4 | R5 | R6 | R7 | R8 | R9 | R10
datatype asm_size = Byte | Half | Word | DWord
datatype helper = FnGetCurrentTask | FnRingbufReserve | FnProbeReadKernel | FnRingbufSubmit | FnRingbufDiscard

datatype insn =
    LoadMem reg reg int asm_size
  | LoadMapPtr reg int
  | MovImm reg int
  | MovReg reg reg
  | AddImm reg int
  | JNEImm reg int string
  | JEqImm reg int string
  | JaLabel string
  | Call helper
  | Return

text \<open>An instruction may carry a symbol, the target of jumps.\<close>

type_synonym instruction = "string option \<times> insn"

definition plain :: "insn list \<Rightarrow> instruction list" where
  "plain is = map (Pair None) is"

definition WithSymbol :: "insn \<Rightarrow> string \<Rightarrow> instruction" where
  "WithSymbol i l = (Some l, i)"

definition size_bytes :: "asm_size \<Rightarrow> nat" where
  "size_bytes z = (case z of Byte \<Rightarrow> 1 | Half \<Rightarrow> 2 | Word \<Rightarrow> 4 | DWord \<Rightarrow> 8)"

text \<open>
  What the program relies on in the kernel: the byte order, the address \<open>bpf_get_current_task\<close>
  returns, the address of a map given its descriptor, the address \<open>bpf_ringbuf_reserve\<close> returns for
  a map and a size (0 when the buffer is full), the bytes \<open>bpf_probe_read_kernel\<close> finds at an
  address (\<^term>\<open>None\<close> on a fault), and the code it returns on a fault.
\<close>

record kernel =
  k_order :: order
  k_task :: addr
  k_map :: "int \<Rightarrow> addr"
  k_reserve :: "addr \<Rightarrow> nat \<Rightarrow> addr"
  k_read :: "addr \<Rightarrow> nat \<Rightarrow> 8 word list option"
  k_fault :: addr

record bpf_state =
  regs :: "reg \<Rightarrow> addr option"
  bmem :: memory
  slot :: "(addr \<times> nat) option"
  ring :: "8 word list list"

datatype bpf_flow = Next bpf_state | Jump string bpf_state | Done addr bpf_state
datatype bpf_result = OutOfFuel | Stuck | Halted addr bpf_state

definition set_reg :: "reg \<Rightarrow> addr \<Rightarrow> bpf_state \<Rightarrow> bpf_flow option" where
  "set_reg r v st = (if r = R10 then None else Some (Next (st\<lparr>regs := (regs st)(r \<mapsto> v)\<rparr>)))"

text \<open>A call leaves its result in \<^term>\<open>R0\<close> and nothing readable in \<^term>\<open>R1\<close> to \<^term>\<open>R5\<close>.\<close>

definition returned :: "addr option \<Rightarrow> bpf_state \<Rightarrow> bpf_flow option" where
  "returned v st =
     Some (Next (st\<lparr>regs := (regs st)(R0 := v, R1 := None, R2 := None, R3 := None, R4 := None, R5 := None)\<rparr>))"

definition writable :: "bpf_state \<Rightarrow> addr \<Rightarrow> nat \<Rightarrow> bool" where
  "writable st a n =
     ((case regs st R10 of None \<Rightarrow> False | Some fp \<Rightarrow> set (span a n) \<subseteq> set (span (fp - 512) 512)) \<or>
      (case slot st of None \<Rightarrow> False | Some (p, m) \<Rightarrow> set (span a n) \<subseteq> set (span p m)))"

definition probe_read :: "kernel \<Rightarrow> addr \<Rightarrow> nat \<Rightarrow> addr \<Rightarrow> bpf_state \<Rightarrow> bpf_flow option" where
  "probe_read k dst n src st =
     (if \<not> writable st dst n then None
      else case k_read k src n of
             None \<Rightarrow> returned (Some (k_fault k)) (st\<lparr>bmem := forget (bmem st) dst n\<rparr>)
           | Some bs \<Rightarrow> returned (Some 0) (st\<lparr>bmem := store (bmem st) dst bs\<rparr>))"

definition reserve :: "kernel \<Rightarrow> addr \<Rightarrow> nat \<Rightarrow> addr \<Rightarrow> bpf_state \<Rightarrow> bpf_flow option" where
  "reserve k mp n flags st =
     (if slot st \<noteq> None \<or> flags \<noteq> 0 then None
      else let p = k_reserve k mp n
           in returned (Some p)
                (if p = 0 then st else st\<lparr>slot := Some (p, n), bmem := forget (bmem st) p n\<rparr>))"

definition submit :: "addr \<Rightarrow> addr \<Rightarrow> bpf_state \<Rightarrow> bpf_flow option" where
  "submit p flags st =
     (case slot st of
        None \<Rightarrow> None
      | Some (q, n) \<Rightarrow>
          if p \<noteq> q \<or> flags \<noteq> 0 then None
          else case load (bmem st) p n of
                 None \<Rightarrow> None
               | Some bs \<Rightarrow> returned None (st\<lparr>slot := None, ring := ring st @ [bs]\<rparr>))"

definition discard :: "addr \<Rightarrow> addr \<Rightarrow> bpf_state \<Rightarrow> bpf_flow option" where
  "discard p flags st =
     (case slot st of
        None \<Rightarrow> None
      | Some (q, n) \<Rightarrow> if p \<noteq> q \<or> flags \<noteq> 0 then None else returned None (st\<lparr>slot := None\<rparr>))"

definition call :: "kernel \<Rightarrow> helper \<Rightarrow> bpf_state \<Rightarrow> bpf_flow option" where
  "call k h st =
     (case h of
        FnGetCurrentTask \<Rightarrow> returned (Some (k_task k)) st
      | FnRingbufReserve \<Rightarrow>
          (case (regs st R1, regs st R2, regs st R3) of
             (Some mp, Some n, Some flags) \<Rightarrow> reserve k mp (unat n) flags st | _ \<Rightarrow> None)
      | FnProbeReadKernel \<Rightarrow>
          (case (regs st R1, regs st R2, regs st R3) of
             (Some dst, Some n, Some src) \<Rightarrow> probe_read k dst (unat n) src st | _ \<Rightarrow> None)
      | FnRingbufSubmit \<Rightarrow>
          (case (regs st R1, regs st R2) of (Some p, Some flags) \<Rightarrow> submit p flags st | _ \<Rightarrow> None)
      | FnRingbufDiscard \<Rightarrow>
          (case (regs st R1, regs st R2) of (Some p, Some flags) \<Rightarrow> discard p flags st | _ \<Rightarrow> None))"

definition branch_if :: "bool \<Rightarrow> string \<Rightarrow> bpf_state \<Rightarrow> bpf_flow option" where
  "branch_if b l st = Some (if b then Jump l st else Next st)"

fun bpf_step :: "kernel \<Rightarrow> insn \<Rightarrow> bpf_state \<Rightarrow> bpf_flow option" where
  "bpf_step k (LoadMem d r off z) st =
     (case regs st r of
        None \<Rightarrow> None
      | Some a \<Rightarrow> (case load (bmem st) (a + word_of_int off) (size_bytes z) of
                    None \<Rightarrow> None
                  | Some bs \<Rightarrow> set_reg d (read_word (k_order k) bs) st))"
| "bpf_step k (LoadMapPtr d fd) st = set_reg d (k_map k fd) st"
| "bpf_step k (MovImm d i) st = set_reg d (word_of_int i) st"
| "bpf_step k (MovReg d r) st = (case regs st r of None \<Rightarrow> None | Some v \<Rightarrow> set_reg d v st)"
| "bpf_step k (AddImm d i) st =
     (case regs st d of None \<Rightarrow> None | Some v \<Rightarrow> set_reg d (v + word_of_int i) st)"
| "bpf_step k (JNEImm r i l) st =
     (case regs st r of None \<Rightarrow> None | Some v \<Rightarrow> branch_if (v \<noteq> word_of_int i) l st)"
| "bpf_step k (JEqImm r i l) st =
     (case regs st r of None \<Rightarrow> None | Some v \<Rightarrow> branch_if (v = word_of_int i) l st)"
| "bpf_step k (JaLabel l) st = Some (Jump l st)"
| "bpf_step k (Call h) st = call k h st"
| "bpf_step k Return st =
     (case regs st R0 of None \<Rightarrow> None | Some v \<Rightarrow> if slot st = None then Some (Done v st) else None)"

definition label_at :: "instruction list \<Rightarrow> string \<Rightarrow> nat option" where
  "label_at prog l = List.find (\<lambda>i. fst (prog ! i) = Some l) [0..<length prog]"

fun bpf_run :: "nat \<Rightarrow> kernel \<Rightarrow> instruction list \<Rightarrow> nat \<Rightarrow> bpf_state \<Rightarrow> bpf_result" where
  "bpf_run 0 k prog pc st = OutOfFuel"
| "bpf_run (Suc n) k prog pc st =
     (if length prog \<le> pc then Stuck
      else case bpf_step k (snd (prog ! pc)) st of
             None \<Rightarrow> Stuck
           | Some (Next st') \<Rightarrow> bpf_run n k prog (Suc pc) st'
           | Some (Jump l st') \<Rightarrow>
               (case label_at prog l of None \<Rightarrow> Stuck | Some pc' \<Rightarrow> bpf_run n k prog pc' st')
           | Some (Done v st') \<Rightarrow> Halted v st')"

section \<open>The program\<close>

definition ExitLabel :: string where
  "ExitLabel = ''exit''"

definition CleanupLabel :: string where
  "CleanupLabel = ''cleanup''"

definition PayloadSize :: "32 word" where
  "PayloadSize = 8"

definition jExitIfNoENOEXEC :: "instruction list" where
  "jExitIfNoENOEXEC = plain [LoadMem R0 R1 16 DWord, JNEImm R0 (-8) ''exit'']"

definition getCurrentTask :: "instruction list" where
  "getCurrentTask = plain [Call FnGetCurrentTask, MovReg R6 R0]"

definition ringBufReserve :: "int \<Rightarrow> instruction list" where
  "ringBufReserve fd = plain
     [LoadMapPtr R1 fd, MovImm R2 (sint PayloadSize), MovImm R3 0, Call FnRingbufReserve,
      JEqImm R0 0 ExitLabel, MovReg R7 R0]"

definition loadIntoRingBufEvent :: "reg \<Rightarrow> 32 word \<Rightarrow> 32 word \<Rightarrow> 32 word \<Rightarrow> instruction list" where
  "loadIntoRingBufEvent srcReg srcOffset sz dstOffset = plain
     [MovReg R1 R7, AddImm R1 (sint dstOffset), MovImm R2 (sint sz), MovReg R3 srcReg,
      AddImm R3 (sint srcOffset), Call FnProbeReadKernel, JNEImm R0 0 CleanupLabel]"

definition loadRealParent :: "32 word \<Rightarrow> instruction list" where
  "loadRealParent offset = plain
     [MovReg R1 R10, AddImm R1 (-8), MovImm R2 8, MovReg R3 R6, AddImm R3 (sint offset),
      Call FnProbeReadKernel, JNEImm R0 0 CleanupLabel, LoadMem R8 R10 (-8) DWord,
      JEqImm R8 0 CleanupLabel]"

definition submitEvent :: "instruction list" where
  "submitEvent = plain [MovReg R1 R7, MovImm R2 0, Call FnRingbufSubmit, JaLabel ExitLabel]"

definition rollbackEvent :: "instruction list" where
  "rollbackEvent = WithSymbol (MovReg R1 R7) CleanupLabel # plain [MovImm R2 0, Call FnRingbufDiscard]"

definition bpf_exit :: "instruction list" where
  "bpf_exit = WithSymbol (MovImm R0 0) ExitLabel # plain [Return]"

text \<open>
  \<open>initializeProgSpec\<close> refuses a map without a descriptor and missing offsets, and otherwise
  concatenates the fragments.
\<close>

definition instructions :: "int \<Rightarrow> 32 word \<Rightarrow> 32 word \<Rightarrow> instruction list" where
  "instructions fd tgid parent = concat
     [jExitIfNoENOEXEC, getCurrentTask, ringBufReserve fd, loadIntoRingBufEvent R6 tgid 4 4,
      loadRealParent parent, loadIntoRingBufEvent R8 tgid 4 0, submitEvent, rollbackEvent, bpf_exit]"

definition initializeProgSpec :: "int \<Rightarrow> 32 word option \<Rightarrow> 32 word option \<Rightarrow> instruction list result" where
  "initializeProgSpec fd tgidOffset realParentOffset =
     (if fd = 0 then Inl (GoError ''events map FD is not set'')
      else case (tgidOffset, realParentOffset) of
             (Some t, Some p) \<Rightarrow> Inr (instructions fd t p)
           | _ \<Rightarrow> Inl (GoError ''tgidOffset or realParentOffset is not set''))"

section \<open>What a run reports\<close>

lemma fetch:
  "length (instructions fd t p) = 42"
  "label_at (instructions fd t p) ExitLabel = Some 40"
  "label_at (instructions fd t p) CleanupLabel = Some 37"
  "snd (instructions fd t p ! 0) = LoadMem R0 R1 16 DWord"
  "snd (instructions fd t p ! Suc 0) = JNEImm R0 (-8) ExitLabel"
  "snd (instructions fd t p ! 2) = Call FnGetCurrentTask"
  "snd (instructions fd t p ! 3) = MovReg R6 R0"
  "snd (instructions fd t p ! 4) = LoadMapPtr R1 fd"
  "snd (instructions fd t p ! 5) = MovImm R2 8"
  "snd (instructions fd t p ! 6) = MovImm R3 0"
  "snd (instructions fd t p ! 7) = Call FnRingbufReserve"
  "snd (instructions fd t p ! 8) = JEqImm R0 0 ExitLabel"
  "snd (instructions fd t p ! 9) = MovReg R7 R0"
  "snd (instructions fd t p ! 10) = MovReg R1 R7"
  "snd (instructions fd t p ! 11) = AddImm R1 4"
  "snd (instructions fd t p ! 12) = MovImm R2 4"
  "snd (instructions fd t p ! 13) = MovReg R3 R6"
  "snd (instructions fd t p ! 14) = AddImm R3 (sint t)"
  "snd (instructions fd t p ! 15) = Call FnProbeReadKernel"
  "snd (instructions fd t p ! 16) = JNEImm R0 0 CleanupLabel"
  "snd (instructions fd t p ! 17) = MovReg R1 R10"
  "snd (instructions fd t p ! 18) = AddImm R1 (-8)"
  "snd (instructions fd t p ! 19) = MovImm R2 8"
  "snd (instructions fd t p ! 20) = MovReg R3 R6"
  "snd (instructions fd t p ! 21) = AddImm R3 (sint p)"
  "snd (instructions fd t p ! 22) = Call FnProbeReadKernel"
  "snd (instructions fd t p ! 23) = JNEImm R0 0 CleanupLabel"
  "snd (instructions fd t p ! 24) = LoadMem R8 R10 (-8) DWord"
  "snd (instructions fd t p ! 25) = JEqImm R8 0 CleanupLabel"
  "snd (instructions fd t p ! 26) = MovReg R1 R7"
  "snd (instructions fd t p ! 27) = AddImm R1 0"
  "snd (instructions fd t p ! 28) = MovImm R2 4"
  "snd (instructions fd t p ! 29) = MovReg R3 R8"
  "snd (instructions fd t p ! 30) = AddImm R3 (sint t)"
  "snd (instructions fd t p ! 31) = Call FnProbeReadKernel"
  "snd (instructions fd t p ! 32) = JNEImm R0 0 CleanupLabel"
  "snd (instructions fd t p ! 33) = MovReg R1 R7"
  "snd (instructions fd t p ! 34) = MovImm R2 0"
  "snd (instructions fd t p ! 35) = Call FnRingbufSubmit"
  "snd (instructions fd t p ! 36) = JaLabel ExitLabel"
  "snd (instructions fd t p ! 37) = MovReg R1 R7"
  "snd (instructions fd t p ! 38) = MovImm R2 0"
  "snd (instructions fd t p ! 39) = Call FnRingbufDiscard"
  "snd (instructions fd t p ! 40) = MovImm R0 0"
  "snd (instructions fd t p ! 41) = Return"
  by (simp_all add: instructions_def jExitIfNoENOEXEC_def getCurrentTask_def ringBufReserve_def
      loadIntoRingBufEvent_def loadRealParent_def submitEvent_def rollbackEvent_def bpf_exit_def
      plain_def WithSymbol_def PayloadSize_def ExitLabel_def CleanupLabel_def label_at_def upt_rec)

text \<open>
  The bytes a detection should report: the group id of the real parent of the current task followed
  by its own, read from their \<open>task_struct\<close>s in kernel memory; nothing when a read faults or the
  task has no parent.
\<close>

definition captured :: "kernel \<Rightarrow> 32 word \<Rightarrow> 32 word \<Rightarrow> 8 word list option" where
  "captured k tgid parent =
     (case (k_read k (k_task k + scast tgid) 4, k_read k (k_task k + scast parent) 8) of
        (Some cur, Some ptr) \<Rightarrow>
          (let rp = read_word (k_order k) ptr
           in if rp = 0 then None else map_option (\<lambda>par. par @ cur) (k_read k (rp + scast tgid) 4))
      | _ \<Rightarrow> None)"

text \<open>
  The documented behaviour of the helpers: a failed read returns a non-zero code, a successful one
  as many bytes as asked for, and a reserved slot does not overlap the stack of the program.
\<close>

definition kernel_promises :: "kernel \<Rightarrow> addr \<Rightarrow> addr \<Rightarrow> bool" where
  "kernel_promises k mp fp \<longleftrightarrow>
     k_fault k \<noteq> 0 \<and> (\<forall>a n bs. k_read k a n = Some bs \<longrightarrow> length bs = n) \<and>
     (\<forall>n. k_reserve k mp n \<noteq> 0 \<longrightarrow> set (span (k_reserve k mp n) n) \<inter> set (span (fp - 512) 512) = {})"

definition ends :: "nat \<Rightarrow> kernel \<Rightarrow> instruction list \<Rightarrow> nat \<Rightarrow> bpf_state \<Rightarrow> 8 word list list \<Rightarrow> bool" where
  "ends n k prog pc st out \<longleftrightarrow>
     (\<exists>st'. bpf_run n k prog pc st = Halted 0 st' \<and> slot st' = None \<and> ring st' = out)"

lemma bpf_run_mono: "bpf_run n k prog pc st = Halted v st' \<Longrightarrow> n \<le> m \<Longrightarrow> bpf_run m k prog pc st = Halted v st'"
proof (induction n arbitrary: m pc st)
  case (Suc n)
  then obtain m' where "m = Suc m'" "n \<le> m'" by (cases m) auto
  with Suc show ?case by (auto split: if_splits option.splits bpf_flow.splits)
qed simp

lemma ends_mono: "ends n k prog pc st out \<Longrightarrow> n \<le> m \<Longrightarrow> ends m k prog pc st out"
  unfolding ends_def using bpf_run_mono by blast

lemma ends_Suc:
  "ends (Suc n) k prog pc st out \<longleftrightarrow> pc < length prog \<and>
     (case bpf_step k (snd (prog ! pc)) st of
        None \<Rightarrow> False
      | Some (Next st') \<Rightarrow> ends n k prog (Suc pc) st' out
      | Some (Jump l st') \<Rightarrow> (case label_at prog l of None \<Rightarrow> False | Some pc' \<Rightarrow> ends n k prog pc' st' out)
      | Some (Done v st') \<Rightarrow> v = 0 \<and> slot st' = None \<and> ring st' = out)"
  by (auto simp: ends_def split: option.split bpf_flow.split)

lemmas machine = ends_Suc fetch set_reg_def returned_def branch_if_def call_def

lemma exit_ends: "slot st = None \<Longrightarrow> out = ring st \<Longrightarrow> 2 \<le> n \<Longrightarrow> ends n k (instructions fd t p) 40 st out"
  by (rule ends_mono[of "Suc (Suc 0)"]) (simp_all add: machine)

lemma cleanup_ends:
  assumes "slot st \<noteq> None" "regs st R7 = Some (fst (the (slot st)))" "out = ring st" "5 \<le> n"
  shows "ends n k (instructions fd t p) 37 st out"
proof -
  obtain m where m: "2 \<le> m" "Suc (Suc (Suc m)) \<le> n" using assms by (auto intro: that[of 2])
  have "ends (Suc (Suc (Suc m))) k (instructions fd t p) 37 st out"
    using assms m by (auto simp: machine discard_def exit_ends)
  then show ?thesis using m ends_mono by blast
qed

lemma submit_ends:
  assumes "slot st = Some (q, l)" "regs st R7 = Some q" "load (bmem st) q l = Some bs"
    "out = ring st @ [bs]" "6 \<le> n"
  shows "ends n k (instructions fd t p) 33 st out"
proof -
  obtain m where m: "2 \<le> m" "Suc (Suc (Suc (Suc m))) \<le> n" using assms by (auto intro: that[of 2])
  have "ends (Suc (Suc (Suc (Suc m)))) k (instructions fd t p) 33 st out"
    using assms m by (simp add: machine submit_def exit_ends)
  then show ?thesis using m ends_mono by blast
qed

lemma parent_ends:
  assumes "slot st = Some (q, 8)" "regs st R7 = Some q" "regs st R8 = Some rp"
    "load (bmem st) (q + 4) 4 = Some cur" "\<And>a n bs. k_read k a n = Some bs \<Longrightarrow> length bs = n"
    "k_fault k \<noteq> 0" "13 \<le> n"
    "out = ring st @ (case k_read k (rp + scast t) 4 of None \<Rightarrow> [] | Some par \<Rightarrow> [par @ cur])"
  shows "ends n k (instructions fd t p) 26 st out"
proof -
  obtain m where m: "6 \<le> m" "Suc (Suc (Suc (Suc (Suc (Suc (Suc m)))))) \<le> n"
    using assms(7) by (auto intro: that[of 6])
  have w: "set (span q 4) \<subseteq> set (span q 8)" using span_sub[of 0 4 8 q] by simp
  have "ends (Suc (Suc (Suc (Suc (Suc (Suc (Suc m))))))) k (instructions fd t p) 26 st out"
  proof (cases "k_read k (rp + scast t) 4")
    case None
    then show ?thesis
      using assms(1-3,6,8) m(1) w by (simp add: machine probe_read_def writable_def cleanup_ends)
  next
    case (Some par)
    note len = assms(5)[OF Some]
    have "set (span (q + 4) 4) \<inter> set (span q (length par)) = {}"
      using len distinct_span[of 8 q] span_add[of q 4 4] by auto
    then have "load (store (bmem st) q par) q (4 + 4) = Some (par @ cur)"
      using assms(4) len by (intro load_append) (simp_all add: load_store_same load_store_other)
    then show ?thesis
      using assms(1-3,8) m(1) w Some by (simp add: machine probe_read_def writable_def submit_ends)
  qed
  then show ?thesis using m ends_mono by blast
qed

lemma real_parent_ends:
  assumes "slot st = Some (q, 8)" "regs st R6 = Some task" "regs st R7 = Some q" "regs st R10 = Some fp"
    "load (bmem st) (q + 4) 4 = Some cur" "set (span q 8) \<inter> set (span (fp - 512) 512) = {}"
    "\<And>a n bs. k_read k a n = Some bs \<Longrightarrow> length bs = n" "k_fault k \<noteq> 0" "22 \<le> n"
    "out = ring st @ (case k_read k (task + scast p) 8 of None \<Rightarrow> [] | Some ptr \<Rightarrow>
                        if read_word (k_order k) ptr = (0 :: addr) then []
                        else case k_read k (read_word (k_order k) ptr + scast t) 4 of
                               None \<Rightarrow> [] | Some par \<Rightarrow> [par @ cur])"
  shows "ends n k (instructions fd t p) 17 st out"
proof -
  obtain m where m: "13 \<le> m" "Suc (Suc (Suc (Suc (Suc (Suc (Suc (Suc (Suc m)))))))) \<le> n"
    using assms(9) by (auto intro: that[of 13])
  have w: "set (span (fp - 8) 8) \<subseteq> set (span (fp - 512) 512)" using span_sub[of 504 8 512 "fp - 512"] by simp
  have "set (span (q + 4) 4) \<subseteq> set (span q 8)" using span_sub[of 4 4 8 q] by simp
  with w assms(6) have d: "set (span (q + 4) 4) \<inter> set (span (fp - 8) 8) = {}" by blast
  have "ends (Suc (Suc (Suc (Suc (Suc (Suc (Suc (Suc (Suc m))))))))) k (instructions fd t p) 17 st out"
  proof (cases "k_read k (task + scast p) 8")
    case None
    then have "ends (Suc (Suc (Suc (Suc (Suc (Suc (Suc m))))))) k (instructions fd t p) 17 st out"
      using assms(1-4,8,10) m(1) w by (simp add: machine probe_read_def writable_def cleanup_ends)
    then show ?thesis by (rule ends_mono) simp
  next
    case (Some ptr)
    have "load (store (bmem st) (fp - 8) ptr) (fp - 8) 8 = Some ptr"
      using assms(7)[OF Some] by (simp add: load_store_same)
    moreover have "load (store (bmem st) (fp - 8) ptr) (q + 4) 4 = Some cur"
      using d assms(5) assms(7)[OF Some] by (simp add: load_store_other)
    ultimately show ?thesis
      using assms(1-4,10) m(1) w Some
      by (auto simp: machine probe_read_def writable_def size_bytes_def cleanup_ends
          intro!: parent_ends[OF _ _ _ _ assms(7,8)])
  qed
  then show ?thesis using m ends_mono by blast
qed

lemma current_ends:
  assumes "slot st = Some (q, 8)" "regs st R6 = Some task" "regs st R7 = Some q" "regs st R10 = Some fp"
    "set (span q 8) \<inter> set (span (fp - 512) 512) = {}"
    "\<And>a n bs. k_read k a n = Some bs \<Longrightarrow> length bs = n" "k_fault k \<noteq> 0" "29 \<le> n" "task = k_task k"
    "out = ring st @ (case captured k t p of None \<Rightarrow> [] | Some bs \<Rightarrow> [bs])"
  shows "ends n k (instructions fd t p) 10 st out"
proof -
  obtain m where m: "22 \<le> m" "Suc (Suc (Suc (Suc (Suc (Suc (Suc m)))))) \<le> n"
    using assms(8) by (auto intro: that[of 22])
  have w: "set (span (q + 4) 4) \<subseteq> set (span q 8)" using span_sub[of 4 4 8 q] by simp
  have "ends (Suc (Suc (Suc (Suc (Suc (Suc (Suc m))))))) k (instructions fd t p) 10 st out"
  proof (cases "k_read k (task + scast t) 4")
    case None
    then show ?thesis
      using assms(1-4,7,9,10) m(1) w by (simp add: machine probe_read_def writable_def cleanup_ends captured_def)
  next
    case (Some cur)
    have "load (store (bmem st) (q + 4) cur) (q + 4) 4 = Some cur"
      using assms(6)[OF Some] by (simp add: load_store_same)
    then show ?thesis
      using assms(1-5,9,10) m(1) w Some
      by (auto simp: machine probe_read_def writable_def captured_def Let_def split: option.split
          intro!: real_parent_ends[OF _ _ _ _ _ _ assms(6,7)])
  qed
  then show ?thesis using m ends_mono by blast
qed

lemma program_ends:
  assumes "kernel_promises k (k_map k fd) fp" "regs st R1 = Some ctx" "regs st R10 = Some fp"
    "slot st = None" "load (bmem st) (ctx + 16) 8 = Some (put_word (k_order k) 8 ret)" "42 \<le> n"
    "out = ring st @ (if ret = (- 8 :: addr) \<and> k_reserve k (k_map k fd) 8 \<noteq> 0
                      then (case captured k t p of None \<Rightarrow> [] | Some bs \<Rightarrow> [bs]) else [])"
  shows "ends n k (instructions fd t p) 0 st out"
proof -
  note ok = assms(1)[unfolded kernel_promises_def]
  obtain m where m: "29 \<le> m" "Suc (Suc (Suc (Suc (Suc (Suc (Suc (Suc (Suc (Suc m))))))))) \<le> n"
    using assms(6) by (auto intro: that[of 29])
  have r: "read_word (k_order k) (put_word (k_order k) 8 ret) = ret" by (simp add: read_put_word)
  have two: "Suc (Suc 0) = 2" by simp
  define q where "q = k_reserve k (k_map k fd) 8"
  have "ends (Suc (Suc (Suc (Suc (Suc (Suc (Suc (Suc (Suc (Suc m)))))))))) k (instructions fd t p) 0 st out"
  proof (cases "ret = - 8 \<and> q \<noteq> 0")
    case True
    then have "set (span q 8) \<inter> set (span (fp - 512) 512) = {}" using ok unfolding q_def by blast
    with True assms(2-5,7) r m(1) show ?thesis
      using ok by (simp add: machine size_bytes_def reserve_def two current_ends[of _ q] flip: q_def)
  next
    case False
    obtain m' where "m = Suc m'" using m(1) by (cases m) auto
    with False assms(2-5,7) r show ?thesis
      by (auto simp: machine size_bytes_def reserve_def two simp flip: q_def)
  qed
  then show ?thesis using m ends_mono by blast
qed

text \<open>C9: Every run of the assembled program ends within one pass over its 42 instructions with exit
  code 0, without reading anything uninitialised or writing outside its stack and its slot, and with
  its slot settled. It adds exactly one record to the ring buffer when the traced \<open>execve\<close> returned
  \<open>-ENOEXEC\<close>, a slot was available and both tasks could be read, the record being the group id of
  the real parent followed by that of the task; otherwise it adds nothing.\<close>
theorem program_reports:
  assumes "initializeProgSpec fd (Some t) (Some p) = Inr prog"
    and "kernel_promises k (k_map k fd) fp"
    and "regs st R1 = Some ctx" "regs st R10 = Some fp" "slot st = None"
    and "load (bmem st) (ctx + 16) 8 = Some (put_word (k_order k) 8 (ret :: 64 word))"
    and "length prog \<le> n"
  shows "\<exists>st'. bpf_run n k prog 0 st = Halted 0 st' \<and> slot st' = None \<and>
           ring st' = ring st @
             (if ret = - 8 \<and> k_reserve k (k_map k fd) 8 \<noteq> 0
              then (case captured k t p of None \<Rightarrow> [] | Some bs \<Rightarrow> [bs]) else [])"
proof -
  have prog: "prog = instructions fd t p"
    using assms(1) by (simp add: initializeProgSpec_def split: if_splits)
  then have "42 \<le> n" using assms(7) by (simp add: fetch)
  then show ?thesis
    using program_ends[OF assms(2-6) _ refl] unfolding prog ends_def by blast
qed

text \<open>A task with group id 42 at \<open>0x1000\<close> whose parent, at \<open>0x2000\<close>, has group id 7.\<close>

definition sample_kernel :: kernel where
  "sample_kernel =
     \<lparr>k_order = BigEndian, k_task = 0x1000, k_map = (\<lambda>_. 0x5000),
      k_reserve = (\<lambda>_ n. if n = 8 then 0x9000 else 0),
      k_read = (\<lambda>a n. if a = 0x1008 \<and> n = 4 then Some (put_word BigEndian 4 (42 :: 32 word))
                      else if a = 0x1010 \<and> n = 8 then Some (put_word BigEndian 8 (0x2000 :: 64 word))
                      else if a = 0x2008 \<and> n = 4 then Some (put_word BigEndian 4 (7 :: 32 word)) else None),
      k_fault = - 14\<rparr>"

definition sample_entry :: bpf_state where
  "sample_entry =
     \<lparr>regs = [R1 \<mapsto> 0x3000, R10 \<mapsto> 0x8000],
      bmem = store Map.empty 0x3010 (put_word BigEndian 8 (- 8 :: 64 word)), slot = None, ring = []\<rparr>"

lemma sample_promises: "kernel_promises sample_kernel (k_map sample_kernel 3) 0x8000"
proof -
  have "(0x9000 :: addr) + of_nat i \<noteq> 0x7E00 + of_nat j" if "i < 8" "j < 512" for i j
  proof
    assume "(0x9000 :: addr) + of_nat i = 0x7E00 + of_nat j"
    then have "(of_nat (0x9000 + i) :: addr) = of_nat (0x7E00 + j)" by simp
    then show False using that by (simp only: word_of_nat_eq_iff) (simp add: take_bit_nat_eq_self)
  qed
  then have "set (span 0x9000 8) \<inter> set (span 0x7E00 512) = {}"
    unfolding set_span by blast
  then show ?thesis by (auto simp: kernel_promises_def sample_kernel_def split: if_splits)
qed

lemma sample_bytes:
  "put_word BigEndian 4 (7 :: 32 word) = [0, 0, 0, 7]" "put_word BigEndian 4 (42 :: 32 word) = [0, 0, 0, 42]"
  by code_simp+

lemma sample_captured: "captured sample_kernel 8 16 = Some [0, 0, 0, 7, 0, 0, 0, 42]"
  by (simp add: captured_def sample_kernel_def read_put_word sample_bytes)

theorem program_reports_witness:
  "\<exists>st'. bpf_run 42 sample_kernel (instructions 3 8 16) 0 sample_entry = Halted 0 st' \<and> slot st' = None \<and>
     ring st' = [[0, 0, 0, 7, 0, 0, 0, 42]]"
proof -
  have load: "load (bmem sample_entry) (0x3000 + 16) 8 = Some (put_word (k_order sample_kernel) 8 (- 8 :: 64 word))"
    by (simp add: sample_entry_def sample_kernel_def load_store_same)
  have init: "initializeProgSpec 3 (Some 8) (Some 16) = Inr (instructions 3 8 16)"
    by (simp add: initializeProgSpec_def)
  have entry: "regs sample_entry R1 = Some 0x3000" "regs sample_entry R10 = Some 0x8000"
    "slot sample_entry = None" "ring sample_entry = []"
    by (simp_all add: sample_entry_def)
  have free: "k_reserve sample_kernel (k_map sample_kernel 3) 8 \<noteq> 0"
    by (simp add: sample_kernel_def)
  have "length (instructions 3 8 16) \<le> 42" by (simp add: fetch)
  from program_reports[OF init sample_promises entry(1-3) load this] show ?thesis
    using free by (simp add: sample_captured entry(4))
qed

end
