(* ===== verification/Enoexec_Events.thy ===== *)
theory Enoexec_Events
  imports Pod_Base State_Ops
begin

text \<open>
  The exec format error events: the API type with its validation
  (\<^verbatim>\<open>api/v1beta1/enoexecevent_types.go\<close>), the wrapper of the handler
  (\<^verbatim>\<open>enoexecevent/handler/enoexecevent_model.go\<close>), and the part of the API server the daemon and the
  handler talk to. Every call may fail as the environment says; before each of them other clients may
  have changed the state. Updates are optimistic: they carry the resource version they were read at.
  The status is a subresource: a plain update or a creation ignores it, a status update changes
  nothing else.
\<close>

section \<open>Types\<close>

record ENoExecEventStatus =
  st_NodeName :: string
  st_PodName :: string
  st_PodNamespace :: string
  st_ContainerID :: string

definition empty_status :: ENoExecEventStatus where
  "empty_status = \<lparr>st_NodeName = [], st_PodName = [], st_PodNamespace = [], st_ContainerID = []\<rparr>"

record ENoExecEvent =
  en_Name :: string
  en_Namespace :: string
  en_Labels :: "(string, string) gomap"
  en_ResourceVersion :: nat
  en_Status :: ENoExecEventStatus

text \<open>
  The patterns of the kubebuilder markers: \<^verbatim>\<open>^[a-z0-9]([-a-z0-9]*[a-z0-9])?$\<close>, its dotted repetition, and
  the container id. An empty field is omitted from the object and not validated.
\<close>

definition label_char :: "char \<Rightarrow> bool" where
  "label_char c = (is_digit c \<or> (CHR ''a'' \<le> c \<and> c \<le> CHR ''z''))"

definition dns_label :: "string \<Rightarrow> bool" where
  "dns_label s =
     (s \<noteq> [] \<and> label_char (hd s) \<and> label_char (last s) \<and> list_all (\<lambda>c. label_char c \<or> c = CHR ''-'') s)"

definition dns_subdomain :: "string \<Rightarrow> bool" where
  "dns_subdomain s = list_all dns_label (split_on (CHR ''.'') s)"

definition valid_status :: "ENoExecEventStatus \<Rightarrow> bool" where
  "valid_status st =
     ((st_NodeName st = [] \<or> length (st_NodeName st) \<le> 253 \<and> dns_subdomain (st_NodeName st)) \<and>
      (st_PodName st = [] \<or> length (st_PodName st) \<le> 253 \<and> dns_subdomain (st_PodName st)) \<and>
      (st_PodNamespace st = [] \<or> length (st_PodNamespace st) \<le> 63 \<and> dns_label (st_PodNamespace st)) \<and>
      (st_ContainerID st = [] \<or> container_id_format (st_ContainerID st)))"

text \<open>\<^verbatim>\<open>daemon/internal/types/event.go\<close>: what the tracer sends to the storage, and its conversion.\<close>

record ENOEXECInternalEvent =
  ev_PodName :: string
  ev_PodNamespace :: string
  ev_ContainerID :: string

definition ToENoExecEvent :: "string \<Rightarrow> string \<Rightarrow> string \<Rightarrow> ENOEXECInternalEvent \<Rightarrow> ENoExecEvent result" where
  "ToENoExecEvent uuid ns nodeName ev =
     Inr \<lparr>en_Name = uuid, en_Namespace = ns, en_Labels = None, en_ResourceVersion = 0,
          en_Status = \<lparr>st_NodeName = nodeName, st_PodName = ev_PodName ev,
                       st_PodNamespace = ev_PodNamespace ev, st_ContainerID = ev_ContainerID ev\<rparr>\<rparr>"

section \<open>The wrapper of the handler\<close>

definition event_EnsureLabel :: "string \<Rightarrow> string \<Rightarrow> ENoExecEvent \<Rightarrow> ENoExecEvent" where
  "event_EnsureLabel label v e = e\<lparr>en_Labels := put_map (en_Labels e) label v\<rparr>"

definition event_EnsureNoLabel :: "string \<Rightarrow> ENoExecEvent \<Rightarrow> ENoExecEvent" where
  "event_EnsureNoLabel label e = e\<lparr>en_Labels := delete_key (en_Labels e) label\<rparr>"

definition MarkAsError :: "ENoExecEvent \<Rightarrow> ENoExecEvent" where
  "MarkAsError e = event_EnsureLabel ENoExecEventErrorLabel ''true'' e"

definition IsMarkedAsError :: "ENoExecEvent \<Rightarrow> bool" where
  "IsMarkedAsError e = (lookup_map (en_Labels e) ENoExecEventErrorLabel = Some ''true'')"

definition HasErrorLabel :: "ENoExecEvent \<Rightarrow> bool" where
  "HasErrorLabel e = has_key (en_Labels e) ENoExecEventErrorLabel"

section \<open>The API server\<close>

type_synonym event_key = "string \<times> string"

definition key_of :: "ENoExecEvent \<Rightarrow> event_key" where
  "key_of e = (en_Namespace e, en_Name e)"

record world =
  w_calls :: nat
  w_version :: nat
  w_events :: "event_key \<rightharpoonup> ENoExecEvent"
  w_past :: "(event_key \<rightharpoonup> ENoExecEvent) list"
  w_pods :: "string \<times> string \<rightharpoonup> CorePod"
  w_nodes :: "string \<rightharpoonup> node"
  w_published :: "(string \<times> string \<times> event) list"
  EnoexecCounter :: nat
  EnoexecCounterInvalid :: nat

type_synonym 'a eop = "(world, 'a) state"

text \<open>
  The environment of a client: the error of its \<open>i\<close>-th call, what others did just before it, the
  operator's namespace, and by how many writes its informer cache is behind.
\<close>

record client_env =
  e_fault :: "nat \<Rightarrow> go_error option"
  e_others :: "nat \<Rightarrow> world \<Rightarrow> world"
  e_namespace :: string
  e_lag :: nat

definition api_call :: "client_env \<Rightarrow> (world \<Rightarrow> 'a result \<times> world) \<Rightarrow> 'a result eop" where
  "api_call env f = State (\<lambda>w.
     let i = w_calls w; w' = (e_others env i w)\<lparr>w_calls := Suc i\<rparr>
     in case e_fault env i of Some e \<Rightarrow> (Inl e, w') | None \<Rightarrow> f w')"

lemma run_api_call [run_simps]:
  "run_state (api_call env f) w =
     (case e_fault env (w_calls w) of
        Some e \<Rightarrow> (Inl e, (e_others env (w_calls w) w)\<lparr>w_calls := Suc (w_calls w)\<rparr>)
      | None \<Rightarrow> f ((e_others env (w_calls w) w)\<lparr>w_calls := Suc (w_calls w)\<rparr>))"
  by (simp add: api_call_def Let_def)

definition get_event :: "client_env \<Rightarrow> event_key \<Rightarrow> ENoExecEvent result eop" where
  "get_event env k = api_call env (\<lambda>w. (found (snd k) (w_events w k), w))"

text \<open>An informer cache holds the current state of the events or a past one.\<close>

definition informer_view :: "client_env \<Rightarrow> world \<Rightarrow> event_key \<rightharpoonup> ENoExecEvent" where
  "informer_view env w = (w_events w # w_past w) ! min (e_lag env) (length (w_past w))"

definition get_event_cached :: "client_env \<Rightarrow> event_key \<Rightarrow> ENoExecEvent result eop" where
  "get_event_cached env k = api_call env (\<lambda>w. (found (snd k) (informer_view env w k), w))"

definition set_events :: "(event_key \<rightharpoonup> ENoExecEvent) \<Rightarrow> world \<Rightarrow> world" where
  "set_events m w = w\<lparr>w_past := w_events w # w_past w, w_events := m\<rparr>"

text \<open>The stored object is replaced and gets a fresh version, unless nothing changes.\<close>

definition write_event :: "event_key \<Rightarrow> ENoExecEvent \<Rightarrow> ENoExecEvent \<Rightarrow> world \<Rightarrow> ENoExecEvent \<times> world" where
  "write_event k old e w =
     (if e\<lparr>en_ResourceVersion := en_ResourceVersion old\<rparr> = old then (old, w)
      else let e' = e\<lparr>en_ResourceVersion := w_version w\<rparr>
           in (e', set_events ((w_events w)(k \<mapsto> e')) (w\<lparr>w_version := Suc (w_version w)\<rparr>)))"

definition checked_write :: "ENoExecEvent \<Rightarrow> (ENoExecEvent \<Rightarrow> ENoExecEvent) \<Rightarrow> world \<Rightarrow> ENoExecEvent result \<times> world" where
  "checked_write e change w =
     (case w_events w (key_of e) of
        None \<Rightarrow> (Inl (NotFoundError (en_Name e)), w)
      | Some old \<Rightarrow>
          if en_ResourceVersion old \<noteq> en_ResourceVersion e then (Inl (ConflictError (en_Name e)), w)
          else let (e', w') = write_event (key_of e) old (change old) w in (Inr e', w'))"

definition update_event :: "client_env \<Rightarrow> ENoExecEvent \<Rightarrow> ENoExecEvent result eop" where
  "update_event env e = api_call env (checked_write e (\<lambda>old. e\<lparr>en_Status := en_Status old\<rparr>))"

definition update_event_status :: "client_env \<Rightarrow> ENoExecEvent \<Rightarrow> ENoExecEvent result eop" where
  "update_event_status env e = api_call env (\<lambda>w.
     if \<not> valid_status (en_Status e) then (Inl (GoError ''ENoExecEvent is invalid''), w)
     else checked_write e (\<lambda>old. old\<lparr>en_Status := en_Status e\<rparr>) w)"

definition create_event :: "client_env \<Rightarrow> ENoExecEvent \<Rightarrow> ENoExecEvent result eop" where
  "create_event env e = api_call env (\<lambda>w.
     if w_events w (key_of e) \<noteq> None then (Inl (GoError ''already exists''), w)
     else let e' = e\<lparr>en_Status := empty_status, en_ResourceVersion := w_version w\<rparr>
          in (Inr e', set_events ((w_events w)(key_of e \<mapsto> e')) (w\<lparr>w_version := Suc (w_version w)\<rparr>)))"

definition delete_enoexec_event :: "client_env \<Rightarrow> ENoExecEvent \<Rightarrow> unit result eop" where
  "delete_enoexec_event env e = api_call env (\<lambda>w.
     case w_events w (key_of e) of
       None \<Rightarrow> (Inl (NotFoundError (en_Name e)), w)
     | Some _ \<Rightarrow> (Inr (), set_events ((w_events w)(key_of e := None)) w))"

definition get_pod :: "client_env \<Rightarrow> string \<times> string \<Rightarrow> CorePod result eop" where
  "get_pod env k = api_call env (\<lambda>w. (found (snd k) (w_pods w k), w))"

text \<open>The update of a pod carries the version that was read: it conflicts if the pod has changed since.\<close>

definition update_pod :: "client_env \<Rightarrow> CorePod \<Rightarrow> CorePod \<Rightarrow> unit result eop" where
  "update_pod env base p = api_call env (\<lambda>w.
     let k = (Namespace p, Name p)
     in case w_pods w k of
          None \<Rightarrow> (Inl (NotFoundError (Name p)), w)
        | Some current \<Rightarrow>
            if current = base then (Inr (), w\<lparr>w_pods := (w_pods w)(k \<mapsto> p)\<rparr>) else (Inl (ConflictError (Name p)), w))"

definition get_node :: "client_env \<Rightarrow> string \<Rightarrow> node result eop" where
  "get_node env n = api_call env (\<lambda>w. (found n (w_nodes w n), w))"

end
