(* ===== verification/Enoexec_Tracepoint.thy ===== *)
theory Enoexec_Tracepoint
  imports Ebpf Enoexec_Events
begin

text \<open>
  The user-land half of the exec format error tracer
  (\<^verbatim>\<open>internal/controller/enoexecevent/daemon/internal/tracepoint\<close>): sizing the ring buffer, finding the
  kernel offsets, attaching the program and releasing what was acquired, and turning a record of the
  ring buffer into an event that names a pod and a container. The files under \<^verbatim>\<open>/proc\<close>, the list of
  pod sandboxes of the container runtime and the kernel's type information are parameters.
\<close>

section \<open>The ring buffer size\<close>

text \<open>
  \<^verbatim>\<open>math.Ceil(float64(a) / float64(b))\<close>: both operands are below \<open>2 ^ 32\<close>, where the rounding error of the
  quotient is smaller than its distance \<open>1 / b\<close> from the next integer, so the result is the exact ceiling.
\<close>

definition ceil_div :: "nat \<Rightarrow> nat \<Rightarrow> nat" where
  "ceil_div a b = (a + b - 1) div b"

definition buffer_size :: "32 word \<Rightarrow> 32 word \<Rightarrow> 32 word" where
  "buffer_size pageSize maxEvents =
     (let payloadSize = PayloadSize + 8
      in pageSize * of_nat (ceil_div (unat (maxEvents * payloadSize)) (unat pageSize)))"

text \<open>The daemon sizes its channel and its ring buffer for this many events.\<close>

definition maxEvents :: "32 word" where
  "maxEvents = 256"

section \<open>Kernel offsets\<close>

datatype btf_type = Struct "(string \<times> 32 word) list" | OtherType

definition realParentFound :: "8 word" where "realParentFound = push_bit 0 1"
definition tgidFound :: "8 word" where "tgidFound = push_bit 1 1"

definition offset_bytes :: "32 word \<Rightarrow> 32 word" where
  "offset_bytes bits = bits div 8"

fun member_loop :: "(string \<times> 32 word) list \<Rightarrow> 32 word \<Rightarrow> 32 word \<Rightarrow> 8 word \<Rightarrow> (32 word \<times> 32 word \<times> 8 word) result" where
  "member_loop [] rp tg flags = Inr (rp, tg, flags)"
| "member_loop ((name, bits) # ms) rp tg flags =
     (let off = offset_bytes bits; isRp = (name = ''real_parent''); isTg = (name = ''tgid'')
      in if isRp \<and> 0x7FFFFFFF < off then Inl (GoError (''real_parent offset too large: '' @ show_nat (unat off)))
         else if isTg \<and> 0x7FFFFFFF < off then Inl (GoError (''tgid offset too large: '' @ show_nat (unat off)))
         else member_loop ms (if isRp then off else rp) (if isTg then off else tg)
                ((flags OR (if isRp then realParentFound else 0)) OR (if isTg then tgidFound else 0)))"

text \<open>The result is the pair of the offsets of \<open>tgid\<close> and \<open>real_parent\<close>.\<close>

definition initializeOffsets :: "btf_type result result \<Rightarrow> (32 word \<times> 32 word) result" where
  "initializeOffsets kernelSpec =
     (case kernelSpec of
        Inl e \<Rightarrow> Inl (GoError (''failed to load kernel BTF spec: '' @ error_msg e))
      | Inr (Inl e) \<Rightarrow> Inl (GoError (''failed to find task_struct: '' @ error_msg e))
      | Inr (Inr OtherType) \<Rightarrow> Inl (GoError ''task_struct is not a struct'')
      | Inr (Inr (Struct members)) \<Rightarrow>
          (case member_loop members 0 0 0 of
             Inl e \<Rightarrow> Inl e
           | Inr (rp, tg, flags) \<Rightarrow>
               if flags \<noteq> realParentFound OR tgidFound
               then Inl (GoError ''failed to find real_parent or tgid in task_struct'')
               else Inr (tg, rp)))"

section \<open>The tracepoint object\<close>

record Tracepoint =
  tp_ctx :: bool
  tp_events :: "int option"
  tp_prog :: bool
  tp_link :: bool
  tgidOffset :: "32 word option"
  realParentOffset :: "32 word option"
  bufferSize :: "32 word"
  tp_order :: order
  tp_instructions :: "instruction list"

definition NewTracepoint :: "int \<Rightarrow> 32 word \<Rightarrow> order \<Rightarrow> btf_type result result \<Rightarrow> Tracepoint result" where
  "NewTracepoint ps events hostOrder kernelSpec =
     (if ps \<le> 0 \<or> 0xFFFFFFFF < ps then Inl (GoError (''invalid page size: '' @ show_int ps))
      else case initializeOffsets kernelSpec of
             Inl e \<Rightarrow> Inl (GoError (''failed to initialize offsets: '' @ error_msg e))
           | Inr (tg, rp) \<Rightarrow>
               Inr \<lparr>tp_ctx = True, tp_events = None, tp_prog = False, tp_link = False,
                    tgidOffset = Some tg, realParentOffset = Some rp,
                    bufferSize = buffer_size (word_of_int ps) events, tp_order = hostOrder,
                    tp_instructions = []\<rparr>)"

text \<open>
  Closing releases whatever is held and forgets it, errors of the individual calls notwithstanding.
  The errors are given by what each call would return; the result joins those of the calls made.
\<close>

record close_faults =
  events_Close :: "go_error option"
  link_Close :: "go_error option"
  prog_Close :: "go_error option"

definition close_error :: "bool \<Rightarrow> string \<Rightarrow> go_error option \<Rightarrow> string list" where
  "close_error held what e = (if held then (case e of None \<Rightarrow> [] | Some x \<Rightarrow> [what @ error_msg x]) else [])"

definition tp_close :: "close_faults \<Rightarrow> Tracepoint \<Rightarrow> string list \<times> Tracepoint" where
  "tp_close f tp =
     (close_error (tp_events tp \<noteq> None) ''failed to close events map: '' (events_Close f) @
      close_error (tp_link tp) ''failed to close tracepoint link: '' (link_Close f) @
      close_error (tp_prog tp) ''failed to close eBPF program: '' (prog_Close f),
      tp\<lparr>tp_events := None, tp_link := False, tp_prog := False, tp_ctx := False\<rparr>)"

text \<open>The kernel's answers to the calls of \<open>attach\<close>: the new map's descriptor, the program, the link.\<close>

record attach_answers =
  NewMap :: "int result"
  NewProgram :: "unit result"
  link_Tracepoint :: "unit result"

definition attach_failed :: "close_faults \<Rightarrow> string \<Rightarrow> go_error \<Rightarrow> Tracepoint \<Rightarrow> string list \<times> Tracepoint" where
  "attach_failed f what e tp = (let (es, tp') = tp_close f tp in (what # error_msg e # es, tp'))"

definition attach :: "attach_answers \<Rightarrow> close_faults \<Rightarrow> Tracepoint \<Rightarrow> string list \<times> Tracepoint" where
  "attach ans f tp =
     (case NewMap ans of
        Inl e \<Rightarrow> attach_failed f ''error creating the ring buffer'' e (tp\<lparr>tp_events := None\<rparr>)
      | Inr fd \<Rightarrow>
          (let tp1 = tp\<lparr>tp_events := Some fd\<rparr>
           in case initializeProgSpec fd (tgidOffset tp1) (realParentOffset tp1) of
                Inl e \<Rightarrow> attach_failed f ''error initializing the eBPF program'' e tp1
              | Inr code \<Rightarrow>
                  (let tp2 = tp1\<lparr>tp_instructions := code\<rparr>
                   in case NewProgram ans of
                        Inl e \<Rightarrow> attach_failed f ''failed to create eBPF program'' e tp2
                      | Inr _ \<Rightarrow>
                          (let tp3 = tp2\<lparr>tp_prog := True\<rparr>
                           in case link_Tracepoint ans of
                                Inl e \<Rightarrow> attach_failed f ''failed to attach tracepoint'' e tp3
                              | Inr _ \<Rightarrow> ([], tp3\<lparr>tp_link := True\<rparr>)))))"

section \<open>From a record to a pod\<close>

text \<open>The value of the regular expression \<^verbatim>\<open>pod([0-9a-fA-F_]{36})\.slice\<close>: the leftmost match's group.\<close>

definition uid_char :: "char \<Rightarrow> bool" where
  "uid_char c = (is_digit c \<or> c \<in> set ''abcdefABCDEF_'')"

definition uid_here :: "string \<Rightarrow> bool" where
  "uid_here s =
     (has_prefix s ''pod'' \<and> 36 \<le> length (drop 3 s) \<and> list_all uid_char (take 36 (drop 3 s)) \<and>
      has_prefix (drop 39 s) ''.slice'')"

fun find_pod_uid :: "string \<Rightarrow> string option" where
  "find_pod_uid [] = None"
| "find_pod_uid (c # s) = (if uid_here (c # s) then Some (take 36 (drop 3 (c # s))) else find_pod_uid s)"

definition container_of_cgroup :: "string \<Rightarrow> string" where
  "container_of_cgroup out =
     replace_first (trim_suffix (last (split_on (CHR ''/'') out)) ''.scope'') ''crio-'' ''cri-o://''"

definition replace_char :: "char \<Rightarrow> char \<Rightarrow> string \<Rightarrow> string" where
  "replace_char old new s = map (\<lambda>c. if c = old then new else c) s"

definition pod_of_cgroup :: "string \<Rightarrow> string" where
  "pod_of_cgroup out =
     (case find_pod_uid out of None \<Rightarrow> [] | Some u \<Rightarrow> replace_char (CHR ''_'') (CHR ''-'') u)"

text \<open>
  What the tracer reads of the node: the lines of \<^verbatim>\<open>/proc/<pid>/cgroup\<close>, whether the socket of the container
  runtime can be opened, and its pod sandboxes with their metadata (uid, name, namespace; a nil pointer is \<^term>\<open>None\<close>).
\<close>

record sandbox_metadata =
  sb_Uid :: string
  sb_Name :: string
  sb_Namespace :: string

record node_env =
  cgroup :: "32 word \<Rightarrow> string list result"
  criConnect :: "go_error option"
  ListPodSandbox :: "sandbox_metadata option list result"

definition getPodContainerUUIDFor :: "node_env \<Rightarrow> 32 word \<Rightarrow> (string \<times> string) result" where
  "getPodContainerUUIDFor env pid =
     (case cgroup env pid of
        Inl e \<Rightarrow> Inl e
      | Inr ls \<Rightarrow> (let out = concat ls in Inr (pod_of_cgroup out, container_of_cgroup out)))"

definition GetUid :: "sandbox_metadata option \<Rightarrow> string" where
  "GetUid m = (case m of None \<Rightarrow> [] | Some x \<Rightarrow> sb_Uid x)"

text \<open>The outer \<^term>\<open>None\<close> is the panic of reading the name of a sandbox without metadata.\<close>

definition getPodNameFromUUID :: "node_env \<Rightarrow> string \<Rightarrow> (string \<times> string) result option" where
  "getPodNameFromUUID env uid =
     (case (criConnect env, ListPodSandbox env) of
        (Some e, _) \<Rightarrow> Some (Inl (GoError (''failed to connect to CRI socket: '' @ error_msg e)))
      | (None, Inl e) \<Rightarrow> Some (Inl (GoError (''failed to list pod sandboxes: '' @ error_msg e)))
      | (None, Inr items) \<Rightarrow>
          (case List.find (\<lambda>m. GetUid m = uid) items of
             None \<Rightarrow> Some (Inr ([], []))
           | Some None \<Rightarrow> None
           | Some (Some m) \<Rightarrow> Some (Inr (sb_Name m, sb_Namespace m))))"

fun locate :: "node_env \<Rightarrow> go_error \<Rightarrow> 32 word list \<Rightarrow> ENOEXECInternalEvent result option" where
  "locate env missing [] = Some (Inl missing)"
| "locate env missing (pid # pids) =
     (case getPodContainerUUIDFor env pid of
        Inl _ \<Rightarrow> locate env missing pids
      | Inr (podUUID, containerUUID) \<Rightarrow>
          (case getPodNameFromUUID env podUUID of
             None \<Rightarrow> None
           | Some (Inl e) \<Rightarrow>
               Some (Inl (GoError (''failed to get pod name from UUID '' @ podUUID @ '': '' @ error_msg e)))
           | Some (Inr (podName, podNamespace)) \<Rightarrow>
               if podName = [] then locate env missing pids
               else Some (Inr \<lparr>ev_PodName = podName, ev_PodNamespace = podNamespace,
                               ev_ContainerID = containerUUID\<rparr>)))"

definition Uint32 :: "order \<Rightarrow> 8 word list \<Rightarrow> 32 word" where
  "Uint32 ord bs = read_word ord (take 4 bs)"

definition hex_byte :: "8 word \<Rightarrow> string" where
  "hex_byte b = (let n = unat b; up = (\<lambda>d. ''0123456789ABCDEF'' ! d) in [up (n div 16), up (n mod 16)])"

definition processRecord :: "node_env \<Rightarrow> order \<Rightarrow> 8 word list \<Rightarrow> ENOEXECInternalEvent result option" where
  "processRecord env ord sample =
     (if length sample < 8
      then Some (Inl (GoError (''record too short: '' @ show_nat (length sample) @ '' bytes, expected at least 8 bytes'')))
      else let realParentTGID = Uint32 ord (take 4 sample);
               currentTaskTGID = Uint32 ord (take 4 (drop 4 sample));
               missing = GoError (''failed to find pod/container UUIDs in record: hex:['' @
                           join_with '' '' (map hex_byte sample) @ ''] = ('' @
                           show_nat (unat realParentTGID) @ '', '' @ show_nat (unat currentTaskTGID) @ '')'')
           in locate env missing [currentTaskTGID, realParentTGID])"

section \<open>Sizing\<close>

lemma ceil_div_bounds:
  assumes "0 < b"
  shows "a \<le> b * ceil_div a b" "b * ceil_div a b < a + b"
proof -
  have m: "b * ceil_div a b + (a + b - 1) mod b = a + b - 1"
    unfolding ceil_div_def by (rule mult_div_mod_eq)
  have "(a + b - 1) mod b < b" using assms by simp
  then show "a \<le> b * ceil_div a b" "b * ceil_div a b < a + b" using m assms by linarith+
qed

lemma ceil_div_mult: "0 < b \<Longrightarrow> ceil_div (b * d) b = d"
  by (simp add: ceil_div_def div_nat_eqI)

lemma buffer_size_nat:
  assumes "0 < unat ps" "16 * unat n + unat ps \<le> 2 ^ 32"
  shows "unat (buffer_size ps n) = unat ps * ceil_div (16 * unat n) (unat ps)"
proof -
  note c = ceil_div_bounds[OF assms(1), of "16 * unat n"]
  have e: "unat (n * (PayloadSize + 8)) = 16 * unat n"
    using assms by (simp add: PayloadSize_def unat_mult_lem[THEN iffD1] mult.commute)
  have "ceil_div (16 * unat n) (unat ps) \<le> unat ps * ceil_div (16 * unat n) (unat ps)"
    using assms(1) by simp
  then have l: "ceil_div (16 * unat n) (unat ps) < 2 ^ 32" using c(2) assms(2) by linarith
  then have "unat (of_nat (ceil_div (16 * unat n) (unat ps)) :: 32 word) = ceil_div (16 * unat n) (unat ps)"
    by (simp add: unat_of_nat take_bit_nat_eq_self)
  moreover have "unat ps * ceil_div (16 * unat n) (unat ps) < 2 ^ 32" using c(2) assms(2) by linarith
  ultimately show ?thesis
    unfolding buffer_size_def Let_def e by (subst unat_mult_lem[THEN iffD1]) simp_all
qed

lemma NewTracepoint_Inr:
  assumes "NewTracepoint ps events ord spec = Inr tp"
  shows "0 < ps" "ps \<le> 0xFFFFFFFF" "bufferSize tp = buffer_size (word_of_int ps) events"
    "tp_order tp = ord" "tp_events tp = None" "\<not> tp_prog tp" "\<not> tp_link tp"
    "initializeOffsets spec = Inr (tg, rp) \<Longrightarrow> tgidOffset tp = Some tg \<and> realParentOffset tp = Some rp"
  using assms by (auto simp: NewTracepoint_def split: if_splits sum.splits)

text \<open>C36: The ring buffer of an accepted page size is a whole number of pages, has room for the header
  and the payload of every event asked for, and wastes less than a page, as long as the request and one
  page together fit 32 bits; for the 256 events of the daemon on a machine whose page size is a power
  of two it is a power of two, as the kernel demands of a ring buffer.\<close>
theorem buffer_size_bounds:
  assumes "NewTracepoint ps events ord spec = Inr tp"
    and "16 * uint events + ps \<le> 2 ^ 32"
  shows "ps dvd uint (bufferSize tp) \<and> 16 * uint events \<le> uint (bufferSize tp) \<and>
    uint (bufferSize tp) < 16 * uint events + ps \<and>
    (events = maxEvents \<longrightarrow> ps = 2 ^ j \<longrightarrow> uint (bufferSize tp) = 2 ^ max j 12)"
proof -
  note new = NewTracepoint_Inr(1-3)[OF assms(1)]
  define q where "q = nat ps"
  have ps: "ps = int q" "0 < q" using new(1) by (simp_all add: q_def)
  define e where "e = unat events"
  have e: "uint events = int e" by (simp add: e_def)
  have "int (16 * e + q) \<le> int (2 ^ 32)" using assms(2) unfolding e ps(1) by simp
  then have fits: "16 * e + q \<le> 2 ^ 32" by (simp only: of_nat_le_iff)
  have "unat (word_of_int ps :: 32 word) = q"
    using new ps by (simp add: unat_of_nat take_bit_nat_eq_self)
  then have "unat (bufferSize tp) = q * ceil_div (16 * e) q"
    using buffer_size_nat[of "word_of_int ps" events] fits ps(2) new(3) by (simp add: e_def)
  then have size: "uint (bufferSize tp) = int (q * ceil_div (16 * e) q)"
    using uint_nat[of "bufferSize tp"] by simp
  have "q * ceil_div 4096 q = 2 ^ max j 12" if "q = 2 ^ j"
  proof (cases "j \<le> 12")
    case True
    then have "(2::nat) ^ 12 = 2 ^ j * 2 ^ (12 - j)" by (simp flip: power_add)
    then have d: "q * 2 ^ (12 - j) = 4096" using that by simp
    then have "ceil_div 4096 q = 2 ^ (12 - j)" using ceil_div_mult[OF ps(2), of "2 ^ (12 - j)"] by simp
    then show ?thesis using True d by (simp add: max_def)
  next
    case False
    then have "(2::nat) ^ 13 \<le> 2 ^ j" by (intro power_increasing) simp_all
    then have "ceil_div 4096 q = 1" using that by (simp add: ceil_div_def div_nat_eqI)
    then show ?thesis using False that by (simp add: max_def)
  qed
  moreover have "q = 2 ^ j" if "ps = 2 ^ j" using that by (simp add: q_def nat_power_eq)
  moreover have "e = 256" if "events = maxEvents" using that by (simp add: e_def maxEvents_def)
  ultimately have "uint (bufferSize tp) = 2 ^ max j 12" if "events = maxEvents" "ps = 2 ^ j"
    using that size by simp
  moreover have "16 * e \<le> q * ceil_div (16 * e) q \<and> q * ceil_div (16 * e) q < 16 * e + q"
    using ceil_div_bounds[OF ps(2)] by blast
  ultimately show ?thesis
    unfolding size e ps(1) by (auto simp flip: of_nat_mult of_nat_add simp del: of_nat_mult of_nat_add)
qed

theorem buffer_size_bounds_witness:
  "\<exists>tp. NewTracepoint 4096 maxEvents LittleEndian
          (Inr (Inr (Struct [(''real_parent'', 20352), (''tgid'', 20288)]))) = Inr tp \<and>
     uint (bufferSize tp) = 4096 \<and> tgidOffset tp = Some 2536 \<and> realParentOffset tp = Some 2544"
proof -
  let ?spec = "Inr (Inr (Struct [(''real_parent'', 20352), (''tgid'', 20288)])) :: btf_type result result"
  have off: "initializeOffsets ?spec = Inr (2536, 2544)" by code_simp
  then obtain tp where tp: "NewTracepoint 4096 maxEvents LittleEndian ?spec = Inr tp"
    by (simp add: NewTracepoint_def)
  then show ?thesis
    using buffer_size_bounds[OF tp, of 12] NewTracepoint_Inr(8)[OF tp off] by (simp add: maxEvents_def)
qed

section \<open>Attaching and closing\<close>

definition holds_nothing :: "Tracepoint \<Rightarrow> bool" where
  "holds_nothing tp = (tp_events tp = None \<and> \<not> tp_prog tp \<and> \<not> tp_link tp \<and> \<not> tp_ctx tp)"

lemma tp_close_releases: "holds_nothing (snd (tp_close f tp))"
  by (simp add: tp_close_def holds_nothing_def)

lemma tp_close_idempotent: "holds_nothing tp \<Longrightarrow> tp_close f tp = ([], tp)"
  by (cases tp) (simp add: tp_close_def holds_nothing_def close_error_def)

lemma attach_failed_releases: "attach_failed f what e tp = (es, tp') \<Longrightarrow> es \<noteq> [] \<and> holds_nothing tp'"
  by (auto simp: attach_failed_def tp_close_def holds_nothing_def)

lemma attach_all_or_nothing:
  assumes "attach ans f tp = (es, tp')"
  shows "if es = []
         then (\<exists>fd t p. tp_events tp' = Some fd \<and> NewMap ans = Inr fd \<and> tp_prog tp' \<and> tp_link tp' \<and>
                 tgidOffset tp = Some t \<and> realParentOffset tp = Some p \<and>
                 initializeProgSpec fd (Some t) (Some p) = Inr (tp_instructions tp') \<and>
                 tp_order tp' = tp_order tp \<and> tp_ctx tp' = tp_ctx tp)
         else holds_nothing tp'"
proof (cases "es = []")
  case True
  then have "\<And>what e tp0. attach_failed f what e tp0 \<noteq> (es, tp')" using attach_failed_releases by blast
  then show ?thesis
    using assms True
    by (auto simp: attach_def Let_def initializeProgSpec_def split: sum.splits if_splits option.splits)
next
  case False
  then have "\<exists>what e tp0. attach_failed f what e tp0 = (es, tp')"
    using assms by (auto simp: attach_def Let_def split: sum.splits)
  then show ?thesis using False attach_failed_releases by auto
qed

section \<open>Reading the control group\<close>

text \<open>
  The control group of a container under CRI-O with the systemd driver: \<open>qos\<close> is empty for guaranteed
  pods. Dashes of the pod's uid are written as underscores.
\<close>

definition kubepods_path :: "string \<Rightarrow> string \<Rightarrow> string \<Rightarrow> string" where
  "kubepods_path qos uid cid =
     ''0::/kubepods.slice/'' @
     (if qos = [] then ''kubepods-pod'' else ''kubepods-'' @ qos @ ''.slice/kubepods-'' @ qos @ ''-pod'') @
     replace_char (CHR ''-'') (CHR ''_'') uid @ ''.slice/crio-'' @ cid @ ''.scope''"

definition qos_classes :: "string list" where
  "qos_classes = [[], ''burstable'', ''besteffort'']"

definition uid_format :: "string \<Rightarrow> bool" where
  "uid_format uid = (length uid = 36 \<and> list_all (\<lambda>c. is_hex c \<or> c = CHR ''-'') uid)"

lemma is_hex_chars: "is_hex c \<Longrightarrow> uid_char c" "\<not> is_hex (CHR ''_'')" "\<not> is_hex (CHR ''/'')" "\<not> is_hex (CHR ''-'')"
  by (auto simp: is_hex_def uid_char_def is_digit_def)

lemma uid_chars:
  assumes "uid_format uid"
  shows "length (replace_char (CHR ''-'') (CHR ''_'') uid) = 36"
    "list_all uid_char (replace_char (CHR ''-'') (CHR ''_'') uid)"
proof -
  have "uid_char (CHR ''_'')" by (simp add: uid_char_def)
  then show "list_all uid_char (replace_char (CHR ''-'') (CHR ''_'') uid)"
    using assms is_hex_chars(1) unfolding uid_format_def replace_char_def list_all_iff by auto
qed (use assms in \<open>simp add: uid_format_def replace_char_def\<close>)

lemma uid_here_path:
  assumes "length u = 36" "list_all uid_char u"
  shows "uid_here (''pod'' @ u @ ''.slice'' @ rest)"
proof -
  have "drop 39 (''pod'' @ u @ ''.slice'' @ rest) = ''.slice'' @ rest" using assms(1) by simp
  moreover have "drop 3 (''pod'' @ u @ ''.slice'' @ rest) = u @ ''.slice'' @ rest" by simp
  ultimately show ?thesis using assms unfolding uid_here_def by simp
qed

lemma replace_char_back:
  assumes "uid_format uid"
  shows "replace_char (CHR ''_'') (CHR ''-'') (replace_char (CHR ''-'') (CHR ''_'') uid) = uid"
  using assms is_hex_chars(2)
  by (auto simp: replace_char_def uid_format_def list_all_iff intro!: map_idI)

lemma find_pod_uid_here: "uid_here s \<Longrightarrow> find_pod_uid s = Some (take 36 (drop 3 s))"
  by (cases s) (simp_all add: uid_here_def)

lemma find_pod_uid_skip: "\<not> uid_here (c # s) \<Longrightarrow> find_pod_uid (c # s) = find_pod_uid s"
  by simp

lemma not_uid_here:
  "c \<noteq> CHR ''p'' \<Longrightarrow> \<not> uid_here (c # s)"
  "\<not> uid_char d \<Longrightarrow> \<not> uid_here (CHR ''p'' # CHR ''o'' # CHR ''d'' # d # s)"
  by (simp_all add: uid_here_def numeral_3_eq_3)

lemma find_pod_uid_no_p: "list_all (\<lambda>c. c \<noteq> CHR ''p'') pre \<Longrightarrow> find_pod_uid (pre @ s) = find_pod_uid s"
  by (induction pre) (simp_all add: not_uid_here)

lemma find_pod_uid_pods: "find_pod_uid (''pods'' @ s) = find_pod_uid s"
proof -
  have "\<not> uid_char (CHR ''s'')" by (simp add: uid_char_def is_digit_def)
  then have "find_pod_uid (''pods'' @ s) = find_pod_uid (''ods'' @ s)" by (simp add: not_uid_here)
  then show ?thesis using find_pod_uid_no_p[of "''ods''" s] by simp
qed

lemma pod_of_kubepods_path:
  assumes "uid_format uid" "qos \<in> set qos_classes"
  shows "pod_of_cgroup (kubepods_path qos uid cid) = uid"
proof -
  define u where "u = replace_char (CHR ''-'') (CHR ''_'') uid"
  define r where "r = ''/crio-'' @ cid @ ''.scope''"
  note here = find_pod_uid_here[OF uid_here_path[OF uid_chars[OF assms(1)], of r], folded u_def]
  have len: "length u = 36" using uid_chars(1)[OF assms(1)] by (simp add: u_def)
  have skip: "find_pod_uid (pre @ ''pods'' @ s) = find_pod_uid s" if "list_all (\<lambda>c. c \<noteq> CHR ''p'') pre" for pre s
    using find_pod_uid_no_p[OF that] find_pod_uid_pods by simp
  have "kubepods_path qos uid cid =
      (if qos = [] then ''0::/kube'' @ ''pods'' @ ''.slice/kube'' @ ''pods'' @ ''-'' @ ''pod'' @ u @ ''.slice'' @ r
       else ''0::/kube'' @ ''pods'' @ ''.slice/kube'' @ ''pods'' @ (''-'' @ qos @ ''.slice/kube'') @ ''pods'' @
            (''-'' @ qos @ ''-'') @ ''pod'' @ u @ ''.slice'' @ r)"
    by (simp add: kubepods_path_def u_def r_def)
  moreover have q: "list_all (\<lambda>c. c \<noteq> CHR ''p'') qos" using assms(2) by (auto simp: qos_classes_def)
  have "find_pod_uid (''0::/kube'' @ ''pods'' @ s) = find_pod_uid s" for s by (rule skip) simp
  moreover have "find_pod_uid (''.slice/kube'' @ ''pods'' @ s) = find_pod_uid s" for s by (rule skip) simp
  moreover have "find_pod_uid ((''-'' @ qos @ ''.slice/kube'') @ ''pods'' @ s) = find_pod_uid s" for s
    by (rule skip) (use q in simp)
  moreover have "find_pod_uid ((''-'' @ qos @ ''-'') @ s) = find_pod_uid s" for s
    by (rule find_pod_uid_no_p) (use q in simp)
  moreover have "find_pod_uid (''-'' @ s) = find_pod_uid s" for s by (rule find_pod_uid_no_p) simp
  ultimately have "find_pod_uid (kubepods_path qos uid cid) = find_pod_uid (''pod'' @ u @ ''.slice'' @ r)"
    by (cases "qos = []") (simp_all only: if_True if_False simp_thms)
  also have "\<dots> = Some u" using here len by simp
  finally show ?thesis
    using replace_char_back[OF assms(1)] by (simp add: pod_of_cgroup_def u_def)
qed

lemma container_of_kubepods_path:
  assumes "length cid = 64" "list_all is_hex cid"
  shows "container_of_cgroup (kubepods_path qos uid cid) = ''cri-o://'' @ cid"
    "container_id_format (''cri-o://'' @ cid)"
proof -
  define pre where "pre = ''0::/kubepods.slice/'' @
     (if qos = [] then ''kubepods-pod'' else ''kubepods-'' @ qos @ ''.slice/kubepods-'' @ qos @ ''-pod'') @
     replace_char (CHR ''-'') (CHR ''_'') uid @ ''.slice''"
  have path: "kubepods_path qos uid cid = pre @ CHR ''/'' # ''crio-'' @ cid @ ''.scope''"
    by (simp add: kubepods_path_def pre_def)
  have "CHR ''/'' \<notin> set cid" using assms(2) is_hex_chars(3) by (auto simp: list_all_iff)
  then have "last (split_on (CHR ''/'') (kubepods_path qos uid cid)) = ''crio-'' @ cid @ ''.scope''"
    unfolding path by (subst split_on_snoc) auto
  moreover have "trim_suffix ((''crio-'' @ cid) @ ''.scope'') ''.scope'' = ''crio-'' @ cid"
    by (simp add: trim_suffix_def has_suffix_def)
  ultimately show "container_of_cgroup (kubepods_path qos uid cid) = ''cri-o://'' @ cid"
    by (simp add: container_of_cgroup_def replace_first_def)
  have "length (''cri-o://'' @ cid) = 72" using assms(1) by simp
  then show "container_id_format (''cri-o://'' @ cid)"
    using assms by (simp add: container_id_format_def Let_def)
qed

section \<open>From the failing system call to the pod\<close>

text \<open>The kernel memory describes a task with group id \<open>cur\<close> whose real parent has group id \<open>par\<close>.\<close>

definition task_ids :: "kernel \<Rightarrow> 32 word \<Rightarrow> 32 word \<Rightarrow> 32 word \<Rightarrow> 32 word \<Rightarrow> bool" where
  "task_ids k t p cur par =
     (let rp = read_word (k_order k) (the (k_read k (k_task k + scast p) 8)) :: addr
      in k_read k (k_task k + scast p) 8 \<noteq> None \<and> rp \<noteq> 0 \<and>
         k_read k (k_task k + scast t) 4 = Some (put_word (k_order k) 4 cur) \<and>
         k_read k (rp + scast t) 4 = Some (put_word (k_order k) 4 par))"

text \<open>The process runs in a container of the pod the runtime knows as \<open>m\<close>.\<close>

definition runs_in :: "node_env \<Rightarrow> 32 word \<Rightarrow> sandbox_metadata \<Rightarrow> string \<Rightarrow> bool" where
  "runs_in env pid m cid =
     (list_ex (\<lambda>qos. cgroup env pid = Inr [kubepods_path qos (sb_Uid m) cid]) qos_classes \<and>
      uid_format (sb_Uid m) \<and> length cid = 64 \<and> list_all is_hex cid \<and> sb_Name m \<noteq> [] \<and>
      criConnect env = None \<and>
      (case ListPodSandbox env of
         Inl _ \<Rightarrow> False | Inr items \<Rightarrow> List.find (\<lambda>x. GetUid x = sb_Uid m) items = Some (Some m)))"

definition event_for :: "sandbox_metadata \<Rightarrow> string \<Rightarrow> ENOEXECInternalEvent" where
  "event_for m cid = \<lparr>ev_PodName = sb_Name m, ev_PodNamespace = sb_Namespace m, ev_ContainerID = ''cri-o://'' @ cid\<rparr>"

lemma locate_hit:
  assumes "runs_in env pid m cid"
  shows "locate env missing (pid # pids) = Some (Inr (event_for m cid))"
proof -
  from assms obtain qos items where e: "qos \<in> set qos_classes"
      "cgroup env pid = Inr [kubepods_path qos (sb_Uid m) cid]" "ListPodSandbox env = Inr items"
      "List.find (\<lambda>x. GetUid x = sb_Uid m) items = Some (Some m)"
      "uid_format (sb_Uid m)" "length cid = 64" "list_all is_hex cid" "sb_Name m \<noteq> []"
      "criConnect env = None"
    by (auto simp: runs_in_def list_ex_iff split: sum.splits)
  then show ?thesis
    by (simp add: getPodContainerUUIDFor_def getPodNameFromUUID_def pod_of_kubepods_path
        container_of_kubepods_path event_for_def)
qed

lemma locate_gone: "cgroup env pid = Inl e \<Longrightarrow> locate env missing (pid # pids) = locate env missing pids"
  by (simp add: getPodContainerUUIDFor_def)

lemma captured_task_ids:
  "task_ids k t p cur par \<Longrightarrow> captured k t p = Some (put_word (k_order k) 4 par @ put_word (k_order k) 4 cur)"
  by (auto simp: task_ids_def captured_def Let_def)

lemma processRecord_ids:
  "\<exists>missing. processRecord env ord (put_word ord 4 (par :: 32 word) @ put_word ord 4 (cur :: 32 word)) =
     locate env missing [cur, par]"
  by (auto simp: processRecord_def Let_def Uint32_def read_put_word)

text \<open>C23: Once the tracepoint is attached, an \<open>execve\<close> that fails with \<open>ENOEXEC\<close> puts one record into the
  ring buffer, and processing that record in user land yields the event that names the pod and the
  container the failing task runs in, or those of its parent when the task is gone by then; the
  container id has the form the API requires.\<close>
theorem detection_names_the_pod:
  assumes "NewTracepoint ps events (k_order k) spec = Inr tp0" and "attach ans f tp0 = ([], tp)"
    and "tp_events tp = Some fd" "tgidOffset tp0 = Some t" "realParentOffset tp0 = Some p"
    and "kernel_promises k (k_map k fd) fp" "k_reserve k (k_map k fd) 8 \<noteq> 0" "task_ids k t p cur par"
    and "regs st R1 = Some ctx" "regs st R10 = Some fp" "slot st = None"
    and "load (bmem st) (ctx + 16) 8 = Some (put_word (k_order k) 8 (- 8 :: 64 word))"
    and "runs_in env cur m cid \<or> (\<exists>e. cgroup env cur = Inl e) \<and> runs_in env par m cid"
  shows "\<exists>st' sample. bpf_run 42 k (tp_instructions tp) 0 st = Halted 0 st' \<and>
           ring st' = ring st @ [sample] \<and>
           processRecord env (tp_order tp) sample = Some (Inr (event_for m cid)) \<and>
           container_id_format (ev_ContainerID (event_for m cid))"
proof -
  have att: "initializeProgSpec fd (Some t) (Some p) = Inr (tp_instructions tp)" "tp_order tp = k_order k"
    using attach_all_or_nothing[OF assms(2)] assms(3-5) NewTracepoint_Inr(4)[OF assms(1)] by auto
  then have prog: "tp_instructions tp = instructions fd t p"
    by (simp add: initializeProgSpec_def split: if_splits)
  define sample where "sample = put_word (k_order k) 4 par @ put_word (k_order k) 4 cur"
  have "ends 42 k (tp_instructions tp) 0 st (ring st @ [sample])"
    unfolding prog
    by (rule program_ends[OF assms(6,9,10,11,12)])
      (use assms(7) captured_task_ids[OF assms(8)] in \<open>simp_all add: sample_def\<close>)
  moreover have "processRecord env (tp_order tp) sample = Some (Inr (event_for m cid))"
    using processRecord_ids[of env "k_order k" par cur] assms(13) att(2) locate_hit locate_gone
    unfolding sample_def by (metis (no_types, lifting))
  moreover have "container_id_format (ev_ContainerID (event_for m cid))"
    using assms(13) container_of_kubepods_path(2) by (auto simp: runs_in_def event_for_def)
  ultimately show ?thesis unfolding ends_def by blast
qed

definition sample_sandbox :: sandbox_metadata where
  "sample_sandbox = \<lparr>sb_Uid = ''15778196-6e1f-4b5d-8012-12c7bf5c04b3'', sb_Name = ''web'', sb_Namespace = ''shop''\<rparr>"

definition sample_cid :: string where
  "sample_cid = ''4015cec33e493690b48385efa86af20938e5b80077094cbc5e875945178d57be''"

definition sample_node :: node_env where
  "sample_node =
     \<lparr>cgroup = (\<lambda>pid. if pid = 7 then Inr [kubepods_path ''burstable'' (sb_Uid sample_sandbox) sample_cid]
                     else Inl (GoError ''no such process'')),
      criConnect = None, ListPodSandbox = Inr [Some sample_sandbox]\<rparr>"

definition sample_spec :: "btf_type result result" where
  "sample_spec = Inr (Inr (Struct [(''tgid'', 64), (''real_parent'', 128)]))"

definition sample_answers :: attach_answers where
  "sample_answers = \<lparr>NewMap = Inr 3, NewProgram = Inr (), link_Tracepoint = Inr ()\<rparr>"

definition no_faults :: close_faults where
  "no_faults = \<lparr>events_Close = None, link_Close = None, prog_Close = None\<rparr>"

lemma sample_offsets: "initializeOffsets sample_spec = Inr (8, 16)"
  by code_simp

lemma sample_runs_in: "runs_in sample_node 7 sample_sandbox sample_cid"
proof -
  have "uid_format (sb_Uid sample_sandbox)" "length sample_cid = 64" "list_all is_hex sample_cid"
    by code_simp+
  then show ?thesis
    by (simp add: runs_in_def qos_classes_def sample_node_def)
      (simp add: sample_sandbox_def GetUid_def)
qed

lemma sample_task_ids: "task_ids sample_kernel 8 16 42 7"
  by (simp add: task_ids_def sample_kernel_def read_put_word)

lemma sample_load:
  "load (bmem sample_entry) (0x3000 + 16) 8 = Some (put_word (k_order sample_kernel) 8 (- 8 :: 64 word))"
  by (simp add: sample_entry_def sample_kernel_def load_store_same)

theorem detection_names_the_pod_witness:
  "\<exists>tp0 tp st' sample. NewTracepoint 4096 maxEvents BigEndian sample_spec = Inr tp0 \<and>
     attach sample_answers no_faults tp0 = ([], tp) \<and>
     bpf_run 42 sample_kernel (tp_instructions tp) 0 sample_entry = Halted 0 st' \<and> ring st' = [sample] \<and>
     processRecord sample_node (tp_order tp) sample =
       Some (Inr \<lparr>ev_PodName = ''web'', ev_PodNamespace = ''shop'', ev_ContainerID = ''cri-o://'' @ sample_cid\<rparr>)"
proof -
  have ord: "k_order sample_kernel = BigEndian" by (simp add: sample_kernel_def)
  obtain tp0 where tp0: "NewTracepoint 4096 maxEvents (k_order sample_kernel) sample_spec = Inr tp0"
    by (simp add: NewTracepoint_def sample_offsets)
  note off = NewTracepoint_Inr(8)[OF tp0 sample_offsets]
  obtain tp where tp: "attach sample_answers no_faults tp0 = ([], tp)" "tp_events tp = Some 3"
    using off by (simp add: attach_def sample_answers_def initializeProgSpec_def Let_def)
  have free: "k_reserve sample_kernel (k_map sample_kernel 3) 8 \<noteq> 0" by (simp add: sample_kernel_def)
  have entry: "regs sample_entry R1 = Some 0x3000" "regs sample_entry R10 = Some 0x8000"
    "slot sample_entry = None" "ring sample_entry = []"
    by (simp_all add: sample_entry_def)
  have gone: "runs_in sample_node 42 sample_sandbox sample_cid \<or>
      (\<exists>e. cgroup sample_node 42 = Inl e) \<and> runs_in sample_node 7 sample_sandbox sample_cid"
    using sample_runs_in by (simp add: sample_node_def)
  show ?thesis
    using detection_names_the_pod[OF tp0 tp off[THEN conjunct1] off[THEN conjunct2] sample_promises free
        sample_task_ids entry(1-3) sample_load gone] tp0 tp
    unfolding ord entry(4) by (auto simp: event_for_def sample_sandbox_def)
qed

end
