(* ===== verification/Enoexec_Handler.thy ===== *)
theory Enoexec_Handler
  imports Enoexec_Events
begin

text \<open>
  The handler of exec format error events
  (\<^verbatim>\<open>internal/controller/enoexecevent/handler/enoexecevent_controller.go\<close>): it labels the pod an event
  names, publishes a warning on it and deletes the event; events it cannot handle are labelled with
  the reason. The section on safety shows that an event never disappears without its pod having been
  marked, unless pod or node are gone.
\<close>

section \<open>Operations\<close>

definition ExecFormatErrorEventMessage :: "string \<Rightarrow> string \<Rightarrow> string" where
  "ExecFormatErrorEventMessage containerName nodeArch =
     (if containerName = UnknownContainer then ''A container '' else ''Container '' @ quote containerName @ '' '') @
     ''is running a binary'' @ '' that is not compatible with the node architecture'' @
     (if nodeArch \<noteq> [] then '' ('' @ nodeArch @ '')'' else []) @
     ''. This is likely due to an error in the image build process or a misconfiguration '' @ [CHR 0x0A] @
     ''in the container'' @ [CHR 0x27] @ ''s startup scripts. Please ensure that the container image is built '' @ [CHR 0x0A] @
     ''for the correct architecture and that all scripts and binaries are compatible with '' @ [CHR 0x0A] @
     ''the target node'' @ [CHR 0x27] @ ''s architecture.''"

text \<open>Labels the event and stores it; a failure is only logged. The result is the event in memory.\<close>

definition markAsError :: "client_env \<Rightarrow> ENoExecEvent \<Rightarrow> string \<Rightarrow> ENoExecEvent eop" where
  "markAsError env e reason = do {
     r \<leftarrow> update_event env (event_EnsureLabel ENoExecEventErrorLabel reason e);
     State_Monad.return (case r of Inl _ \<Rightarrow> event_EnsureLabel ENoExecEventErrorLabel reason e | Inr e' \<Rightarrow> e') }"

definition zero_metrics :: metrics where
  "zero_metrics = \<lparr>ProcessedPodsWH = 0, GatedPods = 0, GatedPodsGauge = 0, ProcessedPodsCtrl = 0, FailedInspectionCounter = 0\<rparr>"

text \<open>The pod as the handler leaves it in memory, with the warning published on it.\<close>

definition report_on :: "ENoExecEvent \<Rightarrow> node \<Rightarrow> CorePod \<Rightarrow> Pod" where
  "report_on e n core =
     (let p = NewPod core (Some []) zero_metrics;
          containerName = (case ContainerNameFor (st_ContainerID (en_Status e)) p of
                             Inl _ \<Rightarrow> UnknownContainer | Inr c \<Rightarrow> c);
          arch = (case node_labels n ArchLabel of None \<Rightarrow> [] | Some a \<Rightarrow> a)
      in EnsureLabel ExecFormatErrorLabelKey ''true''
           (PublishEvent EventTypeWarning ExecFormatErrorEventReason
              (ExecFormatErrorEventMessage containerName arch) p))"

definition publish_all :: "Pod \<Rightarrow> world \<Rightarrow> world" where
  "publish_all p w =
     w\<lparr>w_published := w_published w @ map (\<lambda>ev. (Namespace p, Name p, ev)) (elems (recorder p))\<rparr>"

definition handler_reconcile :: "client_env \<Rightarrow> ENoExecEvent \<Rightarrow> (go_error option \<times> ENoExecEvent) eop" where
  "handler_reconcile env e = do {
     pr \<leftarrow> get_pod env (st_PodNamespace (en_Status e), st_PodName (en_Status e));
     (case pr of
        Inl err \<Rightarrow> do { e' \<leftarrow> markAsError env e ErrorReasonPodNotFound; State_Monad.return (Some err, e') }
      | Inr podObj \<Rightarrow>
          if NodeName podObj \<noteq> st_NodeName (en_Status e)
          then do { e' \<leftarrow> markAsError env e ErrorReasonNodeNotFound; State_Monad.return (None, e') }
          else do {
            nr \<leftarrow> get_node env (st_NodeName (en_Status e));
            (case nr of
               Inl err \<Rightarrow> do { e' \<leftarrow> markAsError env e ErrorReasonNodeNotFound; State_Monad.return (Some err, e') }
             | Inr n \<Rightarrow> do {
                 modify (publish_all (report_on e n podObj));
                 ur \<leftarrow> update_pod env podObj (PodObject (report_on e n podObj));
                 (case ur of
                    Inl err \<Rightarrow> do { e' \<leftarrow> markAsError env e ErrorReasonPodNotFound; State_Monad.return (Some err, e') }
                  | Inr _ \<Rightarrow> State_Monad.return (None, e)) }) }) }"

definition handler_finish :: "client_env \<Rightarrow> go_error option \<Rightarrow> ENoExecEvent \<Rightarrow> go_error option eop" where
  "handler_finish env err e =
     (if IgnoreNotFound err = None
      then do {
        d \<leftarrow> delete_enoexec_event env e;
        (case d of
           Inl derr \<Rightarrow> do { _ \<leftarrow> markAsError env e ErrorReasonReconciliation; State_Monad.return (IgnoreNotFound (Some derr)) }
         | Inr _ \<Rightarrow> do { modify (\<lambda>w. w\<lparr>EnoexecCounter := Suc (EnoexecCounter w)\<rparr>); State_Monad.return None }) }
      else do {
        modify (\<lambda>w. w\<lparr>EnoexecCounterInvalid := Suc (EnoexecCounterInvalid w)\<rparr>);
        _ \<leftarrow> markAsError env e ErrorReasonReconciliation;
        State_Monad.return err })"

definition handler_Reconcile :: "client_env \<Rightarrow> event_key \<Rightarrow> go_error option eop" where
  "handler_Reconcile env k = do {
     r \<leftarrow> get_event_cached env k;
     (case r of
        Inl err \<Rightarrow> State_Monad.return (IgnoreNotFound (Some err))
      | Inr e \<Rightarrow>
          if en_Namespace e \<noteq> e_namespace env
          then do { _ \<leftarrow> markAsError env e ErrorReasonWrongNamespace; State_Monad.return None }
          else if st_PodName (en_Status e) = []
          then do { _ \<leftarrow> markAsError env e ErrorReasonPodNotFound; State_Monad.return None }
          else do { (err, e') \<leftarrow> handler_reconcile env e; handler_finish env err e' }) }"

section \<open>What a pass leaves alone\<close>

definition quiet :: "client_env \<Rightarrow> bool" where
  "quiet env \<longleftrightarrow> (\<forall>i w. e_others env i w = w)"

definition honest_faults :: "client_env \<Rightarrow> bool" where
  "honest_faults env \<longleftrightarrow> (\<forall>i err. e_fault env i = Some err \<longrightarrow> \<not> IsNotFound err)"

text \<open>Everything but the events, which none of the steps between removes.\<close>

definition same_but_events :: "world \<Rightarrow> world \<Rightarrow> bool" where
  "same_but_events w w' \<longleftrightarrow> w_pods w' = w_pods w \<and> w_nodes w' = w_nodes w \<and> w_published w' = w_published w \<and>
     EnoexecCounter w' = EnoexecCounter w \<and> EnoexecCounterInvalid w' = EnoexecCounterInvalid w \<and>
     dom (w_events w') = dom (w_events w)"

lemma quiet_call:
  "quiet env \<Longrightarrow> run_state (api_call env f) w =
     (case e_fault env (w_calls w) of
        Some e \<Rightarrow> (Inl e, w\<lparr>w_calls := Suc (w_calls w)\<rparr>) | None \<Rightarrow> f (w\<lparr>w_calls := Suc (w_calls w)\<rparr>))"
  by (cases "e_fault env (w_calls w)") (simp_all add: run_api_call quiet_def)

lemma key_of_status: "e\<lparr>en_Status := s\<rparr> = e' \<Longrightarrow> key_of e' = key_of e"
  by (drule sym) (simp add: key_of_def)

lemma update_event_frame:
  assumes "quiet env" "run_state (update_event env e) w = (r, w')"
  shows "same_but_events w w'" "r = Inr e' \<Longrightarrow> key_of e' = key_of e"
proof -
  show "same_but_events w w'"
    using assms
    by (auto simp: update_event_def quiet_call checked_write_def write_event_def Let_def same_but_events_def
        set_events_def split: option.splits if_splits)
  show "key_of e' = key_of e" if "r = Inr e'"
    using assms that
    by (auto simp: update_event_def quiet_call checked_write_def write_event_def Let_def
        split: option.splits if_splits dest: key_of_status) (simp_all add: key_of_def)
qed

lemma markAsError_frame:
  assumes "quiet env" "run_state (markAsError env e reason) w = (e', w')"
  shows "same_but_events w w'" "key_of e' = key_of e"
proof -
  obtain r where r: "run_state (update_event env (event_EnsureLabel ENoExecEventErrorLabel reason e)) w = (r, w')"
      "e' = (case r of Inl _ \<Rightarrow> event_EnsureLabel ENoExecEventErrorLabel reason e | Inr e1 \<Rightarrow> e1)"
    using assms(2) by (auto simp: markAsError_def run_simps split: prod.splits)
  have "key_of (event_EnsureLabel ENoExecEventErrorLabel reason e) = key_of e"
    by (simp add: key_of_def event_EnsureLabel_def)
  then show "same_but_events w w'" "key_of e' = key_of e"
    using update_event_frame[OF assms(1) r(1)] r(2) by (auto split: sum.splits)
qed

lemma same_but_events_trans: "same_but_events w w1 \<Longrightarrow> same_but_events w1 w2 \<Longrightarrow> same_but_events w w2"
  by (simp add: same_but_events_def)

lemma same_but_events_calls [simp]: "same_but_events w (w\<lparr>w_calls := n\<rparr>)" "same_but_events (w\<lparr>w_calls := n\<rparr>) w' = same_but_events w w'"
  by (simp_all add: same_but_events_def)

section \<open>Events are settled before they are removed\<close>

text \<open>The pod of the event as it should be after a successful pass.\<close>

definition reported :: "ENoExecEvent \<Rightarrow> world \<Rightarrow> world \<Rightarrow> bool" where
  "reported e w w' =
     (let pk = (st_PodNamespace (en_Status e), st_PodName (en_Status e))
      in case (w_pods w pk, w_nodes w (st_NodeName (en_Status e))) of
           (Some p, Some n) \<Rightarrow>
             NodeName p = st_NodeName (en_Status e) \<and>
             w_pods w' = (w_pods w)(pk \<mapsto> PodObject (report_on e n p)) \<and>
             w_published w' = w_published w @ map (\<lambda>ev. (fst pk, snd pk, ev)) (elems (recorder (report_on e n p)))
         | _ \<Rightarrow> False)"

text \<open>The event says nothing about the cluster as it is.\<close>

definition obsolete :: "ENoExecEvent \<Rightarrow> world \<Rightarrow> bool" where
  "obsolete e w =
     (case w_pods w (st_PodNamespace (en_Status e), st_PodName (en_Status e)) of
        None \<Rightarrow> True
      | Some p \<Rightarrow> NodeName p \<noteq> st_NodeName (en_Status e) \<or> w_nodes w (st_NodeName (en_Status e)) = None)"

definition pods_keyed :: "world \<Rightarrow> bool" where
  "pods_keyed w \<longleftrightarrow> (\<forall>k p. w_pods w k = Some p \<longrightarrow> k = (Namespace p, Name p))"

lemma report_on_key [simp]:
  "Namespace (report_on e n p) = Namespace p" "Name (report_on e n p) = Name p"
  "Namespace (PodObject (report_on e n p)) = Namespace p" "Name (PodObject (report_on e n p)) = Name p"
  by (simp_all add: report_on_def Let_def pod_ops NewPod_def PodObject_def CorePod.defs Pod.defs)

lemma mark_then_return:
  assumes "quiet env"
    "run_state (do { e1 \<leftarrow> markAsError env e reason; State_Monad.return (x, e1) }) w = ((err, e'), w')"
  shows "err = x" "key_of e' = key_of e" "same_but_events w w'"
proof -
  have "run_state (markAsError env e reason) w = (e', w') \<and> err = x"
    using assms(2) by (auto simp: run_simps split: prod.splits)
  then show "err = x" "key_of e' = key_of e" "same_but_events w w'"
    using markAsError_frame[OF assms(1)] by auto
qed

definition settled :: "ENoExecEvent \<Rightarrow> go_error option \<Rightarrow> ENoExecEvent \<Rightarrow> world \<Rightarrow> world \<Rightarrow> bool" where
  "settled e err e' w w' \<longleftrightarrow> key_of e' = key_of e \<and> dom (w_events w') = dom (w_events w) \<and>
     EnoexecCounter w' = EnoexecCounter w \<and> EnoexecCounterInvalid w' = EnoexecCounterInvalid w \<and>
     (IgnoreNotFound err = None \<longrightarrow> reported e w w' \<or> obsolete e w \<and> w_pods w' = w_pods w)"

lemma settled_marked:
  assumes "quiet env"
    "run_state (do { e1 \<leftarrow> markAsError env e reason; State_Monad.return (x, e1) }) w1 = ((err, e'), w')"
    "w_pods w1 = w_pods w" "dom (w_events w1) = dom (w_events w)" "EnoexecCounter w1 = EnoexecCounter w"
    "EnoexecCounterInvalid w1 = EnoexecCounterInvalid w" "IgnoreNotFound x = None \<Longrightarrow> obsolete e w"
  shows "settled e err e' w w'"
  using mark_then_return[OF assms(1,2)] assms(3-) by (auto simp: settled_def same_but_events_def)

lemma handler_reconcile_settles:
  assumes q: "quiet env" and h: "honest_faults env" and pk: "pods_keyed w"
    and run: "run_state (handler_reconcile env e) w = ((err, e'), w')"
  shows "settled e err e' w w'"
proof -
  let ?pk = "(st_PodNamespace (en_Status e), st_PodName (en_Status e))"
  let ?i = "w_calls w"
  note step = handler_reconcile_def run_bind get_pod_def get_node_def update_pod_def quiet_call[OF q] found_def IgnoreNotFound_def
  have fatal: "IgnoreNotFound (Some x) \<noteq> None" if "e_fault env j = Some x" for j x
    using h that by (simp add: honest_faults_def IgnoreNotFound_def)
  show ?thesis
  proof (cases "e_fault env ?i")
    case (Some x)
    then show ?thesis
      using run fatal[OF Some] by (auto simp: step intro!: settled_marked[OF q, of e _ "Some x"])
  next
    case ok1: None
    show ?thesis
    proof (cases "w_pods w ?pk")
      case None
      then show ?thesis
        using run ok1 by (auto simp: step obsolete_def intro!: settled_marked[OF q, of e])
    next
      case (Some p)
      show ?thesis
      proof (cases "NodeName p = st_NodeName (en_Status e)")
        case False
        then show ?thesis
          using run ok1 Some by (auto simp: step obsolete_def intro!: settled_marked[OF q, of e])
      next
        case here: True
        show ?thesis
        proof (cases "e_fault env (Suc ?i)")
          case (Some x)
          then show ?thesis
            using run ok1 \<open>w_pods w ?pk = Some p\<close> here fatal[OF Some]
            by (auto simp: step intro!: settled_marked[OF q, of e _ "Some x"])
        next
          case ok2: None
          show ?thesis
          proof (cases "w_nodes w (st_NodeName (en_Status e))")
            case None
            then show ?thesis
              using run ok1 ok2 Some here by (auto simp: step obsolete_def intro!: settled_marked[OF q, of e])
          next
            case node: (Some n)
            have k: "?pk = (Namespace p, Name p)" using pk Some by (auto simp: pods_keyed_def)
            show ?thesis
            proof (cases "e_fault env (Suc (Suc ?i))")
              case x: (Some x)
              then show ?thesis
                using run ok1 ok2 Some here node fatal[OF x]
                by (auto simp: step run_modify publish_all_def intro!: settled_marked[OF q, of e _ "Some x"])
            next
              case None
              then have "err = None \<and> e' = e \<and> reported e w w' \<and> dom (w_events w') = dom (w_events w) \<and>
                  EnoexecCounter w' = EnoexecCounter w \<and> EnoexecCounterInvalid w' = EnoexecCounterInvalid w"
                using run ok1 ok2 Some here node k
                by (auto simp: step run_modify run_return publish_all_def reported_def Let_def)
              then show ?thesis by (simp add: settled_def)
            qed
          qed
        qed
      qed
    qed
  qed
qed

lemma handler_finish_cases:
  assumes q: "quiet env" and run: "run_state (handler_finish env err e) w = (r, w')" and k: "w_events w (key_of e) \<noteq> None"
  shows "w_pods w' = w_pods w \<and> w_published w' = w_published w \<and>
    (if w_events w' (key_of e) = None
     then IgnoreNotFound err = None \<and> r = None \<and> EnoexecCounter w' = Suc (EnoexecCounter w)
     else EnoexecCounter w' = EnoexecCounter w)"
proof -
  let ?d = "run_state (delete_enoexec_event env e) w"
  have mark: "\<exists>w1. run_state (do { _ \<leftarrow> markAsError env e ErrorReasonReconciliation; State_Monad.return x }) w0 = (x, w1) \<and>
      same_but_events w0 w1" for x :: "go_error option" and w0
    using markAsError_frame(1)[OF q] by (auto simp: run_simps split: prod.splits)
  show ?thesis
  proof (cases "IgnoreNotFound err = None")
    case True
    show ?thesis
    proof (cases "e_fault env (w_calls w)")
      case None
      then have "?d = (Inr (), set_events ((w_events w)(key_of e := None)) (w\<lparr>w_calls := Suc (w_calls w)\<rparr>))"
        using k by (auto simp: delete_enoexec_event_def quiet_call[OF q])
      then show ?thesis using run True by (auto simp: handler_finish_def run_simps set_events_def)
    next
      case (Some x)
      then have "?d = (Inl x, w\<lparr>w_calls := Suc (w_calls w)\<rparr>)"
        by (simp add: delete_enoexec_event_def quiet_call[OF q])
      then show ?thesis
        using run True k mark[of "IgnoreNotFound (Some x)" "w\<lparr>w_calls := Suc (w_calls w)\<rparr>"]
        by (auto simp: handler_finish_def run_bind same_but_events_def dom_def)
    qed
  next
    case False
    obtain w1 where "w1 = w'" "same_but_events (w\<lparr>EnoexecCounterInvalid := Suc (EnoexecCounterInvalid w)\<rparr>) w1"
      using mark[of err "w\<lparr>EnoexecCounterInvalid := Suc (EnoexecCounterInvalid w)\<rparr>"] run
      unfolding handler_finish_def if_not_P[OF False] run_bind[of "modify _"] run_modify prod.case by auto
    then show ?thesis using k by (auto simp: same_but_events_def dom_def)
  qed
qed

text \<open>C16: A pass of the handler that reads the current event, during which nobody else writes, removes the
  event only when the event names a pod and lives in the operator's namespace, and only after the pod has
  been labelled and the warning published on it, or when pod or node are gone or the pod runs elsewhere;
  the pass then reports success. The success counter counts exactly the removed events. All this under any
  failures of the calls, provided the API server does not falsely claim that an object is missing.\<close>
theorem removed_events_are_settled:
  assumes "quiet env" "honest_faults env" "e_lag env = 0" "pods_keyed w"
    and "w_events w k = Some e" "key_of e = k"
    and "run_state (handler_Reconcile env k) w = (r, w')"
  shows "EnoexecCounter w' = EnoexecCounter w + (if w_events w' k = None then 1 else 0) \<and>
    (w_events w' k = None \<longrightarrow>
       r = None \<and> en_Namespace e = e_namespace env \<and> st_PodName (en_Status e) \<noteq> [] \<and>
       (reported e w w' \<or> obsolete e w \<and> w_pods w' = w_pods w))"
proof -
  let ?w1 = "w\<lparr>w_calls := Suc (w_calls w)\<rparr>"
  have view: "informer_view env w0 = w_events w0" for w0 using assms(3) by (simp add: informer_view_def)
  note step = handler_Reconcile_def run_bind get_event_cached_def quiet_call[OF assms(1)] view
  have kept: ?thesis if "same_but_events ?w1 w'"
    using that assms(5) by (auto simp: same_but_events_def dom_def)
  show ?thesis
  proof (cases "e_fault env (w_calls w)")
    case (Some x)
    then show ?thesis using assms(5,7) by (auto simp: step run_return)
  next
    case None
    show ?thesis
    proof (cases "en_Namespace e = e_namespace env \<and> st_PodName (en_Status e) \<noteq> []")
      case False
      then have "\<exists>reason e1. run_state (markAsError env e reason) ?w1 = (e1, w')"
        using assms(5,7) None by (auto simp: step found_def run_return split: if_splits prod.splits)
      then show ?thesis using kept markAsError_frame(1)[OF assms(1)] by blast
    next
      case True
      obtain err e' w2 where rec: "run_state (handler_reconcile env e) ?w1 = ((err, e'), w2)"
        by (metis surj_pair)
      have fin: "run_state (handler_finish env err e') w2 = (r, w')"
        using assms(5,7) None True rec by (simp add: step found_def)
      have keyed: "pods_keyed ?w1" using assms(4) by (simp add: pods_keyed_def)
      note s = handler_reconcile_settles[OF assms(1,2) keyed rec, unfolded settled_def]
      have "w_events w2 (key_of e') \<noteq> None" using s assms(5,6) by (auto simp: dom_def)
      from handler_finish_cases[OF assms(1) fin this] s show ?thesis
        using True assms(6) by (auto simp: reported_def obsolete_def Let_def split: option.splits)
    qed
  qed
qed

section \<open>A pass without failures\<close>

definition no_faults_at_all :: "client_env \<Rightarrow> bool" where
  "no_faults_at_all env \<longleftrightarrow> (\<forall>i. e_fault env i = None)"

lemma handler_pass_success:
  assumes q: "quiet env" and f: "no_faults_at_all env" and "e_lag env = 0" "pods_keyed w"
    and e: "w_events w k = Some e" "key_of e = k" "en_Namespace e = e_namespace env"
    and p: "w_pods w (st_PodNamespace (en_Status e), st_PodName (en_Status e)) = Some p"
      "NodeName p = st_NodeName (en_Status e)" "w_nodes w (st_NodeName (en_Status e)) = Some n"
    and "st_PodName (en_Status e) \<noteq> []"
  shows "\<exists>w'. run_state (handler_Reconcile env k) w = (None, w') \<and> w_events w' = (w_events w)(k := None) \<and>
    reported e w w' \<and> EnoexecCounter w' = Suc (EnoexecCounter w)"
proof -
  have ok: "e_fault env i = None" for i using f by (simp add: no_faults_at_all_def)
  have k: "st_PodNamespace (en_Status e) = Namespace p \<and> st_PodName (en_Status e) = Name p"
    using assms(4) p(1) by (auto simp: pods_keyed_def)
  have view: "informer_view env w0 = w_events w0" for w0 using assms(3) by (simp add: informer_view_def)
  define w3 where "w3 = (publish_all (report_on e n p) (w\<lparr>w_calls := w_calls w + 3\<rparr>))
      \<lparr>w_calls := w_calls w + 4, w_pods := (w_pods w)((Namespace p, Name p) \<mapsto> PodObject (report_on e n p))\<rparr>"
  have "run_state (handler_reconcile env e) (w\<lparr>w_calls := Suc (w_calls w)\<rparr>) = ((None, e), w3)"
    using p k
    by (simp add: handler_reconcile_def run_bind run_return run_modify get_pod_def get_node_def update_pod_def quiet_call[OF q] ok
        found_def Let_def publish_all_def w3_def eval_nat_numeral)
  moreover have "run_state (handler_finish env None e) w3 =
      (None, (set_events ((w_events w)(k := None)) (w3\<lparr>w_calls := w_calls w + 5\<rparr>))\<lparr>EnoexecCounter := Suc (EnoexecCounter w)\<rparr>)"
    using e by (simp add: handler_finish_def delete_enoexec_event_def run_bind run_return run_modify quiet_call[OF q] ok w3_def
        publish_all_def set_events_def)
  ultimately have "run_state (handler_Reconcile env k) w =
      (None, (set_events ((w_events w)(k := None)) (w3\<lparr>w_calls := w_calls w + 5\<rparr>))\<lparr>EnoexecCounter := Suc (EnoexecCounter w)\<rparr>)"
    using e assms(11)
    by (simp add: handler_Reconcile_def get_event_cached_def run_bind quiet_call[OF q] ok view found_def)
  then show ?thesis
    using p k by (auto simp: reported_def w3_def publish_all_def set_events_def)
qed

definition sample_status :: ENoExecEventStatus where
  "sample_status = \<lparr>st_NodeName = ''node-1'', st_PodName = ''web'', st_PodNamespace = ''shop'', st_ContainerID = []\<rparr>"

definition sample_event :: ENoExecEvent where
  "sample_event =
     \<lparr>en_Name = ''e1'', en_Namespace = ''mto'', en_Labels = None, en_ResourceVersion = 1, en_Status = sample_status\<rparr>"

definition sample_pod :: CorePod where
  "sample_pod = zero_pod\<lparr>Name := ''web'', Namespace := ''shop'', NodeName := ''node-1''\<rparr>"

definition sample_world :: world where
  "sample_world =
     \<lparr>w_calls = 0, w_version = 2, w_events = [(''mto'', ''e1'') \<mapsto> sample_event], w_past = [],
      w_pods = [(''shop'', ''web'') \<mapsto> sample_pod],
      w_nodes = [''node-1'' \<mapsto> \<lparr>node_labels = [ArchLabel \<mapsto> ''arm64''], node_name = ''node-1''\<rparr>],
      w_published = [], EnoexecCounter = 0, EnoexecCounterInvalid = 0\<rparr>"

definition calm_env :: client_env where
  "calm_env = \<lparr>e_fault = (\<lambda>_. None), e_others = (\<lambda>_ w. w), e_namespace = ''mto'', e_lag = 0\<rparr>"

lemma calm: "quiet calm_env" "no_faults_at_all calm_env" "honest_faults calm_env" "e_lag calm_env = 0"
  by (simp_all add: calm_env_def quiet_def no_faults_at_all_def honest_faults_def)

lemma sample_keyed: "pods_keyed sample_world"
  by (simp add: pods_keyed_def sample_world_def sample_pod_def zero_pod_def)

lemma sample_lookup:
  "w_events sample_world (''mto'', ''e1'') = Some sample_event" "key_of sample_event = (''mto'', ''e1'')"
  "en_Namespace sample_event = e_namespace calm_env" "st_PodName (en_Status sample_event) \<noteq> []"
  "w_pods sample_world (st_PodNamespace (en_Status sample_event), st_PodName (en_Status sample_event)) = Some sample_pod"
  "NodeName sample_pod = st_NodeName (en_Status sample_event)"
  "w_nodes sample_world (st_NodeName (en_Status sample_event)) =
     Some \<lparr>node_labels = [ArchLabel \<mapsto> ''arm64''], node_name = ''node-1''\<rparr>"
  "\<not> obsolete sample_event sample_world" "EnoexecCounter sample_world = 0"
  by (simp_all add: sample_world_def sample_event_def sample_status_def sample_pod_def zero_pod_def key_of_def
      calm_env_def obsolete_def)

theorem removed_events_are_settled_witness:
  "\<exists>w'. run_state (handler_Reconcile calm_env (''mto'', ''e1'')) sample_world = (None, w') \<and>
     w_events w' (''mto'', ''e1'') = None \<and> EnoexecCounter w' = 1 \<and> reported sample_event sample_world w'"
proof -
  obtain w' where w': "run_state (handler_Reconcile calm_env (''mto'', ''e1'')) sample_world = (None, w')"
      "w_events w' (''mto'', ''e1'') = None"
    using handler_pass_success[OF calm(1,2,4) sample_keyed sample_lookup(1-3,5-7,4)] by auto
  from removed_events_are_settled[OF calm(1,3,4) sample_keyed sample_lookup(1,2) w'(1)] show ?thesis
    using w' sample_lookup(8,9) by auto
qed

end
