(* ===== verification/Enoexec_Storage.thy ===== *)
theory Enoexec_Storage
  imports Enoexec_Handler
begin

text \<open>
  The writer of the daemon
  (\<^verbatim>\<open>enoexecevent/daemon/internal/storage/k8s_enoexecevent.go\<close>): it creates the event object, then
  fills in its status, retrying on conflicts, and removes the object again when that fails. The handler
  runs in another process and may label the object in between; the main result is that this never
  keeps the status from being stored.
\<close>

section \<open>Operations\<close>

primrec IsConflict :: "go_error \<Rightarrow> bool" where
  "IsConflict (NotFoundError m) = False"
| "IsConflict (ConflictError m) = True"
| "IsConflict (GoError m) = False"

text \<open>\<^verbatim>\<open>retry.DefaultRetry\<close> allows five attempts.\<close>

definition DefaultRetry_Steps :: nat where
  "DefaultRetry_Steps = 5"

text \<open>
  The retry loop with its closure: every attempt but the first reads the object anew. The result is the
  last error and the object in memory, which the rollback names.
\<close>

fun update_with_retry ::
  "nat \<Rightarrow> client_env \<Rightarrow> bool \<Rightarrow> ENoExecEventStatus \<Rightarrow> ENoExecEvent \<Rightarrow> (go_error option \<times> ENoExecEvent) eop" where
  "update_with_retry 0 env firstAttempt savedStatus e = State_Monad.return (None, e)"
| "update_with_retry (Suc n) env firstAttempt savedStatus e = do {
     g \<leftarrow> (if firstAttempt then State_Monad.return (Inr e) else get_event env (key_of e));
     (case g of
        Inl err \<Rightarrow>
          if IsConflict err \<and> 0 < n then update_with_retry n env False savedStatus e
          else State_Monad.return (Some err, e)
      | Inr cur \<Rightarrow> do {
          u \<leftarrow> update_event_status env (cur\<lparr>en_Status := savedStatus\<rparr>);
          (case u of
             Inr e' \<Rightarrow> State_Monad.return (None, e')
           | Inl err \<Rightarrow>
               if IsConflict err \<and> 0 < n then update_with_retry n env False savedStatus (cur\<lparr>en_Status := savedStatus\<rparr>)
               else State_Monad.return (Some err, cur\<lparr>en_Status := savedStatus\<rparr>)) }) }"

definition rollback :: "client_env \<Rightarrow> ENoExecEvent \<Rightarrow> unit eop" where
  "rollback env e = do { _ \<leftarrow> delete_enoexec_event env e; State_Monad.return () }"

text \<open>The answer of the rate limiter and the generated name of the object are arguments.\<close>

definition processEvent ::
  "client_env \<Rightarrow> string \<Rightarrow> go_error option \<Rightarrow> string \<Rightarrow> ENOEXECInternalEvent \<Rightarrow> go_error option eop" where
  "processEvent env nodeName limited uuid ev =
     (case ToENoExecEvent uuid (e_namespace env) nodeName ev of
        Inl err \<Rightarrow> State_Monad.return (Some err)
      | Inr enoexecEvent \<Rightarrow>
          (case limited of
             Some err \<Rightarrow> State_Monad.return (Some (GoError (''rate limiter wait failed: '' @ error_msg err)))
           | None \<Rightarrow> do {
               c \<leftarrow> create_event env enoexecEvent;
               (case c of
                  Inl err \<Rightarrow>
                    State_Monad.return (Some (GoError (''failed to create ENOExecEvent in Kubernetes: '' @ error_msg err)))
                | Inr created \<Rightarrow> do {
                    (res, cur) \<leftarrow> update_with_retry DefaultRetry_Steps env True (en_Status enoexecEvent) created;
                    (case res of
                       None \<Rightarrow> State_Monad.return None
                     | Some err \<Rightarrow> do {
                         rollback env cur;
                         State_Monad.return
                           (Some (GoError (''failed to update ENOExecEvent status in Kubernetes: '' @ error_msg err))) }) }) }))"

text \<open>
  The main loop over what arrives on the channel before the context ends: nil events are skipped, and an
  event that cannot be stored is logged and dropped. Each arrival comes with the answer of the rate
  limiter and the generated name.
\<close>

fun storage_Run ::
  "client_env \<Rightarrow> string \<Rightarrow> (go_error option \<times> string \<times> ENOEXECInternalEvent option) list \<Rightarrow> unit eop" where
  "storage_Run env nodeName [] = State_Monad.return ()"
| "storage_Run env nodeName ((limited, uuid, event) # rest) =
     (case event of
        None \<Rightarrow> storage_Run env nodeName rest
      | Some ev \<Rightarrow> do { _ \<leftarrow> processEvent env nodeName limited uuid ev; storage_Run env nodeName rest })"

section \<open>What the others do\<close>

definition all_states :: "world \<Rightarrow> (event_key \<rightharpoonup> ENoExecEvent) list" where
  "all_states w = w_events w # w_past w"

definition events_keyed :: "world \<Rightarrow> bool" where
  "events_keyed w \<longleftrightarrow> (\<forall>m \<in> set (all_states w). \<forall>k e. m k = Some e \<longrightarrow> key_of e = k)"

text \<open>The state after a write is the new map on top of the past ones.\<close>

lemma all_states_set_events [simp]: "all_states (set_events m w) = m # all_states w"
  by (simp add: all_states_def set_events_def)

lemma all_states_frame [simp]:
  "all_states (w\<lparr>w_calls := n\<rparr>) = all_states w" "all_states (w\<lparr>w_version := v\<rparr>) = all_states w"
  "all_states (w\<lparr>EnoexecCounter := i\<rparr>) = all_states w" "all_states (w\<lparr>EnoexecCounterInvalid := i\<rparr>) = all_states w"
  "all_states (w\<lparr>w_pods := ps\<rparr>) = all_states w" "all_states (w\<lparr>w_published := evs\<rparr>) = all_states w"
  "all_states (publish_all p w) = all_states w"
  by (simp_all add: all_states_def publish_all_def)

lemma informer_view_state: "informer_view env w \<in> set (all_states w)"
  unfolding informer_view_def all_states_def by (rule nth_mem) simp

text \<open>
  A step that does not concern the event \<open>k\<close>: it leaves the event and what the caches may know of it,
  keeps the objects under their keys and never reuses a version.
\<close>

definition leaves :: "event_key \<Rightarrow> world \<Rightarrow> world \<Rightarrow> bool" where
  "leaves k w w' \<longleftrightarrow> events_keyed w' \<and> w_events w' k = w_events w k \<and>
     (\<lambda>m. m k) ` set (all_states w') = (\<lambda>m. m k) ` set (all_states w) \<and> w_version w \<le> w_version w'"

definition foreign :: "event_key \<Rightarrow> (world \<Rightarrow> world) \<Rightarrow> bool" where
  "foreign k f \<longleftrightarrow> (\<forall>w. events_keyed w \<longrightarrow> leaves k w (f w))"

text \<open>
  What may happen between two calls of the writer: passes of the handler on any event, with any failures
  and a cache that may be behind, and steps that do not concern the event.
\<close>

inductive noise :: "string \<Rightarrow> event_key \<Rightarrow> (world \<Rightarrow> world) \<Rightarrow> bool" for ns :: string and k :: event_key where
  nothing: "noise ns k (\<lambda>w. w)"
| pass: "noise ns k f \<Longrightarrow> quiet henv \<Longrightarrow> e_namespace henv = ns \<Longrightarrow>
    noise ns k (\<lambda>w. snd (run_state (handler_Reconcile henv k') (f w)))"
| other: "noise ns k f \<Longrightarrow> foreign k g \<Longrightarrow> noise ns k (\<lambda>w. g (f w))"

section \<open>Passes of the handler as noise\<close>

lemma leaves_refl: "events_keyed w \<Longrightarrow> leaves k w w"
  by (simp add: leaves_def)

lemma leaves_trans: "leaves k w w1 \<Longrightarrow> leaves k w1 w2 \<Longrightarrow> leaves k w w2"
  by (auto simp: leaves_def)

lemma leaves_frame:
  assumes "events_keyed w"
  shows "leaves k w (w\<lparr>w_calls := n\<rparr>)" "leaves k w (w\<lparr>EnoexecCounter := i\<rparr>)" "leaves k w (w\<lparr>EnoexecCounterInvalid := i\<rparr>)"
    "leaves k w (w\<lparr>w_pods := ps\<rparr>)" "leaves k w (publish_all p w)"
  using assms by (simp_all add: leaves_def events_keyed_def publish_all_def)

lemma leaves_upd:
  assumes "events_keyed w" "kk \<noteq> k" "\<And>e. x = Some e \<Longrightarrow> key_of e = kk" "w_version w \<le> v"
  shows "leaves k w (set_events ((w_events w)(kk := x)) (w\<lparr>w_version := v\<rparr>))"
proof -
  have "w_events w \<in> set (all_states w)" by (simp add: all_states_def)
  then have "w_events w k \<in> (\<lambda>m. m k) ` set (all_states w)" by auto
  then show ?thesis
    using assms by (auto simp: leaves_def events_keyed_def set_events_def all_states_def split: if_splits)
qed

lemma checked_write_cases:
  "snd (checked_write e change w) = w \<or>
   (\<exists>old. w_events w (key_of e) = Some old \<and> en_ResourceVersion old = en_ResourceVersion e \<and>
      (change old)\<lparr>en_ResourceVersion := en_ResourceVersion old\<rparr> \<noteq> old \<and>
      snd (checked_write e change w) =
        set_events ((w_events w)(key_of e \<mapsto> (change old)\<lparr>en_ResourceVersion := w_version w\<rparr>))
          (w\<lparr>w_version := Suc (w_version w)\<rparr>))"
  by (auto simp: checked_write_def write_event_def Let_def split: option.split)

lemma leaves_call:
  assumes "events_keyed w" "quiet env" "\<And>w0. events_keyed w0 \<Longrightarrow> leaves k w0 (snd (f w0))"
  shows "leaves k w (snd (run_state (api_call env f) w))"
proof -
  have keyed: "events_keyed (w\<lparr>w_calls := Suc (w_calls w)\<rparr>)"
    using assms(1) by (simp add: events_keyed_def)
  show ?thesis
    using leaves_trans[OF leaves_frame(1)[OF assms(1)] assms(3)[OF keyed]] leaves_frame(1)[OF assms(1)]
    by (cases "e_fault env (w_calls w)") (simp_all add: quiet_call[OF assms(2)])
qed

lemma leaves_update:
  assumes "events_keyed w" "quiet env" "key_of e \<noteq> k"
  shows "leaves k w (snd (run_state (update_event env e) w))"
  unfolding update_event_def
proof (rule leaves_call[OF assms(1,2)])
  fix w0 assume w0: "events_keyed w0"
  show "leaves k w0 (snd (checked_write e (\<lambda>old. e\<lparr>en_Status := en_Status old\<rparr>) w0))"
    using checked_write_cases[of e "\<lambda>old. e\<lparr>en_Status := en_Status old\<rparr>" w0]
  proof
    assume "\<exists>old. w_events w0 (key_of e) = Some old \<and> en_ResourceVersion old = en_ResourceVersion e \<and>
      e\<lparr>en_Status := en_Status old, en_ResourceVersion := en_ResourceVersion old\<rparr> \<noteq> old \<and>
      snd (checked_write e (\<lambda>old. e\<lparr>en_Status := en_Status old\<rparr>) w0) =
        set_events ((w_events w0)(key_of e \<mapsto> e\<lparr>en_Status := en_Status old, en_ResourceVersion := w_version w0\<rparr>))
          (w0\<lparr>w_version := Suc (w_version w0)\<rparr>)"
    then show ?thesis
      using leaves_upd[OF w0 assms(3)] by (fastforce simp: key_of_def)
  qed (simp add: leaves_refl w0)
qed

text \<open>Operations that leave \<open>k\<close> alone and whose result satisfies \<open>P\<close>, composed along the monad.\<close>

definition keeps :: "event_key \<Rightarrow> 'a eop \<Rightarrow> ('a \<Rightarrow> bool) \<Rightarrow> bool" where
  "keeps k m P \<longleftrightarrow> (\<forall>w. events_keyed w \<longrightarrow> leaves k w (snd (run_state m w)) \<and> P (fst (run_state m w)))"

lemma keeps_return: "P x \<Longrightarrow> keeps k (State_Monad.return x) P"
  by (simp add: keeps_def run_return leaves_refl)

lemma keeps_bind:
  assumes "keeps k m P" "\<And>x. P x \<Longrightarrow> keeps k (f x) Q"
  shows "keeps k (State_Monad.bind m f) Q"
  unfolding keeps_def
proof (intro allI impI)
  fix w assume w: "events_keyed w"
  obtain x w1 where run: "run_state m w = (x, w1)" by fastforce
  then have "leaves k w w1" "P x" using assms(1) w by (auto simp: keeps_def)
  moreover from this have "events_keyed w1" by (simp add: leaves_def)
  ultimately show "leaves k w (snd (run_state (State_Monad.bind m f) w)) \<and> Q (fst (run_state (State_Monad.bind m f) w))"
    using assms(2)[of x] run leaves_trans by (fastforce simp: keeps_def run_bind)
qed

lemma keeps_modify:
  "(\<And>w. events_keyed w \<Longrightarrow> leaves k w (f w)) \<Longrightarrow> keeps k (modify f) (\<lambda>_. True)"
  by (simp add: keeps_def run_modify)

lemma keeps_call:
  assumes "quiet env" "\<And>w. events_keyed w \<Longrightarrow> leaves k w (snd (f w))"
  shows "keeps k (api_call env f) (\<lambda>_. True)"
  using leaves_call[OF _ assms] by (simp add: keeps_def)

lemma keeps_mark:
  assumes "quiet env" "key_of e \<noteq> k"
  shows "keeps k (markAsError env e reason) (\<lambda>e'. key_of e' = key_of e)"
  unfolding keeps_def
proof (intro allI impI)
  fix w assume w: "events_keyed w"
  have "leaves k w (snd (run_state (update_event env (event_EnsureLabel ENoExecEventErrorLabel reason e)) w))"
    using leaves_update[OF w assms(1)] assms(2) by (simp add: key_of_def event_EnsureLabel_def)
  then have "leaves k w (snd (run_state (markAsError env e reason) w))"
    by (auto simp: markAsError_def run_bind run_return split: prod.split)
  then show "leaves k w (snd (run_state (markAsError env e reason) w)) \<and>
      key_of (fst (run_state (markAsError env e reason) w)) = key_of e"
    using markAsError_frame(2)[OF assms(1)] by (metis prod.collapse)
qed

lemma leaves_delete:
  assumes "events_keyed w" "quiet env" "key_of e \<noteq> k"
  shows "leaves k w (snd (run_state (delete_enoexec_event env e) w))"
  unfolding delete_enoexec_event_def
proof (rule leaves_call[OF assms(1,2)])
  fix w0 assume "events_keyed w0"
  then show "leaves k w0 (snd (case w_events w0 (key_of e) of None \<Rightarrow> (Inl (NotFoundError (en_Name e)), w0)
      | Some _ \<Rightarrow> (Inr (), set_events ((w_events w0)(key_of e := None)) w0)))"
    using leaves_upd[of w0 "key_of e" k None "w_version w0"] assms(3)
    by (auto simp: leaves_refl split: option.split)
qed

lemma keeps_read_call:
  "quiet env \<Longrightarrow> keeps k (api_call env (\<lambda>w. (f w, w))) (\<lambda>_. True)"
  by (rule keeps_call) (simp_all add: leaves_refl)

lemma keeps_update_pod: "quiet env \<Longrightarrow> keeps k (update_pod env base p) (\<lambda>_. True)"
  unfolding update_pod_def
  by (rule keeps_call) (auto simp: Let_def leaves_refl leaves_frame split: option.split)

lemma keeps_handler_reconcile:
  assumes "quiet env" "key_of e \<noteq> k"
  shows "keeps k (handler_reconcile env e) (\<lambda>(_, e'). key_of e' = key_of e)"
proof -
  have mark: "keeps k (do { e' \<leftarrow> markAsError env e reason; State_Monad.return (x, e') }) (\<lambda>(_, e'). key_of e' = key_of e)"
    for reason and x :: "go_error option"
    by (rule keeps_bind[OF keeps_mark[OF assms]]) (rule keeps_return, simp)
  show ?thesis
    unfolding handler_reconcile_def get_pod_def get_node_def
    by (rule keeps_bind[OF keeps_read_call[OF assms(1)]], rename_tac r, case_tac r)
      (auto intro!: mark keeps_bind[OF keeps_read_call[OF assms(1)]] keeps_bind[OF keeps_modify]
        keeps_bind[OF keeps_update_pod[OF assms(1)]] keeps_return leaves_frame split: sum.split)
qed

lemma keeps_handler_finish:
  assumes "quiet env" "key_of e \<noteq> k"
  shows "keeps k (handler_finish env err e) (\<lambda>_. True)"
proof -
  have mark: "keeps k (do { _ \<leftarrow> markAsError env e reason; State_Monad.return x }) (\<lambda>_. True)"
    for reason and x :: "go_error option"
    by (rule keeps_bind[OF keeps_mark[OF assms]]) (rule keeps_return, simp)
  have delete: "keeps k (delete_enoexec_event env e) (\<lambda>_. True)"
    using leaves_delete[OF _ assms] by (simp add: keeps_def)
  show ?thesis
    unfolding handler_finish_def
    by (auto intro!: mark keeps_bind[OF delete] keeps_bind[OF keeps_modify] keeps_return leaves_frame split: sum.split)
qed

lemma handler_pass_foreign:
  assumes "quiet env" "k' \<noteq> k" "events_keyed w"
  shows "leaves k w (snd (run_state (handler_Reconcile env k') w))"
proof -
  let ?w1 = "w\<lparr>w_calls := Suc (w_calls w)\<rparr>"
  have w1: "events_keyed ?w1" "leaves k w ?w1"
    using assms(3) leaves_frame(1) by (simp_all add: events_keyed_def)
  show ?thesis
  proof (cases "e_fault env (w_calls w) = None \<and> informer_view env ?w1 k' \<noteq> None")
    case True
    then obtain e where e: "informer_view env ?w1 k' = Some e" by blast
    then have "key_of e = k'"
      using w1(1) informer_view_state[of env ?w1] unfolding events_keyed_def by blast
    then have key: "key_of e \<noteq> k" using assms(2) by simp
    have mark: "keeps k (do { _ \<leftarrow> markAsError env e reason; State_Monad.return None }) (\<lambda>_. True)" for reason
      by (rule keeps_bind[OF keeps_mark[OF assms(1) key]]) (rule keeps_return, simp)
    have "keeps k (do { (err, e') \<leftarrow> handler_reconcile env e; handler_finish env err e' }) (\<lambda>_. True)"
      by (rule keeps_bind[OF keeps_handler_reconcile[OF assms(1) key]])
        (clarify, rule keeps_handler_finish[OF assms(1)], use key in simp)
    then have "leaves k ?w1 (snd (run_state (handler_Reconcile env k') w))"
      using True e mark w1(1)
      by (auto simp: keeps_def handler_Reconcile_def get_event_cached_def run_bind[of "api_call _ _"]
          quiet_call[OF assms(1)] found_def)
    then show ?thesis using w1(2) leaves_trans by blast
  next
    case False
    then show ?thesis
      using w1(2) by (auto simp: handler_Reconcile_def get_event_cached_def run_bind run_return
          quiet_call[OF assms(1)] found_def split: option.splits)
  qed
qed

section \<open>The event between creation and status\<close>

text \<open>The label a pass puts on an event that has no status yet.\<close>

definition early_reason :: "string \<Rightarrow> event_key \<Rightarrow> string" where
  "early_reason ns k = (if fst k \<noteq> ns then ErrorReasonWrongNamespace else ErrorReasonPodNotFound)"

definition marked :: "string \<Rightarrow> ENoExecEvent \<Rightarrow> nat \<Rightarrow> ENoExecEvent" where
  "marked reason c v = (event_EnsureLabel ENoExecEventErrorLabel reason c)\<lparr>en_ResourceVersion := v\<rparr>"

text \<open>
  The stored object is the created one, \<open>c\<close>, or \<open>c\<close> with the label and another version; no cache knows
  anything else.
\<close>

definition pending :: "string \<Rightarrow> ENoExecEvent \<Rightarrow> world \<Rightarrow> bool" where
  "pending reason c w \<longleftrightarrow> events_keyed w \<and> en_ResourceVersion c < w_version w \<and>
     (\<exists>d. w_events w (key_of c) = Some d \<and>
          (d = c \<or> (\<exists>v. v \<noteq> en_ResourceVersion c \<and> d = marked reason c v)) \<and>
          (\<lambda>m. m (key_of c)) ` set (all_states w) \<subseteq> {None, Some c, Some d})"

text \<open>A labelled object stays as it is; a fresh one may be labelled.\<close>

definition stable :: "ENoExecEvent \<Rightarrow> world \<Rightarrow> world \<Rightarrow> bool" where
  "stable c w w' \<longleftrightarrow> w_events w (key_of c) = Some c \<or> w_events w' (key_of c) = w_events w (key_of c)"

lemma pending_leaves: "pending reason c w \<Longrightarrow> leaves (key_of c) w w' \<Longrightarrow> pending reason c w' \<and> stable c w w'"
  by (auto simp: pending_def leaves_def stable_def)

lemma put_map_twice: "put_map (put_map m l v) l v' = put_map m l v'"
  by (cases m) (simp_all add: put_map_def make_if_nil_def)

lemma marked_simps [simp]:
  "en_ResourceVersion (marked reason c v) = v" "en_Status (marked reason c v) = en_Status c"
  "en_Namespace (marked reason c v) = en_Namespace c" "key_of (marked reason c v) = key_of c"
  "marked reason (marked reason c v) v' = marked reason c v'"
  by (simp_all add: marked_def event_EnsureLabel_def key_of_def put_map_twice)

lemma EnsureLabel_marked: "event_EnsureLabel ENoExecEventErrorLabel reason c = marked reason c (en_ResourceVersion c)"
  by (simp add: marked_def event_EnsureLabel_def)

lemma pending_keyed: "pending reason c w \<Longrightarrow> events_keyed w"
  by (simp add: pending_def)

lemma pending_write:
  assumes "pending reason c w" "w_events w (key_of c) = Some c"
  shows "pending reason c (set_events ((w_events w)(key_of c \<mapsto> marked reason c (w_version w)))
           (w\<lparr>w_version := Suc (w_version w)\<rparr>))"
proof -
  have "events_keyed w" "en_ResourceVersion c < w_version w"
    "(\<lambda>m. m (key_of c)) ` set (all_states w) \<subseteq> {None, Some c}"
    using assms by (auto simp: pending_def)
  moreover from this have "\<exists>v. v \<noteq> en_ResourceVersion c \<and> marked reason c (w_version w) = marked reason c v"
    by (intro exI[of _ "w_version w"]) simp
  ultimately show ?thesis
    unfolding pending_def events_keyed_def all_states_set_events
    by (auto simp: set_events_def all_states_def split: if_splits)
qed

lemma pending_mark:
  assumes "quiet env" "pending reason c w" "w_events w (key_of c) = Some d" "e = c \<or> e = d"
  defines "w' \<equiv> snd (run_state (markAsError env e reason) w)"
  shows "pending reason c w' \<and> stable c w w'"
proof -
  let ?w1 = "w\<lparr>w_calls := Suc (w_calls w)\<rparr>" and ?u = "marked reason e (en_ResourceVersion e)"
  let ?change = "\<lambda>old. ?u\<lparr>en_Status := en_Status old\<rparr>"
  have w1: "pending reason c ?w1" using assms(2) by (simp add: pending_def events_keyed_def)
  have same: "pending reason c ?w1 \<and> stable c w ?w1" using w1 by (simp add: stable_def)
  have d: "d = c \<or> (\<exists>v. v \<noteq> en_ResourceVersion c \<and> d = marked reason c v)"
    using assms(2,3) by (auto simp: pending_def)
  have key: "key_of ?u = key_of c" using assms(4) d by auto
  have "w' = (case e_fault env (w_calls w) of Some _ \<Rightarrow> ?w1 | None \<Rightarrow> snd (checked_write ?u ?change ?w1))"
    unfolding w'_def
    by (auto simp: markAsError_def update_event_def run_bind run_return quiet_call[OF assms(1)] EnsureLabel_marked
        split: option.split prod.split)
  moreover have "pending reason c (snd (checked_write ?u ?change ?w1)) \<and> stable c w (snd (checked_write ?u ?change ?w1))"
    using checked_write_cases[of ?u ?change ?w1]
  proof
    assume "\<exists>old. w_events ?w1 (key_of ?u) = Some old \<and> en_ResourceVersion old = en_ResourceVersion ?u \<and>
      (?change old)\<lparr>en_ResourceVersion := en_ResourceVersion old\<rparr> \<noteq> old \<and>
      snd (checked_write ?u ?change ?w1) =
        set_events ((w_events ?w1)(key_of ?u \<mapsto> (?change old)\<lparr>en_ResourceVersion := w_version ?w1\<rparr>))
          (?w1\<lparr>w_version := Suc (w_version ?w1)\<rparr>)"
    then have rv: "en_ResourceVersion d = en_ResourceVersion e"
      and ne: "(?change d)\<lparr>en_ResourceVersion := en_ResourceVersion d\<rparr> \<noteq> d"
      and res: "snd (checked_write ?u ?change ?w1) =
        set_events ((w_events ?w1)(key_of c \<mapsto> (?change d)\<lparr>en_ResourceVersion := w_version ?w1\<rparr>))
          (?w1\<lparr>w_version := Suc (w_version ?w1)\<rparr>)"
      using assms(3) key by auto
    have "d = c"
    proof (rule ccontr)
      assume "d \<noteq> c"
      then obtain v where v: "v \<noteq> en_ResourceVersion c" "d = marked reason c v" using d by blast
      then have "e = d" using assms(4) rv by auto
      then show False using ne v by (simp add: marked_def event_EnsureLabel_def put_map_twice)
    qed
    then have "(?change d)\<lparr>en_ResourceVersion := w_version ?w1\<rparr> = marked reason c (w_version ?w1)"
      using assms(4) by (auto simp: marked_def event_EnsureLabel_def)
    then show ?thesis
      using pending_write[OF w1] res assms(3) \<open>d = c\<close> by (simp add: stable_def)
  qed (use same in simp)
  ultimately show ?thesis using same by (auto split: option.split)
qed

lemma pending_pass:
  fixes k' :: event_key
  assumes "quiet env" "e_namespace env = ns" "pending (early_reason ns (key_of c)) c w" "en_Status c = empty_status"
  defines "w' \<equiv> snd (run_state (handler_Reconcile env k') w)"
  shows "pending (early_reason ns (key_of c)) c w' \<and> stable c w w'"
proof (cases "k' = key_of c")
  case False
  then show ?thesis
    using pending_leaves[OF assms(3)] handler_pass_foreign[OF assms(1)] pending_keyed[OF assms(3)]
    unfolding w'_def by auto
next
  case True
  let ?w1 = "w\<lparr>w_calls := Suc (w_calls w)\<rparr>" and ?r = "early_reason ns (key_of c)"
  have w1: "pending ?r c ?w1" using assms(3) by (simp add: pending_def events_keyed_def)
  obtain d where d: "w_events w (key_of c) = Some d" "d = c \<or> (\<exists>v. d = marked ?r c v)"
      "informer_view env ?w1 (key_of c) \<in> {None, Some c, Some d}"
    using w1 informer_view_state[of env ?w1] by (fastforce simp: pending_def)
  show ?thesis
  proof (cases "e_fault env (w_calls w) = None \<and> informer_view env ?w1 (key_of c) \<noteq> None")
    case True
    then obtain e where e: "informer_view env ?w1 (key_of c) = Some e" "e = c \<or> e = d" using d(3) by auto
    have "st_PodName (en_Status e) = []" "en_Namespace e = fst (key_of c)"
      using e(2) d(2) assms(4) by (auto simp: empty_status_def key_of_def)
    then have "w' = snd (run_state (markAsError env e ?r) ?w1)"
      using True e(1) \<open>k' = key_of c\<close> assms(2) unfolding w'_def early_reason_def
      by (auto simp: handler_Reconcile_def get_event_cached_def run_bind run_return quiet_call[OF assms(1)]
          found_def split: prod.split)
    then show ?thesis using pending_mark[OF assms(1) w1 _ e(2)] d(1) by (simp add: stable_def)
  next
    case False
    then have "w' = ?w1"
      using \<open>k' = key_of c\<close> unfolding w'_def
      by (auto simp: handler_Reconcile_def get_event_cached_def run_bind run_return quiet_call[OF assms(1)]
          found_def split: option.splits)
    then show ?thesis using w1 by (simp add: stable_def)
  qed
qed

lemma stable_trans: "stable c w w1 \<Longrightarrow> stable c w1 w2 \<Longrightarrow> stable c w w2"
  by (auto simp: stable_def)

lemma pending_noise:
  assumes "noise ns (key_of c) f" "pending (early_reason ns (key_of c)) c w" "en_Status c = empty_status"
  shows "pending (early_reason ns (key_of c)) c (f w) \<and> stable c w (f w)"
  using assms
proof (induction rule: noise.induct)
  case nothing
  then show ?case by (simp add: stable_def)
next
  case (pass f henv k')
  then show ?case using pending_pass[of henv ns c "f w" k'] stable_trans[of c w "f w"] by auto
next
  case (other f g)
  then have "leaves (key_of c) (f w) (g (f w))" using pending_keyed by (auto simp: foreign_def)
  then show ?case using other pending_leaves[of _ c "f w"] stable_trans[of c w "f w"] by blast
qed

section \<open>Delivery\<close>

definition absent :: "event_key \<Rightarrow> world \<Rightarrow> bool" where
  "absent k w \<longleftrightarrow> events_keyed w \<and> (\<forall>m \<in> set (all_states w). m k = None)"

lemma absent_leaves: "absent k w \<Longrightarrow> leaves k w w' \<Longrightarrow> absent k w'"
  unfolding absent_def leaves_def by (metis (no_types, lifting) image_iff)

lemma absent_pass:
  assumes "quiet env" "absent k w"
  shows "absent k (snd (run_state (handler_Reconcile env k') w))"
proof (cases "k' = k")
  case True
  let ?w1 = "w\<lparr>w_calls := Suc (w_calls w)\<rparr>"
  have w1: "absent k ?w1" using assms(2) by (simp add: absent_def events_keyed_def)
  then have "informer_view env ?w1 k = None"
    using informer_view_state[of env ?w1] unfolding absent_def by blast
  then have "snd (run_state (handler_Reconcile env k') w) = ?w1"
    using True
    by (cases "e_fault env (w_calls w)")
      (simp_all add: handler_Reconcile_def get_event_cached_def run_bind run_return quiet_call[OF assms(1)] found_def)
  then show ?thesis using w1 by simp
next
  case False
  have "events_keyed w" using assms(2) by (simp add: absent_def)
  then show ?thesis using handler_pass_foreign[OF assms(1) False] absent_leaves[OF assms(2)] by blast
qed

lemma absent_noise: "noise ns k f \<Longrightarrow> absent k w \<Longrightarrow> absent k (f w)"
proof (induction rule: noise.induct)
  case (pass f henv k')
  then show ?case using absent_pass by blast
next
  case (other f g)
  then have "absent k (f w)" by blast
  moreover from this have "leaves k (f w) (g (f w))" using other(2) by (simp add: foreign_def absent_def)
  ultimately show ?case by (rule absent_leaves)
qed

lemma noise_call:
  assumes "no_faults_at_all env"
  shows "run_state (api_call env f) w = f ((e_others env (w_calls w) w)\<lparr>w_calls := Suc (w_calls w)\<rparr>)"
  using assms by (simp add: run_api_call no_faults_at_all_def)

definition stored :: "event_key \<Rightarrow> ENoExecEventStatus \<Rightarrow> world \<Rightarrow> bool" where
  "stored k st w \<longleftrightarrow> (\<exists>e. w_events w k = Some e \<and> key_of e = k \<and> en_Status e = st)"

definition attempt :: "ENoExecEventStatus \<Rightarrow> ENoExecEvent \<Rightarrow> world \<Rightarrow> ENoExecEvent result \<times> world" where
  "attempt st cur w = checked_write (cur\<lparr>en_Status := st\<rparr>) (\<lambda>old. old\<lparr>en_Status := st\<rparr>) w"

lemma attempt_fits:
  assumes "w_events w (key_of cur) = Some d" "key_of d = key_of cur" "en_ResourceVersion d = en_ResourceVersion cur"
  shows "\<exists>e' w'. attempt st cur w = (Inr e', w') \<and> stored (key_of cur) st w'"
proof -
  let ?new = "d\<lparr>en_Status := st\<rparr>"
  have key: "key_of (cur\<lparr>en_Status := st\<rparr>) = key_of cur" by (simp add: key_of_def)
  have run: "attempt st cur w = (case write_event (key_of cur) d ?new w of (e', w') \<Rightarrow> (Inr e', w'))"
    using assms(1,3) unfolding attempt_def checked_write_def key by simp
  show ?thesis
  proof (cases "?new\<lparr>en_ResourceVersion := en_ResourceVersion d\<rparr> = d")
    case True
    have "en_Status (?new\<lparr>en_ResourceVersion := en_ResourceVersion d\<rparr>) = st" by simp
    then have "en_Status d = st" unfolding True .
    then have "stored (key_of cur) st w" using assms(1,2) by (auto simp: stored_def)
    moreover have "write_event (key_of cur) d ?new w = (d, w)" using True by (simp only: write_event_def simp_thms if_True)
    ultimately show ?thesis using run by simp
  next
    case False
    let ?e = "?new\<lparr>en_ResourceVersion := w_version w\<rparr>"
    let ?w' = "set_events ((w_events w)(key_of cur \<mapsto> ?e)) (w\<lparr>w_version := Suc (w_version w)\<rparr>)"
    have "write_event (key_of cur) d ?new w = (?e, ?w')"
      using False by (simp only: write_event_def if_False Let_def)
    moreover have "key_of ?e = key_of cur" using assms(2) by (simp add: key_of_def)
    then have "stored (key_of cur) st ?w'" by (simp add: stored_def set_events_def)
    ultimately show ?thesis using run by simp
  qed
qed

lemma attempt_conflicts:
  assumes "w_events w (key_of cur) = Some d" "en_ResourceVersion d \<noteq> en_ResourceVersion cur"
  shows "attempt st cur w = (Inl (ConflictError (en_Name cur)), w)"
  using assms by (simp add: attempt_def checked_write_def key_of_def)

lemma update_with_retry_delivers:
  assumes env: "no_faults_at_all env" "\<And>i. noise ns (key_of c) (e_others env i)" and st: "valid_status st"
    and c: "en_Status c = empty_status" and w: "pending (early_reason ns (key_of c)) c w"
  shows "\<exists>e' w'. run_state (update_with_retry (Suc (Suc n)) env True st c) w = ((None, e'), w') \<and> stored (key_of c) st w'"
proof -
  let ?r = "early_reason ns (key_of c)"
  define after where "after v = (e_others env (w_calls v) v)\<lparr>w_calls := Suc (w_calls v)\<rparr>" for v
  have pend: "pending ?r c (after v) \<and> stable c v (after v)" if "pending ?r c v" for v
    using pending_noise[OF env(2) that c] by (simp add: after_def pending_def stable_def events_keyed_def)
  have call: "run_state (api_call env f) v = f (after v)" for f v
    using noise_call[OF env(1)] by (simp add: after_def)
  have update: "run_state (update_event_status env (cur\<lparr>en_Status := st\<rparr>)) v = attempt st cur (after v)" for cur v
    using st by (simp add: update_event_status_def call attempt_def)
  obtain d where d: "w_events (after w) (key_of c) = Some d" "key_of d = key_of c"
      "d = c \<or> en_ResourceVersion d \<noteq> en_ResourceVersion c"
    using pend[OF w] by (auto simp: pending_def)
  show ?thesis
  proof (cases "en_ResourceVersion d = en_ResourceVersion c")
    case True
    then show ?thesis
      using attempt_fits[OF d(1,2), of st] by (auto simp: run_bind run_return update)
  next
    case False
    let ?w1 = "after w"
    have "w_events ?w1 (key_of c) \<noteq> Some c" using d(1) False by auto
    then have keep: "w_events (after ?w1) (key_of c) = Some d" "w_events (after (after ?w1)) (key_of d) = Some d"
      using pend[OF w] pend[of ?w1] pend[of "after ?w1"] d(1,2) unfolding stable_def by auto
    have get: "run_state (get_event env (key_of (c\<lparr>en_Status := st\<rparr>))) ?w1 = (Inr d, after ?w1)"
      using keep(1) by (simp add: get_event_def call found_def key_of_def)
    obtain e' w' where "attempt st d (after (after ?w1)) = (Inr e', w')" "stored (key_of c) st w'"
      using attempt_fits[OF keep(2) refl refl] d(2) by metis
    then show ?thesis
      using attempt_conflicts[OF d(1) False] get by (simp add: run_bind run_return update)
  qed
qed

lemma processEvent_delivers:
  fixes ev :: ENOEXECInternalEvent and uuid nodeName :: string
  defines "st \<equiv> \<lparr>st_NodeName = nodeName, st_PodName = ev_PodName ev, st_PodNamespace = ev_PodNamespace ev, st_ContainerID = ev_ContainerID ev\<rparr>"
  assumes env: "no_faults_at_all env" "\<And>i. noise (e_namespace env) (e_namespace env, uuid) (e_others env i)"
    and st: "valid_status st" and w: "absent (e_namespace env, uuid) w"
  shows "\<exists>w'. run_state (processEvent env nodeName None uuid ev) w = (None, w') \<and> stored (e_namespace env, uuid) st w'"
proof -
  let ?k = "(e_namespace env, uuid)"
  define w0 where "w0 = (e_others env (w_calls w) w)\<lparr>w_calls := Suc (w_calls w)\<rparr>"
  define e where "e = \<lparr>en_Name = uuid, en_Namespace = e_namespace env, en_Labels = None, en_ResourceVersion = 0, en_Status = st\<rparr>"
  define c where "c = e\<lparr>en_Status := empty_status, en_ResourceVersion := w_version w0\<rparr>"
  define w1 where "w1 = set_events ((w_events w0)(?k \<mapsto> c)) (w0\<lparr>w_version := Suc (w_version w0)\<rparr>)"
  have key: "key_of e = ?k" "key_of c = ?k" by (simp_all add: e_def c_def key_of_def)
  have rv: "en_ResourceVersion c = w_version w0" by (simp add: c_def)
  have w0: "absent ?k w0" using absent_noise[OF env(2) w] by (simp add: w0_def absent_def events_keyed_def)
  then have "w_events w0 ?k = None" by (simp add: absent_def all_states_def)
  then have create: "run_state (create_event env e) w = (Inr c, w1)"
    by (simp add: create_event_def noise_call[OF env(1)] w0_def[symmetric] key c_def[symmetric] w1_def)
  have "(\<lambda>m. m ?k) ` set (all_states w0) \<subseteq> {None}" "events_keyed w0" using w0 by (auto simp: absent_def)
  then have "pending (early_reason (e_namespace env) (key_of c)) c w1"
    unfolding pending_def key w1_def events_keyed_def
    by (auto simp: key rv set_events_def all_states_def split: if_splits)
  moreover have "en_Status c = empty_status" by (simp add: c_def)
  ultimately obtain e' w' where "run_state (update_with_retry DefaultRetry_Steps env True st c) w1 = ((None, e'), w')"
      "stored ?k st w'"
    using update_with_retry_delivers[OF env(1) _ st, of "e_namespace env" c w1 3] env(2) key(2)
    by (auto simp: DefaultRetry_Steps_def eval_nat_numeral)
  moreover have "ToENoExecEvent uuid (e_namespace env) nodeName ev = Inr e"
    by (simp add: ToENoExecEvent_def e_def st_def)
  moreover have "en_Status e = st" by (simp add: e_def)
  ultimately show ?thesis
    using create by (simp add: processEvent_def run_bind run_return)
qed

lemma report_on_labels:
  "lookup_map (Labels (PodObject (report_on e n p))) ExecFormatErrorLabelKey = Some ''true''"
  "\<exists>msg. elems (recorder (report_on e n p)) = [Event EventTypeWarning ExecFormatErrorEventReason msg]"
  by (simp_all add: report_on_def Let_def pod_ops NewPod_def PodObject_def CorePod.defs Pod.defs)

text \<open>C6: Storing a detected error succeeds, whatever the handler does in the meantime: passes over the
  half-written event, with failures and lagging caches, and any steps on other objects between the
  calls of the writer. The stored event carries the full status, and the first pass of the handler that
  sees it, while the pod still runs on that node, labels the pod, publishes the warning on it and
  removes the event.\<close>
theorem detected_error_reaches_the_pod:
  fixes ev :: ENOEXECInternalEvent and uuid nodeName :: string
  defines "st \<equiv> \<lparr>st_NodeName = nodeName, st_PodName = ev_PodName ev, st_PodNamespace = ev_PodNamespace ev, st_ContainerID = ev_ContainerID ev\<rparr>"
    and "pk \<equiv> (ev_PodNamespace ev, ev_PodName ev)"
  assumes "no_faults_at_all env" "\<And>i. noise (e_namespace env) (e_namespace env, uuid) (e_others env i)"
    and "valid_status st" "absent (e_namespace env, uuid) w" "ev_PodName ev \<noteq> []"
  shows "\<exists>w1. run_state (processEvent env nodeName None uuid ev) w = (None, w1) \<and>
    stored (e_namespace env, uuid) st w1 \<and>
    (\<forall>henv p n. quiet henv \<and> no_faults_at_all henv \<and> e_lag henv = 0 \<and> e_namespace henv = e_namespace env \<and>
        pods_keyed w1 \<and> w_pods w1 pk = Some p \<and> NodeName p = nodeName \<and> w_nodes w1 nodeName = Some n \<longrightarrow>
      (\<exists>w2 p' msg. run_state (handler_Reconcile henv (e_namespace env, uuid)) w1 = (None, w2) \<and>
         w_events w2 (e_namespace env, uuid) = None \<and> w_pods w2 pk = Some p' \<and>
         lookup_map (Labels p') ExecFormatErrorLabelKey = Some ''true'' \<and>
         w_published w2 = w_published w1 @
           [(ev_PodNamespace ev, ev_PodName ev, Event EventTypeWarning ExecFormatErrorEventReason msg)]))"
proof -
  obtain w1 e where w1: "run_state (processEvent env nodeName None uuid ev) w = (None, w1)"
      "stored (e_namespace env, uuid) st w1"
      and e: "w_events w1 (e_namespace env, uuid) = Some e" "key_of e = (e_namespace env, uuid)" "en_Status e = st"
    using processEvent_delivers[OF assms(3-6)[unfolded st_def]] unfolding st_def stored_def by blast
  have "\<exists>w2 p' msg. run_state (handler_Reconcile henv (e_namespace env, uuid)) w1 = (None, w2) \<and>
         w_events w2 (e_namespace env, uuid) = None \<and> w_pods w2 pk = Some p' \<and>
         lookup_map (Labels p') ExecFormatErrorLabelKey = Some ''true'' \<and>
         w_published w2 = w_published w1 @
           [(ev_PodNamespace ev, ev_PodName ev, Event EventTypeWarning ExecFormatErrorEventReason msg)]"
    if h: "quiet henv" "no_faults_at_all henv" "e_lag henv = 0" "e_namespace henv = e_namespace env" "pods_keyed w1"
      and p: "w_pods w1 pk = Some p" "NodeName p = nodeName" "w_nodes w1 nodeName = Some n" for henv p n
  proof -
    have es: "en_Namespace e = e_namespace henv" "st_PodName (en_Status e) = ev_PodName ev"
        "st_PodNamespace (en_Status e) = ev_PodNamespace ev" "st_NodeName (en_Status e) = nodeName"
      using e(2,3) h(4) by (simp_all add: key_of_def st_def)
    obtain w2 where w2: "run_state (handler_Reconcile henv (e_namespace env, uuid)) w1 = (None, w2)"
        "w_events w2 = (w_events w1)((e_namespace env, uuid) := None)" "reported e w1 w2"
      using handler_pass_success[OF h(1-3,5) e(1,2) es(1)] p es assms(7) unfolding pk_def by auto
    obtain msg where "elems (recorder (report_on e n p)) = [Event EventTypeWarning ExecFormatErrorEventReason msg]"
      using report_on_labels(2) by blast
    then show ?thesis
      using w2 p es report_on_labels(1) unfolding reported_def pk_def
      by (intro exI[of _ w2] exI[of _ "PodObject (report_on e n p)"] exI[of _ msg]) simp
  qed
  then show ?thesis using w1 by blast
qed

definition sample_internal :: ENOEXECInternalEvent where
  "sample_internal = \<lparr>ev_PodName = ''web'', ev_PodNamespace = ''shop'', ev_ContainerID = []\<rparr>"

definition quiet_world :: world where
  "quiet_world = sample_world\<lparr>w_events := Map.empty\<rparr>"

text \<open>The handler looks at the event right after it has been created, before its status is there.\<close>

definition busy_env :: client_env where
  "busy_env = calm_env\<lparr>e_others := (\<lambda>i w. if i = 1 then snd (run_state (handler_Reconcile calm_env (''mto'', ''u1'')) w) else w)\<rparr>"

lemma busy_noise: "noise (e_namespace busy_env) (e_namespace busy_env, ''u1'') (e_others busy_env i)"
proof (cases "i = 1")
  case True
  then show ?thesis
    using noise.pass[OF noise.nothing calm(1), of "''mto''" "(''mto'', ''u1'')" "(''mto'', ''u1'')"]
    by (simp add: busy_env_def calm_env_def)
next
  case False
  then show ?thesis using noise.nothing by (simp add: busy_env_def calm_env_def)
qed

lemma busy_run:
  "(\<lambda>w1. (w_pods w1, w_nodes w1)) (snd (run_state (processEvent busy_env ''node-1'' None ''u1'' sample_internal) quiet_world)) =
     (w_pods sample_world, w_nodes sample_world)"
  by (simp add: processEvent_def ToENoExecEvent_def create_event_def update_event_status_def get_event_def run_api_call run_bind run_return
      DefaultRetry_Steps_def eval_nat_numeral busy_env_def calm_env_def quiet_world_def sample_world_def sample_internal_def key_of_def
      set_events_def handler_Reconcile_def get_event_cached_def informer_view_def found_def empty_status_def markAsError_def
      update_event_def event_EnsureLabel_def checked_write_def write_event_def Let_def valid_status_def dns_subdomain_def
      dns_label_def label_char_def is_digit_def)

theorem detected_error_reaches_the_pod_witness:
  "\<exists>w1 w2 p' msg. run_state (processEvent busy_env ''node-1'' None ''u1'' sample_internal) quiet_world = (None, w1) \<and>
     run_state (handler_Reconcile calm_env (''mto'', ''u1'')) w1 = (None, w2) \<and> w_events w2 (''mto'', ''u1'') = None \<and>
     w_pods w2 (''shop'', ''web'') = Some p' \<and> lookup_map (Labels p') ExecFormatErrorLabelKey = Some ''true'' \<and>
     w_published w2 = w_published w1 @ [(''shop'', ''web'', Event EventTypeWarning ExecFormatErrorEventReason msg)]"
proof -
  have ns: "e_namespace busy_env = ''mto''" "e_namespace calm_env = ''mto''" by (simp_all add: busy_env_def calm_env_def)
  have f: "no_faults_at_all busy_env" by (simp add: busy_env_def calm_env_def no_faults_at_all_def)
  have st: "valid_status \<lparr>st_NodeName = ''node-1'', st_PodName = ev_PodName sample_internal,
      st_PodNamespace = ev_PodNamespace sample_internal, st_ContainerID = ev_ContainerID sample_internal\<rparr>"
    by code_simp
  have absent: "absent (e_namespace busy_env, ''u1'') quiet_world"
    by (simp add: absent_def events_keyed_def all_states_def quiet_world_def sample_world_def)
  have name: "ev_PodName sample_internal \<noteq> []" by (simp add: sample_internal_def)
  from detected_error_reaches_the_pod[OF f busy_noise st absent name]
  obtain w1 where w1: "run_state (processEvent busy_env ''node-1'' None ''u1'' sample_internal) quiet_world = (None, w1)"
    and report: "\<forall>henv p n. quiet henv \<and> no_faults_at_all henv \<and> e_lag henv = 0 \<and> e_namespace henv = ''mto'' \<and>
        pods_keyed w1 \<and> w_pods w1 (''shop'', ''web'') = Some p \<and> NodeName p = ''node-1'' \<and> w_nodes w1 ''node-1'' = Some n \<longrightarrow>
      (\<exists>w2 p' msg. run_state (handler_Reconcile henv (''mto'', ''u1'')) w1 = (None, w2) \<and>
         w_events w2 (''mto'', ''u1'') = None \<and> w_pods w2 (''shop'', ''web'') = Some p' \<and>
         lookup_map (Labels p') ExecFormatErrorLabelKey = Some ''true'' \<and>
         w_published w2 = w_published w1 @ [(''shop'', ''web'', Event EventTypeWarning ExecFormatErrorEventReason msg)])"
    unfolding ns by (auto simp: sample_internal_def)
  have "w_pods w1 = w_pods sample_world" "w_nodes w1 = w_nodes sample_world" using busy_run w1 by simp_all
  then have "pods_keyed w1" "w_pods w1 (''shop'', ''web'') = Some sample_pod" "NodeName sample_pod = ''node-1''"
      "w_nodes w1 ''node-1'' = Some \<lparr>node_labels = [ArchLabel \<mapsto> ''arm64''], node_name = ''node-1''\<rparr>"
    using sample_keyed sample_lookup(5-7) by (simp_all add: pods_keyed_def sample_event_def sample_status_def)
  then show ?thesis using report calm(1,2,4) ns(2) w1 by blast
qed

end
