(* ===== verification/Enoexec_Daemon.thy ===== *)
theory Enoexec_Daemon
  imports Enoexec_Tracepoint Enoexec_Storage
begin

text \<open>
  The goroutines of the daemon and how they stop (\<^verbatim>\<open>daemon.go\<close>, the loops of \<^verbatim>\<open>tracepoint.go\<close> and
  \<^verbatim>\<open>k8s_enoexecevent.go\<close>): the reader of the ring buffer, the monitor that closes it, the storage worker,
  the bounded channel between them and the main goroutine that waits for both workers. One relation per
  goroutine, with one rule per step it can take; the scheduler, the arrival of signals and records, the
  answers of the rate limiter and the generated names are arbitrary.
\<close>

section \<open>State and steps\<close>

datatype reader = Reading | Processing "8 word list" | Sending ENOEXECInternalEvent | ReaderDone
datatype monitor = Watching | Closing | MonitorDone
datatype storage_worker = Receiving | Storing ENOEXECInternalEvent | StorageDone
datatype main_goroutine = Waiting | Joining | Stopped

text \<open>
  The last four fields record what has happened: the records in the order in which the kernel put them
  into the ring buffer, those the reader has dealt with, the events it has sent, and the events the
  storage worker has handed to \<^const>\<open>processEvent\<close>.
\<close>

record daemon =
  ctx_done :: bool
  tp_ctx_set :: bool
  rd_open :: bool
  unread :: "8 word list list"
  reader_at :: reader
  monitor_at :: monitor
  chan :: "ENOEXECInternalEvent list"
  chan_closed :: bool
  storage_at :: storage_worker
  api_server :: world
  main_at :: main_goroutine
  panicked :: bool
  detected :: "8 word list list"
  examined :: "8 word list list"
  sent :: "ENOEXECInternalEvent list"
  handled :: "ENOEXECInternalEvent list"

text \<open>What the daemon runs on: the node with its byte order, and the API server it writes to.\<close>

record daemon_env =
  d_node :: node_env
  d_order :: order
  d_client :: client_env
  d_nodeName :: string
  d_world :: world

definition started :: "daemon_env \<Rightarrow> daemon" where
  "started env =
     \<lparr>ctx_done = False, tp_ctx_set = True, rd_open = True, unread = [], reader_at = Reading, monitor_at = Watching,
      chan = [], chan_closed = False, storage_at = Receiving, api_server = d_world env, main_at = Waiting,
      panicked = False, detected = [], examined = [], sent = [], handled = []\<rparr>"

definition capacity :: nat where
  "capacity = unat maxEvents"

abbreviation process_record :: "daemon_env \<Rightarrow> 8 word list \<Rightarrow> ENOEXECInternalEvent result option" where
  "process_record env \<equiv> processRecord (d_node env) (d_order env)"

text \<open>
  The reader. When it returns, its deferred calls close the ring buffer and the tracepoint, and
  \<^verbatim>\<open>runWorker\<close> cancels the context. Reading the context of a closed tracepoint, and sending on a closed
  channel, panic.
\<close>

inductive reader_step :: "daemon_env \<Rightarrow> daemon \<Rightarrow> daemon \<Rightarrow> bool" for env :: daemon_env where
  read_record: "reader_at s = Reading \<Longrightarrow> rd_open s \<Longrightarrow> unread s = sample # rest \<Longrightarrow>
    reader_step env s (s\<lparr>reader_at := Processing sample, unread := rest\<rparr>)"
| read_fails: "reader_at s = Reading \<Longrightarrow>
    reader_step env s (s\<lparr>reader_at := ReaderDone, rd_open := False, tp_ctx_set := False, ctx_done := True\<rparr>)"
| process_event: "reader_at s = Processing sample \<Longrightarrow> tp_ctx_set s \<Longrightarrow> process_record env sample = Some (Inr ev) \<Longrightarrow>
    reader_step env s (s\<lparr>reader_at := Sending ev, examined := examined s @ [sample]\<rparr>)"
| process_error: "reader_at s = Processing sample \<Longrightarrow> tp_ctx_set s \<Longrightarrow> process_record env sample = Some (Inl e) \<Longrightarrow>
    reader_step env s (s\<lparr>reader_at := Reading, examined := examined s @ [sample]\<rparr>)"
| process_panics: "reader_at s = Processing sample \<Longrightarrow> \<not> tp_ctx_set s \<or> process_record env sample = None \<Longrightarrow>
    reader_step env s (s\<lparr>panicked := True\<rparr>)"
| send: "reader_at s = Sending ev \<Longrightarrow> \<not> chan_closed s \<Longrightarrow> length (chan s) < capacity \<Longrightarrow>
    reader_step env s (s\<lparr>reader_at := Reading, chan := chan s @ [ev], sent := sent s @ [ev]\<rparr>)"
| send_panics: "reader_at s = Sending ev \<Longrightarrow> chan_closed s \<Longrightarrow> reader_step env s (s\<lparr>panicked := True\<rparr>)"

text \<open>The monitor waits for the context, closes the tracepoint and then the ring buffer.\<close>

inductive monitor_step :: "daemon \<Rightarrow> daemon \<Rightarrow> bool" where
  monitor_closes: "monitor_at s = Watching \<Longrightarrow> ctx_done s \<Longrightarrow>
    monitor_step s (s\<lparr>tp_ctx_set := False, monitor_at := Closing\<rparr>)"
| monitor_stops: "monitor_at s = Closing \<Longrightarrow> monitor_step s (s\<lparr>rd_open := False, monitor_at := MonitorDone\<rparr>)"

text \<open>The storage worker: events it cannot store are dropped. It ends with the context.\<close>

inductive storage_step :: "daemon_env \<Rightarrow> daemon \<Rightarrow> daemon \<Rightarrow> bool" for env :: daemon_env where
  receive: "storage_at s = Receiving \<Longrightarrow> chan s = ev # rest \<Longrightarrow>
    storage_step env s (s\<lparr>storage_at := Storing ev, chan := rest\<rparr>)"
| handle: "storage_at s = Storing ev \<Longrightarrow>
    run_state (processEvent (d_client env) (d_nodeName env) limited uuid ev) (api_server s) = (r, w) \<Longrightarrow>
    storage_step env s (s\<lparr>storage_at := Receiving, api_server := w, handled := handled s @ [ev]\<rparr>)"
| storage_stops: "storage_at s = Receiving \<Longrightarrow> ctx_done s \<Longrightarrow> storage_step env s (s\<lparr>storage_at := StorageDone\<rparr>)"

text \<open>The main goroutine waits for the context, then for both workers, and closes the channel.\<close>

inductive main_step :: "daemon \<Rightarrow> daemon \<Rightarrow> bool" where
  join: "main_at s = Waiting \<Longrightarrow> ctx_done s \<Longrightarrow> main_step s (s\<lparr>main_at := Joining\<rparr>)"
| stop: "main_at s = Joining \<Longrightarrow> reader_at s = ReaderDone \<Longrightarrow> storage_at s = StorageDone \<Longrightarrow>
    main_step s (s\<lparr>main_at := Stopped, chan_closed := True\<rparr>)"

text \<open>A step of the process: a signal, a record put into the ring buffer, or a step of one goroutine.\<close>

inductive daemon_step :: "daemon_env \<Rightarrow> daemon \<Rightarrow> daemon \<Rightarrow> bool" for env :: daemon_env where
  signal: "\<not> panicked s \<Longrightarrow> \<not> ctx_done s \<Longrightarrow> daemon_step env s (s\<lparr>ctx_done := True\<rparr>)"
| detect: "\<not> panicked s \<Longrightarrow> rd_open s \<Longrightarrow>
    daemon_step env s (s\<lparr>unread := unread s @ [sample], detected := detected s @ [sample]\<rparr>)"
| reader: "\<not> panicked s \<Longrightarrow> reader_step env s s' \<Longrightarrow> daemon_step env s s'"
| monitor: "\<not> panicked s \<Longrightarrow> monitor_step s s' \<Longrightarrow> daemon_step env s s'"
| storage: "\<not> panicked s \<Longrightarrow> storage_step env s s' \<Longrightarrow> daemon_step env s s'"
| main: "\<not> panicked s \<Longrightarrow> main_step s s' \<Longrightarrow> daemon_step env s s'"

inductive daemon_reachable :: "daemon_env \<Rightarrow> daemon \<Rightarrow> bool" for env :: daemon_env where
  start: "daemon_reachable env (started env)"
| step: "daemon_reachable env s \<Longrightarrow> daemon_step env s s' \<Longrightarrow> daemon_reachable env s'"

inductive_cases reader_stepE: "reader_step env s s'"
inductive_cases monitor_stepE: "monitor_step s s'"
inductive_cases storage_stepE: "storage_step env s s'"
inductive_cases main_stepE: "main_step s s'"
inductive_cases daemon_stepE: "daemon_step env s s'"

lemmas reader_daemon = daemon_step.reader[OF _ reader_step.read_record] daemon_step.reader[OF _ reader_step.process_event]
  daemon_step.reader[OF _ reader_step.send] daemon_step.reader[OF _ reader_step.process_panics]

section \<open>Invariants\<close>

definition in_storage :: "storage_worker \<Rightarrow> ENOEXECInternalEvent list" where
  "in_storage p = (case p of Storing ev \<Rightarrow> [ev] | _ \<Rightarrow> [])"

definition in_reader :: "reader \<Rightarrow> ENOEXECInternalEvent list" where
  "in_reader p = (case p of Sending ev \<Rightarrow> [ev] | _ \<Rightarrow> [])"

definition in_process :: "reader \<Rightarrow> 8 word list list" where
  "in_process p = (case p of Processing sample \<Rightarrow> [sample] | _ \<Rightarrow> [])"

text \<open>The events of the records that name a container of a pod, in their order.\<close>

definition events_of :: "daemon_env \<Rightarrow> 8 word list list \<Rightarrow> ENOEXECInternalEvent list" where
  "events_of env samples =
     List.map_filter (\<lambda>sample. case process_record env sample of Some (Inr ev) \<Rightarrow> Some ev | _ \<Rightarrow> None) samples"

lemma events_of_simps [simp]:
  "events_of env [] = []" "events_of env (xs @ ys) = events_of env xs @ events_of env ys"
  "process_record env x = Some (Inr ev) \<Longrightarrow> events_of env [x] = [ev]"
  "process_record env x = Some (Inl e) \<Longrightarrow> events_of env [x] = []"
  by (simp_all add: events_of_def map_filter_def)

text \<open>The API server as \<^const>\<open>storage_Run\<close> leaves it after the given events, for some answers of the limiter and some names.\<close>

definition stored_by_run :: "daemon_env \<Rightarrow> ENOEXECInternalEvent list \<Rightarrow> world \<Rightarrow> bool" where
  "stored_by_run env evs w =
     (\<exists>arrivals. map (\<lambda>(limited, uuid, ev). ev) arrivals = map Some evs \<and>
        w = snd (run_state (storage_Run (d_client env) (d_nodeName env) arrivals) (d_world env)))"

lemma storage_Run_snoc:
  "snd (run_state (storage_Run env nodeName (xs @ [(limited, uuid, Some ev)])) w) =
     snd (run_state (processEvent env nodeName limited uuid ev) (snd (run_state (storage_Run env nodeName xs) w)))"
proof (induction xs arbitrary: w)
  case (Cons x xs)
  obtain l u e where "x = (l, u, e)" by (cases x)
  then show ?case using Cons by (cases e) (auto simp: run_bind split: prod.splits)
qed (auto simp: run_bind run_return split: prod.splits)

lemma stored_by_run_snoc:
  assumes "stored_by_run env evs w" and "run_state (processEvent (d_client env) (d_nodeName env) limited uuid ev) w = (r, w')"
  shows "stored_by_run env (evs @ [ev]) w'"
proof -
  obtain arrivals where "map (\<lambda>(limited, uuid, ev). ev) arrivals = map Some evs"
      "w = snd (run_state (storage_Run (d_client env) (d_nodeName env) arrivals) (d_world env))"
    using assms(1) by (auto simp: stored_by_run_def)
  then show ?thesis
    unfolding stored_by_run_def
    using assms(2) by (intro exI[of _ "arrivals @ [(limited, uuid, Some ev)]"]) (simp add: storage_Run_snoc)
qed

definition daemon_inv :: "daemon_env \<Rightarrow> daemon \<Rightarrow> bool" where
  "daemon_inv env s \<longleftrightarrow> length (chan s) \<le> capacity \<and> sent s = handled s @ in_storage (storage_at s) @ chan s \<and>
     events_of env (examined s) = sent s @ in_reader (reader_at s) \<and>
     detected s = examined s @ in_process (reader_at s) @ unread s \<and>
     stored_by_run env (handled s) (api_server s) \<and>
     (chan_closed s \<longleftrightarrow> main_at s = Stopped) \<and>
     (main_at s = Stopped \<longrightarrow> reader_at s = ReaderDone \<and> storage_at s = StorageDone) \<and>
     (main_at s \<noteq> Waiting \<longrightarrow> ctx_done s) \<and> (storage_at s = StorageDone \<longrightarrow> ctx_done s) \<and>
     (\<not> tp_ctx_set s \<longrightarrow> ctx_done s) \<and> (\<not> rd_open s \<longrightarrow> \<not> tp_ctx_set s) \<and>
     (monitor_at s \<noteq> Watching \<longrightarrow> \<not> tp_ctx_set s)"

lemmas positions = in_storage_def in_reader_def in_process_def

lemma daemon_inv_started: "daemon_inv env (started env)"
  by (auto simp: daemon_inv_def started_def positions stored_by_run_def run_return intro: exI[of _ "[]"])

lemma daemon_inv_reader: "reader_step env s s' \<Longrightarrow> daemon_inv env s \<Longrightarrow> daemon_inv env s'"
  by (induction rule: reader_step.induct) (auto simp: daemon_inv_def positions)

lemma daemon_inv_storage: "storage_step env s s' \<Longrightarrow> daemon_inv env s \<Longrightarrow> daemon_inv env s'"
  by (induction rule: storage_step.induct) (auto simp: daemon_inv_def positions intro: stored_by_run_snoc)

lemma daemon_inv_monitor: "monitor_step s s' \<Longrightarrow> daemon_inv env s \<Longrightarrow> daemon_inv env s'"
  by (induction rule: monitor_step.induct) (auto simp: daemon_inv_def)

lemma daemon_inv_main: "main_step s s' \<Longrightarrow> daemon_inv env s \<Longrightarrow> daemon_inv env s'"
  by (induction rule: main_step.induct) (auto simp: daemon_inv_def)

lemma daemon_inv_step: "daemon_step env s s' \<Longrightarrow> daemon_inv env s \<Longrightarrow> daemon_inv env s'"
proof (induction rule: daemon_step.induct)
  case (signal s)
  then show ?case by (auto simp: daemon_inv_def)
next
  case (detect s sample)
  then show ?case by (simp add: daemon_inv_def)
qed (simp_all add: daemon_inv_reader daemon_inv_storage daemon_inv_monitor daemon_inv_main)

lemma daemon_inv_reachable: "daemon_reachable env s \<Longrightarrow> daemon_inv env s"
  by (induction rule: daemon_reachable.induct) (auto intro: daemon_inv_started daemon_inv_step)

definition excused :: "daemon_env \<Rightarrow> daemon \<Rightarrow> bool" where
  "excused env s \<longleftrightarrow> (panicked s \<longrightarrow> ctx_done s \<or> (\<exists>sample. process_record env sample = None))"

lemma excused_reader: "reader_step env s s' \<Longrightarrow> daemon_inv env s \<Longrightarrow> excused env s \<Longrightarrow> excused env s'"
  by (induction rule: reader_step.induct) (auto simp: excused_def daemon_inv_def)

lemma excused_monitor: "monitor_step s s' \<Longrightarrow> excused env s \<Longrightarrow> excused env s'"
  by (induction rule: monitor_step.induct) (simp_all add: excused_def)

lemma excused_main: "main_step s s' \<Longrightarrow> excused env s \<Longrightarrow> excused env s'"
  by (induction rule: main_step.induct) (simp_all add: excused_def)

lemma excused_storage: "storage_step env s s' \<Longrightarrow> excused env s \<Longrightarrow> excused env s'"
  by (induction rule: storage_step.induct) (simp_all add: excused_def)

lemma excused_step: "daemon_step env s s' \<Longrightarrow> daemon_inv env s \<Longrightarrow> excused env s \<Longrightarrow> excused env s'"
proof (induction rule: daemon_step.induct)
  case (signal s)
  then show ?case by (simp add: excused_def)
next
  case (detect s sample)
  then show ?case by (simp add: excused_def)
qed (blast intro: excused_reader excused_monitor excused_storage excused_main)+

lemma panic_cause: "daemon_reachable env s \<Longrightarrow> excused env s"
proof (induction rule: daemon_reachable.induct)
  case (step s s')
  then show ?case using excused_step daemon_inv_reachable by blast
qed (simp add: excused_def started_def)

lemma processRecord_no_panic:
  assumes "ListPodSandbox env = Inr items" "None \<notin> set items"
  shows "processRecord env ord sample \<noteq> None"
proof -
  have "getPodNameFromUUID env uid \<noteq> None" for uid
    using assms by (auto simp: getPodNameFromUUID_def find_Some_iff set_conv_nth split: option.splits)
  then have "locate env missing pids \<noteq> None" for missing pids
  proof (induction pids)
    case (Cons pid pids)
    show ?case
    proof (cases "getPodContainerUUIDFor env pid")
      case (Inr x)
      obtain r where "getPodNameFromUUID env (fst x) = Some r" using Cons.prems by blast
      then show ?thesis using Inr Cons by (cases x) (auto split: sum.split)
    qed (use Cons in simp)
  qed simp
  then show ?thesis unfolding processRecord_def Let_def by (simp del: locate.simps)
qed

text \<open>C17: In every interleaving of the goroutines the daemon treats what the kernel detects in order and once. The
  detected records are those the reader has examined, the one it is working on and those still in the ring buffer; the
  events of the examined records are, in this order, the events handed to \<open>processEvent\<close>, the one in storage, the at
  most 256 in the channel and the one the reader is sending; and the API server is as the storage loop leaves it after
  exactly the handed events. The channel is closed only after both workers have ended. If every sandbox of the runtime
  has metadata, the daemon does not panic before it is told to stop.\<close>
theorem events_in_order_and_bounded:
  assumes "daemon_reachable env s"
  shows "detected s = examined s @ in_process (reader_at s) @ unread s \<and>
    events_of env (examined s) = handled s @ in_storage (storage_at s) @ chan s @ in_reader (reader_at s) \<and>
    length (chan s) \<le> 256 \<and>
    (\<exists>arrivals. map (\<lambda>(limited, uuid, ev). ev) arrivals = map Some (handled s) \<and>
       api_server s = snd (run_state (storage_Run (d_client env) (d_nodeName env) arrivals) (d_world env))) \<and>
    (chan_closed s \<longrightarrow> reader_at s = ReaderDone \<and> storage_at s = StorageDone) \<and>
    (ListPodSandbox (d_node env) = Inr items \<and> None \<notin> set items \<and> panicked s \<longrightarrow> ctx_done s)"
proof -
  have inv: "daemon_inv env s" using assms by (rule daemon_inv_reachable)
  have cap: "capacity = 256" by (simp add: capacity_def maxEvents_def)
  have "ctx_done s" if "ListPodSandbox (d_node env) = Inr items" "None \<notin> set items" "panicked s"
    using panic_cause[OF assms] processRecord_no_panic[OF that(1,2)] that(3) by (auto simp: excused_def)
  then show ?thesis using inv unfolding daemon_inv_def cap stored_by_run_def by auto
qed

section \<open>Stopping\<close>

definition sample_record :: "8 word list" where
  "sample_record = [0, 0, 0, 7, 0, 0, 0, 42]"

definition sample_ev :: ENOEXECInternalEvent where
  "sample_ev = event_for sample_sandbox sample_cid"

lemma sample_processed: "processRecord sample_node BigEndian sample_record = Some (Inr sample_ev)"
proof -
  have "sample_record = put_word BigEndian 4 (7 :: 32 word) @ put_word BigEndian 4 (42 :: 32 word)"
    by (simp add: sample_record_def sample_bytes)
  moreover have "cgroup sample_node 42 = Inl (GoError ''no such process'')" by (simp add: sample_node_def)
  ultimately show ?thesis
    using processRecord_ids[of sample_node BigEndian 7 42] locate_gone locate_hit[OF sample_runs_in]
    by (auto simp: sample_ev_def)
qed

definition sample_daemon :: daemon_env where
  "sample_daemon =
     \<lparr>d_node = sample_node, d_order = BigEndian, d_client = calm_env, d_nodeName = ''node-1'', d_world = quiet_world\<rparr>"

abbreviation sample_reachable :: "daemon \<Rightarrow> bool" where
  "sample_reachable \<equiv> daemon_reachable sample_daemon"

lemmas sample_step = daemon_reachable.step[of sample_daemon]

lemma sample_daemon_sel [simp]: "d_node sample_daemon = sample_node" "d_order sample_daemon = BigEndian"
  by (simp_all add: sample_daemon_def)

lemma reach_processing:
  assumes "sample_reachable s" "\<not> panicked s" "rd_open s" "reader_at s = Reading" "unread s = []"
  shows "sample_reachable (s\<lparr>reader_at := Processing sample_record, detected := detected s @ [sample_record]\<rparr>)"
proof -
  let ?s = "s\<lparr>unread := [sample_record], detected := detected s @ [sample_record]\<rparr>"
  have "sample_reachable ?s"
    using sample_step[OF assms(1) daemon_step.detect[of s _ sample_record]] assms by simp
  moreover have "daemon_step sample_daemon ?s (?s\<lparr>reader_at := Processing sample_record, unread := []\<rparr>)"
    by (rule reader_daemon(1)) (use assms in simp_all)
  moreover have "?s\<lparr>reader_at := Processing sample_record, unread := []\<rparr> =
      s\<lparr>reader_at := Processing sample_record, detected := detected s @ [sample_record]\<rparr>"
    using assms(5) by (cases s) simp
  ultimately show ?thesis using sample_step by fastforce
qed

lemma reach_sending:
  assumes "sample_reachable s" "\<not> panicked s" "rd_open s" "tp_ctx_set s" "reader_at s = Reading" "unread s = []"
  shows "sample_reachable (s\<lparr>detected := detected s @ [sample_record], reader_at := Sending sample_ev,
    examined := examined s @ [sample_record]\<rparr>)"
  using sample_step[OF reach_processing[OF assms(1-3,5,6)] reader_daemon(2)[of _ sample_record _ sample_ev]]
    assms sample_processed by simp

text \<open>The daemon after \<open>n\<close> events that the storage worker has not taken yet.\<close>

definition filled :: "nat \<Rightarrow> daemon" where
  "filled n = (started sample_daemon)\<lparr>chan := replicate n sample_ev, sent := replicate n sample_ev,
     detected := replicate n sample_record, examined := replicate n sample_record\<rparr>"

lemmas states = filled_def started_def

lemma filled_reachable: "n \<le> capacity \<Longrightarrow> sample_reachable (filled n)"
proof (induction n)
  case 0
  have "filled 0 = started sample_daemon" by (simp add: states)
  then show ?case using daemon_reachable.start by simp
next
  case (Suc n)
  let ?s = "(filled n)\<lparr>reader_at := Sending sample_ev, detected := replicate n sample_record @ [sample_record],
    examined := replicate n sample_record @ [sample_record]\<rparr>"
  have "sample_reachable ?s"
    using reach_sending[of "filled n"] Suc by (simp add: states)
  from sample_step[OF this reader_daemon(3)[of _ sample_ev]] Suc.prems show ?case
    by (simp add: states replicate_append_same)
qed

theorem events_in_order_and_bounded_witness:
  "daemon_reachable sample_daemon (filled 256) \<and> length (chan (filled 256)) = 256 \<and>
   length (detected (filled 256)) = 256 \<and>
   events_of sample_daemon (detected (filled 256)) = chan (filled 256)"
proof -
  have r: "sample_reachable (filled 256)" using filled_reachable[of 256] by (simp add: capacity_def maxEvents_def)
  show ?thesis using events_in_order_and_bounded[OF r] r by (simp add: states positions)
qed

text \<open>The workers after the signal: the storage worker has stopped, the reader waits for room in the channel.\<close>

definition full :: daemon where
  "full = (filled capacity)\<lparr>reader_at := Sending sample_ev, detected := replicate (Suc capacity) sample_record,
     examined := replicate (Suc capacity) sample_record\<rparr>"

definition deadlocked :: daemon where
  "deadlocked = full\<lparr>ctx_done := True, storage_at := StorageDone,
     tp_ctx_set := False, monitor_at := MonitorDone, rd_open := False, main_at := Joining\<rparr>"

lemma deadlocked_reachable: "sample_reachable deadlocked"
proof -
  have s0: "sample_reachable full"
    using reach_sending[OF filled_reachable[OF order_refl]] by (simp add: full_def states replicate_append_same)
  have s1: "sample_reachable (full\<lparr>ctx_done := True\<rparr>)"
    using sample_step[OF s0 daemon_step.signal] by (simp add: full_def states)
  have s2: "sample_reachable (full\<lparr>ctx_done := True, storage_at := StorageDone\<rparr>)"
    using sample_step[OF s1 daemon_step.storage[OF _ storage_step.storage_stops]] by (simp add: full_def states)
  have s3: "sample_reachable (full\<lparr>ctx_done := True, storage_at := StorageDone, tp_ctx_set := False, monitor_at := Closing\<rparr>)"
    using sample_step[OF s2 daemon_step.monitor[OF _ monitor_step.monitor_closes]] by (simp add: full_def states)
  have s4: "sample_reachable (full\<lparr>ctx_done := True, storage_at := StorageDone, tp_ctx_set := False,
      monitor_at := MonitorDone, rd_open := False\<rparr>)"
    using sample_step[OF s3 daemon_step.monitor[OF _ monitor_step.monitor_stops]] by (simp add: full_def states)
  then show ?thesis
    using sample_step[OF s4 daemon_step.main[OF _ main_step.join]] by (simp add: deadlocked_def full_def states)
qed

lemma deadlocked_stuck: "\<not> daemon_step env deadlocked s'"
proof
  assume step: "daemon_step env deadlocked s'"
  have "\<not> reader_step env deadlocked s'" by (auto simp: deadlocked_def full_def states elim!: reader_stepE)
  moreover have "\<not> monitor_step deadlocked s'" by (auto simp: deadlocked_def elim!: monitor_stepE)
  moreover have "\<not> storage_step env deadlocked s'" by (auto simp: deadlocked_def elim!: storage_stepE)
  moreover have "\<not> main_step deadlocked s'" by (auto simp: deadlocked_def full_def elim!: main_stepE)
  ultimately show False using step by (auto simp: deadlocked_def elim!: daemon_stepE)
qed

lemma panic_reachable: "\<exists>s. sample_reachable s \<and> panicked s"
proof -
  let ?s = "(started sample_daemon)\<lparr>reader_at := Processing sample_record, detected := [sample_record]\<rparr>"
  have s0: "sample_reachable ?s"
    using reach_processing[OF daemon_reachable.start] by (simp add: started_def)
  have s1: "sample_reachable (?s\<lparr>ctx_done := True\<rparr>)"
    using sample_step[OF s0 daemon_step.signal] by (simp add: started_def)
  have s2: "sample_reachable (?s\<lparr>ctx_done := True, tp_ctx_set := False, monitor_at := Closing\<rparr>)"
    using sample_step[OF s1 daemon_step.monitor[OF _ monitor_step.monitor_closes]] by (simp add: started_def)
  show ?thesis
    using sample_step[OF s2 reader_daemon(4)[of _ sample_record]] by (auto simp: started_def)
qed

text \<open>C37: Stopping the daemon is not safe. When the channel is full as the storage worker leaves, the
  reader blocks forever in its send, which does not watch the context, and the main goroutine waits for
  it: a state without any further step in which the daemon has not stopped. And when the monitor closes
  the tracepoint while a record is being processed, the reader uses the cleared context and panics.\<close>
theorem stopping_may_hang_or_panic:
  "(\<exists>s. daemon_reachable sample_daemon s \<and> ctx_done s \<and> main_at s = Joining \<and>
      (\<nexists>s'. daemon_step sample_daemon s s')) \<and>
   (\<exists>s. daemon_reachable sample_daemon s \<and> panicked s)"
proof
  have "ctx_done deadlocked \<and> main_at deadlocked = Joining" by (simp add: deadlocked_def)
  then show "\<exists>s. sample_reachable s \<and> ctx_done s \<and> main_at s = Joining \<and> (\<nexists>s'. daemon_step sample_daemon s s')"
    using deadlocked_reachable deadlocked_stuck by blast
qed (rule panic_reachable)

end
