(* ===== verification/Go_Match.thy ===== *)
theory Go_Match
  imports Go_Strings
begin

text \<open>
  Two routines of Go's standard library behind the matching of registry credentials: \<^verbatim>\<open>filepath.Match\<close>, with
  its chunk scanner and character classes, and \<^verbatim>\<open>net.SplitHostPort\<close>. \<open>path_Match_like\<close> shows that the greedy
  matcher, which commits to the leftmost occurrence of every chunk after a star, decides the declarative
  relation \<open>like\<close> on patterns without classes, question marks and escapes.
\<close>

section \<open>Patterns\<close>

definition backslash :: char where
  "backslash = CHR 0x5C"

text \<open>\<^verbatim>\<open>scanChunk\<close>: the text up to the next star outside a class.\<close>

fun scan_to_star :: "bool \<Rightarrow> bool \<Rightarrow> string \<Rightarrow> string \<times> string" where
  "scan_to_star escaped inrange [] = ([], [])"
| "scan_to_star escaped inrange (c # cs) =
     (if \<not> escaped \<and> c = CHR ''*'' \<and> \<not> inrange then ([], c # cs)
      else let inrange' = (if escaped then inrange else if c = CHR ''['' then True
                           else if c = CHR '']'' then False else inrange);
               (chunk, rest) = scan_to_star (\<not> escaped \<and> c = backslash) inrange' cs
           in (c # chunk, rest))"

definition is_star :: "char \<Rightarrow> bool" where
  "is_star c = (c = CHR ''*'')"

definition scan_chunk :: "string \<Rightarrow> bool \<times> string \<times> string" where
  "scan_chunk pattern =
     (pattern \<noteq> [] \<and> is_star (hd pattern), scan_to_star False False (dropWhile is_star pattern))"

text \<open>The rune at the start of a non-empty string and the rest of the string.\<close>

definition next_rune :: "char \<Rightarrow> string \<Rightarrow> nat \<times> nat \<times> string" where
  "next_rune c cs = (let (r, k) = decode_rune (of_char c) (map of_char cs) in (r, k, drop k cs))"

text \<open>\<^verbatim>\<open>getEsc\<close>: one possibly escaped character of a class; \<open>None\<close> is \<^verbatim>\<open>ErrBadPattern\<close>.\<close>

definition getEsc :: "string \<Rightarrow> (nat \<times> string) option" where
  "getEsc chunk =
     (case chunk of
        [] \<Rightarrow> None
      | c # cs \<Rightarrow>
          if c = CHR ''-'' \<or> c = CHR '']'' then None
          else case (if c = backslash then cs else chunk) of
                 [] \<Rightarrow> None
               | d # ds \<Rightarrow>
                   let (r, k, rest) = next_rune d ds
                   in if r = rune_error \<and> k = 0 \<or> rest = [] then None else Some (r, rest))"

lemma getEsc_shorter: "getEsc chunk = Some (r, rest) \<Longrightarrow> length rest < length chunk"
  by (auto simp: getEsc_def next_rune_def Let_def split: list.splits if_splits prod.splits)

text \<open>The ranges of a class up to its closing bracket.\<close>

function match_ranges :: "nat \<Rightarrow> bool \<Rightarrow> bool \<Rightarrow> string \<Rightarrow> (bool \<times> string) option" where
  "match_ranges r first matched chunk =
     (if chunk \<noteq> [] \<and> hd chunk = CHR '']'' \<and> \<not> first then Some (matched, tl chunk)
      else case getEsc chunk of
             None \<Rightarrow> None
           | Some (lo, c1) \<Rightarrow>
               if hd c1 = CHR ''-'' then
                 (case getEsc (tl c1) of
                    None \<Rightarrow> None
                  | Some (hi, c2) \<Rightarrow> match_ranges r False (matched \<or> lo \<le> r \<and> r \<le> hi) c2)
               else match_ranges r False (matched \<or> lo = r) c1)"
  by pat_completeness auto
termination
proof (relation "measure (\<lambda>(r, first, matched, chunk). length chunk)", goal_cases)
  case (2 r first matched chunk p lo c1 q hi c2)
  then show ?case using getEsc_shorter[of chunk lo c1] getEsc_shorter[of "tl c1" hi c2] by simp
next
  case (3 r first matched chunk p lo c1)
  then show ?case using getEsc_shorter[of chunk lo c1] by simp
qed simp

declare match_ranges.simps [simp del]

lemma match_ranges_shorter:
  "match_ranges r first matched chunk = Some (m, rest) \<Longrightarrow> length rest < length chunk"
proof (induction r first matched chunk rule: match_ranges.induct)
  case (1 r first matched chunk)
  show ?case
  proof (cases "chunk \<noteq> [] \<and> hd chunk = CHR '']'' \<and> \<not> first")
    case True
    have "match_ranges r first matched chunk = Some (matched, tl chunk)"
      by (subst match_ranges.simps) (simp add: True del: match_ranges.simps)
    then show ?thesis using 1(3) True by (cases chunk) auto
  next
    case False
    then obtain lo c1 where e: "getEsc chunk = Some (lo, c1)"
      using 1(3) by (auto simp: match_ranges.simps[of r first matched chunk] simp del: not_None_eq
          split: option.splits)
    note short = getEsc_shorter[OF e]
    show ?thesis
    proof (cases "hd c1 = CHR ''-''")
      case True
      then obtain hi c2 where e2: "getEsc (tl c1) = Some (hi, c2)"
        using 1(3) False e by (auto simp: match_ranges.simps[of r first matched chunk] split: option.splits)
      have "length rest < length c2"
        using 1(1)[OF False e refl True e2 refl] 1(3) False e True e2
        by (simp add: match_ranges.simps[of r first matched chunk])
      then show ?thesis using short getEsc_shorter[OF e2] by simp
    next
      case no: False
      have "length rest < length c1"
        using 1(2)[OF False e refl no] 1(3) False e no
        by (simp add: match_ranges.simps[of r first matched chunk])
      then show ?thesis using short by simp
    qed
  qed
qed

text \<open>
  \<^verbatim>\<open>matchChunk\<close>: \<open>None\<close> is \<^verbatim>\<open>ErrBadPattern\<close>, \<open>Some None\<close> no match, \<open>Some (Some rest)\<close> a match that leaves \<open>rest\<close>.
  After a failure the rest of the chunk is only checked for its syntax.
\<close>

function match_chunk :: "bool \<Rightarrow> string \<Rightarrow> string \<Rightarrow> string option option" where
  "match_chunk failed [] s = Some (if failed then None else Some s)"
| "match_chunk failed (c # cs) s =
     (let bad = (failed \<or> s = []) in
      if c = CHR ''['' then
        (let (r, k, s') = (if bad then (0, 0, s) else next_rune (hd s) (tl s));
             negated = (cs \<noteq> [] \<and> hd cs = CHR ''^'')
         in case match_ranges r True False (if negated then tl cs else cs) of
              None \<Rightarrow> None
            | Some (m, rest) \<Rightarrow> match_chunk (bad \<or> m = negated) rest s')
      else if c = CHR ''?'' then
        match_chunk (bad \<or> hd s = CHR ''/'') cs (if bad then s else snd (snd (next_rune (hd s) (tl s))))
      else if c = backslash then
        (case cs of
           [] \<Rightarrow> None
         | d # ds \<Rightarrow> match_chunk (bad \<or> d \<noteq> hd s) ds (if bad then s else tl s))
      else match_chunk (bad \<or> c \<noteq> hd s) cs (if bad then s else tl s))"
  by pat_completeness auto
termination
proof (relation "measure (\<lambda>(failed, chunk, s). length chunk)", goal_cases)
  case (2 failed c cs s bad p r q k s' negated u m rest)
  have "match_ranges r True False (if negated then tl cs else cs) = Some (m, rest)"
    using 2(7,8) by simp
  from match_ranges_shorter[OF this] have "length rest < length (c # cs)"
    by (cases negated) auto
  then show ?case by (simp only: in_measure prod.case)
next
  case (3 failed c cs s x)
  show ?case by simp
next
  case (4 failed c cs s x x21 x22)
  then show ?case by simp
next
  case (5 failed c cs s x)
  show ?case by simp
qed simp

text \<open>The remainder of a pattern is well formed.\<close>

lemma scan_to_star_length:
  "length (fst (scan_to_star e b p)) + length (snd (scan_to_star e b p)) = length p"
  by (induction p arbitrary: e b) (simp_all add: Let_def case_prod_beta)

lemma scan_chunk_shorter:
  assumes "pattern \<noteq> []" "scan_chunk pattern = (star, chunk, rest)"
  shows "length rest < length pattern"
proof (cases "is_star (hd pattern)")
  case True
  then have "length (dropWhile is_star pattern) < length pattern"
    using assms(1) by (cases pattern) (auto simp: le_imp_less_Suc length_dropWhile_le)
  then show ?thesis
    using assms(2) scan_to_star_length[of False False "dropWhile is_star pattern"] by (simp add: scan_chunk_def)
next
  case False
  then obtain c cs where p: "pattern = c # cs" "\<not> is_star c" using assms(1) by (cases pattern) auto
  then have s: "scan_to_star False False (c # cs) = (chunk, rest)" using assms(2) by (simp add: scan_chunk_def)
  then have "chunk \<noteq> []" using p(2) by (auto simp: is_star_def Let_def split: prod.splits if_splits)
  then show ?thesis using s p scan_to_star_length[of False False "c # cs"] by (cases chunk) auto
qed

function well_formed_pattern :: "string \<Rightarrow> bool" where
  "well_formed_pattern pattern =
     (if pattern = [] then True
      else let (star, chunk, rest) = scan_chunk pattern
           in match_chunk False chunk [] \<noteq> None \<and> well_formed_pattern rest)"
  by pat_completeness auto
termination
  by (relation "measure length") (simp_all, metis scan_chunk_shorter)

declare well_formed_pattern.simps [simp del]

text \<open>The attempts to match a chunk after a star at a later position, up to the next separator.\<close>

fun skip_match :: "string \<Rightarrow> bool \<Rightarrow> string \<Rightarrow> string option option" where
  "skip_match chunk last_chunk [] = Some None"
| "skip_match chunk last_chunk (c # cs) =
     (if c = CHR ''/'' then Some None
      else case match_chunk False chunk cs of
             None \<Rightarrow> None
           | Some None \<Rightarrow> skip_match chunk last_chunk cs
           | Some (Some t) \<Rightarrow>
               if last_chunk \<and> t \<noteq> [] then skip_match chunk last_chunk cs else Some (Some t))"

text \<open>Where the name continues after the chunk: at the current position, else after a skip.\<close>

definition find_chunk :: "bool \<Rightarrow> string \<Rightarrow> bool \<Rightarrow> string \<Rightarrow> string option option" where
  "find_chunk star chunk last_chunk nm =
     (let skipped = (if star then skip_match chunk last_chunk nm else Some None)
      in case match_chunk False chunk nm of
           None \<Rightarrow> None
         | Some None \<Rightarrow> skipped
         | Some (Some t) \<Rightarrow> if t = [] \<or> \<not> last_chunk then Some (Some t) else skipped)"

function path_Match :: "string \<Rightarrow> string \<Rightarrow> bool option" where
  "path_Match pattern nm =
     (if pattern = [] then Some (nm = [])
      else let (star, chunk, rest) = scan_chunk pattern
           in if star \<and> chunk = [] then Some (CHR ''/'' \<notin> set nm)
              else case find_chunk star chunk (rest = []) nm of
                     None \<Rightarrow> None
                   | Some None \<Rightarrow> (if well_formed_pattern rest then Some False else None)
                   | Some (Some t) \<Rightarrow> path_Match rest t)"
  by pat_completeness auto
termination
proof (relation "measure (\<lambda>(pattern, nm). length pattern)", goal_cases)
  case (2 pattern nm p star q chunk rest t u)
  then show ?case using scan_chunk_shorter[of pattern star chunk rest] by simp
qed simp

declare path_Match.simps [simp del]

section \<open>The declarative reading\<close>

text \<open>A star stands for any text without a separator, every other character for itself.\<close>

fun like :: "string \<Rightarrow> string \<Rightarrow> bool" where
  "like [] t = (t = [])"
| "like (c # p) t =
     (if is_star c then \<exists>n \<le> length t. CHR ''/'' \<notin> set (take n t) \<and> like p (drop n t)
      else t \<noteq> [] \<and> hd t = c \<and> like p (tl t))"

definition plain_char :: "char \<Rightarrow> bool" where
  "plain_char c = (c \<noteq> CHR ''['' \<and> c \<noteq> CHR ''?'' \<and> c \<noteq> backslash)"

lemma scan_to_star_plain:
  "list_all plain_char p \<Longrightarrow>
     scan_to_star False False p = (takeWhile (\<lambda>c. \<not> is_star c) p, dropWhile (\<lambda>c. \<not> is_star c) p)"
  by (induction p) (auto simp: plain_char_def is_star_def Let_def)

lemma match_chunk_step:
  "plain_char c \<Longrightarrow> match_chunk failed (c # cs) s =
     match_chunk (failed \<or> s = [] \<or> c \<noteq> hd s) cs (if failed \<or> s = [] then s else tl s)"
  by (simp add: plain_char_def Let_def disj_assoc)

lemma match_chunk_failed: "list_all plain_char chunk \<Longrightarrow> match_chunk True chunk s = Some None"
  by (induction chunk) (simp_all add: match_chunk_step del: match_chunk.simps(2))

lemma match_chunk_plain:
  "list_all plain_char chunk \<Longrightarrow>
     match_chunk False chunk s = Some (if has_prefix s chunk then Some (drop (length chunk) s) else None)"
proof (induction chunk arbitrary: s)
  case (Cons c chunk)
  show ?case
  proof (cases s)
    case Nil
    then show ?thesis using Cons(2) by (simp add: match_chunk_step match_chunk_failed del: match_chunk.simps(2))
  next
    case (Cons a t)
    then show ?thesis using Cons.IH[of t] Cons.prems
      by (cases "c = a") (simp_all add: match_chunk_step match_chunk_failed del: match_chunk.simps(2))
  qed
qed simp

lemma list_all_takeWhile: "list_all P xs \<Longrightarrow> list_all P (takeWhile Q xs)"
  and list_all_dropWhile: "list_all P xs \<Longrightarrow> list_all P (dropWhile Q xs)"
  by (auto simp: list_all_iff dest: set_takeWhileD set_dropWhileD)

lemma well_formed_plain: "list_all plain_char p \<Longrightarrow> well_formed_pattern p"
proof (induction p rule: length_induct)
  case (1 p)
  obtain star chunk rest where s: "scan_chunk p = (star, chunk, rest)" by (cases "scan_chunk p")
  then have eq: "(chunk, rest) = (takeWhile (\<lambda>c. \<not> is_star c) (dropWhile is_star p), dropWhile (\<lambda>c. \<not> is_star c) (dropWhile is_star p))"
    using 1(2) by (simp add: scan_chunk_def scan_to_star_plain list_all_dropWhile)
  then have plain: "list_all plain_char chunk" "list_all plain_char rest"
    using 1(2) by (simp_all add: list_all_dropWhile list_all_takeWhile)
  show ?case
  proof (cases "p = []")
    case False
    then have "well_formed_pattern rest" using 1(1) plain(2) scan_chunk_shorter[OF _ s] by blast
    then show ?thesis using plain(1) s False
      by (subst well_formed_pattern.simps) (simp add: match_chunk_plain)
  qed (simp add: well_formed_pattern.simps)
qed

lemma like_literal:
  "\<forall>c\<in>set chunk. \<not> is_star c \<Longrightarrow> like (chunk @ rest) t \<longleftrightarrow> has_prefix t chunk \<and> like rest (drop (length chunk) t)"
proof (induction chunk arbitrary: t)
  case (Cons c chunk)
  then show ?case by (cases t) auto
qed simp

lemma like_star:
  "is_star c \<Longrightarrow> like (c # p) t \<longleftrightarrow> (\<exists>u v. t = u @ v \<and> CHR ''/'' \<notin> set u \<and> like p v)"
proof
  assume "is_star c" "like (c # p) t"
  then obtain n where "CHR ''/'' \<notin> set (take n t)" "like p (drop n t)" by auto
  then show "\<exists>u v. t = u @ v \<and> CHR ''/'' \<notin> set u \<and> like p v" by (metis append_take_drop_id)
next
  assume s: "is_star c" and "\<exists>u v. t = u @ v \<and> CHR ''/'' \<notin> set u \<and> like p v"
  then obtain u v where t: "t = u @ v" "CHR ''/'' \<notin> set u" "like p v" by blast
  then have "length u \<le> length t \<and> CHR ''/'' \<notin> set (take (length u) t) \<and> like p (drop (length u) t)" by simp
  then show "like (c # p) t" using s by (simp only: like.simps if_True) blast
qed

lemma like_stars:
  assumes "p \<noteq> []" "is_star (hd p)"
  shows "like p t \<longleftrightarrow> (\<exists>u v. t = u @ v \<and> CHR ''/'' \<notin> set u \<and> like (dropWhile is_star p) v)"
  using assms
proof (induction p arbitrary: t)
  case (Cons c p)
  show ?case
  proof (cases "p \<noteq> [] \<and> is_star (hd p)")
    case True
    have "like (c # p) t \<longleftrightarrow> (\<exists>u v. t = u @ v \<and> CHR ''/'' \<notin> set u \<and> like p v)"
      using Cons(3) by (simp only: like_star list.sel)
    also have "\<dots> \<longleftrightarrow> (\<exists>u v. t = u @ v \<and> CHR ''/'' \<notin> set u \<and>
        (\<exists>u' v'. v = u' @ v' \<and> CHR ''/'' \<notin> set u' \<and> like (dropWhile is_star p) v'))"
      using Cons(1) True by simp
    also have "\<dots> \<longleftrightarrow> (\<exists>u v. t = u @ v \<and> CHR ''/'' \<notin> set u \<and> like (dropWhile is_star p) v)" (is "?L = ?R")
    proof
      assume ?L
      then obtain u u' v' where "t = (u @ u') @ v'" "CHR ''/'' \<notin> set (u @ u')" "like (dropWhile is_star p) v'"
        by auto
      then show ?R by blast
    next
      assume ?R
      then show ?L by (metis append_Nil empty_iff list.set(1))
    qed
    finally show ?thesis using Cons(3) by simp
  next
    case False
    then have "dropWhile is_star (c # p) = p" using Cons(3) by (cases p) auto
    then show ?thesis using Cons(3) by (simp only: like_star list.sel)
  qed
qed simp

declare like.simps(2) [simp del]

section \<open>The greedy search is complete\<close>

text \<open>The search for a chunk behind a star, as one recursion.\<close>

fun search :: "string \<Rightarrow> bool \<Rightarrow> string \<Rightarrow> string option" where
  "search chunk last_chunk t =
     (if has_prefix t chunk \<and> (last_chunk \<longrightarrow> drop (length chunk) t = []) then Some (drop (length chunk) t)
      else case t of
             [] \<Rightarrow> None
           | c # cs \<Rightarrow> if c = CHR ''/'' then None else search chunk last_chunk cs)"

declare search.simps [simp del]

lemma skip_match_search:
  "list_all plain_char chunk \<Longrightarrow>
     skip_match chunk last_chunk (c # cs) = Some (if c = CHR ''/'' then None else search chunk last_chunk cs)"
proof (induction cs arbitrary: c)
  case Nil
  then show ?case by (simp add: match_chunk_plain search.simps[of _ _ "[]"])
next
  case (Cons d cs)
  then show ?case
    unfolding skip_match.simps(2)[of chunk last_chunk c "d # cs"]
    by (cases last_chunk) (simp_all add: match_chunk_plain search.simps[of _ _ "d # cs"] del: skip_match.simps)
qed

lemma find_chunk_star:
  assumes "list_all plain_char chunk"
  shows "find_chunk True chunk last_chunk nm = Some (search chunk last_chunk nm)"
proof (cases nm)
  case Nil
  then show ?thesis using assms by (simp add: find_chunk_def match_chunk_plain search.simps[of _ _ "[]"])
next
  case (Cons c cs)
  then show ?thesis using assms
    by (simp add: find_chunk_def match_chunk_plain skip_match_search search.simps[of _ _ "c # cs"] Let_def
        del: skip_match.simps)
qed

lemma find_chunk_plain:
  assumes "list_all plain_char chunk"
  shows "find_chunk False chunk last_chunk nm =
     Some (if has_prefix nm chunk \<and> (last_chunk \<longrightarrow> drop (length chunk) nm = []) then Some (drop (length chunk) nm) else None)"
  using assms by (simp add: find_chunk_def match_chunk_plain)

lemma search_last:
  "(search chunk True t \<noteq> None) = (\<exists>u. t = u @ chunk \<and> CHR ''/'' \<notin> set u)"
  "search chunk True t = Some r \<Longrightarrow> r = []"
proof (induction t)
  case Nil
  case 1 show ?case by (auto simp: search.simps[of _ _ "[]"] has_prefix_append)
  case 2 then show ?case by (auto simp: search.simps[of _ _ "[]"] split: if_splits)
next
  case (Cons c t)
  case 1
  show ?case
  proof (cases "has_prefix (c # t) chunk \<and> drop (length chunk) (c # t) = []")
    case True
    then obtain r where "c # t = chunk @ r" by (auto simp: has_prefix_append)
    moreover from this have "r = []" using True by (metis append_eq_conv_conj)
    ultimately have "c # t = [] @ chunk" by simp
    then have "\<exists>u. c # t = u @ chunk \<and> CHR ''/'' \<notin> set u" by (metis empty_iff list.set(1))
    then show ?thesis using True by (simp add: search.simps[of _ _ "c # t"])
  next
    case False
    then have no: "c # t \<noteq> chunk" by (auto simp: has_prefix_append)
    have "(\<exists>u. c # t = u @ chunk \<and> CHR ''/'' \<notin> set u) \<longleftrightarrow> c \<noteq> CHR ''/'' \<and> (\<exists>u. t = u @ chunk \<and> CHR ''/'' \<notin> set u)"
      (is "?L \<longleftrightarrow> ?R")
    proof
      assume ?L
      then obtain u where u: "c # t = u @ chunk" "CHR ''/'' \<notin> set u" by blast
      then obtain u' where "u = c # u'" using no by (cases u) auto
      then show ?R using u by auto
    next
      assume ?R
      then obtain u where "c \<noteq> CHR ''/''" "t = u @ chunk" "CHR ''/'' \<notin> set u" by blast
      then have "c # t = (c # u) @ chunk \<and> CHR ''/'' \<notin> set (c # u)" by simp
      then show ?L by blast
    qed
    moreover have "search chunk True (c # t) = (if c = CHR ''/'' then None else search chunk True t)"
      using False by (subst search.simps) auto
    ultimately show ?thesis using Cons.IH(1) by simp
  qed
  case 2
  then show ?case using Cons.IH(2) by (simp add: search.simps[of _ _ "c # t"] split: if_splits)
qed

text \<open>Committing to an occurrence loses nothing when a star follows.\<close>

lemma first_slash: "takeWhile (\<lambda>c. c \<noteq> CHR ''/'') (u @ w) = u @ takeWhile (\<lambda>c. c \<noteq> CHR ''/'') w"
  if "CHR ''/'' \<notin> set u"
  using that by (induction u) auto

lemma earlier_occurrence:
  assumes "is_star c" and later: "chunk @ r = u @ chunk @ v" "CHR ''/'' \<notin> set u" "like (c # p) v"
  shows "like (c # p) r"
proof -
  obtain x y where v: "v = x @ y" "CHR ''/'' \<notin> set x" "like p y" using later(3) like_star[OF assms(1)] by blast
  have eq: "r = drop (length chunk) (u @ chunk @ x) @ y"
    using arg_cong[OF later(1), of "drop (length chunk)"] v(1) by simp
  have "CHR ''/'' \<notin> set (drop (length chunk) (u @ chunk @ x))"
  proof (cases "CHR ''/'' \<in> set chunk")
    case False
    then show ?thesis using later(2) v(2) by (auto dest: in_set_dropD)
  next
    case True
    let ?w = "takeWhile (\<lambda>c. c \<noteq> CHR ''/'')"
    have "?w (chunk @ r) = ?w chunk" "?w (u @ chunk @ v) = u @ ?w chunk"
      using True later(2) by (simp_all add: first_slash takeWhile_append1)
    then have "u = []" using later(1) by simp
    then show ?thesis using v(2) by simp
  qed
  then show ?thesis unfolding eq using like_star[OF assms(1)] v(3) by blast
qed

lemma search_star:
  assumes "is_star c"
  shows "(\<exists>u v. t = u @ chunk @ v \<and> CHR ''/'' \<notin> set u \<and> like (c # p) v) \<longleftrightarrow>
     (\<exists>r. search chunk False t = Some r \<and> like (c # p) r)"
proof (induction t)
  case Nil
  show ?case by (auto simp: search.simps[of _ _ "[]"] has_prefix_append)
next
  case (Cons d t)
  show ?case (is "?L \<longleftrightarrow> ?R")
  proof (cases "has_prefix (d # t) chunk")
    case True
    then obtain r where r: "d # t = chunk @ r" by (auto simp: has_prefix_append)
    then have "drop (length chunk) (d # t) = r" by (metis append_eq_conv_conj)
    then have s: "search chunk False (d # t) = Some r" using True by (subst search.simps) simp
    have "?L \<longleftrightarrow> like (c # p) r"
    proof
      assume ?L
      then obtain u v where "chunk @ r = u @ chunk @ v" "CHR ''/'' \<notin> set u" "like (c # p) v"
        unfolding r by blast
      then show "like (c # p) r" by (rule earlier_occurrence[OF assms])
    next
      assume "like (c # p) r"
      then have "d # t = [] @ chunk @ r \<and> CHR ''/'' \<notin> set [] \<and> like (c # p) r"
        using r by (simp only: append_Nil list.set) blast
      then show ?L by blast
    qed
    then show ?thesis by (simp only: s option.inject) blast
  next
    case False
    have "?L \<longleftrightarrow> d \<noteq> CHR ''/'' \<and> (\<exists>u v. t = u @ chunk @ v \<and> CHR ''/'' \<notin> set u \<and> like (c # p) v)" (is "_ \<longleftrightarrow> ?T")
    proof
      assume ?L
      then obtain u v where u: "d # t = u @ chunk @ v" "CHR ''/'' \<notin> set u" "like (c # p) v" by blast
      then obtain u' where "u = d # u'" using False by (cases u) (auto simp: has_prefix_append)
      then show ?T using u by auto
    next
      assume ?T
      then obtain u v where "d \<noteq> CHR ''/''" "t = u @ chunk @ v" "CHR ''/'' \<notin> set u" "like (c # p) v" by blast
      then have "d # t = (d # u) @ chunk @ v \<and> CHR ''/'' \<notin> set (d # u) \<and> like (c # p) v" by simp
      then show ?L by blast
    qed
    moreover have "search chunk False (d # t) = (if d = CHR ''/'' then None else search chunk False t)"
      using False by (subst search.simps) auto
    ultimately show ?thesis using Cons.IH by simp
  qed
qed

lemma like_star_chunk:
  assumes "p \<noteq> []" "is_star (hd p)" "dropWhile is_star p = chunk @ rest" "\<forall>c\<in>set chunk. \<not> is_star c"
  shows "like p t \<longleftrightarrow> (\<exists>u w. t = u @ chunk @ w \<and> CHR ''/'' \<notin> set u \<and> like rest w)"
proof -
  have "like p t \<longleftrightarrow> (\<exists>u v. t = u @ v \<and> CHR ''/'' \<notin> set u \<and> has_prefix v chunk \<and> like rest (drop (length chunk) v))"
    by (simp only: like_stars[OF assms(1,2)] assms(3) like_literal[OF assms(4)])
  also have "\<dots> \<longleftrightarrow> (\<exists>u w. t = u @ chunk @ w \<and> CHR ''/'' \<notin> set u \<and> like rest w)"
    (is "?A \<longleftrightarrow> ?B")
  proof
    assume ?A
    then obtain u r where "t = u @ chunk @ r" "CHR ''/'' \<notin> set u" "like rest r"
      by (auto simp: has_prefix_append)
    then show ?B by blast
  next
    assume ?B
    then obtain u w where "t = u @ chunk @ w" "CHR ''/'' \<notin> set u" "like rest w" by blast
    then have "t = u @ (chunk @ w) \<and> CHR ''/'' \<notin> set u \<and> has_prefix (chunk @ w) chunk \<and>
        like rest (drop (length chunk) (chunk @ w))" by simp
    then show ?A by blast
  qed
  finally show ?thesis .
qed

lemma path_Match_like:
  assumes "list_all plain_char p"
  shows "path_Match p t = Some (like p t)"
  using assms
proof (induction p arbitrary: t rule: length_induct)
  case (1 p)
  define q chunk rest where "q = dropWhile is_star p"
    and "chunk = takeWhile (\<lambda>c. \<not> is_star c) q" and "rest = dropWhile (\<lambda>c. \<not> is_star c) q"
  have scan: "scan_chunk p = (p \<noteq> [] \<and> is_star (hd p), chunk, rest)"
    using 1(2) by (simp add: scan_chunk_def scan_to_star_plain list_all_dropWhile q_def chunk_def rest_def)
  have plain: "list_all plain_char chunk" "list_all plain_char rest"
    using 1(2) by (simp_all add: q_def chunk_def rest_def list_all_dropWhile list_all_takeWhile)
  have q: "q = chunk @ rest" and literal: "\<forall>c\<in>set chunk. \<not> is_star c"
    by (auto simp: chunk_def rest_def dest: set_takeWhileD)
  show ?case
  proof (cases "p = []")
    case True
    then show ?thesis by (simp add: path_Match.simps)
  next
    case ne: False
    have IH: "path_Match rest r = Some (like rest r)" for r
      using 1(1) plain(2) scan_chunk_shorter[OF ne scan] by blast
    note unfold = path_Match.simps[of p t]
    show ?thesis
    proof (cases "is_star (hd p)")
      case star: True
      note split = like_star_chunk[OF ne star q[unfolded q_def] literal, of t]
      show ?thesis
      proof (cases "chunk = []")
        case True
        have "rest = []"
        proof (rule ccontr)
          assume r: "rest \<noteq> []"
          then have "is_star (hd rest)" unfolding rest_def using hd_dropWhile[of "\<lambda>c. \<not> is_star c" q] by blast
          moreover have "\<not> is_star (hd q)"
            using hd_dropWhile[of is_star p] r q True by (auto simp: q_def dropWhile_eq_Nil_conv)
          ultimately show False using q True by simp
        qed
        then show ?thesis using True split star ne by (simp add: unfold scan)
      next
        case False
        then have m: "path_Match p t = (case search chunk (rest = []) t of None \<Rightarrow> Some False | Some r \<Rightarrow> path_Match rest r)"
          using star ne plain by (simp add: unfold scan find_chunk_star well_formed_plain split: option.splits)
        show ?thesis
        proof (cases rest)
          case Nil
          then have "like p t \<longleftrightarrow> search chunk True t \<noteq> None" using split search_last(1)[of chunk t] by simp
          then show ?thesis using m Nil IH search_last(2)[of chunk t] by (auto split: option.splits)
        next
          case (Cons c p')
          then have "is_star c" unfolding rest_def using hd_dropWhile[of "\<lambda>c. \<not> is_star c" q] by auto
          then have "like p t \<longleftrightarrow> (\<exists>r. search chunk False t = Some r \<and> like rest r)"
            using split search_star[of c t chunk p'] Cons by simp
          then show ?thesis using m Cons IH by (auto split: option.splits)
        qed
      qed
    next
      case False
      then have "q = p" using ne by (cases p) (auto simp: q_def)
      then have l: "like p t \<longleftrightarrow> has_prefix t chunk \<and> like rest (drop (length chunk) t)"
        using q like_literal[OF literal, of rest t] by simp
      have "path_Match p t = (if has_prefix t chunk \<and> (rest = [] \<longrightarrow> drop (length chunk) t = [])
          then path_Match rest (drop (length chunk) t) else Some False)"
        using False ne plain by (cases "rest = []") (simp_all add: unfold scan find_chunk_plain well_formed_plain)
      then show ?thesis using l IH by (cases rest) auto
    qed
  qed
qed

section \<open>Splitting a host and its port\<close>

text \<open>\<^verbatim>\<open>net.SplitHostPort\<close>; \<open>None\<close> stands for its address errors.\<close>

definition SplitHostPort :: "string \<Rightarrow> (string \<times> string) option" where
  "SplitHostPort hostport =
     (case last_index_of hostport '':'' of
        None \<Rightarrow> None
      | Some i \<Rightarrow>
          let split =
            (if hd hostport = CHR ''['' then
               case index_of hostport '']'' of
                 None \<Rightarrow> None
               | Some close \<Rightarrow> if Suc close = i then Some (drop 1 (take close hostport), 1, Suc close) else None
             else if contains_str (take i hostport) '':'' then None
             else Some (take i hostport, 0, 0))
          in case split of
               None \<Rightarrow> None
             | Some (host, j, k) \<Rightarrow>
                 if contains_str (drop j hostport) ''['' \<or> contains_str (drop k hostport) '']'' then None
                 else Some (host, drop (Suc i) hostport))"

end
