(* ===== verification/Image_Auth.thy ===== *)
theory Image_Auth
  imports Go_Match
begin

text \<open>
  Credentials and references for the image inspection: \<^verbatim>\<open>pkg/image/auth.go\<close> (the credentials of a pod and the
  expansion of registry globs), \<^verbatim>\<open>pkg/image/helpers_glob.go\<close> (matching a glob with a registry) and
  \<^verbatim>\<open>parseImageReference\<close> and \<^verbatim>\<open>marshaledImagePullSecrets\<close> of \<^verbatim>\<open>pkg/image/inspector.go\<close>. The URL parser and the JSON
  library are parameters.
\<close>

section \<open>URLs and globs\<close>

record url =
  u_Scheme :: string
  u_Host :: string
  u_Path :: string
  u_Other :: string

text \<open>
  \<open>url_Parse\<close> and \<open>url_String\<close> are \<^verbatim>\<open>url.Parse\<close> and \<^verbatim>\<open>URL.String\<close>; \<open>u_Other\<close> stands for the parts of an URL the code
  never reads. \<open>json_Unmarshal_auths\<close> and \<open>json_Marshal_auths\<close> are the JSON library on the two types of credentials.
\<close>

record authData =
  Auth :: string

type_synonym authCfg = "string \<rightharpoonup> authData"

record auth_lib =
  url_Parse :: "string \<Rightarrow> url result"
  url_String :: "url \<Rightarrow> string"
  json_Unmarshal_auths :: "string \<Rightarrow> (string \<rightharpoonup> authData) result"
  json_Marshal_auths :: "authCfg \<Rightarrow> string result"

definition ParseSchemelessURL :: "'a auth_lib_scheme \<Rightarrow> string \<Rightarrow> url result" where
  "ParseSchemelessURL lib schemelessURL =
     (case url_Parse lib (''https://'' @ schemelessURL) of
        Inl err \<Rightarrow> Inl err
      | Inr parsed \<Rightarrow> Inr (parsed\<lparr>u_Scheme := ''''\<rparr>))"

definition SplitURL :: "url \<Rightarrow> string list \<times> string" where
  "SplitURL u =
     (let (host, port) = (case SplitHostPort (u_Host u) of None \<Rightarrow> (u_Host u, '''') | Some hp \<Rightarrow> hp)
      in (split_on (CHR ''.'') host, port))"

fun match_parts :: "(string \<times> string) list \<Rightarrow> bool result" where
  "match_parts [] = Inr True"
| "match_parts ((globURLPart, targetURLPart) # rest) =
     (case path_Match globURLPart targetURLPart of
        None \<Rightarrow> Inl (GoError ''syntax error in pattern'')
      | Some matched \<Rightarrow> if \<not> matched then Inr False else match_parts rest)"

definition URLsMatch :: "url \<Rightarrow> url \<Rightarrow> bool result" where
  "URLsMatch globURL targetURL =
     (let (globURLParts, globPort) = SplitURL globURL;
          (targetURLParts, targetPort) = SplitURL targetURL
      in if globPort \<noteq> targetPort then Inr False
         else if length globURLParts \<noteq> length targetURLParts then Inr False
         else if \<not> has_prefix (u_Path targetURL) (u_Path globURL) then Inr False
         else match_parts (zip globURLParts targetURLParts))"

definition URLsMatchStr :: "'a auth_lib_scheme \<Rightarrow> string \<Rightarrow> string \<Rightarrow> bool result" where
  "URLsMatchStr lib glob target =
     (case ParseSchemelessURL lib glob of
        Inl err \<Rightarrow> Inl err
      | Inr globURL \<Rightarrow>
          (case ParseSchemelessURL lib target of
             Inl err \<Rightarrow> Inl err
           | Inr targetURL \<Rightarrow> URLsMatch globURL targetURL))"

section \<open>Credentials\<close>

definition addAuth :: "authCfg \<Rightarrow> string \<Rightarrow> authData \<Rightarrow> authCfg" where
  "addAuth ac registry auth = ac(registry \<mapsto> auth)"

definition addAuths :: "authCfg \<Rightarrow> (string \<rightharpoonup> authData) \<Rightarrow> authCfg" where
  "addAuths ac registryAuths = ac ++ registryAuths"

definition unmarshallAuthsDataAndStore :: "'a auth_lib_scheme \<Rightarrow> authCfg \<Rightarrow> string \<Rightarrow> authCfg result" where
  "unmarshallAuthsDataAndStore lib ac authsBytes =
     (case json_Unmarshal_auths lib authsBytes of
        Inl err \<Rightarrow> Inl err
      | Inr auths \<Rightarrow> Inr (addAuths ac auths))"

definition marshallAuths :: "'a auth_lib_scheme \<Rightarrow> authCfg \<Rightarrow> string result" where
  "marshallAuths lib ac = json_Marshal_auths lib ac"

definition glob_chars :: "char set" where
  "glob_chars = {CHR ''*'', CHR ''?'', CHR '']''}"

definition matchAndExpandGlob :: "'a auth_lib_scheme \<Rightarrow> string \<Rightarrow> string \<Rightarrow> string option" where
  "matchAndExpandGlob lib registryGlob imageReference =
     (if \<not> list_ex (\<lambda>c. c \<in> glob_chars) registryGlob then None
      else let ref = trim_prefix imageReference ''//'' in
           case URLsMatchStr lib registryGlob ref of
             Inl e \<Rightarrow> None
           | Inr m \<Rightarrow>
               if \<not> m then None
               else case (ParseSchemelessURL lib ref, ParseSchemelessURL lib registryGlob) of
                      (Inr irURL, Inr regURL) \<Rightarrow>
                        Some (trim_prefix (url_String lib (regURL\<lparr>u_Host := u_Host irURL\<rparr>)) ''//'')
                    | _ \<Rightarrow> None)"

text \<open>
  The loop of \<^verbatim>\<open>expandGlobs\<close> ranges over the map it adds to. Go visits the entries in any order, and an entry added
  meanwhile may be visited or not: the visited registries are the argument \<open>visits\<close>, and \<open>visits_ok\<close> says which
  sequences the language allows.
\<close>

fun expand_loop :: "'a auth_lib_scheme \<Rightarrow> string \<Rightarrow> string list \<Rightarrow> authCfg \<Rightarrow> authCfg" where
  "expand_loop lib imageReference [] ac = ac"
| "expand_loop lib imageReference (registry # rest) ac =
     expand_loop lib imageReference rest
       (case (ac registry, matchAndExpandGlob lib registry imageReference) of
          (Some auth, Some regURL) \<Rightarrow>
            if 0 < length regURL \<and> ac regURL = None then addAuth ac regURL auth else ac
        | _ \<Rightarrow> ac)"

definition expandGlobs :: "'a auth_lib_scheme \<Rightarrow> string list \<Rightarrow> authCfg \<Rightarrow> string \<Rightarrow> authCfg" where
  "expandGlobs lib visits ac imageReference = expand_loop lib imageReference visits ac"

definition visits_ok :: "'a auth_lib_scheme \<Rightarrow> string list \<Rightarrow> authCfg \<Rightarrow> string \<Rightarrow> bool" where
  "visits_ok lib visits ac imageReference \<longleftrightarrow>
     distinct visits \<and> dom ac \<subseteq> set visits \<and> set visits \<subseteq> dom (expandGlobs lib visits ac imageReference)"

fun store_secrets :: "'a auth_lib_scheme \<Rightarrow> authCfg \<Rightarrow> string list \<Rightarrow> authCfg" where
  "store_secrets lib ac [] = ac"
| "store_secrets lib ac (secret # secrets) =
     store_secrets lib (case unmarshallAuthsDataAndStore lib ac secret of Inl err \<Rightarrow> ac | Inr ac' \<Rightarrow> ac') secrets"

definition marshaledImagePullSecrets ::
  "'a auth_lib_scheme \<Rightarrow> string list \<Rightarrow> string \<Rightarrow> string list \<Rightarrow> string result" where
  "marshaledImagePullSecrets lib visits imageReference secrets =
     marshallAuths lib (expandGlobs lib visits (store_secrets lib Map.empty secrets) imageReference)"

section \<open>References\<close>

definition parseImageReference :: "string \<Rightarrow> string result" where
  "parseImageReference imageName =
     (if imageName = '''' then Inl (GoError ''invalid image name, must not be empty'')
      else case index_of imageName ''@sha'' of
             None \<Rightarrow> Inr imageName
           | Some digestIdx \<Rightarrow>
               if digestIdx = 0 then Inl (GoError ''invalid image name, image must not be empty'')
               else if contains_str (drop (digestIdx + 1) imageName) ''@sha''
               then Inl (GoError ''invalid image name, must only have one digest'')
               else
                 let namePart = take digestIdx imageName;
                     digestPart = drop digestIdx imageName
                 in case last_index_of namePart '':'' of
                      None \<Rightarrow> Inr imageName
                    | Some lastColon \<Rightarrow>
                        if (case last_index_of namePart ''/'' of None \<Rightarrow> True | Some lastSlash \<Rightarrow> lastSlash < lastColon)
                        then Inr (take lastColon namePart @ digestPart)
                        else Inr imageName)"

section \<open>Matching hosts\<close>

lemma set_split_on: "w \<in> set (split_on d s) \<Longrightarrow> set w \<subseteq> set s"
proof (induction s arbitrary: w)
  case (Cons c s)
  obtain v vs where "split_on d s = v # vs" by (cases "split_on d s") auto
  then show ?case using Cons.IH[of v] Cons.IH[of w] Cons.prems by (auto split: if_splits)
qed simp

lemma SplitHostPort_host: "SplitHostPort hp = Some (host, port) \<Longrightarrow> set host \<subseteq> set hp"
  by (auto simp: SplitHostPort_def Let_def split: option.splits if_splits dest!: in_set_takeD in_set_dropD)

lemma SplitURL_plain:
  "list_all plain_char (u_Host u) \<Longrightarrow> part \<in> set (fst (SplitURL u)) \<Longrightarrow> list_all plain_char part"
proof -
  assume plain: "list_all plain_char (u_Host u)" and part: "part \<in> set (fst (SplitURL u))"
  have "set part \<subseteq> set (u_Host u)"
  proof (cases "SplitHostPort (u_Host u)")
    case None
    then show ?thesis using part set_split_on by (simp add: SplitURL_def)
  next
    case (Some hp)
    then show ?thesis using part set_split_on SplitHostPort_host[of "u_Host u" "fst hp" "snd hp"]
      by (auto simp: SplitURL_def case_prod_beta) blast
  qed
  then show ?thesis using plain by (auto simp: list_all_iff)
qed

lemma match_parts_like:
  "\<forall>p \<in> set gs. list_all plain_char p \<Longrightarrow> length gs = length ts \<Longrightarrow>
     match_parts (zip gs ts) = Inr (list_all2 like gs ts)"
proof (induction gs arbitrary: ts)
  case (Cons g gs)
  then obtain t ts' where "ts = t # ts'" by (cases ts) auto
  then show ?case using Cons by (simp add: path_Match_like)
qed simp

text \<open>C22: For a registry glob whose host contains no bracket \<open>[\<close>, question mark or backslash, the characters of
  \<^verbatim>\<open>filepath.Match\<close> beside the star, matching it with an image returns no error and decides the rule Kubernetes
  documents: equal ports, the path of the glob a prefix of the path of the image, equally many host labels, and every
  label of the host like the one of the glob, where a star stands for text inside one label.\<close>

theorem glob_hosts_match_iff:
  assumes "list_all plain_char (u_Host glob)"
  shows "URLsMatch glob target =
     Inr (snd (SplitURL glob) = snd (SplitURL target) \<and> has_prefix (u_Path target) (u_Path glob) \<and>
          list_all2 like (fst (SplitURL glob)) (fst (SplitURL target)))"
proof -
  obtain gs gp where g: "SplitURL glob = (gs, gp)" by (cases "SplitURL glob")
  obtain ts tp where t: "SplitURL target = (ts, tp)" by (cases "SplitURL target")
  have "\<forall>p \<in> set gs. list_all plain_char p" using SplitURL_plain[OF assms] g by simp
  then show ?thesis using match_parts_like[of gs ts] g t
    by (auto simp: URLsMatch_def dest: list_all2_lengthD)
qed

definition host_url :: "string \<Rightarrow> url" where
  "host_url h = \<lparr>u_Scheme = '''', u_Host = h, u_Path = ''/team/app'', u_Other = ''''\<rparr>"

theorem glob_hosts_match_iff_witness:
  "URLsMatch (host_url ''*.docker.io:5000'') (host_url ''blah.docker.io:5000'') = Inr True \<and>
   URLsMatch (host_url ''*.kubernetes.io'') (host_url ''abc.def.kubernetes.io'') = Inr False \<and>
   URLsMatch (host_url ''*-good.kubernetes.io'') (host_url ''prefix-good.kubernetes.io'') = Inr True"
proof -
  have plain: "list_all plain_char (u_Host (host_url ''*.docker.io:5000''))"
    "list_all plain_char (u_Host (host_url ''*.kubernetes.io''))"
    "list_all plain_char (u_Host (host_url ''*-good.kubernetes.io''))"
    by code_simp+
  have hold: "(snd (SplitURL (host_url ''*.docker.io:5000'')) = snd (SplitURL (host_url ''blah.docker.io:5000'')) \<and>
      has_prefix (u_Path (host_url ''blah.docker.io:5000'')) (u_Path (host_url ''*.docker.io:5000'')) \<and>
      list_all2 like (fst (SplitURL (host_url ''*.docker.io:5000''))) (fst (SplitURL (host_url ''blah.docker.io:5000''))))"
    "\<not> list_all2 like (fst (SplitURL (host_url ''*.kubernetes.io''))) (fst (SplitURL (host_url ''abc.def.kubernetes.io'')))"
    "(snd (SplitURL (host_url ''*-good.kubernetes.io'')) = snd (SplitURL (host_url ''prefix-good.kubernetes.io'')) \<and>
      has_prefix (u_Path (host_url ''prefix-good.kubernetes.io'')) (u_Path (host_url ''*-good.kubernetes.io'')) \<and>
      list_all2 like (fst (SplitURL (host_url ''*-good.kubernetes.io''))) (fst (SplitURL (host_url ''prefix-good.kubernetes.io''))))"
    by code_simp+
  show ?thesis
    using hold by (simp only: glob_hosts_match_iff[OF plain(1)] glob_hosts_match_iff[OF plain(2)]
        glob_hosts_match_iff[OF plain(3)]) simp
qed

section \<open>Expanding globs\<close>

lemma expand_loop_keeps: "ac r = Some a \<Longrightarrow> expand_loop lib ref visits ac r = Some a"
proof (induction visits arbitrary: ac)
  case (Cons registry rest)
  then show ?case by (auto simp: addAuth_def split: option.splits)
qed simp

definition from_glob :: "'a auth_lib_scheme \<Rightarrow> string \<Rightarrow> authCfg \<Rightarrow> authCfg \<Rightarrow> bool" where
  "from_glob lib ref given ac \<longleftrightarrow> (\<forall>r a. ac r = Some a \<longrightarrow>
     given r = Some a \<or> (given r = None \<and> (\<exists>g. given g = Some a \<and> matchAndExpandGlob lib g ref \<noteq> None)))"

lemma from_glob_step:
  assumes "from_glob lib ref given ac" "ac g = Some a" "matchAndExpandGlob lib g ref = Some r" "given r = None"
  shows "from_glob lib ref given (addAuth ac r a)"
  using assms unfolding from_glob_def addAuth_def by (auto split: if_splits)

lemma expand_loop_from_glob:
  "from_glob lib ref given ac \<Longrightarrow> given \<subseteq>\<^sub>m ac \<Longrightarrow> from_glob lib ref given (expand_loop lib ref visits ac)"
proof (induction visits arbitrary: ac)
  case (Cons g rest)
  let ?ac = "case (ac g, matchAndExpandGlob lib g ref) of
      (Some auth, Some regURL) \<Rightarrow> if 0 < length regURL \<and> ac regURL = None then addAuth ac regURL auth else ac
    | _ \<Rightarrow> ac"
  have "from_glob lib ref given ?ac \<and> given \<subseteq>\<^sub>m ?ac"
  proof (cases "\<exists>a r. ac g = Some a \<and> matchAndExpandGlob lib g ref = Some r \<and> 0 < length r \<and> ac r = None")
    case True
    then obtain a r where ar: "ac g = Some a" "matchAndExpandGlob lib g ref = Some r" "0 < length r" "ac r = None" by blast
    then have "given r = None" using Cons.prems(2) by (metis domIff map_le_def)
    moreover have "given \<subseteq>\<^sub>m addAuth ac r a"
      using Cons.prems(2) \<open>given r = None\<close> by (auto simp: map_le_def addAuth_def domIff)
    ultimately show ?thesis using ar from_glob_step[OF Cons.prems(1) ar(1,2)] by simp
  next
    case False
    then have "?ac = ac" by (auto split: option.splits)
    then show ?thesis using Cons.prems by simp
  qed
  then show ?case using Cons.IH by simp
qed simp

lemma expand_loop_complete:
  "g \<in> set visits \<Longrightarrow> ac g = Some a \<Longrightarrow> matchAndExpandGlob lib g ref = Some r \<Longrightarrow> r \<noteq> [] \<Longrightarrow>
     expand_loop lib ref visits ac r \<noteq> None"
proof (induction visits arbitrary: ac)
  case (Cons x rest)
  let ?ac = "case (ac x, matchAndExpandGlob lib x ref) of
      (Some auth, Some regURL) \<Rightarrow> if 0 < length regURL \<and> ac regURL = None then addAuth ac regURL auth else ac
    | _ \<Rightarrow> ac"
  have keep: "?ac k = Some b" if "ac k = Some b" for k b
    using that by (auto simp: addAuth_def split: option.splits)
  show ?case
  proof (cases "x = g")
    case True
    then have "\<exists>b. ?ac r = Some b" using Cons.prems by (auto simp: addAuth_def)
    then show ?thesis using expand_loop_keeps[of ?ac r _ lib ref rest] by auto
  next
    case False
    then show ?thesis using Cons.IH[of ?ac] Cons.prems keep by simp
  qed
qed simp

text \<open>Expanding the globs never changes a given credential, gives every registry glob that matches the image an
  entry under the name of the registry, and never hands out a credential the pod did not have for a glob matching the
  image; for every order in which the entries are visited.\<close>

theorem glob_expansion_sound:
  assumes "visits_ok lib visits ac ref"
  shows "(ac r = Some a \<longrightarrow> expandGlobs lib visits ac ref r = Some a) \<and>
    (ac g = Some b \<and> matchAndExpandGlob lib g ref = Some r \<and> r \<noteq> [] \<longrightarrow> expandGlobs lib visits ac ref r \<noteq> None) \<and>
    (ac r = None \<and> expandGlobs lib visits ac ref r = Some a \<longrightarrow>
       (\<exists>glob. ac glob = Some a \<and> matchAndExpandGlob lib glob ref \<noteq> None))"
proof (intro conjI impI)
  assume "ac r = Some a"
  then show "expandGlobs lib visits ac ref r = Some a" by (simp add: expandGlobs_def expand_loop_keeps)
next
  assume "ac g = Some b \<and> matchAndExpandGlob lib g ref = Some r \<and> r \<noteq> []"
  moreover from this have "g \<in> set visits" using assms by (auto simp: visits_ok_def)
  ultimately show "expandGlobs lib visits ac ref r \<noteq> None"
    using expand_loop_complete[of g visits ac b lib ref r] by (simp add: expandGlobs_def)
next
  assume a: "ac r = None \<and> expandGlobs lib visits ac ref r = Some a"
  have "from_glob lib ref ac ac" by (simp add: from_glob_def)
  then have "from_glob lib ref ac (expandGlobs lib visits ac ref)"
    unfolding expandGlobs_def by (rule expand_loop_from_glob) simp
  then show "\<exists>glob. ac glob = Some a \<and> matchAndExpandGlob lib glob ref \<noteq> None"
    using a unfolding from_glob_def by (metis option.distinct(1))
qed

text \<open>A library for the examples: hosts end at the first slash, and a secret is the credential for \<^verbatim>\<open>*.io\<close>.\<close>

definition sample_auth_lib :: auth_lib where
  "sample_auth_lib =
     \<lparr>url_Parse = \<lambda>s. Inr \<lparr>u_Scheme = ''https'', u_Host = takeWhile (\<lambda>c. c \<noteq> CHR ''/'') (drop 8 s),
        u_Path = dropWhile (\<lambda>c. c \<noteq> CHR ''/'') (drop 8 s), u_Other = ''''\<rparr>,
      url_String = \<lambda>u. ''//'' @ u_Host u @ u_Path u,
      json_Unmarshal_auths = \<lambda>s. if s = '''' then Inl (GoError ''unexpected end of JSON input'') else Inr [''*.io'' \<mapsto> \<lparr>Auth = s\<rparr>],
      json_Marshal_auths = \<lambda>ac. Inr (case ac ''quay.io'' of None \<Rightarrow> ''{}'' | Some a \<Rightarrow> filter (\<lambda>c. c \<noteq> CHR 0x00) (Auth a))\<rparr>"

lemma sample_credentials:
  assumes "secret \<noteq> ''''" "CHR 0x00 \<notin> set secret"
  shows "marshaledImagePullSecrets sample_auth_lib [''*.io''] ''quay.io/app:v1'' [secret] = Inr secret"
proof -
  have glob: "matchAndExpandGlob sample_auth_lib ''*.io'' ''quay.io/app:v1'' = Some ''quay.io''" by code_simp
  have "store_secrets sample_auth_lib Map.empty [secret] = [''*.io'' \<mapsto> \<lparr>Auth = secret\<rparr>]"
    using assms(1) by (simp add: unmarshallAuthsDataAndStore_def addAuths_def sample_auth_lib_def)
  moreover have "filter (\<lambda>c. c \<noteq> CHR 0x00) secret = secret" using assms(2) by (auto simp: filter_id_conv)
  moreover have "expandGlobs sample_auth_lib [''*.io''] [''*.io'' \<mapsto> \<lparr>Auth = secret\<rparr>] ''quay.io/app:v1'' =
      [''*.io'' \<mapsto> \<lparr>Auth = secret\<rparr>, ''quay.io'' \<mapsto> \<lparr>Auth = secret\<rparr>]"
    by (simp add: expandGlobs_def glob addAuth_def)
  ultimately show ?thesis
    by (simp add: marshaledImagePullSecrets_def marshallAuths_def) (simp add: sample_auth_lib_def)
qed

definition overlapping :: authCfg where
  "overlapping = [''*.io'' \<mapsto> \<lparr>Auth = ''reader''\<rparr>, ''quay.*'' \<mapsto> \<lparr>Auth = ''owner''\<rparr>]"

lemma overlapping_dom: "dom overlapping = {''*.io'', ''quay.*''}"
  by (auto simp: overlapping_def)

lemma sample_expansions:
  "matchAndExpandGlob sample_auth_lib ''*.io'' ''quay.io/app'' = Some ''quay.io''"
  "matchAndExpandGlob sample_auth_lib ''quay.*'' ''quay.io/app'' = Some ''quay.io''"
  by code_simp+

lemma overlapping_runs:
  "expandGlobs sample_auth_lib [''*.io'', ''quay.*''] overlapping ''quay.io/app'' = overlapping(''quay.io'' \<mapsto> \<lparr>Auth = ''reader''\<rparr>)"
  "expandGlobs sample_auth_lib [''quay.*'', ''*.io''] overlapping ''quay.io/app'' = overlapping(''quay.io'' \<mapsto> \<lparr>Auth = ''owner''\<rparr>)"
  by (simp_all add: expandGlobs_def sample_expansions overlapping_def addAuth_def)

lemma overlapping_visits:
  "visits_ok sample_auth_lib [''*.io'', ''quay.*''] overlapping ''quay.io/app''"
  "visits_ok sample_auth_lib [''quay.*'', ''*.io''] overlapping ''quay.io/app''"
  by (simp_all add: visits_ok_def overlapping_dom overlapping_runs)

theorem glob_expansion_sound_witness:
  "visits_ok sample_auth_lib [''*.io'', ''quay.*''] overlapping ''quay.io/app'' \<and>
   expandGlobs sample_auth_lib [''*.io'', ''quay.*''] overlapping ''quay.io/app'' ''quay.io'' \<noteq> None \<and>
   (\<exists>glob. overlapping glob = Some \<lparr>Auth = ''reader''\<rparr> \<and> matchAndExpandGlob sample_auth_lib glob ''quay.io/app'' \<noteq> None)"
proof -
  note sound = glob_expansion_sound[OF overlapping_visits(1), where r = "''quay.io''"]
  have "overlapping ''*.io'' = Some \<lparr>Auth = ''reader''\<rparr>" "overlapping ''quay.io'' = None"
    by (simp_all add: overlapping_def)
  moreover from this have "expandGlobs sample_auth_lib [''*.io'', ''quay.*''] overlapping ''quay.io/app'' ''quay.io'' =
      Some \<lparr>Auth = ''reader''\<rparr>" by (simp add: overlapping_runs)
  ultimately show ?thesis
    using overlapping_visits(1) sample_expansions(1)
      sound[where a = "\<lparr>Auth = ''reader''\<rparr>" and g = "''*.io''" and b = "\<lparr>Auth = ''reader''\<rparr>"]
    by blast
qed

text \<open>With two globs that match the same registry the order of the iteration decides which credential is used.\<close>

lemma overlapping_globs_race:
  "\<exists>visits visits'. visits_ok sample_auth_lib visits overlapping ''quay.io/app'' \<and>
     visits_ok sample_auth_lib visits' overlapping ''quay.io/app'' \<and>
     expandGlobs sample_auth_lib visits overlapping ''quay.io/app'' ''quay.io'' = Some \<lparr>Auth = ''reader''\<rparr> \<and>
     expandGlobs sample_auth_lib visits' overlapping ''quay.io/app'' ''quay.io'' = Some \<lparr>Auth = ''owner''\<rparr>"
  using overlapping_visits overlapping_runs by (metis fun_upd_same)

section \<open>The part of a library the credentials depend on\<close>

definition same_auth :: "'a auth_lib_scheme \<Rightarrow> 'b auth_lib_scheme \<Rightarrow> bool" where
  "same_auth l l' \<longleftrightarrow> url_Parse l = url_Parse l' \<and> url_String l = url_String l' \<and>
     json_Unmarshal_auths l = json_Unmarshal_auths l' \<and> json_Marshal_auths l = json_Marshal_auths l'"

lemma same_auth_globs:
  assumes "same_auth l l'"
  shows "matchAndExpandGlob l = matchAndExpandGlob l'"
proof -
  have "ParseSchemelessURL l = ParseSchemelessURL l'"
    using assms by (intro ext) (simp only: ParseSchemelessURL_def same_auth_def)
  moreover from this have "URLsMatchStr l = URLsMatchStr l'" by (intro ext) (simp only: URLsMatchStr_def)
  ultimately show ?thesis using assms by (intro ext) (simp only: matchAndExpandGlob_def same_auth_def)
qed

lemma same_auth_credentials:
  assumes "same_auth l l'"
  shows "marshaledImagePullSecrets l visits ref secrets = marshaledImagePullSecrets l' visits ref secrets"
proof -
  have "expand_loop l ref visits ac = expand_loop l' ref visits ac" for ac
    by (induction visits arbitrary: ac) (simp_all add: same_auth_globs[OF assms])
  moreover have "store_secrets l ac secrets = store_secrets l' ac secrets" for ac
    using assms by (induction secrets arbitrary: ac) (simp_all add: unmarshallAuthsDataAndStore_def same_auth_def)
  ultimately show ?thesis
    using assms by (simp add: marshaledImagePullSecrets_def expandGlobs_def marshallAuths_def same_auth_def)
qed

section \<open>Normal references\<close>

lemma index_of_marker:
  assumes "CHR ''@'' \<notin> set u"
  shows "index_of (u @ ''@sha'' @ d) ''@sha'' = Some (length u)"
  using assms by (induction u) auto

lemma no_marker: "CHR ''@'' \<notin> set u \<Longrightarrow> index_of u ''@sha'' = None"
  by (auto simp: index_of_append_None)

lemma last_index_none: "c \<notin> set u \<Longrightarrow> last_index_of u [c] = None"
  by (induction u) auto

lemma last_index_at: "c \<notin> set v \<Longrightarrow> last_index_of (u @ c # v) [c] = Some (length u)"
  by (induction u) (auto simp: last_index_none)

lemma last_index_bound: "last_index_of u [c] = Some i \<Longrightarrow> i < length u"
  by (induction u arbitrary: i) (auto split: option.splits if_splits)

lemma last_index_beyond:
  assumes "c \<notin> set v" "last_index_of (u @ v) [c] = Some i"
  shows "i < length u"
  using assms
proof (induction u arbitrary: i)
  case Nil
  then show ?case by (simp add: last_index_none)
next
  case (Cons a u)
  then show ?case by (auto split: option.splits if_splits)
qed

lemma parse_digest:
  assumes "u \<noteq> []" "CHR ''@'' \<notin> set u" "CHR ''@'' \<notin> set d"
  shows "parseImageReference (u @ ''@sha'' @ d) =
     (case last_index_of u '':'' of
        None \<Rightarrow> Inr (u @ ''@sha'' @ d)
      | Some lastColon \<Rightarrow>
          if (case last_index_of u ''/'' of None \<Rightarrow> True | Some lastSlash \<Rightarrow> lastSlash < lastColon)
          then Inr (take lastColon u @ ''@sha'' @ d) else Inr (u @ ''@sha'' @ d))"
proof -
  have "CHR ''@'' \<notin> set (''sha'' @ d)" using assms(3) by simp
  then have "\<not> contains_str (''sha'' @ d) ''@sha''" using no_marker contains_str_def by simp
  moreover have "drop (length u + 1) (u @ ''@sha'' @ d) = ''sha'' @ d" by simp
  ultimately show ?thesis
    using assms(1) index_of_marker[OF assms(2), of d]
    unfolding parseImageReference_def by (simp del: append_Cons add: Let_def)
qed

text \<open>
  A well-formed reference: a path that is empty or ends with a slash and may hold a registry with a port, a name,
  and optionally a tag and a digest.
\<close>

definition reference_parts :: "string \<Rightarrow> string \<Rightarrow> string \<Rightarrow> string \<Rightarrow> bool" where
  "reference_parts path nm tag d \<longleftrightarrow>
     (path = [] \<or> last path = CHR ''/'') \<and> nm \<noteq> [] \<and> CHR ''@'' \<notin> set (path @ nm @ tag @ d) \<and>
     CHR ''/'' \<notin> set (nm @ tag) \<and> CHR '':'' \<notin> set (nm @ tag)"

lemma last_slash:
  assumes "path = [] \<or> last path = CHR ''/''" "CHR ''/'' \<notin> set nm"
  shows "last_index_of (path @ nm) ''/'' = (if path = [] then None else Some (length path - 1))"
proof (cases path rule: rev_cases)
  case Nil
  then show ?thesis using assms(2) by (simp add: last_index_none)
next
  case (snoc p c)
  then show ?thesis using assms last_index_at[OF assms(2), of p] by simp
qed

text \<open>The normal form of a reference the inspection uses: a tag is kept without a digest and dropped when there is
  one, the port of the registry always stays; and a normal form is its own normal form.\<close>

theorem image_reference_normalised:
  assumes "reference_parts path nm tag d"
  shows "parseImageReference (path @ nm) = Inr (path @ nm) \<and>
    parseImageReference (path @ nm @ '':'' @ tag) = Inr (path @ nm @ '':'' @ tag) \<and>
    parseImageReference (path @ nm @ ''@sha'' @ d) = Inr (path @ nm @ ''@sha'' @ d) \<and>
    parseImageReference (path @ nm @ '':'' @ tag @ ''@sha'' @ d) = Inr (path @ nm @ ''@sha'' @ d)"
proof (intro conjI)
  note parts = assms[unfolded reference_parts_def]
  have slash: "last_index_of (path @ w) ''/'' = (if path = [] then None else Some (length path - 1))"
    if "CHR ''/'' \<notin> set w" for w using last_slash[OF _ that] parts by blast
  show "parseImageReference (path @ nm) = Inr (path @ nm)"
    using parts no_marker[of "path @ nm"] by (simp add: parseImageReference_def)
  show "parseImageReference (path @ nm @ '':'' @ tag) = Inr (path @ nm @ '':'' @ tag)"
    using parts no_marker[of "path @ nm @ '':'' @ tag"] by (simp add: parseImageReference_def)
  show "parseImageReference (path @ nm @ ''@sha'' @ d) = Inr (path @ nm @ ''@sha'' @ d)"
  proof (cases "last_index_of (path @ nm) '':''")
    case None
    then show ?thesis using parts parse_digest[of "path @ nm" d] by simp
  next
    case (Some i)
    then have "i < length path" using last_index_beyond[of "CHR '':''" nm path i] parts by simp
    then show ?thesis using Some parts parse_digest[of "path @ nm" d] slash[of nm] by auto
  qed
  have colon: "last_index_of (path @ nm @ '':'' @ tag) '':'' = Some (length (path @ nm))"
    using last_index_at[of _ tag "path @ nm"] parts by simp
  have "length path - 1 < length (path @ nm)" if "path \<noteq> []" using that by (cases path) auto
  then show "parseImageReference (path @ nm @ '':'' @ tag @ ''@sha'' @ d) = Inr (path @ nm @ ''@sha'' @ d)"
    using parts parse_digest[of "path @ nm @ '':'' @ tag" d] colon slash[of "nm @ '':'' @ tag"] by auto
qed

theorem image_reference_normalised_witness:
  "reference_parts ''localhost:5000/team/'' ''app'' ''v1'' ''256:0123'' \<and>
   parseImageReference ''localhost:5000/team/app:v1@sha256:0123'' = Inr ''localhost:5000/team/app@sha256:0123''"
proof -
  have "reference_parts ''localhost:5000/team/'' ''app'' ''v1'' ''256:0123''" by code_simp
  then show ?thesis
    using image_reference_normalised[of "''localhost:5000/team/''" "''app''" "''v1''" "''256:0123''"] by simp
qed

end
