(* ===== verification/Image_Inspector.thy ===== *)
theory Image_Inspector
  imports Image_Auth Consts
begin

text \<open>
  The registry inspector (\<^verbatim>\<open>pkg/image/inspector.go\<close>) and the paths it is configured with
  (\<^verbatim>\<open>pkg/image/systemconfig.go\<close>): from an image reference and pull secrets to the set of architectures the image
  runs on. The kernel calls behind the in-memory file of credentials and the image library are parameters; the open
  descriptors and image sources of the process are explicit, so that releasing them is a theorem.
\<close>

section \<open>Configured paths\<close>

record system_config =
  dockerCertsDir :: "string option"
  registriesCertsDir :: string
  registriesConfPath :: string
  registriesConfDir :: string
  policyConfPath :: string

type_synonym environ = "string \<Rightarrow> string option"

definition lookupEnvOr :: "environ \<Rightarrow> string \<Rightarrow> string \<Rightarrow> string" where
  "lookupEnvOr env key defaultValue = (case env key of Some v \<Rightarrow> v | None \<Rightarrow> defaultValue)"

text \<open>\<^verbatim>\<open>dockerCertsDirOnce\<close> remembers that the variable was read even when it is empty.\<close>

definition DockerCertsDir :: "environ \<Rightarrow> system_config \<Rightarrow> string \<times> system_config" where
  "DockerCertsDir env cfg =
     (case dockerCertsDir cfg of
        Some d \<Rightarrow> (d, cfg)
      | None \<Rightarrow> let d = lookupEnvOr env ''DOCKER_CERTS_DIR'' '''' in (d, cfg\<lparr>dockerCertsDir := Some d\<rparr>))"

definition RegistryCertsDir :: "environ \<Rightarrow> system_config \<Rightarrow> string \<times> system_config" where
  "RegistryCertsDir env cfg =
     (if registriesCertsDir cfg \<noteq> '''' then (registriesCertsDir cfg, cfg)
      else let d = lookupEnvOr env ''REGISTRIES_CERTS_DIR'' ''/etc/containers/registries.d''
           in (d, cfg\<lparr>registriesCertsDir := d\<rparr>))"

definition RegistriesConfPath :: "environ \<Rightarrow> system_config \<Rightarrow> string \<times> system_config" where
  "RegistriesConfPath env cfg =
     (if registriesConfPath cfg \<noteq> '''' then (registriesConfPath cfg, cfg)
      else let d = lookupEnvOr env ''REGISTRIES_CONF_PATH'' ''/etc/containers/registries.conf''
           in (d, cfg\<lparr>registriesConfPath := d\<rparr>))"

definition RegistriesConfDir :: "environ \<Rightarrow> system_config \<Rightarrow> string \<times> system_config" where
  "RegistriesConfDir env cfg =
     (if registriesConfDir cfg \<noteq> '''' then (registriesConfDir cfg, cfg)
      else let d = lookupEnvOr env ''REGISTRIES_CONF_DIR'' ''/etc/containers/registries.conf.d''
           in (d, cfg\<lparr>registriesConfDir := d\<rparr>))"

definition PolicyConfPath :: "environ \<Rightarrow> system_config \<Rightarrow> string \<times> system_config" where
  "PolicyConfPath env cfg =
     (if policyConfPath cfg \<noteq> '''' then (policyConfPath cfg, cfg)
      else let d = lookupEnvOr env ''POLICY_CONF_PATH'' ''/etc/containers/policy.json''
           in (d, cfg\<lparr>policyConfPath := d\<rparr>))"

section \<open>The file of credentials\<close>

record memfile =
  contents :: string
  write_sealed :: bool

type_synonym fd_table = "int \<rightharpoonup> memfile"

record kernel =
  k_MemfdCreate :: "string \<Rightarrow> int result"
  k_Ftruncate :: "int \<Rightarrow> nat \<Rightarrow> go_error option"
  k_Mmap :: "int \<Rightarrow> nat \<Rightarrow> go_error option"
  k_Munmap :: "go_error option"
  k_AddSeals :: "int \<Rightarrow> go_error option"

definition wrap_error :: "string \<Rightarrow> go_error \<Rightarrow> go_error" where
  "wrap_error call e = GoError (call @ '': '' @ error_msg e)"

definition writeMemFile :: "kernel \<Rightarrow> string \<Rightarrow> string \<Rightarrow> fd_table \<Rightarrow> int result \<times> fd_table" where
  "writeMemFile k nm b fds =
     (case k_MemfdCreate k nm of
        Inl e \<Rightarrow> (Inl (wrap_error ''MemfdCreate'' e), fds)
      | Inr fd \<Rightarrow>
          let created = fds(fd \<mapsto> \<lparr>contents = '''', write_sealed = False\<rparr>) in
          case k_Ftruncate k fd (length b) of
            Some e \<Rightarrow> (Inl (wrap_error ''ftruncate'' e), created(fd := None))
          | None \<Rightarrow>
              let sized = created(fd \<mapsto> \<lparr>contents = replicate (length b) (CHR 0x00), write_sealed = False\<rparr>) in
              (case k_Mmap k fd (length b) of
                 Some e \<Rightarrow> (Inl (wrap_error ''mmap'' e), sized(fd := None))
               | None \<Rightarrow>
                   let written = sized(fd \<mapsto> \<lparr>contents = b, write_sealed = False\<rparr>) in
                   (case k_Munmap k of
                      Some e \<Rightarrow> (Inl (wrap_error ''munmap'' e), written(fd := None))
                    | None \<Rightarrow>
                        (case k_AddSeals k fd of
                           Some e \<Rightarrow> (Inl (wrap_error ''fcntl (add seals)'' e), written(fd := None))
                         | None \<Rightarrow> (Inr fd, written(fd \<mapsto> \<lparr>contents = b, write_sealed = True\<rparr>))))))"

definition createAuthFile ::
  "kernel \<Rightarrow> 'a auth_lib_scheme \<Rightarrow> string list \<Rightarrow> string \<Rightarrow> string list \<Rightarrow> fd_table \<Rightarrow> int result \<times> fd_table" where
  "createAuthFile k lib visits imageReference secrets fds =
     (case marshaledImagePullSecrets lib visits imageReference secrets of
        Inl err \<Rightarrow> (Inl err, fds)
      | Inr authJSON \<Rightarrow> writeMemFile k ''mto_ppc_inspector'' authJSON fds)"

section \<open>The image library\<close>

record platform =
  pl_Architecture :: string
  pl_OS :: string

record descriptor =
  m_Annotations :: "(string, string) gomap"
  m_Platform :: "platform option"
  m_Digest :: string

record image_config =
  ic_Labels :: "(string, string) gomap"
  ic_Architecture :: string

record system_context =
  AuthFilePath :: string
  RegistriesDirPath :: string
  SystemRegistriesConfPath :: string
  SystemRegistriesConfDirPath :: string
  SignaturePolicyPath :: string
  DockerPerHostCertDirPath :: string

text \<open>
  The operations of \<^verbatim>\<open>containers/image\<close> the inspector calls. Manifests are their bytes; references, sources,
  policies and parsed images are opaque and stand for themselves. Opening a source reads the credentials behind
  \<^verbatim>\<open>AuthFilePath\<close>, so it sees the descriptors of the process.
\<close>

record registry_lib = auth_lib +
  lib_Resolve :: "system_context \<Rightarrow> string \<Rightarrow> string list result"
  lib_ParseReference :: "string \<Rightarrow> string result"
  lib_NewImageSource :: "system_context \<Rightarrow> fd_table \<Rightarrow> string \<Rightarrow> string result"
  lib_GetManifest :: "string \<Rightarrow> string result"
  lib_DefaultPolicy :: "system_context \<Rightarrow> string result"
  lib_NewPolicyContext :: "string \<Rightarrow> string result"
  lib_GuessMIMEType :: "string \<Rightarrow> string"
  lib_OCI1IndexFromManifest :: "string \<Rightarrow> descriptor list result"
  lib_IsRunningImageAllowed :: "string \<Rightarrow> string \<Rightarrow> string option \<Rightarrow> bool \<times> go_error option"
  lib_AsPolicyRequirementError :: "go_error \<Rightarrow> go_error option"
  lib_FromUnparsedImage :: "system_context \<Rightarrow> string \<Rightarrow> string option \<Rightarrow> string result"
  lib_OCIConfig :: "string \<Rightarrow> image_config result"

definition MIMETypeIsMultiImage :: "string \<Rightarrow> bool" where
  "MIMETypeIsMultiImage mimeType =
     (mimeType = ''application/vnd.docker.distribution.manifest.list.v2+json'' \<or>
      mimeType = ''application/vnd.oci.image.index.v1+json'')"

definition multierr_Format :: "string \<Rightarrow> string \<Rightarrow> string \<Rightarrow> go_error list \<Rightarrow> go_error" where
  "multierr_Format fst_part middle last_part errs =
     (case errs of
        [] \<Rightarrow> GoError ''internal error: multierr.Format called with 0 errors''
      | [e] \<Rightarrow> e
      | _ \<Rightarrow> GoError (fst_part @ join_with middle (map error_msg errs) @ last_part))"

definition FormatPullErrors :: "nat \<Rightarrow> go_error list \<Rightarrow> go_error option" where
  "FormatPullErrors candidates pullErrors =
     (if pullErrors = [] then None
      else let errs =
             (if length pullErrors \<noteq> candidates
              then pullErrors @ [GoError (''internal error: expected '' @ show_nat candidates @ '' instead of '' @
                     show_nat (length pullErrors) @ '' errors for '' @ show_nat candidates @ '' pull candidates'')]
              else pullErrors)
           in Some (multierr_Format (show_nat (length errs) @ '' errors occurred while pulling:'' @ [CHR 0x0A] @ '' * '')
                ([CHR 0x0A] @ '' * '') '''' errs))"

section \<open>The inspection\<close>

fun try_candidates ::
  "'a registry_lib_scheme \<Rightarrow> system_context \<Rightarrow> fd_table \<Rightarrow> string list \<Rightarrow> go_error list \<Rightarrow> string option \<times> go_error list" where
  "try_candidates lib sys fds [] pullErrs = (None, pullErrs)"
| "try_candidates lib sys fds (cand # rest) pullErrs =
     (case lib_ParseReference lib (''//'' @ cand) of
        Inl err \<Rightarrow> try_candidates lib sys fds rest (pullErrs @ [err])
      | Inr ref \<Rightarrow>
          (case lib_NewImageSource lib sys fds ref of
             Inl err \<Rightarrow> try_candidates lib sys fds rest (pullErrs @ [err])
           | Inr src \<Rightarrow> (Some src, pullErrs)))"

text \<open>\<open>Inr None\<close> is the nil source with the nil error.\<close>

definition resolveAndOpenImageSource ::
  "'a registry_lib_scheme \<Rightarrow> system_context \<Rightarrow> fd_table \<Rightarrow> string \<Rightarrow> string option result" where
  "resolveAndOpenImageSource lib sys fds imageReference =
     (case lib_Resolve lib sys (trim_prefix imageReference ''//'') of
        Inl err \<Rightarrow> Inl err
      | Inr candidates \<Rightarrow>
          (case try_candidates lib sys fds candidates [] of
             (Some src, _) \<Rightarrow> Inr (Some src)
           | (None, pullErrs) \<Rightarrow>
               (case FormatPullErrors (length candidates) pullErrs of None \<Rightarrow> Inr None | Some err \<Rightarrow> Inl err)))"

text \<open>The manifests of an index; \<open>None\<close> is the nil dereference of a missing platform.\<close>

fun index_loop :: "descriptor list \<Rightarrow> string set \<Rightarrow> string option \<Rightarrow> (string set \<times> string option) option" where
  "index_loop [] archs instanceDigest = Some (archs, instanceDigest)"
| "index_loop (m # ms) archs instanceDigest =
     (if has_key (m_Annotations m) ''vnd.docker.reference.type'' then index_loop ms archs instanceDigest
      else if has_key (m_Annotations m) ''vnd.docker.reference.digest'' then index_loop ms archs instanceDigest
      else case m_Platform m of
             None \<Rightarrow> None
           | Some p \<Rightarrow>
               if pl_Architecture p = ''unknown'' then index_loop ms archs instanceDigest
               else index_loop ms (insert (pl_Architecture p) archs)
                      (if instanceDigest = None then Some (m_Digest m) else instanceDigest))"

definition operatorSDKBuilderBundleAnnotationSet :: "string set" where
  "operatorSDKBuilderBundleAnnotationSet =
     {''operators.operatorframework.io.metrics.builder'',
      ''operators.operatorframework.io.bundle.mediatype.v1'',
      ''operators.operatorframework.io.bundle.manifests.v1'',
      ''operators.operatorframework.io.bundle.metadata.v1'',
      ''operators.operatorframework.io.bundle.package.v1'',
      ''operators.operatorframework.io.bundle.channels.v1'',
      ''operators.operatorframework.io.bundle.channel.default.v1''}"

definition isBundleImage :: "image_config \<Rightarrow> bool" where
  "isBundleImage config = (\<exists>label \<in> operatorSDKBuilderBundleAnnotationSet. has_key (ic_Labels config) label)"

type_synonym inspection = "string set result option"

definition read_config ::
  "'a registry_lib_scheme \<Rightarrow> system_context \<Rightarrow> string \<Rightarrow> string \<Rightarrow> bool \<Rightarrow> string set \<Rightarrow> string option \<Rightarrow> string set result" where
  "read_config lib sys src policyCtx multi supportedArchitectures instanceDigest =
     (case lib_IsRunningImageAllowed lib policyCtx src instanceDigest of
        (False, err) \<Rightarrow>
          (case err of
             None \<Rightarrow> Inr {}
           | Some e \<Rightarrow> Inl (case lib_AsPolicyRequirementError lib e of Some pe \<Rightarrow> pe | None \<Rightarrow> e))
      | (True, _) \<Rightarrow>
          (case lib_FromUnparsedImage lib sys src instanceDigest of
             Inl err \<Rightarrow> Inl err
           | Inr parsedImage \<Rightarrow>
               (case lib_OCIConfig lib parsedImage of
                  Inl err \<Rightarrow> Inl err
                | Inr config \<Rightarrow>
                    if isBundleImage config then Inr AllSupportedArchitecturesSet
                    else if \<not> multi then Inr {ic_Architecture config}
                    else Inr supportedArchitectures)))"

definition inspect_source :: "'a registry_lib_scheme \<Rightarrow> system_context \<Rightarrow> string \<Rightarrow> inspection" where
  "inspect_source lib sys src =
     (case lib_GetManifest lib src of
        Inl err \<Rightarrow> Some (Inl err)
      | Inr rawManifest \<Rightarrow>
          (case lib_DefaultPolicy lib sys of
             Inl err \<Rightarrow> Some (Inl err)
           | Inr policy \<Rightarrow>
               (case lib_NewPolicyContext lib policy of
                  Inl err \<Rightarrow> Some (Inl err)
                | Inr policyCtx \<Rightarrow>
                    if MIMETypeIsMultiImage (lib_GuessMIMEType lib rawManifest) then
                      (case lib_OCI1IndexFromManifest lib rawManifest of
                         Inl err \<Rightarrow> Some (Inl err)
                       | Inr manifests \<Rightarrow>
                           (case index_loop manifests {} None of
                              None \<Rightarrow> None
                            | Some (archs, instanceDigest) \<Rightarrow>
                                Some (read_config lib sys src policyCtx True archs instanceDigest)))
                    else Some (read_config lib sys src policyCtx False {} None))))"

record process =
  fds :: fd_table
  sources :: "string list"
  sysconf :: system_config

definition system_context_for :: "environ \<Rightarrow> int \<Rightarrow> system_config \<Rightarrow> system_context \<times> system_config" where
  "system_context_for env fd c0 =
     (let (certs, c1) = RegistryCertsDir env c0;
          (conf, c2) = RegistriesConfPath env c1;
          (confd, c3) = RegistriesConfDir env c2;
          (pol, c4) = PolicyConfPath env c3;
          (docker, c5) = DockerCertsDir env c4
      in (\<lparr>AuthFilePath = ''/proc/self/fd/'' @ show_int fd, RegistriesDirPath = certs, SystemRegistriesConfPath = conf,
           SystemRegistriesConfDirPath = confd, SignaturePolicyPath = pol, DockerPerHostCertDirPath = docker\<rparr>, c5))"

text \<open>Deferred calls close the source and the file of credentials on every path, a panic included.\<close>

definition inspector_GetCompatibleArchitecturesSet ::
  "kernel \<Rightarrow> environ \<Rightarrow> 'a registry_lib_scheme \<Rightarrow> string list \<Rightarrow> string \<Rightarrow> string \<Rightarrow> string list \<Rightarrow> process \<Rightarrow> inspection \<times> process" where
  "inspector_GetCompatibleArchitecturesSet k env lib visits globalPullSecret imageReference secrets p0 =
     (case createAuthFile k lib visits imageReference (globalPullSecret # secrets) (fds p0) of
        (Inl err, fds') \<Rightarrow> (Some (Inl err), p0\<lparr>fds := fds'\<rparr>)
      | (Inr fd, fds') \<Rightarrow>
          let p1 = p0\<lparr>fds := fds'\<rparr>;
              closed = (\<lambda>p. p\<lparr>fds := (fds p)(fd := None)\<rparr>)
          in case parseImageReference imageReference of
               Inl err \<Rightarrow> (Some (Inl err), closed p1)
             | Inr ref \<Rightarrow>
                 let (sys, cfg) = system_context_for env fd (sysconf p1);
                     p2 = p1\<lparr>sysconf := cfg\<rparr>
                 in case resolveAndOpenImageSource lib sys (fds p2) ref of
                      Inl err \<Rightarrow> (Some (Inl err), closed p2)
                    | Inr None \<Rightarrow> (None, closed p2)
                    | Inr (Some src) \<Rightarrow>
                        let p3 = p2\<lparr>sources := src # sources p2\<rparr>;
                            r = inspect_source lib sys src
                        in (r, closed (p3\<lparr>sources := remove1 src (sources p3)\<rparr>)))"

section \<open>What an index offers\<close>

text \<open>Manifests that only refer to another one (attestations) and manifests an image can run from.\<close>

definition refers :: "descriptor \<Rightarrow> bool" where
  "refers m \<longleftrightarrow> has_key (m_Annotations m) ''vnd.docker.reference.type'' \<or> has_key (m_Annotations m) ''vnd.docker.reference.digest''"

definition platformless :: "descriptor \<Rightarrow> bool" where
  "platformless m \<longleftrightarrow> \<not> refers m \<and> m_Platform m = None"

definition runs_on :: "descriptor \<Rightarrow> string \<Rightarrow> bool" where
  "runs_on m a \<longleftrightarrow> \<not> refers m \<and> (\<exists>p. m_Platform m = Some p \<and> pl_Architecture p = a) \<and> a \<noteq> ''unknown''"

definition runnable :: "descriptor \<Rightarrow> bool" where
  "runnable m \<longleftrightarrow> (\<exists>a. runs_on m a)"

definition first_runnable :: "descriptor list \<Rightarrow> string option" where
  "first_runnable ms = map_option m_Digest (List.find runnable ms)"

lemma runnable_iff: "runnable m \<longleftrightarrow> \<not> refers m \<and> (\<exists>p. m_Platform m = Some p \<and> pl_Architecture p \<noteq> ''unknown'')"
  by (auto simp: runnable_def runs_on_def)

lemma index_loop_eq:
  "index_loop ms archs d =
     (if list_ex platformless ms then None
      else Some (archs \<union> {a. \<exists>m \<in> set ms. runs_on m a}, case d of Some x \<Rightarrow> Some x | None \<Rightarrow> first_runnable ms))"
proof (induction ms arbitrary: archs d)
  case Nil
  then show ?case by (simp add: first_runnable_def split: option.splits)
next
  case (Cons m ms)
  consider "refers m" | "platformless m"
    | p where "\<not> refers m" "m_Platform m = Some p" "pl_Architecture p = ''unknown''"
    | p where "\<not> refers m" "m_Platform m = Some p" "pl_Architecture p \<noteq> ''unknown''"
    by (cases "m_Platform m") (auto simp: platformless_def)
  then show ?case
  proof cases
    case 1
    then have "\<not> platformless m" "\<not> runnable m" "\<not> runs_on m a" for a
      by (auto simp: platformless_def runnable_iff runs_on_def)
    then show ?thesis using 1 Cons by (auto simp: refers_def first_runnable_def split: option.splits)
  next
    case 2
    then show ?thesis by (simp add: platformless_def refers_def)
  next
    case 3
    then have "\<not> platformless m" "\<not> runnable m" "\<not> runs_on m a" for a
      by (auto simp: platformless_def runnable_iff runs_on_def)
    then show ?thesis using 3 Cons by (auto simp: refers_def first_runnable_def split: option.splits)
  next
    case 4
    then have m: "\<not> platformless m" "runnable m" "runs_on m a \<longleftrightarrow> a = pl_Architecture p" for a
      by (auto simp: platformless_def runnable_iff runs_on_def)
    have "index_loop (m # ms) archs d =
        index_loop ms (insert (pl_Architecture p) archs) (if d = None then Some (m_Digest m) else d)"
      using 4 by (simp add: refers_def)
    then show ?thesis using m by (auto simp: Cons first_runnable_def split: option.splits)
  qed
qed

text \<open>The declarative reading of an inspected source: what its manifest and configuration say it supports.\<close>

definition source_supports :: "'a registry_lib_scheme \<Rightarrow> system_context \<Rightarrow> string \<Rightarrow> string set \<Rightarrow> bool" where
  "source_supports lib sys src archs \<longleftrightarrow>
     (\<exists>raw policy ctx manifests img config.
        lib_GetManifest lib src = Inr raw \<and> lib_DefaultPolicy lib sys = Inr policy \<and>
        lib_NewPolicyContext lib policy = Inr ctx \<and>
        (if MIMETypeIsMultiImage (lib_GuessMIMEType lib raw)
         then lib_OCI1IndexFromManifest lib raw = Inr manifests \<and> \<not> list_ex platformless manifests
         else manifests = []) \<and>
        fst (lib_IsRunningImageAllowed lib ctx src (first_runnable manifests)) \<and>
        lib_FromUnparsedImage lib sys src (first_runnable manifests) = Inr img \<and>
        lib_OCIConfig lib img = Inr config \<and>
        archs = (if isBundleImage config then AllSupportedArchitecturesSet
                 else if MIMETypeIsMultiImage (lib_GuessMIMEType lib raw) then {a. \<exists>m \<in> set manifests. runs_on m a}
                 else {ic_Architecture config}))"

text \<open>The library's promise that a rejected image comes with an error.\<close>

definition rejections_explained :: "'a registry_lib_scheme \<Rightarrow> bool" where
  "rejections_explained lib \<longleftrightarrow> (\<forall>ctx src d. lib_IsRunningImageAllowed lib ctx src d \<noteq> (False, None))"

lemma read_config_success:
  assumes "rejections_explained lib"
  shows "read_config lib sys src ctx multi found d = Inr archs \<longleftrightarrow>
    (\<exists>img config. fst (lib_IsRunningImageAllowed lib ctx src d) \<and> lib_FromUnparsedImage lib sys src d = Inr img \<and>
       lib_OCIConfig lib img = Inr config \<and>
       archs = (if isBundleImage config then AllSupportedArchitecturesSet
                else if multi then found else {ic_Architecture config}))"
proof (cases "lib_IsRunningImageAllowed lib ctx src d")
  case (Pair allowed err)
  show ?thesis
  proof (cases allowed)
    case True
    then show ?thesis using Pair by (auto simp: read_config_def split: sum.splits)
  next
    case False
    then obtain e where "err = Some e" using assms Pair by (cases err) (auto simp: rejections_explained_def)
    then show ?thesis using Pair False by (simp add: read_config_def)
  qed
qed

lemma inspect_source_success:
  assumes "rejections_explained lib"
  shows "inspect_source lib sys src = Some (Inr archs) \<longleftrightarrow> source_supports lib sys src archs"
proof (cases "\<exists>raw policy ctx. lib_GetManifest lib src = Inr raw \<and> lib_DefaultPolicy lib sys = Inr policy \<and>
    lib_NewPolicyContext lib policy = Inr ctx")
  case False
  then have "\<not> source_supports lib sys src archs" by (auto simp: source_supports_def)
  moreover have "inspect_source lib sys src \<noteq> Some (Inr archs)"
    using False by (auto simp: inspect_source_def split: sum.splits)
  ultimately show ?thesis by simp
next
  case True
  then obtain raw policy ctx where ok: "lib_GetManifest lib src = Inr raw" "lib_DefaultPolicy lib sys = Inr policy"
    "lib_NewPolicyContext lib policy = Inr ctx" by blast
  show ?thesis
  proof (cases "MIMETypeIsMultiImage (lib_GuessMIMEType lib raw)")
    case False
    then show ?thesis using ok read_config_success[OF assms]
      by (simp add: inspect_source_def source_supports_def first_runnable_def)
  next
    case multi: True
    show ?thesis
    proof (cases "lib_OCI1IndexFromManifest lib raw")
      case (Inl e)
      then show ?thesis using ok multi by (simp add: inspect_source_def source_supports_def)
    next
      case (Inr ms)
      then show ?thesis using ok multi read_config_success[OF assms]
        by (simp add: inspect_source_def source_supports_def index_loop_eq)
    qed
  qed
qed

lemma inspect_source_panics:
  "inspect_source lib sys src = None \<longleftrightarrow>
     (\<exists>raw policy ctx manifests. lib_GetManifest lib src = Inr raw \<and> lib_DefaultPolicy lib sys = Inr policy \<and>
        lib_NewPolicyContext lib policy = Inr ctx \<and> MIMETypeIsMultiImage (lib_GuessMIMEType lib raw) \<and>
        lib_OCI1IndexFromManifest lib raw = Inr manifests \<and> list_ex platformless manifests)"
  by (auto simp: inspect_source_def index_loop_eq split: sum.splits if_splits)

section \<open>Descriptors\<close>

text \<open>The kernel hands out unused descriptors.\<close>

definition fresh_descriptors :: "kernel \<Rightarrow> fd_table \<Rightarrow> bool" where
  "fresh_descriptors k t \<longleftrightarrow> (\<forall>nm fd. k_MemfdCreate k nm = Inr fd \<longrightarrow> t fd = None)"

lemma unused_descriptor: "fresh_descriptors k t \<Longrightarrow> k_MemfdCreate k nm = Inr fd \<Longrightarrow> t(fd := None) = t"
  by (auto simp: fresh_descriptors_def fun_upd_idem_iff)

lemma writeMemFile_fails:
  assumes "fresh_descriptors k t" "writeMemFile k nm b t = (Inl e, t')"
  shows "t' = t"
  using assms(2) unused_descriptor[OF assms(1), of nm]
  by (auto simp: writeMemFile_def Let_def split: sum.splits option.splits)

lemma writeMemFile_writes:
  assumes "fresh_descriptors k t" "writeMemFile k nm b t = (Inr fd, t')"
  shows "t' = t(fd \<mapsto> \<lparr>contents = b, write_sealed = True\<rparr>)" "t'(fd := None) = t"
  using assms(2) unused_descriptor[OF assms(1), of nm fd]
  by (auto simp: writeMemFile_def Let_def split: sum.splits option.splits)

lemma createAuthFile_fails:
  assumes "fresh_descriptors k t" "createAuthFile k lib visits ref secrets t = (Inl e, t')"
  shows "t' = t"
  using assms(2) writeMemFile_fails[OF assms(1)] by (auto simp: createAuthFile_def split: sum.splits)

lemma createAuthFile_writes:
  assumes "fresh_descriptors k t" "createAuthFile k lib visits ref secrets t = (Inr fd, t')"
  shows "\<exists>json. marshaledImagePullSecrets lib visits ref secrets = Inr json \<and>
     t' = t(fd \<mapsto> \<lparr>contents = json, write_sealed = True\<rparr>)" "t'(fd := None) = t"
  using assms(2) writeMemFile_writes[OF assms(1)] by (auto simp: createAuthFile_def split: sum.splits)

section \<open>The inspection as a whole\<close>

lemma inspector_unfold:
  assumes "createAuthFile k lib visits ref (global # secrets) (fds p0) = (Inr fd, t)" "parseImageReference ref = Inr nref"
    "system_context_for env fd (sysconf p0) = (sys, cfg)"
  shows "fst (inspector_GetCompatibleArchitecturesSet k env lib visits global ref secrets p0) =
    (case resolveAndOpenImageSource lib sys t nref of
       Inl err \<Rightarrow> Some (Inl err) | Inr None \<Rightarrow> None | Inr (Some src) \<Rightarrow> inspect_source lib sys src)"
  using assms by (simp add: inspector_GetCompatibleArchitecturesSet_def Let_def split: sum.splits option.splits)

lemma try_candidates_none: "try_candidates lib sys t cands errs = (None, errs') \<Longrightarrow> length errs' = length errs + length cands"
  by (induction lib sys t cands errs rule: try_candidates.induct) (auto split: sum.splits)

lemma no_source:
  "resolveAndOpenImageSource lib sys t ref = Inr None \<longleftrightarrow> lib_Resolve lib sys (trim_prefix ref ''//'') = Inr []"
  by (auto simp: resolveAndOpenImageSource_def FormatPullErrors_def Let_def
      split: sum.splits prod.splits option.splits if_splits dest: try_candidates_none)

text \<open>C7: An inspection succeeds with exactly the architectures the image supports: all the supported ones for an
  operator bundle, the architectures of the runnable manifests of an index, else the one of the image's
  configuration; and it succeeds exactly when the credentials can be written, the reference is valid, a candidate can be
  opened and the signature policy allows the image, the configuration being the one of the first runnable manifest.\<close>

theorem inspection_exact:
  assumes "rejections_explained lib"
  shows "fst (inspector_GetCompatibleArchitecturesSet k env lib visits global ref secrets p0) = Some (Inr archs) \<longleftrightarrow>
    (\<exists>fd t nref src. createAuthFile k lib visits ref (global # secrets) (fds p0) = (Inr fd, t) \<and>
       parseImageReference ref = Inr nref \<and>
       resolveAndOpenImageSource lib (fst (system_context_for env fd (sysconf p0))) t nref = Inr (Some src) \<and>
       source_supports lib (fst (system_context_for env fd (sysconf p0))) src archs)"
proof (cases "\<exists>fd t nref. createAuthFile k lib visits ref (global # secrets) (fds p0) = (Inr fd, t) \<and>
    parseImageReference ref = Inr nref")
  case False
  then have "fst (inspector_GetCompatibleArchitecturesSet k env lib visits global ref secrets p0) \<noteq> Some (Inr archs)"
    by (auto simp: inspector_GetCompatibleArchitecturesSet_def Let_def split: sum.splits prod.splits)
  then show ?thesis using False by blast
next
  case True
  then obtain fd t nref where ok: "createAuthFile k lib visits ref (global # secrets) (fds p0) = (Inr fd, t)"
    "parseImageReference ref = Inr nref" by blast
  obtain sys cfg where sys: "system_context_for env fd (sysconf p0) = (sys, cfg)"
    by (cases "system_context_for env fd (sysconf p0)")
  show ?thesis
    using inspect_source_success[OF assms] by (simp add: inspector_unfold[OF ok sys] ok sys split: sum.splits option.splits)
qed

text \<open>C39: The inspection crashes exactly when an index lists a manifest without platform that is not an attestation
  (the log line of the skip reads the missing platform), or when the name resolves to no candidate at all.\<close>

theorem inspection_panics_iff:
  "fst (inspector_GetCompatibleArchitecturesSet k env lib visits global ref secrets p0) = None \<longleftrightarrow>
    (\<exists>fd t nref. createAuthFile k lib visits ref (global # secrets) (fds p0) = (Inr fd, t) \<and>
       parseImageReference ref = Inr nref \<and>
       (let sys = fst (system_context_for env fd (sysconf p0)) in
        lib_Resolve lib sys (trim_prefix nref ''//'') = Inr [] \<or>
        (\<exists>src raw policy ctx manifests. resolveAndOpenImageSource lib sys t nref = Inr (Some src) \<and>
           lib_GetManifest lib src = Inr raw \<and> lib_DefaultPolicy lib sys = Inr policy \<and>
           lib_NewPolicyContext lib policy = Inr ctx \<and> MIMETypeIsMultiImage (lib_GuessMIMEType lib raw) \<and>
           lib_OCI1IndexFromManifest lib raw = Inr manifests \<and> list_ex platformless manifests)))"
proof (cases "\<exists>fd t nref. createAuthFile k lib visits ref (global # secrets) (fds p0) = (Inr fd, t) \<and>
    parseImageReference ref = Inr nref")
  case False
  then have "fst (inspector_GetCompatibleArchitecturesSet k env lib visits global ref secrets p0) \<noteq> None"
    by (auto simp: inspector_GetCompatibleArchitecturesSet_def Let_def split: sum.splits prod.splits)
  then show ?thesis using False by blast
next
  case True
  then obtain fd t nref where ok: "createAuthFile k lib visits ref (global # secrets) (fds p0) = (Inr fd, t)"
    "parseImageReference ref = Inr nref" by blast
  obtain sys cfg where sys: "system_context_for env fd (sysconf p0) = (sys, cfg)"
    by (cases "system_context_for env fd (sysconf p0)")
  show ?thesis
    using inspect_source_panics[of lib sys] no_source[of lib sys t nref]
    by (cases "resolveAndOpenImageSource lib sys t nref")
      (auto simp: inspector_unfold[OF ok sys] ok sys Let_def split: option.splits)
qed

section \<open>What the registry client sees\<close>

text \<open>
  The client is called with a context whose \<^verbatim>\<open>AuthFilePath\<close> leads, through the open descriptors, to a sealed
  file with exactly the merged credentials.
\<close>

definition presents_credentials ::
  "'a auth_lib_scheme \<Rightarrow> string list \<Rightarrow> string \<Rightarrow> string list \<Rightarrow> system_context \<Rightarrow> fd_table \<Rightarrow> bool" where
  "presents_credentials lib visits ref secrets sys t \<longleftrightarrow>
     (\<exists>json fd. marshaledImagePullSecrets lib visits ref secrets = Inr json \<and>
        AuthFilePath sys = ''/proc/self/fd/'' @ show_int fd \<and> t fd = Some \<lparr>contents = json, write_sealed = True\<rparr>)"

text \<open>The library whose client answers as \<open>lib\<close> does to the calls that \<open>ok\<close> accepts, and as \<open>other\<close> to the rest.\<close>

definition answering_only ::
  "(system_context \<Rightarrow> fd_table \<Rightarrow> bool) \<Rightarrow> (system_context \<Rightarrow> fd_table \<Rightarrow> string \<Rightarrow> string result) \<Rightarrow>
     'a registry_lib_scheme \<Rightarrow> 'a registry_lib_scheme" where
  "answering_only ok other lib =
     lib\<lparr>lib_NewImageSource := \<lambda>sys t ref. if ok sys t then lib_NewImageSource lib sys t ref else other sys t ref\<rparr>"

lemma answering_only_sel:
  "lib_Resolve (answering_only ok other lib) = lib_Resolve lib"
  "lib_GetManifest (answering_only ok other lib) = lib_GetManifest lib"
  "lib_DefaultPolicy (answering_only ok other lib) = lib_DefaultPolicy lib"
  "lib_NewPolicyContext (answering_only ok other lib) = lib_NewPolicyContext lib"
  "lib_GuessMIMEType (answering_only ok other lib) = lib_GuessMIMEType lib"
  "lib_OCI1IndexFromManifest (answering_only ok other lib) = lib_OCI1IndexFromManifest lib"
  "lib_IsRunningImageAllowed (answering_only ok other lib) = lib_IsRunningImageAllowed lib"
  "lib_AsPolicyRequirementError (answering_only ok other lib) = lib_AsPolicyRequirementError lib"
  "lib_FromUnparsedImage (answering_only ok other lib) = lib_FromUnparsedImage lib"
  "lib_OCIConfig (answering_only ok other lib) = lib_OCIConfig lib"
  by (simp_all add: answering_only_def)

lemma answering_only_auth: "createAuthFile k (answering_only ok other lib) visits ref secrets t = createAuthFile k lib visits ref secrets t"
proof -
  have "same_auth (answering_only ok other lib) lib" by (simp add: same_auth_def answering_only_def)
  from same_auth_credentials[OF this] show ?thesis by (simp add: createAuthFile_def)
qed

lemma answering_only_candidates:
  "ok sys t \<Longrightarrow> try_candidates (answering_only ok other lib) sys t cands errs = try_candidates lib sys t cands errs"
  by (induction cands arbitrary: errs) (simp_all add: answering_only_def split: sum.splits)

lemma answering_only_opens:
  "ok sys t \<Longrightarrow> resolveAndOpenImageSource (answering_only ok other lib) sys t ref = resolveAndOpenImageSource lib sys t ref"
  by (simp add: resolveAndOpenImageSource_def answering_only_candidates answering_only_sel cong: sum.case_cong)

lemma answering_only_inspects: "inspect_source (answering_only ok other lib) sys src = inspect_source lib sys src"
  by (simp add: inspect_source_def read_config_def answering_only_sel cong: sum.case_cong option.case_cong prod.case_cong if_cong bool.case_cong)

lemma context_path: "AuthFilePath (fst (system_context_for env fd c)) = ''/proc/self/fd/'' @ show_int fd"
  by (simp add: system_context_for_def Let_def split: prod.splits)

lemma inspector_presents:
  assumes "fresh_descriptors k (fds p0)"
  shows "inspector_GetCompatibleArchitecturesSet k env
      (answering_only (presents_credentials lib visits ref (global # secrets)) other lib) visits global ref secrets p0 =
    inspector_GetCompatibleArchitecturesSet k env lib visits global ref secrets p0"
proof (cases "\<exists>fd t. createAuthFile k lib visits ref (global # secrets) (fds p0) = (Inr fd, t)")
  case False
  then show ?thesis
    by (auto simp: inspector_GetCompatibleArchitecturesSet_def answering_only_auth split: prod.splits sum.splits)
next
  case True
  then obtain fd t where c: "createAuthFile k lib visits ref (global # secrets) (fds p0) = (Inr fd, t)" by blast
  let ?ok = "presents_credentials lib visits ref (global # secrets)"
  obtain sys cfg where sys: "system_context_for env fd (sysconf p0) = (sys, cfg)"
    by (cases "system_context_for env fd (sysconf p0)")
  have "?ok sys t"
    using createAuthFile_writes(1)[OF assms c] context_path[of env fd "sysconf p0"] sys
    unfolding presents_credentials_def by fastforce
  note opened = answering_only_opens[of ?ok, OF this]
  show ?thesis
    by (cases "parseImageReference ref")
      (simp_all add: inspector_GetCompatibleArchitecturesSet_def answering_only_auth c sys answering_only_inspects opened Let_def
        split: sum.split option.split)
qed

text \<open>C21: No inspection leaks: whatever the outcome, a crash included, the descriptors and the image sources of the
  process are those from before. And every time the inspection opens an image, the path it gives to the registry client
  leads to a file that is still open, sealed against writing, and holds exactly the merged credentials of the cluster
  and the pod: nothing changes if the client answers differently to any other call.\<close>

theorem inspection_releases:
  assumes "fresh_descriptors k (fds p0)"
  shows "fds (snd (inspector_GetCompatibleArchitecturesSet k env lib visits global ref secrets p0)) = fds p0 \<and>
    sources (snd (inspector_GetCompatibleArchitecturesSet k env lib visits global ref secrets p0)) = sources p0 \<and>
    inspector_GetCompatibleArchitecturesSet k env lib visits global ref secrets p0 =
      inspector_GetCompatibleArchitecturesSet k env
        (lib\<lparr>lib_NewImageSource := \<lambda>sys t image.
           if presents_credentials lib visits ref (global # secrets) sys t then lib_NewImageSource lib sys t image
           else other sys t image\<rparr>) visits global ref secrets p0"
proof (cases "createAuthFile k lib visits ref (global # secrets) (fds p0)")
  case (Pair r t)
  note client = inspector_presents[OF assms, of env lib visits ref global secrets other, unfolded answering_only_def, symmetric]
  show ?thesis
  proof (cases r)
    case (Inl e)
    then have "fds (snd (inspector_GetCompatibleArchitecturesSet k env lib visits global ref secrets p0)) = fds p0 \<and>
        sources (snd (inspector_GetCompatibleArchitecturesSet k env lib visits global ref secrets p0)) = sources p0"
      using Pair createAuthFile_fails[OF assms, of lib visits ref "global # secrets" e t]
      by (simp add: inspector_GetCompatibleArchitecturesSet_def)
    then show ?thesis using client by blast
  next
    case (Inr fd)
    then have c: "createAuthFile k lib visits ref (global # secrets) (fds p0) = (Inr fd, t)" using Pair by simp
    have restored: "t(fd := None) = fds p0" by (rule createAuthFile_writes(2)[OF assms c])
    have "fds (snd (inspector_GetCompatibleArchitecturesSet k env lib visits global ref secrets p0)) = fds p0 \<and>
        sources (snd (inspector_GetCompatibleArchitecturesSet k env lib visits global ref secrets p0)) = sources p0"
      using c restored
      by (auto simp: inspector_GetCompatibleArchitecturesSet_def Let_def split: sum.splits prod.splits option.splits)
    then show ?thesis using client by blast
  qed
qed

section \<open>An example\<close>

definition manifest_for :: "string \<Rightarrow> (string, string) gomap \<Rightarrow> descriptor" where
  "manifest_for a ann = \<lparr>m_Annotations = ann, m_Platform = Some \<lparr>pl_Architecture = a, pl_OS = ''linux''\<rparr>, m_Digest = ''sha256:'' @ a\<rparr>"

definition sample_index :: "descriptor list" where
  "sample_index =
     [manifest_for ''unknown'' (Some [''vnd.docker.reference.type'' \<mapsto> ''attestation-manifest'']),
      manifest_for ''amd64'' None, manifest_for ''arm64'' None, manifest_for ''unknown'' None]"

definition sample_registry :: "descriptor list \<Rightarrow> registry_lib" where
  "sample_registry manifests =
     \<lparr>url_Parse = url_Parse sample_auth_lib, url_String = url_String sample_auth_lib,
      json_Unmarshal_auths = json_Unmarshal_auths sample_auth_lib, json_Marshal_auths = json_Marshal_auths sample_auth_lib,
      lib_Resolve = \<lambda>sys nm. Inr [nm], lib_ParseReference = Inr, lib_NewImageSource = \<lambda>sys t ref. Inr ref,
      lib_GetManifest = \<lambda>src. Inr ''index'', lib_DefaultPolicy = \<lambda>sys. Inr ''insecureAcceptAnything'', lib_NewPolicyContext = Inr,
      lib_GuessMIMEType = \<lambda>raw. ''application/vnd.oci.image.index.v1+json'', lib_OCI1IndexFromManifest = \<lambda>raw. Inr manifests,
      lib_IsRunningImageAllowed = \<lambda>ctx src d. (True, None), lib_AsPolicyRequirementError = \<lambda>e. None,
      lib_FromUnparsedImage = \<lambda>sys src d. Inr src, lib_OCIConfig = \<lambda>img. Inr \<lparr>ic_Labels = None, ic_Architecture = ''amd64''\<rparr>\<rparr>"

definition sample_memfd :: kernel where
  "sample_memfd = \<lparr>k_MemfdCreate = \<lambda>nm. Inr 7, k_Ftruncate = \<lambda>fd n. None, k_Mmap = \<lambda>fd n. None, k_Munmap = None,
     k_AddSeals = \<lambda>fd. None\<rparr>"

definition idle_process :: process where
  "idle_process = \<lparr>fds = Map.empty, sources = [],
     sysconf = \<lparr>dockerCertsDir = None, registriesCertsDir = '''', registriesConfPath = '''', registriesConfDir = '''', policyConfPath = ''''\<rparr>\<rparr>"

abbreviation sample_inspection :: "descriptor list \<Rightarrow> inspection \<times> process" where
  "sample_inspection manifests \<equiv>
     inspector_GetCompatibleArchitecturesSet sample_memfd (\<lambda>key. None) (sample_registry manifests) [''*.io''] ''cluster''
       ''quay.io/app:v1'' [] idle_process"

lemma sample_reference: "parseImageReference ''quay.io/app:v1'' = Inr ''quay.io/app:v1''"
  by code_simp

lemma sample_registry_auth: "same_auth (sample_registry ms) sample_auth_lib"
  by (simp add: same_auth_def sample_registry_def)

lemma sample_auth_file:
  "createAuthFile sample_memfd (sample_registry ms) [''*.io''] ''quay.io/app:v1'' [''cluster''] (fds idle_process) =
     (Inr 7, [7 \<mapsto> \<lparr>contents = ''cluster'', write_sealed = True\<rparr>])"
  by (simp add: createAuthFile_def same_auth_credentials[OF sample_registry_auth] sample_credentials writeMemFile_def
      sample_memfd_def idle_process_def Let_def)

lemma sample_source: "resolveAndOpenImageSource (sample_registry ms) sys t ''quay.io/app:v1'' = Inr (Some ''//quay.io/app:v1'')"
  by (simp add: resolveAndOpenImageSource_def sample_registry_def trim_prefix_def)

lemma sample_archs: "{a. \<exists>m \<in> set sample_index. runs_on m a} = {''amd64'', ''arm64''}"
  by (auto simp: sample_index_def manifest_for_def runs_on_def refers_def has_key_def)

theorem inspection_exact_witness:
  "rejections_explained (sample_registry sample_index) \<and>
   fst (sample_inspection sample_index) = Some (Inr {''amd64'', ''arm64''})"
proof -
  have lib: "rejections_explained (sample_registry sample_index)"
    by (simp add: rejections_explained_def sample_registry_def)
  have none: "\<not> list_ex platformless sample_index" by (simp add: sample_index_def manifest_for_def platformless_def)
  have "source_supports (sample_registry sample_index) sys ''//quay.io/app:v1'' {''amd64'', ''arm64''}" for sys
    unfolding source_supports_def using none
    by (simp add: sample_registry_def MIMETypeIsMultiImage_def isBundleImage_def has_key_def sample_archs)
  then show ?thesis
    using lib inspection_exact[OF lib, of sample_memfd "\<lambda>key. None" "[''*.io'']" "''cluster''" "''quay.io/app:v1''" "[]" idle_process]
      sample_auth_file sample_reference sample_source by simp
qed

theorem inspection_releases_witness:
  "fresh_descriptors sample_memfd (fds idle_process) \<and>
   fds (snd (sample_inspection sample_index)) = fds idle_process \<and>
   sample_inspection sample_index =
     inspector_GetCompatibleArchitecturesSet sample_memfd (\<lambda>key. None)
       ((sample_registry sample_index)\<lparr>lib_NewImageSource := \<lambda>sys t image.
          if presents_credentials (sample_registry sample_index) [''*.io''] ''quay.io/app:v1'' [''cluster''] sys t then Inr image
          else Inl (GoError ''unauthorized'')\<rparr>) [''*.io''] ''cluster'' ''quay.io/app:v1'' [] idle_process"
proof -
  have fresh: "fresh_descriptors sample_memfd (fds idle_process)" by (simp add: fresh_descriptors_def idle_process_def)
  have client: "lib_NewImageSource (sample_registry sample_index) = (\<lambda>sys t ref. Inr ref)" by (simp add: sample_registry_def)
  show ?thesis
    using fresh inspection_releases[OF fresh, of "\<lambda>key. None" "sample_registry sample_index" "[''*.io'']" "''cluster''"
        "''quay.io/app:v1''" "[]" "\<lambda>_ _ _. Inl (GoError ''unauthorized'')", unfolded client]
    by blast
qed

end
