(* ===== verification/Image_Cache.thy ===== *)
theory Image_Cache
  imports Image_Inspector Lru
begin

text \<open>
  The facade over the image inspection and its cache (\<^verbatim>\<open>pkg/image/facade.go\<close>, \<^verbatim>\<open>pkg/image/cache.go\<close>): results are kept
  for six hours under a hash of the reference and the pod's credentials, and dropped when the global pull secret of the
  cluster changes. Calls of the facade come from many reconcilers at once; \<open>image_step\<close> has one rule for every atomic
  step of a call, and the registries answer differently as time passes.
\<close>

section \<open>The key\<close>

definition hex_encode :: "string \<Rightarrow> string" where
  "hex_encode s = concat (map (\<lambda>c. [hex_digit (of_char c div 16), hex_digit (of_char c mod 16)]) s)"

definition computeHash :: "(string \<Rightarrow> string) \<Rightarrow> string \<Rightarrow> string \<Rightarrow> string" where
  "computeHash sha256 imageReference secrets = hex_encode (sha256 (imageReference @ [CHR 0x00] @ secrets))"

section \<open>The cache proxy\<close>

type_synonym result_cache = "(string, string set \<times> nat) lru"

text \<open>\<^verbatim>\<open>time.Hour * 6\<close>, in nanoseconds.\<close>

definition result_ttl :: nat where
  "result_ttl = 6 * 3600 * 1000000000"

definition newCacheProxy :: result_cache where
  "newCacheProxy = \<lparr>lru_size = 256, lru_items = []\<rparr>"

definition clearCache :: "result_cache \<Rightarrow> result_cache" where
  "clearCache c = lru_Purge c"

text \<open>A call up to the inspection: an error of the credentials, a hit, or the key to inspect and add.\<close>

datatype lookup = LookupError go_error | Hit "string set" | Miss string

definition cache_lookup ::
  "(string \<Rightarrow> string) \<Rightarrow> 'a auth_lib_scheme \<Rightarrow> string list \<Rightarrow> nat \<Rightarrow> string \<Rightarrow> bool \<Rightarrow> string list \<Rightarrow> result_cache \<Rightarrow> lookup \<times> result_cache" where
  "cache_lookup sha256 lib visits now imageReference skipCache secrets c =
     (case marshaledImagePullSecrets lib visits imageReference secrets of
        Inl err \<Rightarrow> (LookupError err, c)
      | Inr authJSON \<Rightarrow>
          let hash = computeHash sha256 imageReference authJSON in
          case exp_Get now hash c of
            (Some architectures, c') \<Rightarrow> if \<not> skipCache then (Hit architectures, c') else (Miss hash, c')
          | (None, c') \<Rightarrow> (Miss hash, c'))"

definition cache_store :: "nat \<Rightarrow> string \<Rightarrow> bool \<Rightarrow> string set \<Rightarrow> result_cache \<Rightarrow> result_cache" where
  "cache_store now hash skipCache architectures c =
     (if \<not> skipCache then exp_Add result_ttl now hash architectures c else c)"

text \<open>A whole call that nothing interrupts; \<open>inspect\<close> is the inspector with the present global pull secret.\<close>

definition cache_GetCompatibleArchitecturesSet ::
  "(string \<Rightarrow> string) \<Rightarrow> 'a auth_lib_scheme \<Rightarrow> string list \<Rightarrow> (string \<Rightarrow> string list \<Rightarrow> inspection) \<Rightarrow> nat \<Rightarrow>
     string \<Rightarrow> bool \<Rightarrow> string list \<Rightarrow> result_cache \<Rightarrow> inspection \<times> result_cache" where
  "cache_GetCompatibleArchitecturesSet sha256 lib visits inspect now imageReference skipCache secrets c =
     (case cache_lookup sha256 lib visits now imageReference skipCache secrets c of
        (LookupError err, c') \<Rightarrow> (Some (Inl err), c')
      | (Hit architectures, c') \<Rightarrow> (Some (Inr architectures), c')
      | (Miss hash, c') \<Rightarrow>
          (case inspect imageReference secrets of
             Some (Inr architectures) \<Rightarrow> (Some (Inr architectures), cache_store now hash skipCache architectures c')
           | r \<Rightarrow> (r, c')))"

section \<open>The facade\<close>

record facade =
  globalPullSecret :: string
  results :: result_cache

definition newImageFacade :: facade where
  "newImageFacade = \<lparr>globalPullSecret = '''', results = newCacheProxy\<rparr>"

definition storeGlobalPullSecret :: "string \<Rightarrow> facade \<Rightarrow> facade" where
  "storeGlobalPullSecret pullSecret f = f\<lparr>globalPullSecret := pullSecret\<rparr>"

definition StoreGlobalPullSecret :: "string \<Rightarrow> facade \<Rightarrow> facade" where
  "StoreGlobalPullSecret pullSecret f =
     (let f1 = storeGlobalPullSecret pullSecret f in f1\<lparr>results := clearCache (results f1)\<rparr>)"

section \<open>Concurrent calls\<close>

text \<open>The world around the process: the libraries and the registries behind them at every moment.\<close>

record image_world =
  w_sha256 :: "string \<Rightarrow> string"
  w_lib :: "nat \<Rightarrow> registry_lib"
  w_kernel :: "nat \<Rightarrow> kernel"
  w_environ :: environ

definition observed :: "image_world \<Rightarrow> nat \<Rightarrow> string \<Rightarrow> string \<Rightarrow> string list \<Rightarrow> string set \<Rightarrow> bool" where
  "observed w t global ref secrets archs \<longleftrightarrow>
     (\<exists>visits p. fst (inspector_GetCompatibleArchitecturesSet (w_kernel w t) (w_environ w) (w_lib w t) visits global ref secrets p) =
        Some (Inr archs))"

record request =
  rq_ref :: string
  rq_skip :: bool
  rq_secrets :: "string list"
  rq_json :: string

datatype call = Missed request | Inspecting request string nat

text \<open>
  \<open>purging\<close> counts the updates of the global pull secret that have not yet cleared the cache. The ghost fields record
  the secrets there have been, the inputs that were hashed, the duration of the slowest inspection, and whether a secret
  was replaced during an inspection.
\<close>

record image_state =
  clock :: nat
  the_facade :: facade
  calls :: "call list"
  purging :: nat
  past_secrets :: "string set"
  hashed :: "string set"
  slowest :: nat
  overlapped :: bool

definition image_start :: image_state where
  "image_start = \<lparr>clock = 0, the_facade = newImageFacade, calls = [], purging = 0, past_secrets = {''''}, hashed = {}, slowest = 0, overlapped = False\<rparr>"

primrec is_inspecting :: "call \<Rightarrow> bool" where
  "is_inspecting (Missed r) = False"
| "is_inspecting (Inspecting r g t) = True"

abbreviation hash_input :: "request \<Rightarrow> string" where
  "hash_input r \<equiv> rq_ref r @ [CHR 0x00] @ rq_json r"

abbreviation set_results :: "image_state \<Rightarrow> result_cache \<Rightarrow> facade" where
  "set_results s c \<equiv> (the_facade s)\<lparr>results := c\<rparr>"

text \<open>The cleanup of the library removes some entries at any time; an inspection that fails or crashes stores nothing.\<close>

inductive image_step :: "image_world \<Rightarrow> image_state \<Rightarrow> image_state \<Rightarrow> bool" for w :: image_world where
  tick: "image_step w s (s\<lparr>clock := Suc (clock s)\<rparr>)"
| hit: "cache_lookup (w_sha256 w) (w_lib w (clock s)) visits (clock s) ref skip secrets (results (the_facade s)) = (Hit archs, c) \<Longrightarrow>
    image_step w s (s\<lparr>the_facade := set_results s c\<rparr>)"
| miss: "cache_lookup (w_sha256 w) (w_lib w (clock s)) visits (clock s) ref skip secrets (results (the_facade s)) = (Miss hash, c) \<Longrightarrow>
    marshaledImagePullSecrets (w_lib w (clock s)) visits ref secrets = Inr json \<Longrightarrow>
    r = \<lparr>rq_ref = ref, rq_skip = skip, rq_secrets = secrets, rq_json = json\<rparr> \<Longrightarrow>
    image_step w s (s\<lparr>the_facade := set_results s c, calls := Missed r # calls s, hashed := insert (hash_input r) (hashed s)\<rparr>)"
| begin_inspection: "calls s = cs @ Missed r # cs' \<Longrightarrow>
    image_step w s (s\<lparr>calls := cs @ Inspecting r (globalPullSecret (the_facade s)) (clock s) # cs'\<rparr>)"
| inspected: "calls s = cs @ Inspecting r global t0 # cs' \<Longrightarrow> t0 \<le> t \<Longrightarrow> t \<le> clock s \<Longrightarrow>
    observed w t global (rq_ref r) (rq_secrets r) archs \<Longrightarrow>
    image_step w s (s\<lparr>calls := cs @ cs', slowest := max (slowest s) (clock s - t0), the_facade := set_results s
       (cache_store (clock s) (computeHash (w_sha256 w) (rq_ref r) (rq_json r)) (rq_skip r) archs (results (the_facade s)))\<rparr>)"
| failed: "calls s = cs @ Inspecting r global t0 # cs' \<Longrightarrow> image_step w s (s\<lparr>calls := cs @ cs'\<rparr>)"
| store_secret: "image_step w s (s\<lparr>the_facade := storeGlobalPullSecret secret (the_facade s), purging := Suc (purging s),
    past_secrets := insert secret (past_secrets s), overlapped := overlapped s \<or> list_ex is_inspecting (calls s)\<rparr>)"
| clear_cache: "purging s = Suc n \<Longrightarrow>
    image_step w s (s\<lparr>the_facade := set_results s (clearCache (results (the_facade s))), purging := n\<rparr>)"
| sweep: "image_step w s (s\<lparr>the_facade := set_results s
    ((results (the_facade s))\<lparr>lru_items := filter kept (lru_items (results (the_facade s)))\<rparr>)\<rparr>)"

inductive image_reachable :: "image_world \<Rightarrow> image_state \<Rightarrow> bool" for w :: image_world where
  start: "image_reachable w image_start"
| step: "image_reachable w s \<Longrightarrow> image_step w s s' \<Longrightarrow> image_reachable w s'"

section \<open>Where the entries come from\<close>

definition genuine :: "image_world \<Rightarrow> image_state \<Rightarrow> request \<Rightarrow> bool" where
  "genuine w s r \<longleftrightarrow> hash_input r \<in> hashed s \<and>
     (\<exists>t visits. t \<le> clock s \<and> marshaledImagePullSecrets (w_lib w t) visits (rq_ref r) (rq_secrets r) = Inr (rq_json r))"

definition entry_of :: "image_world \<Rightarrow> image_state \<Rightarrow> string \<Rightarrow> string set \<Rightarrow> nat \<Rightarrow> string \<Rightarrow> bool" where
  "entry_of w s h archs expiry global \<longleftrightarrow>
     (\<exists>r t added. h = computeHash (w_sha256 w) (rq_ref r) (rq_json r) \<and> genuine w s r \<and>
        observed w t global (rq_ref r) (rq_secrets r) archs \<and> t \<le> added \<and> added \<le> clock s \<and> added - t \<le> slowest s \<and>
        expiry = added + result_ttl)"

definition current :: "image_state \<Rightarrow> string \<Rightarrow> bool" where
  "current s global \<longleftrightarrow> global \<in> past_secrets s \<and>
     (\<not> overlapped s \<and> purging s = 0 \<longrightarrow> global = globalPullSecret (the_facade s))"

definition call_ok :: "image_world \<Rightarrow> image_state \<Rightarrow> call \<Rightarrow> bool" where
  "call_ok w s c = (case c of
     Missed r \<Rightarrow> genuine w s r
   | Inspecting r global t0 \<Rightarrow> genuine w s r \<and> t0 \<le> clock s \<and> global \<in> past_secrets s \<and>
       (\<not> overlapped s \<longrightarrow> global = globalPullSecret (the_facade s)))"

definition entry_ok :: "image_world \<Rightarrow> image_state \<Rightarrow> string \<times> string set \<times> nat \<Rightarrow> bool" where
  "entry_ok w s = (\<lambda>(h, archs, expiry). \<exists>global. entry_of w s h archs expiry global \<and> current s global)"

definition image_inv :: "image_world \<Rightarrow> image_state \<Rightarrow> bool" where
  "image_inv w s \<longleftrightarrow> lru_inv (results (the_facade s)) \<and> lru_size (results (the_facade s)) = 256 \<and>
     globalPullSecret (the_facade s) \<in> past_secrets s \<and>
     list_all (call_ok w s) (calls s) \<and> list_all (entry_ok w s) (lru_items (results (the_facade s)))"

lemma genuine_mono:
  "genuine w s r \<Longrightarrow> clock s \<le> clock s' \<Longrightarrow> hashed s \<subseteq> hashed s' \<Longrightarrow> genuine w s' r"
  unfolding genuine_def by (meson le_trans subsetD)

lemma entry_of_mono:
  "entry_of w s h archs e g \<Longrightarrow> clock s \<le> clock s' \<Longrightarrow> hashed s \<subseteq> hashed s' \<Longrightarrow> slowest s \<le> slowest s' \<Longrightarrow>
     entry_of w s' h archs e g"
proof -
  assume e: "entry_of w s h archs e g" and m: "clock s \<le> clock s'" "hashed s \<subseteq> hashed s'" "slowest s \<le> slowest s'"
  then obtain r t added where "h = computeHash (w_sha256 w) (rq_ref r) (rq_json r)" "genuine w s r"
    "observed w t g (rq_ref r) (rq_secrets r) archs" "t \<le> added" "added \<le> clock s" "added - t \<le> slowest s"
    "e = added + result_ttl" unfolding entry_of_def by blast
  then show ?thesis unfolding entry_of_def
    using m genuine_mono[of w s r s'] by (intro exI[of _ r] exI[of _ t] exI[of _ added]) simp
qed

lemma exp_Get_items:
  assumes "exp_Get now k c = (v, c')" "lru_inv c"
  shows "set (lru_items c') = set (lru_items c)"
proof (cases "\<exists>x e. map_of (lru_items c) k = Some (x, e) \<and> \<not> e < now")
  case True
  then obtain x e where xe: "map_of (lru_items c) k = Some (x, e)" "\<not> e < now" by blast
  then have c': "c' = move_to_front k (x, e) c" using assms(1) by (simp add: exp_Get_def)
  have d: "distinct (map fst (lru_items c))" using assms(2) by (simp add: lru_inv_def)
  have unique: "p = (k, (x, e))" if "p \<in> set (lru_items c)" "fst p = k" for p
  proof -
    have "map_of (lru_items c) (fst p) = Some (snd p)" using map_of_is_SomeI[OF d] that(1) by simp
    then show ?thesis using that(2) xe(1) by (cases p) simp
  qed
  have "set (lru_items c') = insert (k, x, e) {p \<in> set (lru_items c). fst p \<noteq> k}"
    by (simp add: c' move_to_front_def)
  also have "\<dots> = set (lru_items c)" using map_of_SomeD[OF xe(1)] unique by blast
  finally show ?thesis .
next
  case False
  then have "c' = c" using assms(1) by (auto simp: exp_Get_def split: option.splits if_splits)
  then show ?thesis by simp
qed

lemma exp_Get_size: "exp_Get now k c = (v, c') \<Longrightarrow> lru_size c' = lru_size c"
  by (auto simp: exp_Get_def move_to_front_def split: option.splits if_splits)

lemma lru_Add_items: "set (lru_items (lru_Add k v c)) \<subseteq> insert (k, v) (set (lru_items c))"
  by (auto simp: lru_Add_def move_to_front_def Let_def dest: in_set_butlastD)

lemma lru_Add_size [simp]: "lru_size (lru_Add k v c) = lru_size c"
  by (simp add: lru_Add_def move_to_front_def Let_def)

lemma cache_lookup_frame:
  assumes "cache_lookup sha lib visits now ref skip secrets c = (r, c')" "lru_inv c"
  shows "lru_inv c'" "lru_size c' = lru_size c" "set (lru_items c') = set (lru_items c)"
proof -
  have "lru_inv c' \<and> lru_size c' = lru_size c \<and> set (lru_items c') = set (lru_items c)"
  proof (cases "marshaledImagePullSecrets lib visits ref secrets")
    case (Inl e)
    then show ?thesis using assms by (simp add: cache_lookup_def)
  next
    case (Inr json)
    obtain v d where g: "exp_Get now (computeHash sha ref json) c = (v, d)"
      by (cases "exp_Get now (computeHash sha ref json) c")
    then have "c' = d" using assms(1) Inr by (cases v; cases skip) (simp_all add: cache_lookup_def)
    then show ?thesis
      using expirable.get_inv[OF assms(2), of now "computeHash sha ref json"] exp_Get_size[OF g] exp_Get_items[OF g assms(2)] g
      by simp
  qed
  then show "lru_inv c'" "lru_size c' = lru_size c" "set (lru_items c') = set (lru_items c)" by blast+
qed

lemma cache_store_frame:
  assumes "lru_inv c"
  shows "lru_inv (cache_store now h skip archs c)" "lru_size (cache_store now h skip archs c) = lru_size c"
    "set (lru_items (cache_store now h skip archs c)) \<subseteq> insert (h, archs, now + result_ttl) (set (lru_items c))"
  using assms lru_Add_inv[OF assms] lru_Add_items[of h "(archs, now + result_ttl)" c]
  by (auto simp: cache_store_def exp_Add_def)

definition grows :: "image_state \<Rightarrow> image_state \<Rightarrow> bool" where
  "grows s s' \<longleftrightarrow> clock s \<le> clock s' \<and> hashed s \<subseteq> hashed s' \<and> slowest s \<le> slowest s' \<and> past_secrets s \<subseteq> past_secrets s' \<and>
     (overlapped s \<longrightarrow> overlapped s')"

definition same_secret :: "image_state \<Rightarrow> image_state \<Rightarrow> bool" where
  "same_secret s s' \<longleftrightarrow> globalPullSecret (the_facade s') = globalPullSecret (the_facade s)"

lemma entry_ok_mono:
  assumes "entry_ok w s x" "grows s s'" "purging s' = 0 \<longrightarrow> purging s = 0 \<and> same_secret s s'"
  shows "entry_ok w s' x"
proof -
  obtain h archs e where x: "x = (h, archs, e)" by (cases x)
  then obtain g where g: "entry_of w s h archs e g" "current s g" using assms(1) by (auto simp: entry_ok_def)
  have "entry_of w s' h archs e g" using entry_of_mono[OF g(1)] assms(2) by (simp add: grows_def)
  moreover have "current s' g" using g(2) assms(2,3) by (auto simp: current_def grows_def same_secret_def)
  ultimately show ?thesis using x by (auto simp: entry_ok_def)
qed

lemma call_ok_mono:
  assumes "call_ok w s c" "grows s s'" "is_inspecting c \<longrightarrow> same_secret s s' \<or> overlapped s'"
  shows "call_ok w s' c"
proof -
  have "genuine w s r \<Longrightarrow> genuine w s' r" for r using genuine_mono[of w s r s'] assms(2) by (simp add: grows_def)
  then show ?thesis
    using assms by (cases c) (auto simp: call_ok_def grows_def same_secret_def)
qed

text \<open>A step that leaves the secret alone and takes the cache's entries and the calls from the old ones.\<close>

lemma quiet_step:
  assumes "image_inv w s" "grows s s'" "same_secret s s'" "purging s' = purging s"
    "lru_inv (results (the_facade s'))" "lru_size (results (the_facade s')) = 256"
    "\<And>x. x \<in> set (lru_items (results (the_facade s'))) \<Longrightarrow> x \<in> set (lru_items (results (the_facade s))) \<or> entry_ok w s' x"
    "\<And>c. c \<in> set (calls s') \<Longrightarrow> c \<in> set (calls s) \<or> call_ok w s' c"
  shows "image_inv w s'"
proof -
  have "entry_ok w s' x" if "x \<in> set (lru_items (results (the_facade s')))" for x
    using assms(7)[OF that] assms(1) entry_ok_mono[of w s x s'] assms(2-4) by (auto simp: image_inv_def list_all_iff)
  moreover have "call_ok w s' c" if "c \<in> set (calls s')" for c
    using assms(8)[OF that] assms(1) call_ok_mono[of w s c s'] assms(2,3) by (auto simp: image_inv_def list_all_iff)
  ultimately show ?thesis
    using assms(1-3,5,6) by (auto simp: image_inv_def list_all_iff same_secret_def grows_def)
qed

lemma image_step_inv:
  assumes "image_step w s s'" "image_inv w s"
  shows "image_inv w s'"
proof -
  let ?c = "results (the_facade s)"
  have inv: "lru_inv ?c" "lru_size ?c = 256" and calls: "\<And>c. c \<in> set (calls s) \<Longrightarrow> call_ok w s c"
    and known: "globalPullSecret (the_facade s) \<in> past_secrets s"
    using assms(2) by (simp_all add: image_inv_def list_all_iff)
  note quiet = quiet_step[OF assms(2)]
  from assms(1) show ?thesis
  proof cases
    case tick
    show ?thesis by (rule quiet) (use tick inv in \<open>simp_all add: grows_def same_secret_def\<close>)
  next
    case (hit visits ref skip secrets archs c)
    show ?thesis
      by (rule quiet) (use hit inv cache_lookup_frame[OF hit(2) inv(1)] in \<open>simp_all add: grows_def same_secret_def\<close>)
  next
    case (miss visits ref skip secrets hash c json r)
    have "genuine w s' r" using miss(1,3,4) by (auto simp: genuine_def)
    then have "call_ok w s' (Missed r)" by (simp add: call_ok_def)
    then show ?thesis
      by (intro quiet) (use miss inv cache_lookup_frame[OF miss(2) inv(1)] in \<open>auto simp: grows_def same_secret_def\<close>)
  next
    case (begin_inspection cs r cs')
    have "genuine w s r" using calls[of "Missed r"] begin_inspection(2) by (simp add: call_ok_def)
    then have "call_ok w s' (Inspecting r (globalPullSecret (the_facade s)) (clock s))"
      using begin_inspection(1) known by (simp add: call_ok_def genuine_def)
    then show ?thesis
      by (intro quiet) (use begin_inspection inv in \<open>auto simp: grows_def same_secret_def\<close>)
  next
    case (inspected cs r global t0 cs' t archs)
    have c: "call_ok w s (Inspecting r global t0)" using calls inspected(2) by simp
    let ?h = "computeHash (w_sha256 w) (rq_ref r) (rq_json r)"
    have "genuine w s' r" using c inspected(1) by (simp add: call_ok_def genuine_def)
    then have "entry_of w s' ?h archs (clock s + result_ttl) global"
      unfolding entry_of_def using inspected c by (intro exI[of _ r] exI[of _ t] exI[of _ "clock s"]) auto
    moreover have "current s' global" using c inspected(1) by (simp add: call_ok_def current_def)
    ultimately have "entry_ok w s' (?h, archs, clock s + result_ttl)" by (auto simp: entry_ok_def)
    then show ?thesis
      by (intro quiet)
        (use inspected inv cache_store_frame[OF inv(1), of "clock s" ?h "rq_skip r" archs] in \<open>auto simp: grows_def same_secret_def\<close>)
  next
    case (failed cs r global t0 cs')
    show ?thesis by (rule quiet) (use failed inv in \<open>auto simp: grows_def same_secret_def\<close>)
  next
    case (store_secret secret)
    have g: "grows s s'" using store_secret by (auto simp: grows_def)
    have "call_ok w s' c" if "c \<in> set (calls s)" for c
      using call_ok_mono[OF calls[OF that] g] that store_secret by (auto simp: list_ex_iff)
    moreover have "entry_ok w s' x" if "x \<in> set (lru_items ?c)" for x
      using entry_ok_mono[OF _ g, of w x] that assms(2) store_secret by (auto simp: image_inv_def list_all_iff)
    ultimately show ?thesis using store_secret inv by (auto simp: image_inv_def list_all_iff storeGlobalPullSecret_def)
  next
    case (clear_cache n)
    have g: "grows s s'" "same_secret s s'" using clear_cache by (auto simp: grows_def same_secret_def)
    have "call_ok w s' c" if "c \<in> set (calls s)" for c using call_ok_mono[OF calls[OF that] g(1)] g(2) by simp
    then show ?thesis using clear_cache inv known lru_Purge_inv[OF inv(1)]
      by (auto simp: image_inv_def list_all_iff clearCache_def lru_Purge_def)
  next
    case (sweep kept)
    have "lru_inv (?c\<lparr>lru_items := filter kept (lru_items ?c)\<rparr>)"
      using inv(1) by (auto simp: lru_inv_def distinct_map_filter intro: order_trans[OF length_filter_le])
    then show ?thesis
      by (intro quiet) (use sweep inv in \<open>auto simp: grows_def same_secret_def\<close>)
  qed
qed

lemma image_reachable_inv: "image_reachable w s \<Longrightarrow> image_inv w s"
proof (induction rule: image_reachable.induct)
  case start
  show ?case by (simp add: image_inv_def image_start_def newImageFacade_def newCacheProxy_def lru_inv_def)
next
  case (step s s')
  then show ?case by (blast intro: image_step_inv)
qed

section \<open>Keys identify requests\<close>

lemma hex_digit_inj: "hex_digit a = hex_digit b \<Longrightarrow> a < 16 \<Longrightarrow> b < 16 \<Longrightarrow> a = b"
proof -
  assume eq: "hex_digit a = hex_digit b" and a: "a < 16" "b < 16"
  have "distinct ''0123456789abcdef''" by simp
  then show ?thesis using nth_eq_iff_index_eq[of "''0123456789abcdef''" a b] eq a by (simp add: hex_digit_def)
qed

lemma hex_encode_inj: "hex_encode s = hex_encode t \<Longrightarrow> s = t"
proof (induction s arbitrary: t)
  case Nil
  then show ?case by (cases t) (simp_all add: hex_encode_def)
next
  case (Cons c s)
  then obtain d t' where t: "t = d # t'" by (cases t) (simp_all add: hex_encode_def)
  have digits: "hex_digit (of_char c div 16) = hex_digit (of_char d div 16)" "hex_digit (of_char c mod 16) = hex_digit (of_char d mod 16)"
    "hex_encode s = hex_encode t'" using Cons.prems t by (simp_all add: hex_encode_def)
  have "(of_char x :: nat) div 16 < 16" for x :: char by (rule less_mult_imp_div_less) simp
  then have "(of_char c :: nat) div 16 = of_char d div 16" "(of_char c :: nat) mod 16 = of_char d mod 16"
    using hex_digit_inj digits by simp_all
  then have "(of_char c :: nat) = of_char d" by (metis div_mult_mod_eq)
  then show ?case using Cons.IH[OF digits(3)] t by simp
qed

lemma split_at_last_nul:
  assumes "u @ [CHR 0x00] @ v = u' @ [CHR 0x00] @ v'" "CHR 0x00 \<notin> set v" "CHR 0x00 \<notin> set v'"
  shows "u = u'" "v = v'"
proof -
  have "rev v @ CHR 0x00 # rev u = rev v' @ CHR 0x00 # rev u'" using arg_cong[OF assms(1), of rev] by simp
  moreover have "takeWhile (\<lambda>c. c \<noteq> CHR 0x00) (rev w @ CHR 0x00 # x) = rev w" if "CHR 0x00 \<notin> set w" for w x
    using that by (subst takeWhile_append2) auto
  ultimately have "rev v = rev v'" using assms(2,3) by metis
  then show "v = v'" by simp
  then show "u = u'" using assms(1) by simp
qed

text \<open>JSON escapes control characters.\<close>

definition json_has_no_nul :: "image_world \<Rightarrow> bool" where
  "json_has_no_nul w \<longleftrightarrow> (\<forall>t ac json. json_Marshal_auths (w_lib w t) ac = Inr json \<longrightarrow> CHR 0x00 \<notin> set json)"

text \<open>C8: In every interleaving of lookups, inspections, expiry and updates of the global pull secret, an answer from
  the cache is what an inspection of the same image with the same credentials of a pod found, at most six hours and one
  inspection ago, with a global pull secret of the cluster; with the present one unless a secret was replaced while an
  inspection ran or is being replaced right now; and the cache never holds more than 256 results. The hash must not
  collide on the inputs it was given.\<close>

theorem cached_answers_are_genuine:
  assumes "image_reachable w s" "json_has_no_nul w"
    and "marshaledImagePullSecrets (w_lib w (clock s)) visits ref secrets = Inr json"
    and "inj_on (w_sha256 w) (insert (ref @ [CHR 0x00] @ json) (hashed s))"
    and "fst (cache_lookup (w_sha256 w) (w_lib w (clock s)) visits (clock s) ref skip secrets (results (the_facade s))) = Hit archs"
  shows "length (lru_items (results (the_facade s))) \<le> 256 \<and>
    (\<exists>secrets' visits' t' t global.
       marshaledImagePullSecrets (w_lib w t') visits' ref secrets' = Inr json \<and>
       observed w t global ref secrets' archs \<and> t \<le> clock s \<and> clock s \<le> t + slowest s + result_ttl \<and>
       global \<in> past_secrets s \<and>
       (\<not> overlapped s \<and> purging s = 0 \<longrightarrow> global = globalPullSecret (the_facade s)))"
proof -
  let ?c = "results (the_facade s)" and ?h = "computeHash (w_sha256 w) ref json"
  have inv: "image_inv w s" by (rule image_reachable_inv[OF assms(1)])
  have "exp_lookup (clock s) ?c ?h = Some archs"
    using assms(3,5) expirable.get_value[of ?c "clock s" ?h] inv
    by (auto simp: cache_lookup_def image_inv_def Let_def split: prod.splits option.splits if_splits)
  then obtain e where e: "map_of (lru_items ?c) ?h = Some (archs, e)" "clock s \<le> e"
    by (auto simp: exp_lookup_def split: option.splits if_splits)
  then have "entry_ok w s (?h, archs, e)" using inv map_of_SomeD[OF e(1)] by (simp add: image_inv_def list_all_iff)
  then obtain global r t added where entry: "?h = computeHash (w_sha256 w) (rq_ref r) (rq_json r)" "genuine w s r"
    "observed w t global (rq_ref r) (rq_secrets r) archs" "t \<le> added" "added \<le> clock s" "added - t \<le> slowest s"
    "e = added + result_ttl" "current s global" unfolding entry_ok_def entry_of_def by auto
  have "w_sha256 w (ref @ [CHR 0x00] @ json) = w_sha256 w (hash_input r)"
    using entry(1) hex_encode_inj by (simp add: computeHash_def)
  then have same: "ref @ [CHR 0x00] @ json = rq_ref r @ [CHR 0x00] @ rq_json r"
    using inj_onD[OF assms(4)] entry(2) by (simp add: genuine_def)
  obtain t' visits' where r: "marshaledImagePullSecrets (w_lib w t') visits' (rq_ref r) (rq_secrets r) = Inr (rq_json r)"
    using entry(2) by (auto simp: genuine_def)
  have "CHR 0x00 \<notin> set json" "CHR 0x00 \<notin> set (rq_json r)"
    using assms(2,3) r by (auto simp: json_has_no_nul_def marshaledImagePullSecrets_def marshallAuths_def)
  note parts = split_at_last_nul[OF same this]
  have "marshaledImagePullSecrets (w_lib w t') visits' ref (rq_secrets r) = Inr json \<and>
      observed w t global ref (rq_secrets r) archs \<and> t \<le> clock s \<and> clock s \<le> t + slowest s + result_ttl \<and>
      global \<in> past_secrets s \<and> (\<not> overlapped s \<and> purging s = 0 \<longrightarrow> global = globalPullSecret (the_facade s))"
    using r parts e(2) entry(3-8) by (simp add: current_def)
  moreover have "length (lru_items ?c) \<le> 256" using inv by (simp add: image_inv_def lru_inv_def)
  ultimately show ?thesis by blast
qed

section \<open>A registry that wants the right secret\<close>

definition guarded_registry :: "string \<Rightarrow> registry_lib" where
  "guarded_registry secret = (sample_registry sample_index)\<lparr>lib_NewImageSource :=
     \<lambda>sys t ref. if map_option contents (t 7) = Some secret then Inr ref else Inl (GoError ''unauthorized'')\<rparr>"

definition guarded_world :: image_world where
  "guarded_world = \<lparr>w_sha256 = \<lambda>s. s, w_lib = \<lambda>t. guarded_registry ''old'', w_kernel = \<lambda>t. sample_memfd, w_environ = \<lambda>key. None\<rparr>"

abbreviation sample_image :: string where
  "sample_image \<equiv> ''quay.io/app:v1''"

abbreviation sample_request :: request where
  "sample_request \<equiv> \<lparr>rq_ref = sample_image, rq_skip = False, rq_secrets = [], rq_json = ''{}''\<rparr>"

abbreviation sample_key :: string where
  "sample_key \<equiv> computeHash (\<lambda>s. s) sample_image ''{}''"

lemma guarded_auth: "same_auth (guarded_registry secret) sample_auth_lib"
  by (simp add: same_auth_def guarded_registry_def sample_registry_def)

lemma guarded_no_credentials: "marshaledImagePullSecrets (guarded_registry secret) [] sample_image [] = Inr ''{}''"
proof -
  have "marshaledImagePullSecrets sample_auth_lib [] sample_image [] = Inr ''{}''"
    by (simp add: marshaledImagePullSecrets_def expandGlobs_def marshallAuths_def sample_auth_lib_def)
  then show ?thesis by (simp only: same_auth_credentials[OF guarded_auth])
qed

lemma guarded_auth_file:
  "global \<noteq> '''' \<Longrightarrow> CHR 0x00 \<notin> set global \<Longrightarrow>
     createAuthFile sample_memfd (guarded_registry secret) [''*.io''] sample_image [global] (fds idle_process) =
       (Inr 7, [7 \<mapsto> \<lparr>contents = global, write_sealed = True\<rparr>])"
  by (simp add: createAuthFile_def same_auth_credentials[OF guarded_auth] sample_credentials writeMemFile_def
      sample_memfd_def idle_process_def Let_def)

lemma guarded_source:
  "resolveAndOpenImageSource (guarded_registry secret) sys [7 \<mapsto> \<lparr>contents = global, write_sealed = True\<rparr>] sample_image =
     (if global = secret then Inr (Some (''//'' @ sample_image)) else Inl (GoError ''unauthorized''))"
  by (simp add: resolveAndOpenImageSource_def guarded_registry_def sample_registry_def trim_prefix_def FormatPullErrors_def
      multierr_Format_def)

lemma guarded_supports: "inspect_source (guarded_registry secret) sys src = Some (Inr {''amd64'', ''arm64''})"
proof -
  have "\<not> list_ex platformless sample_index" by (simp add: sample_index_def manifest_for_def platformless_def)
  then have "source_supports (guarded_registry secret) sys src {''amd64'', ''arm64''}"
    unfolding source_supports_def
    by (simp add: guarded_registry_def sample_registry_def MIMETypeIsMultiImage_def isBundleImage_def has_key_def sample_archs)
  moreover have "rejections_explained (guarded_registry secret)"
    by (simp add: rejections_explained_def guarded_registry_def sample_registry_def)
  ultimately show ?thesis by (simp add: inspect_source_success)
qed

lemma guarded_inspection:
  assumes "global \<noteq> ''''" "CHR 0x00 \<notin> set global"
  shows "fst (inspector_GetCompatibleArchitecturesSet sample_memfd (\<lambda>key. None) (guarded_registry secret) [''*.io''] global sample_image [] idle_process) =
     Some (if global = secret then Inr {''amd64'', ''arm64''} else Inl (GoError ''unauthorized''))"
proof -
  obtain sys cfg where "system_context_for (\<lambda>key. None) 7 (sysconf idle_process) = (sys, cfg)" by fastforce
  from inspector_unfold[OF guarded_auth_file[OF assms] sample_reference this]
  show ?thesis by (simp add: guarded_source guarded_supports)
qed

lemma guarded_observed: "observed guarded_world 0 ''old'' sample_image [] {''amd64'', ''arm64''}"
  unfolding observed_def using guarded_inspection[of "''old''" "''old''"] by (auto simp: guarded_world_def)

definition sample_state ::
  "string \<Rightarrow> (string \<times> string set \<times> nat) list \<Rightarrow> call list \<Rightarrow> nat \<Rightarrow> string set \<Rightarrow> string set \<Rightarrow> bool \<Rightarrow> image_state" where
  "sample_state global items cs n past inputs overlap =
     \<lparr>clock = 0, the_facade = \<lparr>globalPullSecret = global, results = \<lparr>lru_size = 256, lru_items = items\<rparr>\<rparr>, calls = cs, purging = n,
      past_secrets = past, hashed = inputs, slowest = 0, overlapped = overlap\<rparr>"

lemma step_store:
  "image_step w (sample_state g items cs n past inputs overlap)
     (sample_state secret items cs (Suc n) (insert secret past) inputs (overlap \<or> list_ex is_inspecting cs))"
  using store_secret[of w "sample_state g items cs n past inputs overlap" secret]
  by (simp add: sample_state_def storeGlobalPullSecret_def)

lemma step_clear:
  "image_step w (sample_state g items cs (Suc n) past inputs overlap) (sample_state g [] cs n past inputs overlap)"
  using clear_cache[of "sample_state g items cs (Suc n) past inputs overlap" n w]
  by (simp add: sample_state_def clearCache_def lru_Purge_def)

lemma step_miss:
  "image_step guarded_world (sample_state g [] cs n past inputs overlap)
     (sample_state g [] (Missed sample_request # cs) n past (insert (hash_input sample_request) inputs) overlap)"
proof -
  let ?s = "sample_state g [] cs n past inputs overlap"
  have "cache_lookup (w_sha256 guarded_world) (w_lib guarded_world (clock ?s)) [] (clock ?s) sample_image False []
      (results (the_facade ?s)) = (Miss sample_key, results (the_facade ?s))"
    by (simp add: cache_lookup_def guarded_world_def guarded_no_credentials exp_Get_def sample_state_def)
  from miss[OF this _ refl, of "''{}''"] show ?thesis
    by (simp add: guarded_world_def guarded_no_credentials) (simp add: sample_state_def)
qed

lemma step_begin:
  "image_step w (sample_state g items [Missed r] n past inputs overlap) (sample_state g items [Inspecting r g 0] n past inputs overlap)"
  using begin_inspection[of "sample_state g items [Missed r] n past inputs overlap" "[]" r "[]" w]
  by (simp add: sample_state_def)

lemma step_inspected:
  "image_step guarded_world (sample_state g [] [Inspecting sample_request ''old'' 0] n past inputs overlap)
     (sample_state g [(sample_key, {''amd64'', ''arm64''}, result_ttl)] [] n past inputs overlap)"
  using inspected[of "sample_state g [] [Inspecting sample_request ''old'' 0] n past inputs overlap" "[]" sample_request "''old''" 0 "[]" 0
      guarded_world "{''amd64'', ''arm64''}"] guarded_observed
  by (simp add: sample_state_def cache_store_def exp_Add_def lru_Add_def guarded_world_def)

lemma asked_reachable:
  "image_reachable guarded_world (sample_state ''old'' [] [Inspecting sample_request ''old'' 0] 0 {''old'', ''''} {hash_input sample_request} False)"
proof -
  have "image_start = sample_state '''' [] [] 0 {''''} {} False"
    by (simp add: image_start_def sample_state_def newImageFacade_def newCacheProxy_def)
  then have "image_reachable guarded_world (sample_state '''' [] [] 0 {''''} {} False)"
    using image_reachable.start[of guarded_world] by simp
  from step[OF step[OF this step_store[where secret = "''old''"]] step_clear]
  have "image_reachable guarded_world (sample_state ''old'' [] [] 0 {''old'', ''''} {} False)" by simp
  from step[OF step[OF this step_miss] step_begin] show ?thesis .
qed

lemma answered_reachable:
  "image_reachable guarded_world
     (sample_state ''old'' [(sample_key, {''amd64'', ''arm64''}, result_ttl)] [] 0 {''old'', ''''} {hash_input sample_request} False)"
  by (rule step[OF asked_reachable step_inspected])

lemma sample_hit:
  "fst (cache_lookup (w_sha256 guarded_world) (w_lib guarded_world (clock s)) [] (clock s) sample_image False [] (results (the_facade s))) =
     Hit {''amd64'', ''arm64''}"
  if "s = sample_state g [(sample_key, {''amd64'', ''arm64''}, result_ttl)] cs n past inputs overlap"
  unfolding that by (simp add: cache_lookup_def Let_def guarded_world_def guarded_no_credentials exp_Get_def sample_state_def)

text \<open>C40: A global pull secret replaced during an inspection leaves a result of the old secret behind: the update
  clears the cache before the inspection adds what it found. In this run the registry rejects the new secret, the update
  is complete, and yet the cache answers.\<close>

theorem old_secret_answers_survive:
  "\<exists>s archs. image_reachable guarded_world s \<and> purging s = 0 \<and> calls s = [] \<and> globalPullSecret (the_facade s) = ''new'' \<and>
     fst (cache_lookup (w_sha256 guarded_world) (w_lib guarded_world (clock s)) [] (clock s) sample_image False []
       (results (the_facade s))) = Hit archs \<and>
     fst (inspector_GetCompatibleArchitecturesSet (w_kernel guarded_world (clock s)) (w_environ guarded_world)
       (w_lib guarded_world (clock s)) [''*.io''] ''new'' sample_image [] idle_process) = Some (Inl (GoError ''unauthorized''))"
proof -
  let ?s = "sample_state ''new'' [(sample_key, {''amd64'', ''arm64''}, result_ttl)] [] 0 {''new'', ''old'', ''''} {hash_input sample_request} True"
  have "image_reachable guarded_world ?s"
    using step[OF step[OF step[OF asked_reachable step_store[where secret = "''new''"]] step_clear] step_inspected] by simp
  moreover have "purging ?s = 0" "calls ?s = []" "globalPullSecret (the_facade ?s) = ''new''" by (simp_all add: sample_state_def)
  moreover have "fst (inspector_GetCompatibleArchitecturesSet (w_kernel guarded_world (clock ?s)) (w_environ guarded_world)
      (w_lib guarded_world (clock ?s)) [''*.io''] ''new'' sample_image [] idle_process) = Some (Inl (GoError ''unauthorized''))"
    using guarded_inspection[of "''new''" "''old''"] by (simp add: guarded_world_def)
  ultimately show ?thesis using sample_hit[OF refl] by blast
qed

theorem cached_answers_are_genuine_witness:
  "json_has_no_nul guarded_world \<and> inj (w_sha256 guarded_world) \<and>
   (\<exists>s. image_reachable guarded_world s \<and>
      fst (cache_lookup (w_sha256 guarded_world) (w_lib guarded_world (clock s)) [] (clock s) sample_image False []
        (results (the_facade s))) = Hit {''amd64'', ''arm64''} \<and>
      (\<exists>secrets' t. observed guarded_world t (globalPullSecret (the_facade s)) sample_image secrets' {''amd64'', ''arm64''}))"
proof -
  let ?s = "sample_state ''old'' [(sample_key, {''amd64'', ''arm64''}, result_ttl)] [] 0 {''old'', ''''} {hash_input sample_request} False"
  have nul: "json_has_no_nul guarded_world"
    by (auto simp: json_has_no_nul_def guarded_world_def guarded_registry_def sample_registry_def sample_auth_lib_def
        split: option.splits)
  have inj: "inj (w_sha256 guarded_world)" by (simp add: guarded_world_def)
  have json: "marshaledImagePullSecrets (w_lib guarded_world (clock ?s)) [] sample_image [] = Inr ''{}''"
    by (simp add: guarded_world_def guarded_no_credentials)
  note hit = sample_hit[OF refl, of "''old''" "[]" 0 "{''old'', ''''}" "{hash_input sample_request}" False]
  have "\<not> overlapped ?s \<and> purging ?s = 0" by (simp add: sample_state_def)
  then show ?thesis
    using nul inj answered_reachable hit
      cached_answers_are_genuine[OF answered_reachable nul json inj_on_subset[OF inj subset_UNIV] hit] by blast
qed

section \<open>Calls that nothing interrupts\<close>

text \<open>With \<^verbatim>\<open>skipCache\<close> the answer is the inspector's and no result is stored.\<close>

lemma skipped_cache_inspects:
  assumes "marshaledImagePullSecrets lib visits ref secrets = Inr json" "lru_inv c"
  shows "fst (cache_GetCompatibleArchitecturesSet sha lib visits inspect now ref True secrets c) = inspect ref secrets \<and>
    exp_lookup now (snd (cache_GetCompatibleArchitecturesSet sha lib visits inspect now ref True secrets c)) = exp_lookup now c"
proof -
  obtain v d where g: "exp_Get now (computeHash sha ref json) c = (v, d)"
    by (cases "exp_Get now (computeHash sha ref json) c")
  then have "cache_lookup sha lib visits now ref True secrets c = (Miss (computeHash sha ref json), d)"
    using assms(1) by (cases v) (simp_all add: cache_lookup_def)
  moreover have "exp_lookup now d = exp_lookup now c"
    using expirable.get_look[OF assms(2), of now "computeHash sha ref json"] g by simp
  ultimately show ?thesis
    by (auto simp: cache_GetCompatibleArchitecturesSet_def cache_store_def split: option.splits sum.splits)
qed

text \<open>Two calls for the same image and credentials within six hours inspect the registry once.\<close>

lemma second_call_hits:
  assumes "marshaledImagePullSecrets lib visits ref secrets = Inr json" "lru_inv c" "inspect ref secrets = Some (Inr archs)"
    "exp_lookup now c (computeHash sha ref json) = None" "now \<le> later" "later \<le> now + result_ttl"
  shows "fst (cache_GetCompatibleArchitecturesSet sha lib visits (\<lambda>ref secrets. None) later ref False secrets
     (snd (cache_GetCompatibleArchitecturesSet sha lib visits inspect now ref False secrets c))) = Some (Inr archs)"
proof -
  let ?h = "computeHash sha ref json"
  have get: "exp_Get now ?h c = (None, c)"
    using assms(4) by (auto simp: exp_Get_def exp_lookup_def split: option.splits if_splits)
  then have first: "snd (cache_GetCompatibleArchitecturesSet sha lib visits inspect now ref False secrets c) =
      exp_Add result_ttl now ?h archs c"
    using assms(1,3) by (simp add: cache_GetCompatibleArchitecturesSet_def cache_lookup_def cache_store_def)
  have "exp_Get later ?h (exp_Add result_ttl now ?h archs c) =
      (Some archs, move_to_front ?h (archs, now + result_ttl) (exp_Add result_ttl now ?h archs c))"
    using assms(6) lru_Add_same[OF assms(2)] by (simp add: exp_Get_def exp_Add_def)
  then show ?thesis
    unfolding first using assms(1) by (simp add: cache_GetCompatibleArchitecturesSet_def cache_lookup_def Let_def)
qed

end
