(* ===== verification/Informers.thy ===== *)
theory Informers
  imports Image_Cache Reconciler
begin

text \<open>
  The two informers that feed the operand: the one that keeps the cluster-wide configuration at hand
  (\<^verbatim>\<open>pkg/informers/clusterpodplacementconfig\<close>) and the one that hands the global pull secret to the image facade
  (\<^verbatim>\<open>internal/controller/podplacement/global_pull_secret.go\<close>). The informer library calls the handlers with the objects
  it saw; after a gap in its watch a deletion arrives as \<^verbatim>\<open>DeletedFinalStateUnknown\<close>.
\<close>

section \<open>Notifications\<close>

text \<open>An object as the handlers get it; a configuration comes with its resource version.\<close>

datatype informer_object =
    ConfigObject string ClusterPodPlacementConfig
  | SecretObject secret
  | DeletedFinalStateUnknown string

datatype notification =
    Added informer_object
  | Updated informer_object informer_object
  | Deleted informer_object

section \<open>The configuration store\<close>

type_synonym config_store = "ClusterPodPlacementConfig option"

definition StoreClusterPodPlacementConfig :: "ClusterPodPlacementConfig \<Rightarrow> config_store \<Rightarrow> config_store" where
  "StoreClusterPodPlacementConfig config st = Some config"

definition DeleteClusterPodPlacementConfig :: "config_store \<Rightarrow> config_store" where
  "DeleteClusterPodPlacementConfig st = None"

definition GetClusterPodPlacementConfig :: "config_store \<Rightarrow> ClusterPodPlacementConfig option" where
  "GetClusterPodPlacementConfig st = st"

definition onAdd :: "informer_object \<Rightarrow> config_store \<Rightarrow> config_store" where
  "onAdd obj st = (case obj of ConfigObject v c \<Rightarrow> StoreClusterPodPlacementConfig c st | _ \<Rightarrow> st)"

definition onDelete :: "informer_object \<Rightarrow> config_store \<Rightarrow> config_store" where
  "onDelete obj st = (case obj of ConfigObject v c \<Rightarrow> DeleteClusterPodPlacementConfig st | _ \<Rightarrow> st)"

definition onUpdate :: "informer_object \<Rightarrow> informer_object \<Rightarrow> config_store \<Rightarrow> config_store" where
  "onUpdate oldobj newobj st =
     (case oldobj of
        ConfigObject oldVersion oldConfig \<Rightarrow>
          (case newobj of
             ConfigObject newVersion newConfig \<Rightarrow> if oldVersion = newVersion then st else onAdd newobj st
           | _ \<Rightarrow> st)
      | _ \<Rightarrow> st)"

primrec syncer_handle :: "notification \<Rightarrow> config_store \<Rightarrow> config_store" where
  "syncer_handle (Added obj) st = onAdd obj st"
| "syncer_handle (Updated oldobj newobj) st = onUpdate oldobj newobj st"
| "syncer_handle (Deleted obj) st = onDelete obj st"

text \<open>What happens to the configuration in the cluster, and what the informer makes of it. A change that is not
  possible does not happen; \<open>Resynced\<close> is the periodic repetition of the known object.\<close>

datatype config_change =
    Created string ClusterPodPlacementConfig
  | Modified string ClusterPodPlacementConfig
  | Removed
  | RemovedUnseen
  | Resynced

type_synonym stored_config = "(string \<times> ClusterPodPlacementConfig) option"

fun notify :: "config_change \<Rightarrow> stored_config \<Rightarrow> notification option \<times> stored_config" where
  "notify (Created v c) None = (Some (Added (ConfigObject v c)), Some (v, c))"
| "notify (Modified v c) (Some (v0, c0)) =
     (if v = v0 then (None, Some (v0, c0))
      else (Some (Updated (ConfigObject v0 c0) (ConfigObject v c)), Some (v, c)))"
| "notify Removed (Some (v0, c0)) = (Some (Deleted (ConfigObject v0 c0)), None)"
| "notify RemovedUnseen (Some (v0, c0)) = (Some (Deleted (DeletedFinalStateUnknown ''cluster'')), None)"
| "notify Resynced (Some (v0, c0)) = (Some (Updated (ConfigObject v0 c0) (ConfigObject v0 c0)), Some (v0, c0))"
| "notify _ s = (None, s)"

fun run_changes :: "config_change list \<Rightarrow> stored_config \<Rightarrow> config_store \<Rightarrow> stored_config \<times> config_store" where
  "run_changes [] s st = (s, st)"
| "run_changes (ch # chs) s st =
     (case notify ch s of
        (None, s') \<Rightarrow> run_changes chs s' st
      | (Some n, s') \<Rightarrow> run_changes chs s' (syncer_handle n st))"

lemmas syncer_defs = onAdd_def onUpdate_def onDelete_def StoreClusterPodPlacementConfig_def DeleteClusterPodPlacementConfig_def

lemma one_change:
  assumes "notify ch s = (n, s')" "s \<noteq> None \<longrightarrow> st = map_option snd s"
  shows "s' \<noteq> None \<longrightarrow> (case n of None \<Rightarrow> st | Some x \<Rightarrow> syncer_handle x st) = map_option snd s'"
    and "ch \<noteq> RemovedUnseen \<Longrightarrow> st = map_option snd s \<Longrightarrow> (case n of None \<Rightarrow> st | Some x \<Rightarrow> syncer_handle x st) = map_option snd s'"
  using assms by (cases "(ch, s)" rule: notify.cases; auto simp: syncer_defs split: if_splits)+

lemma run_changes_mirrors:
  "run_changes chs s st = (s', st') \<Longrightarrow> s \<noteq> None \<longrightarrow> st = map_option snd s \<Longrightarrow>
     (s' \<noteq> None \<longrightarrow> st' = map_option snd s') \<and>
     (RemovedUnseen \<notin> set chs \<and> st = map_option snd s \<longrightarrow> st' = map_option snd s')"
proof (induction chs arbitrary: s st)
  case (Cons ch chs)
  obtain n s1 where n: "notify ch s = (n, s1)" by (cases "notify ch s")
  let ?st = "case n of None \<Rightarrow> st | Some x \<Rightarrow> syncer_handle x st"
  have "run_changes chs s1 ?st = (s', st')" using Cons.prems(1) n by (cases n) simp_all
  note IH = Cons.IH[OF this one_change(1)[OF n Cons.prems(2)]]
  then show ?case using one_change(2)[OF n Cons.prems(2)] by (cases "ch = RemovedUnseen") auto
qed simp

text \<open>C26: The controllers and the webhook read the configuration that is in the cluster: after any changes, while there
  is a configuration, the store holds its latest version; and when there is none the store is empty, unless the
  informer missed the deletion.\<close>

theorem config_store_mirrors:
  assumes "run_changes changes None None = (in_cluster, st)" "in_cluster \<noteq> None \<or> RemovedUnseen \<notin> set changes"
  shows "GetClusterPodPlacementConfig st = map_option snd in_cluster"
  using run_changes_mirrors[OF assms(1)] assms(2) by (auto simp: GetClusterPodPlacementConfig_def)

definition first_config :: ClusterPodPlacementConfig where
  "first_config = \<lparr>cppc_Name = ''cluster'', cppc_Annotations = None, cppc_Finalizers = [], cppc_Deleting = False,
     LogVerbosity = ''Normal'', NamespaceSelector = None, cppc_Plugins = None, FallbackArchitecture = '''',
     cppc_Status = \<lparr>Conditions = None, available = False, progressing = False, degraded = False, deprovisioning = False,
       podPlacementControllerNotReady = False, podPlacementWebhookNotReady = False,
       mutatingWebhookConfigurationNotAvailable = False, canDeployMutatingWebhook = False\<rparr>\<rparr>"

theorem config_store_mirrors_witness:
  "\<exists>in_cluster st. run_changes [Created ''1'' first_config, RemovedUnseen, Created ''7'' (first_config\<lparr>LogVerbosity := ''Debug''\<rparr>), Resynced] None None =
     (in_cluster, st) \<and> in_cluster \<noteq> None \<and> GetClusterPodPlacementConfig st = Some (first_config\<lparr>LogVerbosity := ''Debug''\<rparr>)"
proof -
  let ?chs = "[Created ''1'' first_config, RemovedUnseen, Created ''7'' (first_config\<lparr>LogVerbosity := ''Debug''\<rparr>), Resynced]"
  obtain in_cluster st where run: "run_changes ?chs None None = (in_cluster, st)" by (cases "run_changes ?chs None None")
  moreover from run have "in_cluster = Some (''7'', first_config\<lparr>LogVerbosity := ''Debug''\<rparr>)" by auto
  ultimately show ?thesis using config_store_mirrors[OF run] by auto
qed

text \<open>A deletion that arrives as \<^verbatim>\<open>DeletedFinalStateUnknown\<close> is ignored: the operand keeps working with a configuration
  that is gone.\<close>

lemma missed_deletion_ignored:
  "run_changes [Created ''1'' first_config, RemovedUnseen] None None = (None, Some first_config)"
  by (simp add: syncer_defs)

section \<open>The global pull secret\<close>

definition onAddOrUpdate ::
  "(string \<Rightarrow> (string, string) gomap result) \<Rightarrow> string \<Rightarrow> informer_object \<Rightarrow> facade \<Rightarrow> facade" where
  "onAddOrUpdate parse nm obj f =
     (case obj of
        SecretObject s \<Rightarrow>
          if secret_Name s \<noteq> nm then f
          else (case ExtractAuthFromSecret parse s of
                  Inr pullSecret \<Rightarrow> StoreGlobalPullSecret pullSecret f
                | Inl err \<Rightarrow> f)
      | _ \<Rightarrow> f)"

definition pull_secret_onUpdate ::
  "(string \<Rightarrow> (string, string) gomap result) \<Rightarrow> string \<Rightarrow> informer_object \<Rightarrow> informer_object \<Rightarrow> facade \<Rightarrow> facade" where
  "pull_secret_onUpdate parse nm oldobj newobj f =
     (case oldobj of
        SecretObject oldSecret \<Rightarrow>
          (case newobj of
             SecretObject newSecret \<Rightarrow>
               if secret_ResourceVersion oldSecret = secret_ResourceVersion newSecret then f
               else onAddOrUpdate parse nm newobj f
           | _ \<Rightarrow> f)
      | _ \<Rightarrow> f)"

text \<open>\<^verbatim>\<open>Start\<close> registers no handler for deletions.\<close>

primrec pull_secret_handle ::
  "(string \<Rightarrow> (string, string) gomap result) \<Rightarrow> string \<Rightarrow> notification \<Rightarrow> facade \<Rightarrow> facade" where
  "pull_secret_handle parse nm (Added obj) f = onAddOrUpdate parse nm obj f"
| "pull_secret_handle parse nm (Updated oldobj newobj) f = pull_secret_onUpdate parse nm oldobj newobj f"
| "pull_secret_handle parse nm (Deleted obj) f = f"

text \<open>The credentials a notification brings: those of a new readable version of the named secret.\<close>

definition brings :: "(string \<Rightarrow> (string, string) gomap result) \<Rightarrow> string \<Rightarrow> notification \<Rightarrow> string option" where
  "brings parse nm n =
     (let fresh = (case n of
          Added (SecretObject s) \<Rightarrow> Some s
        | Updated (SecretObject old) (SecretObject s) \<Rightarrow>
            if secret_ResourceVersion old = secret_ResourceVersion s then None else Some s
        | _ \<Rightarrow> None)
      in case fresh of
           Some s \<Rightarrow> if secret_Name s = nm then (case ExtractAuthFromSecret parse s of Inr d \<Rightarrow> Some d | Inl e \<Rightarrow> None) else None
         | None \<Rightarrow> None)"

lemma pull_secret_handle_brings:
  "pull_secret_handle parse nm n f = (case brings parse nm n of None \<Rightarrow> f | Some d \<Rightarrow> StoreGlobalPullSecret d f)"
  by (cases n) (auto simp: brings_def onAddOrUpdate_def pull_secret_onUpdate_def split: informer_object.splits sum.splits)

lemma cleared_misses: "cache_lookup sha lib visits now ref skip secrets (clearCache c) \<noteq> (Hit archs, c')"
  by (auto simp: cache_lookup_def clearCache_def lru_Purge_def exp_Get_def Let_def split: sum.splits)

text \<open>C38: Whatever notifications arrive, the facade uses the credentials of the latest readable version of the global
  pull secret, and after each new version the cache starts empty: until an image is inspected again every lookup
  misses.\<close>

theorem pull_secret_tracked:
  assumes "f' = fold (pull_secret_handle parse nm) notifications f"
  shows "globalPullSecret f' = last (globalPullSecret f # List.map_filter (brings parse nm) notifications) \<and>
    (results f' = (if List.map_filter (brings parse nm) notifications = [] then results f else clearCache (results f))) \<and>
    (List.map_filter (brings parse nm) notifications \<noteq> [] \<longrightarrow>
       (\<forall>sha lib visits now ref skip secrets archs c.
          cache_lookup sha lib visits now ref skip secrets (results f') \<noteq> (Hit archs, c)))"
proof -
  have purge: "clearCache (clearCache c) = clearCache c" for c by (simp add: clearCache_def lru_Purge_def)
  have run: "globalPullSecret f' = last (globalPullSecret f # List.map_filter (brings parse nm) notifications) \<and>
    results f' = (if List.map_filter (brings parse nm) notifications = [] then results f else clearCache (results f))"
    unfolding assms
    by (induction notifications arbitrary: f)
      (auto simp: map_filter_simps pull_secret_handle_brings StoreGlobalPullSecret_def storeGlobalPullSecret_def purge Let_def
        split: option.splits)
  then show ?thesis by (auto simp: cleared_misses)
qed

definition docker_secret :: "string \<Rightarrow> string \<Rightarrow> string \<Rightarrow> informer_object" where
  "docker_secret nm version d = SecretObject \<lparr>secret_Name = nm, secret_Type = ''kubernetes.io/dockercfg'',
     secret_Data = Some [''.dockercfg'' \<mapsto> d], secret_ResourceVersion = version\<rparr>"

theorem pull_secret_tracked_witness:
  "globalPullSecret (fold (pull_secret_handle (\<lambda>s. Inr None) ''pull-secret'')
     [Added (docker_secret ''pull-secret'' ''1'' ''old''),
      Updated (docker_secret ''pull-secret'' ''1'' ''old'') (docker_secret ''pull-secret'' ''2'' ''new''),
      Added (docker_secret ''other'' ''3'' ''else''), Deleted (docker_secret ''pull-secret'' ''2'' ''new'')] newImageFacade) = ''new''"
proof -
  let ?ns = "[Added (docker_secret ''pull-secret'' ''1'' ''old''),
    Updated (docker_secret ''pull-secret'' ''1'' ''old'') (docker_secret ''pull-secret'' ''2'' ''new''),
    Added (docker_secret ''other'' ''3'' ''else''), Deleted (docker_secret ''pull-secret'' ''2'' ''new'')]"
  have news: "List.map_filter (brings (\<lambda>s. Inr None) ''pull-secret'') ?ns = [''old'', ''new'']"
    by (simp add: map_filter_simps brings_def docker_secret_def ExtractAuthFromSecret_def)
  have "globalPullSecret (fold (pull_secret_handle (\<lambda>s. Inr None) ''pull-secret'') ?ns newImageFacade) =
      last (globalPullSecret newImageFacade # [''old'', ''new''])"
    using conjunct1[OF pull_secret_tracked[OF refl, of "\<lambda>s. Inr None" "''pull-secret''" ?ns newImageFacade]] unfolding news .
  also have "\<dots> = ''new''" by simp
  finally show ?thesis .
qed

end
