(* ===== verification/Manager_Main.thy ===== *)
theory Manager_Main
  imports Operator_Objects "HOL-Library.Word"
begin

text \<open>
  The entry point of the manager binary (\<^verbatim>\<open>cmd/main.go\<close>): its flags, their validation, the leader election id and
  the parts it starts. The same binary is the operator and each of its operands; which one it becomes is decided by
  the arguments of the deployments of \<open>Operator_Objects\<close>. The command line parser is Go's \<^verbatim>\<open>flag\<close> package; the flags
  registered by \<^verbatim>\<open>klog\<close> and the parser of integers are parameters.
\<close>

section \<open>Flags\<close>

record manager_flags =
  metricsAddr :: string
  probeAddr :: string
  certDir :: string
  globalPullSecretNamespace :: string
  globalPullSecretName :: string
  registryCertificatesConfigMapName :: string
  enableLeaderElection :: bool
  enableClusterPodPlacementConfigOperandWebHook :: bool
  enableClusterPodPlacementConfigOperandControllers :: bool
  enableENoExecEventControllers :: bool
  enableCPPCInformer :: bool
  enableOperator :: bool
  initialLogLevel :: int

definition default_flags :: manager_flags where
  "default_flags =
     \<lparr>metricsAddr = '':8080'', probeAddr = '':8081'', certDir = ''/var/run/manager/tls'',
      globalPullSecretNamespace = ''openshift-config'', globalPullSecretName = ''pull-secret'',
      registryCertificatesConfigMapName = ''image-registry-certificates'', enableLeaderElection = False,
      enableClusterPodPlacementConfigOperandWebHook = False, enableClusterPodPlacementConfigOperandControllers = False,
      enableENoExecEventControllers = False, enableCPPCInformer = False, enableOperator = False,
      initialLogLevel = ToZapLevelInt ''Normal''\<rparr>"

text \<open>\<open>klog_flag\<close> tells for a flag of klog whether it is boolean and which values it takes; \<open>parse_int\<close> is the
  integer parser of the flag package.\<close>

record flag_lib =
  klog_flag :: "string \<Rightarrow> (bool \<times> (string \<Rightarrow> bool)) option"
  parse_int :: "string \<Rightarrow> int option"

definition ParseBool :: "string \<Rightarrow> bool option" where
  "ParseBool s =
     (if s \<in> {''1'', ''t'', ''T'', ''TRUE'', ''true'', ''True''} then Some True
      else if s \<in> {''0'', ''f'', ''F'', ''FALSE'', ''false'', ''False''} then Some False
      else None)"

definition is_bool_flag :: "flag_lib \<Rightarrow> string \<Rightarrow> bool" where
  "is_bool_flag lib nm =
     (nm \<in> {''leader-elect'', ''enable-ppc-webhook'', ''enable-ppc-controllers'', ''enable-operator'',
             ''enable-cppc-informer'', ''enable-enoexec-event-controllers''} \<or>
      (case klog_flag lib nm of Some (b, _) \<Rightarrow> b | None \<Rightarrow> False))"

text \<open>The variables \<^verbatim>\<open>bindFlags\<close> binds; \<open>None\<close> is an unknown flag or a value it does not take.\<close>

definition bind_flag :: "flag_lib \<Rightarrow> string \<Rightarrow> string \<Rightarrow> manager_flags \<Rightarrow> manager_flags option" where
  "bind_flag lib nm v f =
     (if nm = ''metrics-bind-address'' then Some (f\<lparr>metricsAddr := v\<rparr>)
      else if nm = ''health-probe-bind-address'' then Some (f\<lparr>probeAddr := v\<rparr>)
      else if nm = ''leader-elect'' then map_option (\<lambda>b. f\<lparr>enableLeaderElection := b\<rparr>) (ParseBool v)
      else if nm = ''cert-dir'' then Some (f\<lparr>certDir := v\<rparr>)
      else if nm = ''global-pull-secret-namespace'' then Some (f\<lparr>globalPullSecretNamespace := v\<rparr>)
      else if nm = ''global-pull-secret-name'' then Some (f\<lparr>globalPullSecretName := v\<rparr>)
      else if nm = ''registry-certificates-configmap-name'' then Some (f\<lparr>registryCertificatesConfigMapName := v\<rparr>)
      else if nm = ''enable-ppc-webhook''
      then map_option (\<lambda>b. f\<lparr>enableClusterPodPlacementConfigOperandWebHook := b\<rparr>) (ParseBool v)
      else if nm = ''enable-ppc-controllers''
      then map_option (\<lambda>b. f\<lparr>enableClusterPodPlacementConfigOperandControllers := b\<rparr>) (ParseBool v)
      else if nm = ''enable-operator'' then map_option (\<lambda>b. f\<lparr>enableOperator := b\<rparr>) (ParseBool v)
      else if nm = ''enable-cppc-informer'' then map_option (\<lambda>b. f\<lparr>enableCPPCInformer := b\<rparr>) (ParseBool v)
      else if nm = ''enable-enoexec-event-controllers''
      then map_option (\<lambda>b. f\<lparr>enableENoExecEventControllers := b\<rparr>) (ParseBool v)
      else if nm = ''initial-log-level'' then map_option (\<lambda>n. f\<lparr>initialLogLevel := n\<rparr>) (parse_int lib v)
      else case klog_flag lib nm of
             Some (_, takes) \<Rightarrow> if takes v then Some f else None
           | None \<Rightarrow> None)"

text \<open>The name and the value after the dashes of an argument.\<close>

definition flag_parts :: "string \<Rightarrow> string \<times> string option" where
  "flag_parts body =
     (let nm = takeWhile (\<lambda>c. c \<noteq> CHR ''='') body;
          rest = dropWhile (\<lambda>c. c \<noteq> CHR ''='') body
      in (nm, case rest of [] \<Rightarrow> None | _ # v \<Rightarrow> Some v))"

fun parse_args :: "flag_lib \<Rightarrow> string list \<Rightarrow> manager_flags \<Rightarrow> manager_flags option" where
  "parse_args lib [] f = Some f"
| "parse_args lib (s # rest) f =
     (if length s < 2 \<or> hd s \<noteq> CHR ''-'' then Some f
      else if s = ''--'' then Some f
      else let body = (if s ! 1 = CHR ''-'' then drop 2 s else drop 1 s);
               (nm, v) = flag_parts body
           in if hd body = CHR ''-'' \<or> hd body = CHR ''='' then None
              else case v of
                     Some x \<Rightarrow> Option.bind (bind_flag lib nm x f) (parse_args lib rest)
                   | None \<Rightarrow>
                       if is_bool_flag lib nm then Option.bind (bind_flag lib nm ''true'' f) (parse_args lib rest)
                       else (case rest of
                               [] \<Rightarrow> None
                             | x # rest' \<Rightarrow> Option.bind (bind_flag lib nm x f) (parse_args lib rest')))"

section \<open>Validation\<close>

definition btoi :: "bool \<Rightarrow> int" where
  "btoi b = (if b then 1 else 0)"

definition validateFlags :: "manager_flags \<Rightarrow> go_error option" where
  "validateFlags f =
     (if \<not> enableOperator f \<and> \<not> enableClusterPodPlacementConfigOperandControllers f \<and>
         \<not> enableClusterPodPlacementConfigOperandWebHook f \<and> \<not> enableENoExecEventControllers f
      then Some (GoError (''at least one of the following flags must be set: --enable-operator, --enable-ppc-controllers, '' @
             ''--enable-ppc-webhook, --enable-enoexec-event-controllers''))
      else if btoi (enableOperator f) + btoi (enableClusterPodPlacementConfigOperandControllers f) +
              btoi (enableClusterPodPlacementConfigOperandWebHook f) + btoi (enableENoExecEventControllers f) > 1
      then Some (GoError (''only one of the following flags can be set: --enable-operator, --enable-ppc-controllers, '' @
             ''--enable-ppc-webhook, --enable-enoexec-event-controllers''))
      else None)"

section \<open>What is started\<close>

datatype manager_part =
    CPPCSyncerPart
  | OperatorPart
  | PodPlacementConfigWebHookPart
  | OperandControllersPart
  | OperandWebHookPart
  | ENoExecEventControllersPart

record cache_options =
  PodPhase :: "string option"
  DefaultNamespaces :: "string list option"

definition leaderID :: "manager_flags \<Rightarrow> string" where
  "leaderID f =
     (let i0 = ''208d7abd.multiarch.openshift.io'';
          i1 = (if enableOperator f then ''operator-'' @ i0 else i0);
          i2 = (if enableClusterPodPlacementConfigOperandControllers f then ''ppc-controllers-'' @ i1 else i1)
      in if enableENoExecEventControllers f then ''enoexecevent-controllers-'' @ i2 else i2)"

definition cacheOpts :: "string \<Rightarrow> manager_flags \<Rightarrow> cache_options" where
  "cacheOpts ns f =
     \<lparr>PodPhase = (if enableClusterPodPlacementConfigOperandControllers f then Some ''Pending'' else None),
      DefaultNamespaces = (if enableENoExecEventControllers f then Some [ns] else None)\<rparr>"

definition manager_parts :: "manager_flags \<Rightarrow> manager_part list" where
  "manager_parts f =
     (if enableCPPCInformer f then [CPPCSyncerPart] else []) @
     (if enableOperator f then [OperatorPart, PodPlacementConfigWebHookPart] else []) @
     (if enableClusterPodPlacementConfigOperandControllers f then [OperandControllersPart] else []) @
     (if enableClusterPodPlacementConfigOperandWebHook f then [OperandWebHookPart] else []) @
     (if enableENoExecEventControllers f then [ENoExecEventControllersPart] else [])"

text \<open>\<^verbatim>\<open>zapcore.Level(int8(-initialLogLevel))\<close>\<close>

definition zap_level :: "int \<Rightarrow> 8 word" where
  "zap_level n = word_of_int (- n)"

record manager =
  mgr_LeaderElectionID :: "string option"
  mgr_Cache :: cache_options
  mgr_Parts :: "manager_part list"
  mgr_LogLevel :: "8 word"

text \<open>A bad command line ends the process with code 2, invalid flags with code 1.\<close>

definition manager_main :: "flag_lib \<Rightarrow> string \<Rightarrow> string list \<Rightarrow> nat + manager" where
  "manager_main lib ns args =
     (case parse_args lib args default_flags of
        None \<Rightarrow> Inl 2
      | Some f \<Rightarrow>
          (case validateFlags f of
             Some e \<Rightarrow> Inl 1
           | None \<Rightarrow>
               Inr \<lparr>mgr_LeaderElectionID = (if enableLeaderElection f then Some (leaderID f) else None),
                     mgr_Cache = cacheOpts ns f, mgr_Parts = manager_parts f, mgr_LogLevel = zap_level (initialLogLevel f)\<rparr>))"

text \<open>\<^verbatim>\<open>ppcCacheSynced\<close> of the webhook: the informer is looked up until it exists, then only asked.\<close>

definition webhook_ppcCacheSynced :: "(unit result) \<Rightarrow> bool \<Rightarrow> bool \<Rightarrow> bool \<times> bool" where
  "webhook_ppcCacheSynced informer hasSynced obtained =
     (if obtained then (hasSynced, True)
      else case informer of Inl err \<Rightarrow> (False, False) | Inr _ \<Rightarrow> (hasSynced, True))"

section \<open>One role per process\<close>

definition roles :: "manager_flags \<Rightarrow> bool list" where
  "roles f = [enableOperator f, enableClusterPodPlacementConfigOperandControllers f,
     enableClusterPodPlacementConfigOperandWebHook f, enableENoExecEventControllers f]"

lemma validateFlags_iff: "validateFlags f = None \<longleftrightarrow> length (filter id (roles f)) = 1"
  by (auto simp: validateFlags_def roles_def btoi_def)

text \<open>Processes with different roles never compete for the same lease.\<close>

lemma leader_ids_distinct:
  assumes "validateFlags f = None" "validateFlags g = None" "leaderID f = leaderID g"
  shows "roles f = roles g"
  using assms by (auto simp: validateFlags_iff roles_def leaderID_def split: if_splits)

section \<open>The deployments start\<close>

text \<open>The integer parser reads the decimal notation of a number of 64 bits.\<close>

definition reads_decimals :: "flag_lib \<Rightarrow> bool" where
  "reads_decimals lib \<longleftrightarrow> (\<forall>n. 0 \<le> n \<and> n < 2 ^ 63 \<longrightarrow> parse_int lib (show_int n) = Some n)"

lemma parse_address_flags:
  "parse_args lib (''--health-probe-bind-address=:8081'' # ''--metrics-bind-address=:8443'' # rest) f =
     parse_args lib rest (f\<lparr>probeAddr := '':8081'', metricsAddr := '':8443''\<rparr>)"
  by (simp add: flag_parts_def bind_flag_def)

lemma parse_log_level:
  assumes "parse_int lib v = Some n"
  shows "parse_args lib ((''--initial-log-level='' @ v) # rest) f = parse_args lib rest (f\<lparr>initialLogLevel := n\<rparr>)"
  using assms by (simp add: flag_parts_def bind_flag_def)

lemma parse_role_flags:
  "parse_args lib (''--leader-elect'' # rest) f = parse_args lib rest (f\<lparr>enableLeaderElection := True\<rparr>)"
  "parse_args lib (''--enable-ppc-webhook'' # rest) f =
     parse_args lib rest (f\<lparr>enableClusterPodPlacementConfigOperandWebHook := True\<rparr>)"
  "parse_args lib (''--enable-ppc-controllers'' # rest) f =
     parse_args lib rest (f\<lparr>enableClusterPodPlacementConfigOperandControllers := True\<rparr>)"
  "parse_args lib (''--enable-cppc-informer'' # rest) f = parse_args lib rest (f\<lparr>enableCPPCInformer := True\<rparr>)"
  "parse_args lib (''--enable-enoexec-event-controllers'' # rest) f = parse_args lib rest (f\<lparr>enableENoExecEventControllers := True\<rparr>)"
  by (simp_all add: flag_parts_def bind_flag_def is_bool_flag_def ParseBool_def)

lemma zap_level_range: "0 \<le> ToZapLevelInt v" "ToZapLevelInt v < 4"
  by (auto simp: ToZapLevelInt_def logVerbosityToZapLevelMap_def split: option.splits if_splits)

definition manager_args :: "deployment \<Rightarrow> string list" where
  "manager_args d = c_Args (hd (tpl_Containers (dep_Template d)))"

lemma manager_args_build:
  "manager_args (add_volumes vs ms (buildDeployment rt v nm n sa fin args)) = c_Args (manager_container rt v nm args)"
  by (simp add: manager_args_def buildDeployment_def manager_template_def add_volumes_def map_first_def)

lemma parse_manager_args:
  assumes "reads_decimals lib"
  shows "parse_args lib (c_Args (manager_container rt (ToZapLevelInt v) nm args)) default_flags =
     parse_args lib args (default_flags\<lparr>probeAddr := '':8081'', metricsAddr := '':8443'', initialLogLevel := ToZapLevelInt v\<rparr>)"
proof -
  have "parse_int lib (show_int (ToZapLevelInt v)) = Some (ToZapLevelInt v)"
    using assms zap_level_range[of v] by (simp add: reads_decimals_def)
  note level = parse_log_level[OF this]
  have "c_Args (manager_container rt (ToZapLevelInt v) nm args) =
      ''--health-probe-bind-address=:8081'' # ''--metrics-bind-address=:8443'' #
      (''--initial-log-level='' @ show_int (ToZapLevelInt v)) # args" by (simp add: manager_container_def)
  then show ?thesis by (simp only: parse_address_flags level)
qed

text \<open>C24: Every process the operator deploys comes up in its role: the arguments of the three deployments parse and
  are valid for any configuration, the webhook runs without leader election next to the informer of the
  configuration, the pod controller sees pending pods only and the event handler its own namespace only, each with
  a lease of its own, and all log at the configured level.\<close>

theorem deployments_start:
  assumes "reads_decimals lib"
  shows "manager_main lib ns (manager_args (buildWebhookDeployment rt cppc)) =
      Inr \<lparr>mgr_LeaderElectionID = None, mgr_Cache = \<lparr>PodPhase = None, DefaultNamespaces = None\<rparr>,
            mgr_Parts = [CPPCSyncerPart, OperandWebHookPart], mgr_LogLevel = zap_level (ToZapLevelInt (LogVerbosity cppc))\<rparr> \<and>
    manager_main lib ns (manager_args (buildControllerDeployment rt cppc scc selinux)) =
      Inr \<lparr>mgr_LeaderElectionID = Some ''ppc-controllers-208d7abd.multiarch.openshift.io'',
            mgr_Cache = \<lparr>PodPhase = Some ''Pending'', DefaultNamespaces = None\<rparr>,
            mgr_Parts = [CPPCSyncerPart, OperandControllersPart], mgr_LogLevel = zap_level (ToZapLevelInt (LogVerbosity cppc))\<rparr> \<and>
    manager_main lib ns (manager_args (buildDeploymentENoExecEventHandler rt (ToZapLevelInt (LogVerbosity cppc)))) =
      Inr \<lparr>mgr_LeaderElectionID = Some ''enoexecevent-controllers-208d7abd.multiarch.openshift.io'',
            mgr_Cache = \<lparr>PodPhase = None, DefaultNamespaces = Some [ns]\<rparr>,
            mgr_Parts = [ENoExecEventControllersPart], mgr_LogLevel = zap_level (ToZapLevelInt (LogVerbosity cppc))\<rparr>"
proof (intro conjI)
  note run = manager_main_def parse_manager_args[OF assms] parse_role_flags parse_args.simps(1) option.case
  note outcome = validateFlags_def leaderID_def cacheOpts_def manager_parts_def default_flags_def btoi_def
  show "manager_main lib ns (manager_args (buildWebhookDeployment rt cppc)) =
      Inr \<lparr>mgr_LeaderElectionID = None, mgr_Cache = \<lparr>PodPhase = None, DefaultNamespaces = None\<rparr>,
            mgr_Parts = [CPPCSyncerPart, OperandWebHookPart], mgr_LogLevel = zap_level (ToZapLevelInt (LogVerbosity cppc))\<rparr>"
    by (simp only: buildWebhookDeployment_def manager_args_build run) (simp add: outcome)
  have "manager_args (buildControllerDeployment rt cppc scc selinux) =
      c_Args (manager_container rt (ToZapLevelInt (LogVerbosity cppc)) PodPlacementControllerName
        [''--leader-elect'', ''--enable-ppc-controllers'', ''--enable-cppc-informer''])"
    by (simp add: manager_args_def buildControllerDeployment_def buildDeployment_def manager_template_def add_volumes_def
        map_first_def controller_container_def Let_def)
  note args = this
  show "manager_main lib ns (manager_args (buildControllerDeployment rt cppc scc selinux)) =
      Inr \<lparr>mgr_LeaderElectionID = Some ''ppc-controllers-208d7abd.multiarch.openshift.io'',
            mgr_Cache = \<lparr>PodPhase = Some ''Pending'', DefaultNamespaces = None\<rparr>,
            mgr_Parts = [CPPCSyncerPart, OperandControllersPart], mgr_LogLevel = zap_level (ToZapLevelInt (LogVerbosity cppc))\<rparr>"
    by (simp only: args run) (simp add: outcome)
  show "manager_main lib ns (manager_args (buildDeploymentENoExecEventHandler rt (ToZapLevelInt (LogVerbosity cppc)))) =
      Inr \<lparr>mgr_LeaderElectionID = Some ''enoexecevent-controllers-208d7abd.multiarch.openshift.io'',
            mgr_Cache = \<lparr>PodPhase = None, DefaultNamespaces = Some [ns]\<rparr>,
            mgr_Parts = [ENoExecEventControllersPart], mgr_LogLevel = zap_level (ToZapLevelInt (LogVerbosity cppc))\<rparr>"
    by (simp only: buildDeploymentENoExecEventHandler_def manager_args_build run) (simp add: outcome)
qed

definition decimal_lib :: flag_lib where
  "decimal_lib = \<lparr>klog_flag = \<lambda>nm. None, parse_int = ParseInt 64\<rparr>"

definition debug_config :: ClusterPodPlacementConfig where
  "debug_config = \<lparr>cppc_Name = ''cluster'', cppc_Annotations = None, cppc_Finalizers = [], cppc_Deleting = False,
     LogVerbosity = ''Debug'', NamespaceSelector = None, cppc_Plugins = None, FallbackArchitecture = '''',
     cppc_Status = \<lparr>Conditions = None, available = False, progressing = False, degraded = False, deprovisioning = False,
       podPlacementControllerNotReady = False, podPlacementWebhookNotReady = False,
       mutatingWebhookConfigurationNotAvailable = False, canDeployMutatingWebhook = False\<rparr>\<rparr>"

theorem deployments_start_witness:
  "reads_decimals decimal_lib \<and>
   manager_main decimal_lib ''mto'' (manager_args (buildWebhookDeployment (init_runtime Map.empty) debug_config)) =
     Inr \<lparr>mgr_LeaderElectionID = None, mgr_Cache = \<lparr>PodPhase = None, DefaultNamespaces = None\<rparr>,
           mgr_Parts = [CPPCSyncerPart, OperandWebHookPart], mgr_LogLevel = -1\<rparr>"
proof -
  have reads: "reads_decimals decimal_lib"
    using ParseInt_show_int[of 64] by (simp add: reads_decimals_def decimal_lib_def)
  have level: "zap_level (ToZapLevelInt (LogVerbosity debug_config)) = -1"
    by (simp add: zap_level_def debug_config_def ToZapLevelInt_def logVerbosityToZapLevelMap_def)
  show ?thesis
    using reads conjunct1[OF deployments_start[OF reads, of "''mto''" "init_runtime Map.empty" debug_config "''restricted-v2''" None]]
    by (simp only: level)
qed

end
