(* ===== verification/Spec2Isabelle.thy ===== *)
theory Spec2Isabelle
  imports Placement_Props Admission_Props Cel_Threads Config_Webhook Operator_Props Enoexec_Daemon Informers Manager_Main
begin

text \<open>
  The multiarch tuning operator lets pods of a Kubernetes cluster with nodes of several architectures run only where their
  images can run. This development models the operator, its operands and the daemon that detects binaries of a wrong
  architecture, and proves what makes them correct. Paths below are relative to \<^verbatim>\<open>src/\<close>.

  \<^bold>\<open>The program and how its parts interact.\<close> One binary (\<^verbatim>\<open>cmd/main.go\<close>) is started in several roles. As the
  \<^emph>\<open>operator\<close> it watches the cluster-wide \<^verbatim>\<open>ClusterPodPlacementConfig\<close> and deploys or removes the operands. The
  operand \<^emph>\<open>webhook\<close> puts a scheduling gate on every new pod it does not ignore. The operand \<^emph>\<open>pod placement
  controller\<close> takes each gated pod, applies the CEL rules of the namespaced \<^verbatim>\<open>PodPlacementConfig\<close>s or inspects the
  pod's images, restricts the pod's node affinity to the architectures found and removes the gate. The \<^emph>\<open>exec format
  error monitor\<close> has a daemon on every node: an eBPF program reports \<^verbatim>\<open>execve\<close> calls that fail with \<^verbatim>\<open>ENOEXEC\<close>, the daemon
  attributes them to a pod and stores an \<^verbatim>\<open>ENoExecEvent\<close>, and a handler labels the pod, publishes a warning and deletes
  the event.

  \<^bold>\<open>Representation.\<close> Structs are records and enumerations datatypes with the names of the source; pointers are options;
  slices whose nil-ness matters are \<open>slice\<close>, maps are \<open>gomap\<close>; errors are values of \<open>go_error\<close> in a sum, panics are
  \<open>None\<close>. Machine words keep their width where it matters (ring buffer, process ids, eBPF registers). Controllers are
  operations of a state monad over an explicit cluster; goroutines are inductive step relations. Every API call takes its
  failure from the environment, so a theorem without an assumption on the failures holds for all of them. Third-party code
  is an argument of the definitions: the CEL library (\<open>cel_lib\<close>), the image library and the URL and JSON packages
  (\<open>auth_lib\<close>, \<open>registry_lib\<close>), the kernel (\<open>kernel\<close> in \<open>Ebpf\<close> and in \<open>Image_Inspector\<close>), the container runtime
  (\<open>node_env\<close>), hashes and the flags of \<^verbatim>\<open>klog\<close>.

  \<^bold>\<open>Foundations.\<close>
  \<^item> \<open>Prelude\<close>: slices, maps, errors, the rule collections and the generic facts.
  \<^item> \<open>Go_Strings\<close>, \<open>Go_Match\<close>: the routines of Go's \<^verbatim>\<open>strings\<close>, \<^verbatim>\<open>strconv\<close>, \<^verbatim>\<open>path/filepath\<close> and \<^verbatim>\<open>net\<close> packages that the
    code calls; \<^verbatim>\<open>filepath.Match\<close> is shown to decide a declarative relation on patterns whose only special character is the star.
  \<^item> \<open>State_Ops\<close>: running monadic operations.
  \<^item> \<open>Consts\<close>, \<open>Core_Types\<close>: \<^verbatim>\<open>pkg/utils\<close>, \<^verbatim>\<open>api/common\<close>, and the part of the Kubernetes API in use, with the meaning of node
    selector terms that defines on which nodes a pod is schedulable.
  \<^item> \<open>Lru\<close>: the two vendored caches, as interpretations of the locale \<open>kv_cache\<close>, whose laws are all that the memoising
    clients rely on.

  \<^bold>\<open>Pod placement\<close> (\<^verbatim>\<open>internal/controller/podplacement\<close>, \<^verbatim>\<open>pkg/models\<close>).
  \<^item> \<open>Pod_Base\<close> (\<^verbatim>\<open>pod.go\<close>), \<open>Pod_Model\<close> (\<^verbatim>\<open>pod_model.go\<close>), \<open>Arch_Constraints\<close> (\<^verbatim>\<open>architecture_removal.go\<close>,
    \<^verbatim>\<open>architecture_application.go\<close>), \<open>Config_Types\<close> (the custom resources and their plugins), \<open>Cel\<close> (\<^verbatim>\<open>cel_evaluator.go\<close>),
    \<open>Reconciler\<close> (\<^verbatim>\<open>pod_reconciler.go\<close>, \<^verbatim>\<open>cel_integration.go\<close>, \<^verbatim>\<open>secrets.go\<close>), \<open>Webhook\<close>
    (\<^verbatim>\<open>scheduling_gate_mutating_webhook.go\<close>).
  \<^item> \<open>Placement_Props\<close>: on which nodes a processed pod can run, after an inspection, a CEL decision or the fallback; when
    exactly it stays gated; that the retry budget ends; independence of the iteration order of maps.
  \<^item> \<open>Admission_Props\<close>: who is gated, agreement of webhook and controller, bounds of the delayed event.
  \<^item> \<open>Cel_Threads\<close>: the evaluator shared by goroutines, as a step relation around its mutex; every interleaving returns what
    an uncached compilation returns.

  \<^bold>\<open>Image inspection\<close> (\<^verbatim>\<open>pkg/image\<close>, \<^verbatim>\<open>pkg/informers\<close>).
  \<^item> \<open>Image_Auth\<close> (\<^verbatim>\<open>auth.go\<close>, \<^verbatim>\<open>helpers_glob.go\<close>): merged credentials and the matching of registry globs.
  \<^item> \<open>Image_Inspector\<close> (\<^verbatim>\<open>inspector.go\<close>, \<^verbatim>\<open>systemconfig.go\<close>): exactly which architectures an inspection reports and when it
    crashes; that it releases its descriptors; and what the registry client is given.
  \<^item> \<open>Image_Cache\<close> (\<^verbatim>\<open>cache.go\<close>, \<^verbatim>\<open>facade.go\<close>): calls of many goroutines, expiry and replacement of the pull secret, as a step
    relation.
  \<^item> \<open>Informers\<close>: the store of the cluster-wide configuration and the tracking of the global pull secret.

  \<^bold>\<open>Operator\<close> (\<^verbatim>\<open>internal/controller/operator\<close>, \<^verbatim>\<open>pkg/utils/resource.go\<close>, \<^verbatim>\<open>runtime.go\<close>, \<^verbatim>\<open>api\<close>).
  \<^item> \<open>Operator_Objects\<close> (\<^verbatim>\<open>objects.go\<close>, \<^verbatim>\<open>podplacement_objects.go\<close>, \<^verbatim>\<open>enoexecevent_objects.go\<close>) and \<open>Operator_Manifests\<close>: every
    deployed object, that the manifest is closed, and that its roles grant nothing the operator lacks.
  \<^item> \<open>Cppc_Status\<close> (\<^verbatim>\<open>conditions.go\<close>): the published conditions.
  \<^item> \<open>Operator_Cluster\<close>: stored objects, API calls, applying and deleting; \<open>Operator_Controller\<close>
    (\<^verbatim>\<open>clusterpodplacementconfig_controller.go\<close>): the whole \<^verbatim>\<open>Reconcile\<close>.
  \<^item> \<open>Operator_Frames\<close>: what operations leave alone. The locales \<open>frame\<close> and \<open>operator_frame\<close> lift a relation respected by
    the single calls to a whole pass; each interpretation gives one invariant of the pass.
  \<^item> \<open>Operator_Props\<close>: order and completeness of roll-out and removal, convergence and idempotence of applying, and two
    defects of the deletion.
  \<^item> \<open>Config_Webhook\<close> (\<^verbatim>\<open>podplacementconfig_webhook.go\<close>, \<^verbatim>\<open>clusterpodplacementconfig_webhook.go\<close>,
    \<^verbatim>\<open>clusterPodPlacementConfig_conversion.go\<close>): what holds of the stored configurations after any sequence of requests, and
    the round trip between the API versions.
  \<^item> \<open>Manager_Main\<close> (\<^verbatim>\<open>cmd/main.go\<close>): the arguments of the deployed roles parse, are valid, and start the intended parts.

  \<^bold>\<open>Exec format errors\<close> (\<^verbatim>\<open>internal/controller/enoexecevent\<close>).
  \<^item> \<open>Ebpf\<close> (\<^verbatim>\<open>tracepoint_program.go\<close>): the program on a defensive machine; every run ends, is memory-safe and reports exactly
    the failing calls it can read. \<open>Enoexec_Tracepoint\<close> (\<^verbatim>\<open>tracepoint.go\<close>, \<^verbatim>\<open>tracepoint_helpers.go\<close>): sizing, attaching,
    closing, and the way from a record to the pod.
  \<^item> \<open>Enoexec_Events\<close> (\<^verbatim>\<open>event.go\<close>, \<^verbatim>\<open>enoexecevent_types.go\<close>, \<^verbatim>\<open>enoexecevent_model.go\<close>), \<open>Enoexec_Handler\<close>
    (\<^verbatim>\<open>enoexecevent_controller.go\<close>) and \<open>Enoexec_Storage\<close> (\<^verbatim>\<open>k8s_enoexecevent.go\<close>): events are removed only when settled, and
    a detected error reaches its pod whatever the handler does in the meantime.
  \<^item> \<open>Enoexec_Daemon\<close> (\<^verbatim>\<open>daemon.go\<close> and the loops of both workers): one step relation per goroutine; order, bounds, and the
    ways in which stopping fails.

  The last section of this theory joins the webhook of the namespaced configurations with the controller of the
  cluster-wide one.

  \<^bold>\<open>Bounds.\<close> Recursions are structural or have a termination proof, except for two bounded runs. The eBPF machine gets a
  number of instructions: the program has no backward jump, so its length suffices, and the theorem is for every number
  from there on. The retry loop of the storage has the five attempts of \<^verbatim>\<open>retry.DefaultRetry\<close>; two are enough, as is
  proved. Servers' loops are step relations without a bound.

  \<^bold>\<open>Hypotheses that stand for other code.\<close> The API server moves the generation of a deployment or daemon set when its spec
  changes (\<open>drift_shows\<close>); it does not claim that existing objects are missing (\<open>truthful\<close>, \<open>honest_faults\<close>), where a
  theorem says so; the kernel hands out unused descriptors (\<open>fresh_descriptors\<close>) and its eBPF helpers do what they document
  (\<open>kernel_promises\<close>); a rejected image comes with an error (\<open>rejections_explained\<close>).

  \<^bold>\<open>Simplifications.\<close> The generic apply functions of library-go store the required object when it differs; they do not
  merge metadata of others or server-side defaults. Updates conflict when the object is no longer the one that was read, but
  for the configuration a change of its status alone does not count as one. The sequences of requests of \<open>Config_Webhook\<close>
  are validated and stored one at a time. Informers deliver one notification at a time and in order. Sorting by priority is
  stable, where Go leaves the order of equal priorities open; admitted configurations of a namespace have distinct ones.

  \<^bold>\<open>Not modelled.\<close> Registration of controllers, watches and webhooks with the manager, construction of API clients and
  servers, logging, and the Prometheus collectors apart from the counters that are fields of the states; the help flags and
  the kubeconfig flag of the command line; generated deep copies (values of the model are copied by being values); the
  entry point of the daemon, which only parses flags and calls \<^verbatim>\<open>RunDaemon\<close>; the empty \<^verbatim>\<open>Reconcile\<close> of the
  \<^verbatim>\<open>PodPlacementConfig\<close> controller; test helpers.
\<close>

section \<open>Namespaced configurations and the deletion of the cluster-wide one\<close>

text \<open>No call of the operator touches the namespaced configurations.\<close>

definition same_ppcs :: "cluster \<Rightarrow> cluster \<Rightarrow> bool" where
  "same_ppcs s s' = (ppc_list s' = ppc_list s)"

lemma same_ppcs_calls:
  "framed same_ppcs (update_object env ref base ob)" "framed same_ppcs (delete_object env ref)"
  "framed same_ppcs (create_object env obj)" "framed same_ppcs (update_cppc env b c)"
  "framed same_ppcs (update_cppc_status env c)"
  by (auto simp: framed_def same_ppcs_def update_object_def delete_object_def create_object_def put_object_def
      update_cppc_def update_cppc_status_def run_simps split: option.splits if_splits)

interpretation ppcs: operator_frame same_ppcs "\<lambda>_. True" "\<lambda>_ _. True" "\<lambda>_. True"
  by unfold_locales (auto simp: same_ppcs_calls same_ppcs_def)

lemma same_ppcs_Reconcile: "framed same_ppcs (operator_Reconcile env)"
  unfolding operator_Reconcile_def reconcile_active_def handleDelete_def check_ungated_def finish_delete_def
  by (intro ppcs.parts ppcs.configuring ppcs.storing ppcs.enoexec_deleting ppcs.reporting
      ppcs.enoexec_finalizing ppcs.reconciling) auto

text \<open>C35: A namespaced configuration can be left without the cluster-wide one it depends on. While the cluster-wide one
  waits for its finalizers, the webhook still admits every valid namespaced configuration whose priority is free, since it
  looks for the object and not for its deletion mark; and when the operand's finalizer is the last one, the next pass of
  the operator, without failing calls, removes the cluster-wide configuration and keeps the namespaced ones.\<close>

theorem orphaned_config:
  assumes "fault env = (\<lambda>_. None)" and "last_stage env s c" and "ppc_list s = before @ [p]"
    and "ppc_ok venv p" and "Priority p \<notin> Priority ` set (in_namespace (ppc_Namespace p) before)"
  shows "cppc_Deleting c \<and>
    is_allowed (ppc_Handle \<lparr>getCPPC = Inr c, listPPCs = (\<lambda>ns. Inr (in_namespace ns before)), validationEnv = venv\<rparr>
      Create (ppc_Namespace p) (Inr p) decodedOld) \<and>
    (\<exists>s'. run_state (operator_Reconcile env) s = ((0, None), s') \<and> cppc_obj s' = None \<and> ppc_list s' = before @ [p])"
proof -
  obtain s' where run: "run_state (operator_Reconcile env) s = ((0, None), s')" "cppc_obj s' = None"
    using last_pass[OF assms(1,2)] by blast
  then have "ppc_list s' = before @ [p]"
    using framedD[OF same_ppcs_Reconcile run(1)] assms(3) by (simp add: same_ppcs_def)
  moreover have "cppc_Deleting c" using assms(2) by (simp add: last_stage_def)
  ultimately show ?thesis using run assms(4,5) by (simp add: create_allowed_iff)
qed

definition late_ppc :: PodPlacementConfig where
  "late_ppc = \<lparr>ppc_Name = ''p'', ppc_Namespace = ''ns'', LabelSelector = None, ppc_Plugins = None, Priority = 1\<rparr>"

definition late_cluster :: cluster where
  "late_cluster = (sample_cluster True)\<lparr>ppc_list := [late_ppc]\<rparr>"

theorem orphaned_config_witness:
  "is_allowed (ppc_Handle \<lparr>getCPPC = Inr (sample_config True), listPPCs = (\<lambda>ns. Inr []), validationEnv = Inl (GoError ''no CEL'')\<rparr>
     Create ''ns'' (Inr late_ppc) (Inl (GoError ''no old object''))) \<and>
   (\<exists>s'. run_state (operator_Reconcile ((sample_env True)\<lparr>cached := late_cluster\<rparr>)) late_cluster = ((0, None), s') \<and>
      cppc_obj s' = None \<and> ppc_list s' = [late_ppc])"
proof -
  let ?env = "(sample_env True)\<lparr>cached := late_cluster\<rparr>"
  have "last_stage ?env late_cluster (sample_config True)"
    using sample_last_stage by (simp add: last_stage_def late_cluster_def sample_env_def)
  moreover have "fault ?env = (\<lambda>_. None)" by (simp add: sample_env_def)
  moreover have "ppc_ok (Inl (GoError ''no CEL'')) late_ppc" by code_simp
  ultimately show ?thesis
    using orphaned_config[of ?env late_cluster "sample_config True" "[]" late_ppc "Inl (GoError ''no CEL'')"]
    by (simp add: late_cluster_def late_ppc_def in_namespace_def)
qed

end
